(* ===== verification/Bact_Prelude.thy ===== *)
theory Bact_Prelude
  imports Complex_Main "HOL-Library.Word"
begin

text \<open>
  Shared vocabulary of the development: bytes, the collections of rewrite rules that
  run a program symbolically, and the list and arithmetic facts that several
  components use.
\<close>

named_theorems exec \<open>equations that run one primitive of the C model on a known state\<close>
named_theorems ok_iff \<open>when one primitive of the C model returns, and with what\<close>
named_theorems frame \<open>equations that read a block after an update of another block\<close>
named_theorems prim_def \<open>definitions of the primitives of the C model\<close>

type_synonym byte = "8 word"

abbreviation NUL :: byte where "NUL \<equiv> 0"
abbreviation CR :: byte where "CR \<equiv> 13"
abbreviation LF :: byte where "LF \<equiv> 10"
abbreviation SPACE :: byte where "SPACE \<equiv> 32"
abbreviation COLON :: byte where "COLON \<equiv> 58"

text \<open>The bytes of a string literal of the source.\<close>

definition bytes_of :: "string \<Rightarrow> byte list" where
  "bytes_of s = map (\<lambda>c. of_nat (of_char c)) s"

lemma bytes_of_simps [simp]:
  "bytes_of [] = []"
  "bytes_of (c # cs) = of_nat (of_char c) # bytes_of cs"
  by (simp_all add: bytes_of_def)

lemma length_bytes_of [simp]: "length (bytes_of s) = length s"
  by (simp add: bytes_of_def)

subsection \<open>Lists\<close>

lemma takeWhile_neq_notin [simp]: "c \<notin> set (takeWhile (\<lambda>x. x \<noteq> c) xs)"
  by (metis (mono_tags, lifting) set_takeWhileD)

lemma split_at_first:
  assumes "c \<in> set xs"
  shows "xs = takeWhile (\<lambda>x. x \<noteq> c) xs @ c # tl (dropWhile (\<lambda>x. x \<noteq> c) xs)"
  using assms by (induction xs) auto

lemma takeWhile_append_notin:
  "c \<notin> set xs \<Longrightarrow> takeWhile (\<lambda>x. x \<noteq> c) (xs @ c # ys) = xs"
  by (induction xs) auto

lemma dropWhile_append_notin:
  "c \<notin> set xs \<Longrightarrow> dropWhile (\<lambda>x. x \<noteq> c) (xs @ c # ys) = c # ys"
  by (induction xs) auto

lemma length_takeWhile_less:
  "c \<in> set xs \<Longrightarrow> length (takeWhile (\<lambda>x. x \<noteq> c) xs) < length xs"
  by (induction xs) auto

lemma length_tl_dropWhile:
  "c \<in> set xs \<Longrightarrow>
   Suc (length (takeWhile (\<lambda>x. x \<noteq> c) xs) + length (tl (dropWhile (\<lambda>x. x \<noteq> c) xs))) = length xs"
  by (induction xs) auto

lemma set_tl_dropWhile: "set (tl (dropWhile P xs)) \<subseteq> set xs"
  by (induction xs) auto

lemma drop_takeWhile_tl:
  "c \<in> set xs \<Longrightarrow>
   drop (Suc (length (takeWhile (\<lambda>x. x \<noteq> c) xs))) xs = tl (dropWhile (\<lambda>x. x \<noteq> c) xs)"
  by (induction xs) auto

lemma count_list_append_single [simp]: "count_list [x] y = (if x = y then 1 else 0)"
  by simp

lemma map_le_Some: "m \<subseteq>\<^sub>m m' \<longleftrightarrow> (\<forall>b x. m b = Some x \<longrightarrow> m' b = Some x)"
  by (force simp: map_le_def dom_def)

subsection \<open>C integer conversions\<close>

text \<open>
  C truncates a floating value towards zero when it converts it to an integer; the
  quotient and remainder of signed integers also truncate towards zero.
\<close>

definition c_trunc :: "rat \<Rightarrow> int" where
  "c_trunc q = (if 0 \<le> q then \<lfloor>q\<rfloor> else - \<lfloor>- q\<rfloor>)"

lemma c_trunc_of_int [simp]: "c_trunc (of_int i) = i"
  by (simp add: c_trunc_def)

lemma c_trunc_numeral [simp]:
  "c_trunc 0 = 0" "c_trunc 1 = 1" "c_trunc (numeral n) = numeral n"
  "c_trunc (- numeral n) = - numeral n"
  by (simp_all add: c_trunc_def)

text \<open>\<open>size_t\<close> arithmetic is modulo \<open>2 ^ 64\<close>.\<close>

definition size_t :: "int \<Rightarrow> nat" where
  "size_t i = nat (i mod 2 ^ 64)"

lemma size_t_small [simp]: "0 \<le> i \<Longrightarrow> i < 2 ^ 64 \<Longrightarrow> size_t i = nat i"
  by (simp add: size_t_def)

lemma size_t_bound: "size_t i < 2 ^ 64"
  by (simp add: size_t_def nat_less_iff)

lemma size_t_neg:
  assumes "- (2 ^ 64) \<le> i" "i < 0"
  shows "size_t i = nat (i + 2 ^ 64)"
proof -
  have "i mod 2 ^ 64 = (i + 2 ^ 64) mod 2 ^ 64"
    by simp
  also have "\<dots> = i + 2 ^ 64"
    using assms by (intro mod_pos_pos_trivial) simp_all
  finally show ?thesis
    by (simp add: size_t_def)
qed

lemma nat_times_int [simp]: "nat (numeral k * int n) = numeral k * n"
  by (simp add: nat_mult_distrib)

text \<open>Conversion to a 32-bit \<open>int\<close> and to an \<open>unsigned int\<close>.\<close>

definition c_int :: "int \<Rightarrow> int" where
  "c_int i = (i + 2 ^ 31) mod 2 ^ 32 - 2 ^ 31"

definition c_uint :: "int \<Rightarrow> nat" where
  "c_uint i = nat (i mod 2 ^ 32)"

lemma c_int_small [simp]: "- (2 ^ 31) \<le> i \<Longrightarrow> i < 2 ^ 31 \<Longrightarrow> c_int i = i"
  by (simp add: c_int_def)

lemma c_uint_small [simp]: "0 \<le> i \<Longrightarrow> i < 2 ^ 32 \<Longrightarrow> c_uint i = nat i"
  by (simp add: c_uint_def)

text \<open>An \<open>unsigned char\<close> counter.\<close>

definition c_uchar :: "int \<Rightarrow> nat" where
  "c_uchar i = nat (i mod 256)"

lemma c_uchar_small [simp]: "0 \<le> i \<Longrightarrow> i < 256 \<Longrightarrow> c_uchar i = nat i"
  by (simp add: c_uchar_def)

end
