(* ===== verification/External.thy ===== *)
theory External
  imports Bact_Prelude
begin

text \<open>
  Code that is not in the repository: OpenSSL, gd, Lua, iniparser, curl, jansson, GMP
  and the operating system. Nothing is defined for it. A program issues a
  \<open>call\<close>, and the environment (a parameter of every program of the model, an
  arbitrary function of the calls made so far) answers with a \<open>reply\<close>. The calls and
  replies of a run are recorded in order, so a property can say which library functions
  are called, with which arguments and in which order, whatever the library does.

  Handles (an \<open>EVP_CIPHER_CTX *\<close>, a \<open>gdImagePtr\<close>, a \<open>FILE *\<close>) are numbers, with 0
  for \<open>NULL\<close>. A reply to a call that writes through a pointer argument carries the
  bytes it wrote; the model stores them where the code asked for them, so a library
  that writes more than the buffer holds is an out-of-bounds write of the model.
\<close>

type_synonym handle = nat

datatype cipher = EVP_aes_256_cbc | EVP_aes_256_ecb | EVP_chacha20_poly1305

datatype hash = SHA256 | SHA512

datatype key_type = NID_X25519 | NID_ED25519 | NID_RSA

datatype key_part = Raw_public | Raw_private

text \<open>
  \<open>EVP_PKEY_get_raw\<close> is \<open>EVP_PKEY_get_raw_public_key\<close> or
  \<open>EVP_PKEY_get_raw_private_key\<close>, with the capacity of the buffer, or without a buffer; the
  calls named \<open>_size\<close> are those of the same name with a \<open>NULL\<close> buffer.
\<close>

datatype ssl_call =
    EVP_CIPHER_CTX_new
  | EVP_CIPHER_CTX_free handle
  | EVP_DecryptInit_ex handle cipher "byte list" "byte list"
  | EVP_DecryptUpdate handle "byte list" int
  | EVP_DecryptFinal_ex handle
  | EVP_EncryptInit_ex handle cipher "byte list" "byte list"
  | EVP_EncryptUpdate handle "byte list" int
  | EVP_EncryptFinal_ex handle
  | ERR_print_errors_fp
  | BIO_new_f_base64
  | BIO_new_s_mem
  | BIO_new_mem_buf "byte list"
  | BIO_push handle handle
  | BIO_set_flags_no_nl handle
  | BIO_read handle nat
  | BIO_write handle "byte list" nat
  | BIO_flush handle
  | BIO_get_mem_data handle
  | BIO_set_noclose handle
  | BIO_free_all handle
  | BIO_dump_fp "byte list"
  | SHA_Init hash
  | SHA_Update hash "byte list"
  | SHA_Final hash

datatype pkey_call =
    EVP_PKEY_CTX_new_id key_type
  | EVP_PKEY_CTX_new handle
  | EVP_PKEY_CTX_free handle
  | EVP_PKEY_keygen_init handle
  | EVP_PKEY_CTX_set_rsa_keygen_bits handle nat
  | EVP_PKEY_CTX_set_rsa_keygen_primes handle nat
  | EVP_PKEY_keygen handle
  | EVP_PKEY_new
  | EVP_PKEY_new_raw_private_key key_type "byte list"
  | EVP_PKEY_new_raw_public_key key_type "byte list"
  | EVP_PKEY_get_raw key_part handle "nat option"
  | EVP_PKEY_assign_RSA handle handle
  | EVP_PKEY_free handle
  | EVP_PKEY_derive_init handle
  | EVP_PKEY_derive_set_peer handle handle
  | EVP_PKEY_derive_size handle
  | EVP_PKEY_derive handle nat

datatype pem_call =
    PEM_read_PrivateKey handle
  | PEM_write_PrivateKey handle handle
  | PEM_write_bio_PrivateKey handle handle
  | PEM_write_bio_PUBKEY handle handle
  | PEM_read_bio_RSA_PUBKEY handle
  | BIO_pending handle

datatype md_call =
    EVP_MD_CTX_create
  | EVP_MD_CTX_destroy handle
  | EVP_DigestSignInit handle "hash option" handle
  | EVP_DigestSignUpdate handle "byte list"
  | EVP_DigestSignFinal_size handle
  | EVP_DigestSignFinal handle nat
  | EVP_DigestSign handle nat "byte list"
  | EVP_DigestVerifyInit handle "hash option" handle
  | EVP_DigestVerifyUpdate handle "byte list"
  | EVP_DigestVerifyFinal handle "byte list"
  | EVP_DigestVerify handle "byte list" "byte list"

datatype gd_call =
    gdImageColorAllocateAlpha handle nat nat nat nat
  | gdImageCreate int int
  | gdImageCreateFromFile "byte list"
  | gdImageRectangle handle int int int int int
  | gdImageLine handle int int int int int
  | gdImageSetPixel handle int int int
  | gdImageStringTTF handle int "byte list" rat rat int int "byte list"
  | gdImageContrast handle rat
  | gdImageJpegPtr handle int
  | gdImageWrite string handle handle int
  | gdImageDestroy handle

text \<open>
  The system calls named \<open>_in\<close> are those of the same name with an IPv4 address: its
  family, port and address, in network order.
\<close>

text \<open>GMP: the function, the numbers it works on and its further argument.\<close>

datatype gmp_call =
    Gmp_op string "handle list"
  | Gmp_op_ui string "handle list" nat
  | Gmp_init string handle
  | Gmp_init_set_str string handle "byte list" int
  | Gmp_snprintf string handle
  | Gmp_clear string handle

text \<open>iniparser.\<close>

datatype ini_call =
    iniparser_load "byte list"
  | iniparser_getnsec handle
  | iniparser_getsecname handle nat
  | iniparser_getstring handle "byte list" string
  | iniparser_getint handle "byte list" int
  | iniparser_getboolean handle "byte list" int
  | iniparser_freedict handle

text \<open>curl and jansson.\<close>

datatype web_call =
    curl_easy_init
  | curl_slist_append handle string
  | curl_setopt_header handle handle
  | curl_setopt_url handle "byte list"
  | curl_setopt_postfieldsize handle int
  | curl_setopt_postfields handle "byte list"
  | curl_setopt_userpwd handle "byte list"
  | curl_setopt_use_ssl handle
  | curl_setopt_write handle
  | curl_easy_perform handle
  | curl_slist_free_all handle
  | curl_easy_cleanup handle
  | json_array
  | json_object
  | json_string "byte list"
  | json_integer int
  | json_array_append handle handle
  | json_object_set_new handle string handle
  | json_dumps handle
  | json_decref handle
  | json_loads "byte list"
  | json_dump handle
  | json_parse "byte list"

datatype libc_call =
    Rand
  | Srand int
  | Time
  | Fprintf_stderr string
  | Puts string
  | Printf string "byte list"
  | Format_num string int
  | Fopen "byte list" string
  | Fclose handle
  | Perror string
  | Fseek handle int int
  | Ftell handle
  | Fread handle nat
  | Fwrite handle "byte list"
  | Freopen "byte list" string handle
  | Fdopen int string
  | Fflush handle
  | Dup int
  | Opendir "byte list"
  | Readdir handle
  | Closedir handle
  | Access "byte list"
  | System "byte list"
  | Getopt_long string
  | Print_ld rat
  | Signal int string

datatype sys_call =
    Setsockopt_rcvtimeo int nat nat
  | Socket string
  | Bind int handle nat
  | Listen int int
  | Accept int
  | Send int "byte list"
  | Sendto int "byte list" handle nat
  | Recv int nat
  | Recvfrom int nat handle
  | Close int
  | Inet_addr "byte list"
  | Inet_ntoa nat
  | Bind_in int nat nat nat
  | Connect_in int nat nat nat
  | Sendto_in int "byte list" nat nat nat
  | Fcntl_getfl int
  | Fcntl_setfl_nonblock int int
  | Epoll_create
  | Epoll_add int int bool
  | Epoll_del int int
  | Epoll_wait int nat
  | Errno
  | Sleep nat
  | Thread_start string
  | Thread_join string

text \<open>
  The Lua interface. A stack index is the argument of a call; the values that a function
  pushes are part of the record of calls. A table of functions that is registered is a list of
  the names that scripts use with the names of the C functions.
\<close>

datatype lua_val = LNil | LBool bool | LNum int | LStr "byte list" | LUser handle

datatype lua_call =
    lua_arg_string int
  | lua_arg_number int
  | lua_toboolean int
  | lua_touserdata int
  | lua_isstring int
  | lua_isnumber int
  | lua_istable int
  | lua_gettop
  | lua_pop int
  | lua_next int
  | lua_gettable int
  | lua_createtable int int
  | lua_isboolean int
  | lua_isnil int
  | lua_setfield int "byte list"
  | lua_close
  | lua_settop int
  | lua_newuserdata nat
  | lua_newtable
  | lua_push lua_val
  | lua_settable int
  | lua_setglobal string
  | lua_getglobal string
  | luaL_checktable int
  | luaL_openlib string "(string \<times> string) list"
  | luaL_loadfile "byte list"
  | lua_pcall
  | luaL_newstate
  | luaL_openlibs
  | luaL_loadbuffer "byte list"
  | luaL_dofile "byte list"

datatype call =
    Ssl ssl_call
  | Pkey pkey_call
  | Pem pem_call
  | Md md_call
  | Ini ini_call
  | Web web_call
  | Indeterminate string
  | Gd gd_call
  | Gmp gmp_call
  | Sys sys_call
  | Lua lua_call
  | Libc libc_call

datatype reply =
    RUnit
  | RInt int
  | RHandle handle
  | ROut int "byte list"
  | RChunks int "byte list list"
  | RLen int nat "byte list"
  | RNew int handle
  | RFrom int "byte list" "byte list"
  | RFds "int list"

text \<open>
  Total decoders: an ill-typed reply of an environment counts as zero or as nothing
  written, so every environment is some well-typed environment.
\<close>

fun r_int :: "reply \<Rightarrow> int" where
  "r_int (RInt i) = i"
| "r_int (ROut i bs) = i"
| "r_int (RChunks i cs) = i"
| "r_int (RLen i n bs) = i"
| "r_int (RNew i h) = i"
| "r_int (RFrom i bs a) = i"
| "r_int _ = 0"

fun r_bytes :: "reply \<Rightarrow> byte list" where
  "r_bytes (ROut i bs) = bs"
| "r_bytes (RLen i n bs) = bs"
| "r_bytes (RFrom i bs a) = bs"
| "r_bytes _ = []"

fun r_chunks :: "reply \<Rightarrow> byte list list" where
  "r_chunks (RChunks i cs) = cs"
| "r_chunks _ = []"

text \<open>The address that \<open>recvfrom\<close> and \<open>accept\<close> write, and the descriptors that \<open>epoll_wait\<close> reports.\<close>

fun r_addr :: "reply \<Rightarrow> byte list" where
  "r_addr (RFrom i bs a) = a"
| "r_addr _ = []"

fun r_fds :: "reply \<Rightarrow> int list" where
  "r_fds (RFds fds) = fds"
| "r_fds _ = []"

fun r_handle :: "reply \<Rightarrow> handle" where
  "r_handle (RHandle h) = h"
| "r_handle (RNew i h) = h"
| "r_handle _ = 0"

text \<open>
  What a call leaves in the length its caller passed by address. A call that leaves the
  length alone answers with the old value.
\<close>

fun r_len :: "reply \<Rightarrow> nat" where
  "r_len (RLen i n bs) = n"
| "r_len (ROut i bs) = length bs"
| "r_len _ = 0"

type_synonym event = "call \<times> reply"

text \<open>
  The environment: whether an allocation of so many bytes for the block with that
  number succeeds, and the answer to a call given the events so far, newest first.
\<close>

record env =
  malloc_ok :: "nat \<Rightarrow> nat \<Rightarrow> bool"
  answer :: "event list \<Rightarrow> call \<Rightarrow> reply"

definition alloc_total :: "env \<Rightarrow> bool" where
  "alloc_total e \<longleftrightarrow> (\<forall>b n. malloc_ok e b n)"

lemma alloc_totalD [simp]: "alloc_total e \<Longrightarrow> malloc_ok e b n"
  by (simp add: alloc_total_def)

text \<open>The environment whose allocations all succeed and whose calls all answer \<open>r\<close>.\<close>

definition const_env :: "reply \<Rightarrow> env" where
  "const_env r = \<lparr>malloc_ok = (\<lambda>_ _. True), answer = (\<lambda>_ _. r)\<rparr>"

lemma const_env_simps [simp]:
  "malloc_ok (const_env r) b n" "answer (const_env r) l c = r" "alloc_total (const_env r)"
  by (simp_all add: const_env_def alloc_total_def)

end
