(* ===== verification/C_Memory.thy ===== *)
theory C_Memory
  imports External "HOL-Library.While_Combinator"
begin

text \<open>
  The memory of a C program and the programs that run on it. Memory is a map from
  block numbers to blocks; a block is a list of cells, one per element of the array it
  holds: a byte, a pointer, or a value that was never written. A pointer is a block
  number and an element offset. A freed block is absent from the map and block numbers
  are never used again, so a use after free, a double free, an access outside a block
  and a read of an unwritten cell are all faults of the model.

  What C leaves undefined and the model does not flag: computing (not using) a pointer
  outside its block or from \<open>NULL\<close>, and overlapping \<open>memcpy\<close> regions. The size
  given to \<open>malloc\<close> counts bytes and always fits \<open>size_t\<close>; where the source computes a
  size that can wrap, the component writes the wrap-around out.
\<close>

datatype ptr = Null | Addr nat nat

datatype cell = Undef | Byte byte | PtrC ptr

datatype fault =
    NullDeref
  | OutOfBounds
  | UseAfterFree
  | BadFree
  | UninitRead
  | TypeFault
  | ZeroSizeArray
  | DivByZero
  | NoReturnValue
  | AssertFailed
  | Aborted
  | Exited int
  | LuaError string
  | Thrown string
  | ThrownChars string
  | ThrownStr "byte list"
  | StackOverflow
  | Diverges

datatype 'a res = Ok 'a | Err fault

record cstate =
  blocks :: "nat \<Rightarrow> cell list option"
  nxt :: nat
  evs :: "event list"

text \<open>A canonical order for the updates of the fields of a state.\<close>

lemma cstate_order [simp]:
  "blocks_update f (nxt_update g s) = nxt_update g (blocks_update f s)"
  "blocks_update f (evs_update h s) = evs_update h (blocks_update f s)"
  "nxt_update g (evs_update h s) = evs_update h (nxt_update g s)"
  for s :: "'z cstate_scheme"
  by simp_all

lemma blocks_update_same [simp]: "f = blocks s \<Longrightarrow> s\<lparr>blocks := f\<rparr> = s"
  by simp

type_synonym ('z, 'a) prog = "env \<Rightarrow> 'z cstate_scheme \<Rightarrow> 'a res \<times> 'z cstate_scheme"

definition empty_state :: cstate where
  "empty_state = \<lparr>blocks = Map.empty, nxt = 0, evs = []\<rparr>"

subsection \<open>Sequencing\<close>

fun cont :: "'a res \<times> 's \<Rightarrow> ('a \<Rightarrow> 's \<Rightarrow> 'b res \<times> 's) \<Rightarrow> 'b res \<times> 's" where
  "cont (Ok a, s) k = k a s"
| "cont (Err x, s) k = (Err x, s)"

lemma cont_cong [cong]: "m = m' \<Longrightarrow> cont m k = cont m' k"
  by simp

definition bnd :: "(env \<Rightarrow> 's \<Rightarrow> 'a res \<times> 's) \<Rightarrow> ('a \<Rightarrow> env \<Rightarrow> 's \<Rightarrow> 'b res \<times> 's)
    \<Rightarrow> env \<Rightarrow> 's \<Rightarrow> 'b res \<times> 's" where
  "bnd m f = (\<lambda>e s. cont (m e s) (\<lambda>a. f a e))"

definition ret :: "'a \<Rightarrow> env \<Rightarrow> 's \<Rightarrow> 'a res \<times> 's" where
  "ret a = (\<lambda>e s. (Ok a, s))"

definition fail :: "fault \<Rightarrow> env \<Rightarrow> 's \<Rightarrow> 'a res \<times> 's" where
  "fail x = (\<lambda>e s. (Err x, s))"

lemma run_bnd [exec]: "bnd m f e s = cont (m e s) (\<lambda>a. f a e)"
  by (simp add: bnd_def)

lemma run_ret [exec]: "ret a e s = (Ok a, s)"
  by (simp add: ret_def)

lemma run_fail [exec]: "fail x e s = (Err x, s)"
  by (simp add: fail_def)

lemma run_if [exec]: "(if b then m else m') e s = (if b then m e s else m' e s)"
  by simp

lemma cont_assoc: "cont (cont m k) l = cont m (\<lambda>a s. cont (k a s) l)"
  by (cases "(m, k)" rule: cont.cases) auto

lemma cont_eq_Ok:
  "cont m k = (Ok b, t) \<longleftrightarrow> (\<exists>a s. m = (Ok a, s) \<and> k a s = (Ok b, t))"
  by (cases "(m, k)" rule: cont.cases) auto

lemma bnd_assoc: "bnd (bnd m f) g = bnd m (\<lambda>a. bnd (f a) g)"
  by (simp add: bnd_def cont_assoc)

lemma bnd_ret_left: "bnd (ret a) f = f a"
  by (simp add: bnd_def ret_def)

subsection \<open>Pointers and cells\<close>

fun padd :: "ptr \<Rightarrow> nat \<Rightarrow> ptr" where
  "padd Null k = Null"
| "padd (Addr b i) k = Addr b (i + k)"

fun poff :: "ptr \<Rightarrow> nat" where
  "poff Null = 0"
| "poff (Addr b i) = i"

definition pdiff :: "ptr \<Rightarrow> ptr \<Rightarrow> nat" where
  "pdiff p q = poff p - poff q"

lemma pdiff_simps [simp]: "pdiff (Addr b i) (Addr c j) = i - j"
  by (simp add: pdiff_def)

text \<open>The functions of this group see only the map of blocks.\<close>

type_synonym mem = "nat \<Rightarrow> cell list option"

definition cells_of :: "mem \<Rightarrow> ptr \<Rightarrow> fault + cell list" where
  "cells_of m p = (case p of
     Null \<Rightarrow> Inl NullDeref
   | Addr b i \<Rightarrow> (case m b of
       None \<Rightarrow> Inl UseAfterFree
     | Some cs \<Rightarrow> if i \<le> length cs then Inr (drop i cs) else Inl OutOfBounds))"

text \<open>The string that starts at a cell: up to the first zero byte.\<close>

fun scan :: "cell list \<Rightarrow> fault + byte list" where
  "scan [] = Inl OutOfBounds"
| "scan (Byte b # cs) =
     (if b = NUL then Inr [] else (case scan cs of Inl x \<Rightarrow> Inl x | Inr bs \<Rightarrow> Inr (b # bs)))"
| "scan (Undef # cs) = Inl UninitRead"
| "scan (PtrC p # cs) = Inl TypeFault"

definition get_str :: "mem \<Rightarrow> ptr \<Rightarrow> fault + byte list" where
  "get_str m p = (case cells_of m p of Inl x \<Rightarrow> Inl x | Inr cs \<Rightarrow> scan cs)"

definition get_cells :: "mem \<Rightarrow> ptr \<Rightarrow> nat \<Rightarrow> fault + cell list" where
  "get_cells m p n = (if n = 0 then Inr [] else
     (case cells_of m p of Inl x \<Rightarrow> Inl x
      | Inr cs \<Rightarrow> if n \<le> length cs then Inr (take n cs) else Inl OutOfBounds))"

definition put_cells :: "mem \<Rightarrow> ptr \<Rightarrow> cell list \<Rightarrow> fault + mem" where
  "put_cells m p cs = (if cs = [] then Inr m else
     (case p of Null \<Rightarrow> Inl NullDeref
      | Addr b i \<Rightarrow> (case m b of None \<Rightarrow> Inl UseAfterFree
          | Some old \<Rightarrow> if i + length cs \<le> length old
              then Inr (m(b \<mapsto> take i old @ cs @ drop (i + length cs) old))
              else Inl OutOfBounds)))"

fun as_byte :: "cell \<Rightarrow> fault + byte" where
  "as_byte (Byte b) = Inr b"
| "as_byte Undef = Inl UninitRead"
| "as_byte (PtrC p) = Inl TypeFault"

fun as_ptr :: "cell \<Rightarrow> fault + ptr" where
  "as_ptr (PtrC p) = Inr p"
| "as_ptr Undef = Inl UninitRead"
| "as_ptr (Byte b) = Inl TypeFault"

definition get_byte :: "mem \<Rightarrow> ptr \<Rightarrow> fault + byte" where
  "get_byte m p = (case get_cells m p 1 of Inl x \<Rightarrow> Inl x | Inr cs \<Rightarrow> as_byte (hd cs))"

definition get_ptr :: "mem \<Rightarrow> ptr \<Rightarrow> fault + ptr" where
  "get_ptr m p = (case get_cells m p 1 of Inl x \<Rightarrow> Inl x | Inr cs \<Rightarrow> as_ptr (hd cs))"

definition read_mem :: "(mem \<Rightarrow> fault + 'a) \<Rightarrow> ('z, 'a) prog" where
  "read_mem g = (\<lambda>e s. case g (blocks s) of Inl x \<Rightarrow> (Err x, s) | Inr a \<Rightarrow> (Ok a, s))"

definition write_mem :: "(mem \<Rightarrow> fault + mem) \<Rightarrow> ('z, unit) prog" where
  "write_mem g = (\<lambda>e s. case g (blocks s) of
     Inl x \<Rightarrow> (Err x, s) | Inr m \<Rightarrow> (Ok (), s\<lparr>blocks := m\<rparr>))"

lemma run_read_mem:
  "g (blocks s) = Inr a \<Longrightarrow> read_mem g e s = (Ok a, s)"
  "g (blocks s) = Inl x \<Longrightarrow> read_mem g e s = (Err x, s)"
  by (simp_all add: read_mem_def)

lemma run_write_mem:
  "g (blocks s) = Inr m \<Longrightarrow> write_mem g e s = (Ok (), s\<lparr>blocks := m\<rparr>)"
  "g (blocks s) = Inl x \<Longrightarrow> write_mem g e s = (Err x, s)"
  by (simp_all add: write_mem_def)

subsection \<open>Loads, stores and allocation\<close>

definition load_byte :: "ptr \<Rightarrow> ('z, byte) prog" where
  "load_byte p = read_mem (\<lambda>m. get_byte m p)"

definition load_ptr :: "ptr \<Rightarrow> ('z, ptr) prog" where
  "load_ptr p = read_mem (\<lambda>m. get_ptr m p)"

definition store_byte :: "ptr \<Rightarrow> byte \<Rightarrow> ('z, unit) prog" where
  "store_byte p v = write_mem (\<lambda>m. put_cells m p [Byte v])"

definition store_ptr :: "ptr \<Rightarrow> ptr \<Rightarrow> ('z, unit) prog" where
  "store_ptr p q = write_mem (\<lambda>m. put_cells m p [PtrC q])"

definition new_block :: "cell list \<Rightarrow> 'z cstate_scheme \<Rightarrow> 'z cstate_scheme" where
  "new_block cs s = s\<lparr>blocks := (blocks s)(nxt s \<mapsto> cs), nxt := Suc (nxt s)\<rparr>"

definition drop_block :: "nat \<Rightarrow> 'z cstate_scheme \<Rightarrow> 'z cstate_scheme" where
  "drop_block b s = s\<lparr>blocks := (blocks s)(b := None)\<rparr>"

text \<open>
  \<open>alloc bytes n\<close>: a request for so many bytes that holds \<open>n\<close> elements.
\<close>

definition alloc :: "nat \<Rightarrow> nat \<Rightarrow> ('z, ptr) prog" where
  "alloc bytes n = (\<lambda>e s. if malloc_ok e (nxt s) bytes
     then (Ok (Addr (nxt s) 0), new_block (replicate n Undef) s) else (Ok Null, s))"

definition malloc :: "nat \<Rightarrow> ('z, ptr) prog" where
  "malloc n = alloc n n"

text \<open>An array of pointers, eight bytes each.\<close>

definition malloc_ptrs :: "nat \<Rightarrow> ('z, ptr) prog" where
  "malloc_ptrs bytes = alloc bytes (bytes div 8)"

definition calloc :: "nat \<Rightarrow> ('z, ptr) prog" where
  "calloc n = (\<lambda>e s. if malloc_ok e (nxt s) n
     then (Ok (Addr (nxt s) 0), new_block (replicate n (Byte NUL)) s) else (Ok Null, s))"

definition free :: "ptr \<Rightarrow> ('z, unit) prog" where
  "free p = write_mem (\<lambda>m. case p of
     Null \<Rightarrow> Inr m
   | Addr b i \<Rightarrow> if i = 0 \<and> m b \<noteq> None then Inr (m(b := None)) else Inl BadFree)"

definition realloc_as :: "nat \<Rightarrow> ptr \<Rightarrow> nat \<Rightarrow> ('z, ptr) prog" where
  "realloc_as bytes p n = (\<lambda>e s. case p of
     Null \<Rightarrow> alloc bytes n e s
   | Addr b i \<Rightarrow> (case blocks s b of
       None \<Rightarrow> (Err BadFree, s)
     | Some old \<Rightarrow>
         if i \<noteq> 0 then (Err BadFree, s)
         else if malloc_ok e (nxt s) bytes
         then (Ok (Addr (nxt s) 0),
               new_block (take n old @ replicate (n - length old) Undef) (drop_block b s))
         else (Ok Null, s)))"

definition realloc :: "ptr \<Rightarrow> nat \<Rightarrow> ('z, ptr) prog" where
  "realloc p n = realloc_as n p n"

definition realloc_ptrs :: "ptr \<Rightarrow> nat \<Rightarrow> ('z, ptr) prog" where
  "realloc_ptrs p bytes = realloc_as bytes p (bytes div 8)"

text \<open>
  An automatic array: it exists while the body runs and is gone however the body ends.
  An array of no elements is undefined in C.
\<close>

definition local_arr :: "nat \<Rightarrow> (ptr \<Rightarrow> ('z, 'a) prog) \<Rightarrow> ('z, 'a) prog" where
  "local_arr n body = (\<lambda>e s. if n = 0 then (Err ZeroSizeArray, s) else
     (case body (Addr (nxt s) 0) e (new_block (replicate n Undef) s) of
        (r, s') \<Rightarrow> (r, drop_block (nxt s) s')))"

subsection \<open>External calls\<close>

definition ext :: "call \<Rightarrow> ('z, reply) prog" where
  "ext c = (\<lambda>e s. let r = answer e (evs s) c in (Ok r, s\<lparr>evs := (c, r) # evs s\<rparr>))"

lemma run_ext [exec]:
  "ext c e s = (Ok (answer e (evs s) c), s\<lparr>evs := (c, answer e (evs s) c) # evs s\<rparr>)"
  by (simp add: ext_def Let_def)

definition events :: "'z cstate_scheme \<Rightarrow> event list" where
  "events s = rev (evs s)"

text \<open>\<open>rand()\<close> returns an integer of \<open>0 .. RAND_MAX\<close>.\<close>

definition rand_val :: "env \<Rightarrow> event list \<Rightarrow> nat" where
  "rand_val e l = nat (r_int (answer e l (Libc Rand)) mod 2 ^ 31)"

definition rand :: "('z, nat) prog" where
  "rand = bnd (ext (Libc Rand)) (\<lambda>r. ret (nat (r_int r mod 2 ^ 31)))"

subsection \<open>Static variables and loops\<close>

text \<open>
  The static variables of a component are further fields of its state record.
\<close>

definition gets :: "('s \<Rightarrow> 'a) \<Rightarrow> env \<Rightarrow> 's \<Rightarrow> 'a res \<times> 's" where
  "gets f = (\<lambda>e s. (Ok (f s), s))"

definition modify :: "('s \<Rightarrow> 's) \<Rightarrow> env \<Rightarrow> 's \<Rightarrow> unit res \<times> 's" where
  "modify f = (\<lambda>e s. (Ok (), f s))"

lemma run_gets [exec]: "gets f e s = (Ok (f s), s)"
  by (simp add: gets_def)

lemma run_modify [exec]: "modify f e s = (Ok (), f s)"
  by (simp add: modify_def)

text \<open>
  A loop whose end depends on what the environment answers. It is the loop of the
  source exactly: if it never ends, the result is \<open>Diverges\<close>.
\<close>

definition c_while :: "('a \<Rightarrow> bool) \<Rightarrow> ('a \<Rightarrow> env \<Rightarrow> 's \<Rightarrow> 'a res \<times> 's) \<Rightarrow> 'a \<Rightarrow> env \<Rightarrow> 's \<Rightarrow> 'a res \<times> 's" where
  "c_while b body a = (\<lambda>e s.
     case while_option (\<lambda>(r, t). case r of Ok x \<Rightarrow> b x | Err x \<Rightarrow> False)
       (\<lambda>(r, t). case r of Ok x \<Rightarrow> body x e t | Err x \<Rightarrow> (Err x, t)) (Ok a, s) of
       None \<Rightarrow> (Err Diverges, s)
     | Some rt \<Rightarrow> rt)"

lemma c_while_stop [exec]: "\<not> b a \<Longrightarrow> c_while b body a e s = (Ok a, s)"
  by (simp add: c_while_def while_option_unfold)

lemma c_while_next:
  assumes "b a" "body a e s = (Ok a', s')" "c_while b body a' e s' = (r, t)" "r \<noteq> Err Diverges"
  shows "c_while b body a e s = (r, t)"
  using assms
  by (subst c_while_def, subst while_option_unfold) (auto simp: c_while_def split: option.splits)

lemma c_while_Err:
  "b a \<Longrightarrow> body a e s = (Err x, s') \<Longrightarrow> c_while b body a e s = (Err x, s')"
  by (subst c_while_def, subst while_option_unfold, subst while_option_unfold) simp

text \<open>An invariant of the loop holds when it returns.\<close>

lemma c_while_invariant:
  assumes ret: "c_while b body a e s = (Ok v, t)" and init: "P a s"
    and step: "\<And>a s a' s'. P a s \<Longrightarrow> b a \<Longrightarrow> body a e s = (Ok a', s') \<Longrightarrow> P a' s'"
  shows "P v t \<and> \<not> b v"
proof -
  let ?b = "\<lambda>(r, t). case r of Ok x \<Rightarrow> b x | Err x \<Rightarrow> False"
  let ?c = "\<lambda>(r, t). case r of Ok x \<Rightarrow> body x e t | Err x \<Rightarrow> (Err x, t)"
  have w: "while_option ?b ?c (Ok a, s) = Some (Ok v, t)"
    using ret by (auto simp: c_while_def split: option.splits)
  let ?P = "\<lambda>rt. case rt of (Ok x, t) \<Rightarrow> P x t | (Err x, t) \<Rightarrow> True"
  have "?P (Ok v, t)"
  proof (rule while_option_rule [of ?P, OF _ w])
    fix rt
    assume P: "?P rt" and b: "?b rt"
    obtain x u where rt: "rt = (Ok x, u)"
      using b by (cases rt; cases "fst rt") auto
    show "?P (?c rt)"
      using P b step by (cases "body x e u"; cases "fst (body x e u)") (auto simp: rt)
  qed (simp add: init)
  then show ?thesis
    using while_option_stop [OF w] by simp
qed

text \<open>A loop whose condition is itself a program.\<close>

definition c_loop :: "('a \<Rightarrow> env \<Rightarrow> 's \<Rightarrow> bool res \<times> 's) \<Rightarrow> ('a \<Rightarrow> env \<Rightarrow> 's \<Rightarrow> 'a res \<times> 's) \<Rightarrow>
    'a \<Rightarrow> env \<Rightarrow> 's \<Rightarrow> 'a res \<times> 's" where
  "c_loop test body a =
     bnd (test a) (\<lambda>g.
     bnd (c_while fst (\<lambda>(g, a). bnd (body a) (\<lambda>a'. bnd (test a') (\<lambda>g'. ret (g', a')))) (g, a)) (\<lambda>(g, a).
     ret a))"

lemma c_while_diverges:
  assumes init: "P a s"
    and step: "\<And>x t. P x t \<Longrightarrow> b x \<and> (\<exists>x' t'. body x e t = (Ok x', t') \<and> P x' t')"
  shows "c_while b body a e s = (Err Diverges, s)"
proof -
  let ?b = "\<lambda>(r, t). case r of Ok x \<Rightarrow> b x | Err x \<Rightarrow> False"
  let ?c = "\<lambda>(r, t). case r of Ok x \<Rightarrow> body x e t | Err x \<Rightarrow> (Err x, t)"
  let ?P = "\<lambda>rt. \<exists>x t. rt = (Ok x, t) \<and> P x t"
  have "while_option ?b ?c (Ok a, s) = None"
  proof (rule ccontr)
    assume "while_option ?b ?c (Ok a, s) \<noteq> None"
    then obtain rt where w: "while_option ?b ?c (Ok a, s) = Some rt"
      by blast
    have "?P rt"
    proof (rule while_option_rule [of ?P, OF _ w])
      fix rt
      assume "?P rt"
      then show "?P (?c rt)"
        using step by fastforce
    qed (simp add: init)
    then show False
      using while_option_stop [OF w] step by auto
  qed
  then show ?thesis
    by (simp add: c_while_def)
qed

lemma c_loop_stop [exec]:
  "test a e s = (Ok False, t) \<Longrightarrow> c_loop test body a e s = (Ok a, t)"
  by (simp add: c_loop_def run_bnd c_while_stop run_ret)

lemma c_loop_test_Err [exec]:
  "test a e s = (Err x, t) \<Longrightarrow> c_loop test body a e s = (Err x, t)"
  by (simp add: c_loop_def run_bnd)

lemma c_loop_Err:
  assumes "test a e s = (Ok True, s')" "body a e s' = (Err x, t)"
  shows "c_loop test body a e s = (Err x, t)"
  using assms by (simp add: c_loop_def run_bnd c_while_Err [where s' = t])

lemma c_loop_next:
  assumes test: "test a e s = (Ok True, s1)" and body: "body a e s1 = (Ok a', s2)"
    and rest: "c_loop test body a' e s2 = (r, t)" and r: "r \<noteq> Err Diverges"
  shows "c_loop test body a e s = (r, t)"
proof -
  let ?step = "\<lambda>(g, a). bnd (body a) (\<lambda>a'. bnd (test a') (\<lambda>g'. ret (g', a')))"
  obtain q u where q: "test a' e s2 = (q, u)"
    by (cases "test a' e s2")
  show ?thesis
  proof (cases q)
    case (Ok g)
    have step: "?step (True, a) e s1 = (Ok (g, a'), u)"
      by (simp add: run_bnd run_ret body q Ok)
    obtain w v where w: "c_while fst ?step (g, a') e u = (w, v)"
      by (cases "c_while fst ?step (g, a') e u")
    have c: "cont (w, v) (\<lambda>p. (case p of (g, a) \<Rightarrow> ret a) e) = (r, t)"
      using rest by (simp add: c_loop_def run_bnd q Ok w)
    then have "w \<noteq> Err Diverges"
      using r by auto
    then have "c_while fst ?step (True, a) e s1 = (w, v)"
      using c_while_next [of fst "(True, a)" ?step, OF _ step w] by simp
    then show ?thesis
      using c by (simp add: c_loop_def run_bnd test)
  next
    case (Err x)
    then have "?step (True, a) e s1 = (Err x, u)"
      by (simp add: run_bnd body q)
    moreover have "r = Err x" "t = u"
      using rest by (simp_all add: c_loop_def run_bnd q Err)
    ultimately show ?thesis
      by (simp add: c_loop_def run_bnd test c_while_Err [where s' = u])
  qed
qed

text \<open>An invariant of a loop whose condition is a program.\<close>

lemma c_loop_invariant:
  assumes run: "c_loop test body a e s = (Ok v, t)" and init: "P a s"
    and test: "\<And>a s g s'. P a s \<Longrightarrow> test a e s = (Ok g, s') \<Longrightarrow> P a s'"
    and body: "\<And>a s a' s'. P a s \<Longrightarrow> body a e s = (Ok a', s') \<Longrightarrow> P a' s'"
  shows "P v t"
proof -
  let ?step = "\<lambda>(g, a). bnd (body a) (\<lambda>a'. bnd (test a') (\<lambda>g'. ret (g', a')))"
  obtain g s1 g' where 1: "test a e s = (Ok g, s1)" and 2: "c_while fst ?step (g, a) e s1 = (Ok (g', v), t)"
    using run by (auto simp: c_loop_def run_bnd run_ret cont_eq_Ok)
  have "P (snd (g', v)) t \<and> \<not> fst (g', v)"
  proof (rule c_while_invariant [OF 2, where P = "\<lambda>ga t. P (snd ga) t"])
    show "P (snd (g, a)) s1"
      using test [OF init 1] by simp
    show "P (snd ga') u'" if P: "P (snd ga) u" and st: "?step ga e u = (Ok ga', u')" for ga u ga' u'
    proof -
      obtain a' u1 g1 where "body (snd ga) e u = (Ok a', u1)" "test a' e u1 = (Ok g1, u')" "ga' = (g1, a')"
        using st by (cases ga) (auto simp: run_bnd run_ret cont_eq_Ok)
      then show ?thesis
        using body [OF P] test by auto
    qed
  qed
  then show ?thesis
    by simp
qed

text \<open>The last thing that such a loop does is the test that fails.\<close>

lemma c_loop_last_test:
  assumes run: "c_loop test body a e s = (Ok v, t)"
  shows "\<exists>u. test v e u = (Ok False, t)"
proof -
  let ?step = "\<lambda>(g, a). bnd (body a) (\<lambda>a'. bnd (test a') (\<lambda>g'. ret (g', a')))"
  obtain g s1 g' where 1: "test a e s = (Ok g, s1)" and 2: "c_while fst ?step (g, a) e s1 = (Ok (g', v), t)"
    using run by (auto simp: c_loop_def run_bnd run_ret cont_eq_Ok)
  have "(\<exists>u. test (snd (g', v)) e u = (Ok (fst (g', v)), t)) \<and> \<not> fst (g', v)"
    by (rule c_while_invariant [OF 2, where P = "\<lambda>ga t. \<exists>u. test (snd ga) e u = (Ok (fst ga), t)"])
      (use 1 in \<open>auto simp: run_bnd run_ret cont_eq_Ok\<close>)
  then show ?thesis
    by auto
qed


text \<open>An automatic array that holds the given cells when its scope is entered.\<close>

definition local_cells :: "cell list \<Rightarrow> (ptr \<Rightarrow> ('z, 'a) prog) \<Rightarrow> ('z, 'a) prog" where
  "local_cells cs body = local_arr (length cs) (\<lambda>p.
     bnd (write_mem (\<lambda>m. put_cells m p cs)) (\<lambda>_. body p))"

definition read_cells :: "ptr \<Rightarrow> nat \<Rightarrow> ('z, cell list) prog" where
  "read_cells p n = read_mem (\<lambda>m. get_cells m p n)"

text \<open>Reading a field of a structure that may never have been written.\<close>

definition field :: "'a option \<Rightarrow> ('z, 'a) prog" where
  "field x = (case x of None \<Rightarrow> fail UninitRead | Some v \<Rightarrow> ret v)"

lemma run_field [exec]:
  "field (Some v) e s = (Ok v, s)" "field None e s = (Err UninitRead, s)"
  by (simp_all add: field_def exec)

end
