(* ===== verification/C_Strings.thy ===== *)
theory C_Strings
  imports C_Memory
begin

text \<open>
  The string functions of the C library on the memory model, and the facts about memory
  that the component proofs rewrite with: how a string, a run of cells or a store reads
  after updates of other blocks, and one execution rule for each primitive.
\<close>

subsection \<open>The library functions the source calls\<close>

definition strlen :: "ptr \<Rightarrow> ('z, nat) prog" where
  "strlen p = bnd (read_mem (\<lambda>m. get_str m p)) (\<lambda>bs. ret (length bs))"

definition strcpy :: "ptr \<Rightarrow> ptr \<Rightarrow> ('z, unit) prog" where
  "strcpy d p = bnd (read_mem (\<lambda>m. get_str m p)) (\<lambda>bs.
     write_mem (\<lambda>m. put_cells m d (map Byte bs @ [Byte NUL])))"

text \<open>\<open>memcpy\<close> copies cells as they are, unwritten ones included.\<close>

definition memcpy :: "ptr \<Rightarrow> ptr \<Rightarrow> nat \<Rightarrow> ('z, unit) prog" where
  "memcpy d p n = bnd (read_mem (\<lambda>m. get_cells m p n)) (\<lambda>cs.
     write_mem (\<lambda>m. put_cells m d cs))"

definition bzero :: "ptr \<Rightarrow> nat \<Rightarrow> ('z, unit) prog" where
  "bzero p n = write_mem (\<lambda>m. put_cells m p (replicate n (Byte NUL)))"

definition write_bytes :: "ptr \<Rightarrow> byte list \<Rightarrow> ('z, unit) prog" where
  "write_bytes p bs = write_mem (\<lambda>m. put_cells m p (map Byte bs))"

text \<open>\<open>strchr\<close> also finds the terminator.\<close>

definition find_chr :: "byte \<Rightarrow> byte list \<Rightarrow> nat option" where
  "find_chr c bs = (if c \<in> set bs then Some (length (takeWhile (\<lambda>x. x \<noteq> c) bs))
     else if c = NUL then Some (length bs) else None)"

definition strchr :: "ptr \<Rightarrow> byte \<Rightarrow> ('z, ptr) prog" where
  "strchr p c = bnd (read_mem (\<lambda>m. get_str m p)) (\<lambda>bs.
     ret (case find_chr c bs of Some i \<Rightarrow> padd p i | None \<Rightarrow> Null))"

text \<open>The first position at which a list occurs in another.\<close>

fun find_sub :: "byte list \<Rightarrow> byte list \<Rightarrow> nat option" where
  "find_sub pat [] = (if pat = [] then Some 0 else None)"
| "find_sub pat (x # xs) =
     (if take (length pat) (x # xs) = pat then Some 0 else map_option Suc (find_sub pat xs))"

definition strstr :: "ptr \<Rightarrow> byte list \<Rightarrow> ('z, ptr) prog" where
  "strstr p pat = bnd (read_mem (\<lambda>m. get_str m p)) (\<lambda>bs.
     ret (case find_sub pat bs of Some i \<Rightarrow> padd p i | None \<Rightarrow> Null))"

text \<open>Whether \<open>strcmp\<close> returns 0.\<close>

definition str_eq :: "ptr \<Rightarrow> ptr \<Rightarrow> ('z, bool) prog" where
  "str_eq p q = bnd (read_mem (\<lambda>m. get_str m p)) (\<lambda>a.
     bnd (read_mem (\<lambda>m. get_str m q)) (\<lambda>b. ret (a = b)))"

definition read_str :: "ptr \<Rightarrow> ('z, byte list) prog" where
  "read_str p = read_mem (\<lambda>m. get_str m p)"

text \<open>A run of bytes that need not end with a zero byte.\<close>

primrec as_bytes :: "cell list \<Rightarrow> fault + byte list" where
  "as_bytes [] = Inr []"
| "as_bytes (c # cs) = (case as_byte c of Inl x \<Rightarrow> Inl x
     | Inr b \<Rightarrow> (case as_bytes cs of Inl x \<Rightarrow> Inl x | Inr bs \<Rightarrow> Inr (b # bs)))"

definition get_bytes :: "mem \<Rightarrow> ptr \<Rightarrow> nat \<Rightarrow> fault + byte list" where
  "get_bytes m p n = (case get_cells m p n of Inl x \<Rightarrow> Inl x | Inr cs \<Rightarrow> as_bytes cs)"

definition read_bytes :: "ptr \<Rightarrow> nat \<Rightarrow> ('z, byte list) prog" where
  "read_bytes p n = read_mem (\<lambda>m. get_bytes m p n)"

text \<open>Memory that a library owns and hands out a pointer to.\<close>

definition lib_block :: "cell list \<Rightarrow> ('z, ptr) prog" where
  "lib_block cs = (\<lambda>e s. (Ok (Addr (nxt s) 0), new_block cs s))"

text \<open>What \<open>strncpy\<close> reads: at most \<open>n\<close> bytes, up to the terminator.\<close>

fun scan_n :: "nat \<Rightarrow> cell list \<Rightarrow> fault + byte list" where
  "scan_n 0 cs = Inr []"
| "scan_n (Suc n) [] = Inl OutOfBounds"
| "scan_n (Suc n) (c # cs) = (case as_byte c of Inl x \<Rightarrow> Inl x
     | Inr b \<Rightarrow> if b = NUL then Inr [] else
         (case scan_n n cs of Inl x \<Rightarrow> Inl x | Inr bs \<Rightarrow> Inr (b # bs)))"

definition read_strn :: "ptr \<Rightarrow> nat \<Rightarrow> ('z, byte list) prog" where
  "read_strn p n = read_mem (\<lambda>m. case cells_of m p of Inl x \<Rightarrow> Inl x | Inr cs \<Rightarrow> scan_n n cs)"

text \<open>What \<open>%d\<close> prints of a number that is not negative.\<close>

fun dec :: "nat \<Rightarrow> byte list" where
  "dec n = (if n < 10 then [of_nat (48 + n)] else dec (n div 10) @ [of_nat (48 + n mod 10)])"

declare dec.simps [simp del]

text \<open>A string that a library returns, or \<open>NULL\<close>.\<close>

definition lib_str :: "reply \<Rightarrow> ('z, ptr) prog" where
  "lib_str r = (case r of ROut n bs \<Rightarrow> lib_block (map Byte bs @ [Byte NUL]) | _ \<Rightarrow> ret Null)"

subsection \<open>Strings in memory\<close>

lemma scan_string:
  "NUL \<notin> set bs \<Longrightarrow> scan (map Byte bs @ Byte NUL # cs) = Inr bs"
  by (induction bs) auto

lemma scan_InrD:
  "scan cs = Inr bs \<Longrightarrow>
   NUL \<notin> set bs \<and> (\<exists>r. cs = map Byte bs @ Byte NUL # r)"
  by (induction cs arbitrary: bs rule: scan.induct) (auto split: if_splits sum.splits)

lemma scan_drop:
  assumes "scan cs = Inr bs" "n \<le> length bs"
  shows "scan (drop n cs) = Inr (drop n bs)"
proof -
  obtain r where r: "cs = map Byte bs @ Byte NUL # r" and nz: "NUL \<notin> set bs"
    using scan_InrD [OF assms(1)] by blast
  have "NUL \<notin> set (drop n bs)"
    using nz by (meson in_set_dropD)
  then show ?thesis
    using r assms(2) by (simp add: drop_map scan_string)
qed

text \<open>The cells of a block that holds a string and nothing else.\<close>

definition cstr :: "byte list \<Rightarrow> cell list" where
  "cstr bs = map Byte bs @ [Byte NUL]"

lemma length_cstr [simp]: "length (cstr bs) = Suc (length bs)"
  by (simp add: cstr_def)

lemma get_str_Null [simp]: "get_str m Null = Inl NullDeref"
  by (simp add: get_str_def cells_of_def)

lemma get_str_cstr [simp]:
  "m b = Some (cstr bs) \<Longrightarrow> NUL \<notin> set bs \<Longrightarrow> get_str m (Addr b 0) = Inr bs"
  by (simp add: get_str_def cells_of_def cstr_def scan_string)

lemma get_str_nonzero: "get_str m p = Inr bs \<Longrightarrow> NUL \<notin> set bs"
  by (auto simp: get_str_def split: sum.splits dest: scan_InrD)

lemma get_str_block [simp]:
  "m b = Some (map Byte bs @ Byte NUL # cs) \<Longrightarrow> NUL \<notin> set bs \<Longrightarrow>
   get_str m (Addr b 0) = Inr bs"
  by (simp add: get_str_def cells_of_def scan_string)

lemma get_str_AddrE:
  assumes "get_str m p = Inr bs"
  obtains b i cs r where "p = Addr b i" "m b = Some cs" "i \<le> length cs"
    "drop i cs = map Byte bs @ Byte NUL # r" "NUL \<notin> set bs"
proof -
  obtain b i where p: "p = Addr b i"
    using assms by (cases p) auto
  obtain cs where cs: "m b = Some cs" "i \<le> length cs" "scan (drop i cs) = Inr bs"
    using assms p by (auto simp: get_str_def cells_of_def split: option.splits if_splits)
  with scan_InrD [OF cs(3)] p that show ?thesis by blast
qed

lemma get_str_padd:
  assumes "get_str m p = Inr bs" "n \<le> length bs"
  shows "get_str m (padd p n) = Inr (drop n bs)"
proof -
  obtain b i cs r where p: "p = Addr b i" "m b = Some cs" "i \<le> length cs"
    "drop i cs = map Byte bs @ Byte NUL # r" "NUL \<notin> set bs"
    using get_str_AddrE [OF assms(1)] by metis
  have sc: "scan (drop i cs) = Inr bs"
    using p by (simp add: scan_string)
  have dr: "drop (i + n) cs = drop n (drop i cs)"
    by (simp add: add.commute)
  have "length (drop i cs) = length bs + Suc (length r)"
    by (simp add: p(4))
  then have len: "i + n \<le> length cs"
    using p(3) assms(2) by simp
  then show ?thesis
    using p scan_drop [OF sc assms(2)] by (simp only: get_str_def cells_of_def dr) (simp add: dr)
qed

lemma get_cells_str:
  assumes "get_str m p = Inr bs" "n \<le> length bs"
  shows "get_cells m p n = Inr (map Byte (take n bs))"
proof -
  obtain b i cs r where p: "p = Addr b i" "m b = Some cs" "i \<le> length cs"
    "drop i cs = map Byte bs @ Byte NUL # r"
    using get_str_AddrE [OF assms(1)] by metis
  then show ?thesis
    using assms(2) by (simp add: get_cells_def cells_of_def take_map)
qed

lemma get_cells_str_NUL:
  assumes "get_str m p = Inr bs"
  shows "get_cells m p (Suc (length bs)) = Inr (map Byte bs @ [Byte NUL])"
proof -
  obtain b i cs r where p: "p = Addr b i" "m b = Some cs" "i \<le> length cs"
    "drop i cs = map Byte bs @ Byte NUL # r"
    using get_str_AddrE [OF assms(1)] by metis
  then show ?thesis
    by (simp add: get_cells_def cells_of_def)
qed

lemma as_bytes_map [simp]: "as_bytes (map Byte bs) = Inr bs"
  by (induction bs) auto

lemma as_bytes_no_div: "as_bytes cs = Inl x \<Longrightarrow> x = UninitRead \<or> x = TypeFault"
proof (induction cs)
  case (Cons c cs)
  then show ?case
    by (cases c) (auto split: sum.splits)
qed simp

lemma get_bytes_0 [simp]: "get_bytes m p 0 = Inr []"
  by (simp add: get_bytes_def get_cells_def)

lemma get_bytes_map [simp]:
  "m b = Some (map Byte bs) \<Longrightarrow> n \<le> length bs \<Longrightarrow> get_bytes m (Addr b 0) n = Inr (take n bs)"
  by (simp add: get_bytes_def get_cells_def cells_of_def take_map)

lemma get_bytes_str:
  "get_str m p = Inr bs \<Longrightarrow> n \<le> length bs \<Longrightarrow> get_bytes m p n = Inr (take n bs)"
  by (simp add: get_bytes_def get_cells_str)

subsection \<open>Reading after updates of other blocks\<close>

lemma cells_of_upd_other [frame, simp]:
  "b \<noteq> c \<Longrightarrow> cells_of (m(c := x)) (Addr b i) = cells_of m (Addr b i)"
  by (simp add: cells_of_def)

lemma get_str_upd_other [frame, simp]:
  "b \<noteq> c \<Longrightarrow> get_str (m(c := x)) (Addr b i) = get_str m (Addr b i)"
  by (simp add: get_str_def)

lemma get_cells_upd_other [frame, simp]:
  "b \<noteq> c \<Longrightarrow> get_cells (m(c := x)) (Addr b i) n = get_cells m (Addr b i) n"
  by (simp add: get_cells_def)

lemma get_bytes_upd_other [frame, simp]:
  "b \<noteq> c \<Longrightarrow> get_bytes (m(c := x)) (Addr b i) n = get_bytes m (Addr b i) n"
  by (simp add: get_bytes_def)

lemma get_str_same [simp]:
  "NUL \<notin> set bs \<Longrightarrow> get_str (m(b := Some (map Byte bs @ Byte NUL # cs))) (Addr b 0) = Inr bs"
  by (simp add: get_str_def cells_of_def scan_string)

lemma put_cells_Nil [simp]: "put_cells m p [] = Inr m"
  by (simp add: put_cells_def)

lemma put_cells_ok [simp]:
  "m b = Some old \<Longrightarrow> i + length cs \<le> length old \<Longrightarrow>
   put_cells m (Addr b i) cs = Inr (m(b := Some (take i old @ cs @ drop (i + length cs) old)))"
  by (cases cs) (auto simp: put_cells_def fun_upd_idem)

lemma put_cells_oob [simp]:
  "m b = Some old \<Longrightarrow> cs \<noteq> [] \<Longrightarrow> length old < i + length cs \<Longrightarrow>
   put_cells m (Addr b i) cs = Inl OutOfBounds"
  by (simp add: put_cells_def)

lemma put_cells_dead [simp]:
  "m b = None \<Longrightarrow> cs \<noteq> [] \<Longrightarrow> put_cells m (Addr b i) cs = Inl UseAfterFree"
  by (simp add: put_cells_def)

lemma put_cells_Null [simp]: "cs \<noteq> [] \<Longrightarrow> put_cells m Null cs = Inl NullDeref"
  by (simp add: put_cells_def)

lemma get_byte_block:
  "m b = Some cs \<Longrightarrow> i < length cs \<Longrightarrow> get_byte m (Addr b i) = as_byte (cs ! i)"
  by (simp add: get_byte_def get_cells_def cells_of_def hd_drop_conv_nth Suc_le_eq)

lemma get_ptr_block:
  "m b = Some cs \<Longrightarrow> i < length cs \<Longrightarrow> get_ptr m (Addr b i) = as_ptr (cs ! i)"
  by (simp add: get_ptr_def get_cells_def cells_of_def hd_drop_conv_nth Suc_le_eq)

lemma get_byte_str:
  assumes "get_str m p = Inr bs" "i < length bs"
  shows "get_byte m (padd p i) = Inr (bs ! i)"
proof -
  have s: "get_str m (padd p i) = Inr (drop i bs)"
    using assms by (simp add: get_str_padd)
  have "get_cells m (padd p i) 1 = Inr (map Byte (take 1 (drop i bs)))"
    using get_cells_str [OF s, of 1] assms(2) by simp
  then show ?thesis
    using assms(2) by (simp add: get_byte_def hd_map hd_drop_conv_nth)
qed

lemma get_byte_Null [simp]: "get_byte m Null = Inl NullDeref"
  by (simp add: get_byte_def get_cells_def cells_of_def)

subsection \<open>Running the primitives\<close>

lemma run_strlen [exec]:
  "get_str (blocks s) p = Inr bs \<Longrightarrow> strlen p e s = (Ok (length bs), s)"
  "get_str (blocks s) p = Inl x \<Longrightarrow> strlen p e s = (Err x, s)"
  by (simp_all add: strlen_def exec run_read_mem)

lemma run_read_str [exec]:
  "get_str (blocks s) p = Inr bs \<Longrightarrow> read_str p e s = (Ok bs, s)"
  "get_str (blocks s) p = Inl x \<Longrightarrow> read_str p e s = (Err x, s)"
  by (simp_all add: read_str_def run_read_mem)

lemma scan_n_scan: "scan cs = Inr bs \<Longrightarrow> scan_n n cs = Inr (take n bs)"
proof (induction n cs arbitrary: bs rule: scan_n.induct)
  case (3 n c cs)
  then show ?case
    by (cases c) (auto split: sum.splits if_splits)
qed auto

lemma run_read_strn [exec]:
  "get_str (blocks s) p = Inr bs \<Longrightarrow> read_strn p n e s = (Ok (take n bs), s)"
  by (auto simp: read_strn_def read_mem_def get_str_def scan_n_scan split: sum.splits)

lemma run_strcpy [exec]:
  "get_str (blocks s) p = Inr bs \<Longrightarrow>
   put_cells (blocks s) d (map Byte bs @ [Byte NUL]) = Inr m \<Longrightarrow>
   strcpy d p e s = (Ok (), s\<lparr>blocks := m\<rparr>)"
  "get_str (blocks s) p = Inr bs \<Longrightarrow>
   put_cells (blocks s) d (map Byte bs @ [Byte NUL]) = Inl x \<Longrightarrow>
   strcpy d p e s = (Err x, s)"
  "get_str (blocks s) p = Inl x \<Longrightarrow> strcpy d p e s = (Err x, s)"
  by (simp_all add: strcpy_def exec run_read_mem run_write_mem)

lemma run_memcpy [exec]:
  "get_cells (blocks s) p n = Inr cs \<Longrightarrow> put_cells (blocks s) d cs = Inr m \<Longrightarrow>
   memcpy d p n e s = (Ok (), s\<lparr>blocks := m\<rparr>)"
  "get_cells (blocks s) p n = Inr cs \<Longrightarrow> put_cells (blocks s) d cs = Inl x \<Longrightarrow>
   memcpy d p n e s = (Err x, s)"
  by (simp_all add: memcpy_def exec run_read_mem run_write_mem)

lemma run_bzero [exec]:
  "put_cells (blocks s) p (replicate n (Byte NUL)) = Inr m \<Longrightarrow>
   bzero p n e s = (Ok (), s\<lparr>blocks := m\<rparr>)"
  "put_cells (blocks s) p (replicate n (Byte NUL)) = Inl x \<Longrightarrow> bzero p n e s = (Err x, s)"
  by (simp_all add: bzero_def run_write_mem)

lemma run_write_bytes [exec]:
  "put_cells (blocks s) p (map Byte bs) = Inr m \<Longrightarrow>
   write_bytes p bs e s = (Ok (), s\<lparr>blocks := m\<rparr>)"
  "put_cells (blocks s) p (map Byte bs) = Inl x \<Longrightarrow> write_bytes p bs e s = (Err x, s)"
  by (simp_all add: write_bytes_def run_write_mem)

lemma run_strchr [exec]:
  "get_str (blocks s) p = Inr bs \<Longrightarrow>
   strchr p c e s = (Ok (case find_chr c bs of Some i \<Rightarrow> padd p i | None \<Rightarrow> Null), s)"
  by (simp add: strchr_def exec run_read_mem)

lemma run_strstr [exec]:
  "get_str (blocks s) p = Inr bs \<Longrightarrow>
   strstr p pat e s = (Ok (case find_sub pat bs of Some i \<Rightarrow> padd p i | None \<Rightarrow> Null), s)"
  "get_str (blocks s) p = Inl x \<Longrightarrow> strstr p pat e s = (Err x, s)"
  by (simp_all add: strstr_def exec run_read_mem)

lemma run_load_byte [exec]:
  "get_byte (blocks s) p = Inr v \<Longrightarrow> load_byte p e s = (Ok v, s)"
  "get_byte (blocks s) p = Inl x \<Longrightarrow> load_byte p e s = (Err x, s)"
  by (simp_all add: load_byte_def run_read_mem)

lemma run_load_ptr [exec]:
  "get_ptr (blocks s) p = Inr v \<Longrightarrow> load_ptr p e s = (Ok v, s)"
  "get_ptr (blocks s) p = Inl x \<Longrightarrow> load_ptr p e s = (Err x, s)"
  by (simp_all add: load_ptr_def run_read_mem)

lemma run_store_byte [exec]:
  "put_cells (blocks s) p [Byte v] = Inr m \<Longrightarrow> store_byte p v e s = (Ok (), s\<lparr>blocks := m\<rparr>)"
  "put_cells (blocks s) p [Byte v] = Inl x \<Longrightarrow> store_byte p v e s = (Err x, s)"
  by (simp_all add: store_byte_def run_write_mem)

lemma run_store_ptr [exec]:
  "put_cells (blocks s) p [PtrC v] = Inr m \<Longrightarrow> store_ptr p v e s = (Ok (), s\<lparr>blocks := m\<rparr>)"
  "put_cells (blocks s) p [PtrC v] = Inl x \<Longrightarrow> store_ptr p v e s = (Err x, s)"
  by (simp_all add: store_ptr_def run_write_mem)

lemma run_malloc [exec]:
  "malloc_ok e (nxt s) n \<Longrightarrow>
   malloc n e s = (Ok (Addr (nxt s) 0), new_block (replicate n Undef) s)"
  "\<not> malloc_ok e (nxt s) n \<Longrightarrow> malloc n e s = (Ok Null, s)"
  by (simp_all add: malloc_def alloc_def)

lemma run_malloc_ptrs [exec]:
  "malloc_ok e (nxt s) n \<Longrightarrow>
   malloc_ptrs n e s = (Ok (Addr (nxt s) 0), new_block (replicate (n div 8) Undef) s)"
  "\<not> malloc_ok e (nxt s) n \<Longrightarrow> malloc_ptrs n e s = (Ok Null, s)"
  by (simp_all add: malloc_ptrs_def alloc_def)

lemma run_calloc [exec]:
  "malloc_ok e (nxt s) n \<Longrightarrow>
   calloc n e s = (Ok (Addr (nxt s) 0), new_block (replicate n (Byte NUL)) s)"
  "\<not> malloc_ok e (nxt s) n \<Longrightarrow> calloc n e s = (Ok Null, s)"
  by (simp_all add: calloc_def)

lemma run_free [exec]:
  "free Null e s = (Ok (), s)"
  "blocks s b = Some cs \<Longrightarrow> free (Addr b 0) e s = (Ok (), drop_block b s)"
  "blocks s b = None \<Longrightarrow> free (Addr b i) e s = (Err BadFree, s)"
  "0 < i \<Longrightarrow> free (Addr b i) e s = (Err BadFree, s)"
  by (simp_all add: free_def write_mem_def drop_block_def)

lemma run_realloc_as:
  "blocks s b = Some old \<Longrightarrow> malloc_ok e (nxt s) k \<Longrightarrow>
   realloc_as k (Addr b 0) n e s = (Ok (Addr (nxt s) 0),
     new_block (take n old @ replicate (n - length old) Undef) (drop_block b s))"
  "blocks s b = Some old \<Longrightarrow> \<not> malloc_ok e (nxt s) k \<Longrightarrow>
   realloc_as k (Addr b 0) n e s = (Ok Null, s)"
  by (simp_all add: realloc_as_def)

lemma run_realloc [exec]:
  "blocks s b = Some old \<Longrightarrow> malloc_ok e (nxt s) n \<Longrightarrow>
   realloc (Addr b 0) n e s = (Ok (Addr (nxt s) 0),
     new_block (take n old @ replicate (n - length old) Undef) (drop_block b s))"
  "blocks s b = Some old \<Longrightarrow> \<not> malloc_ok e (nxt s) n \<Longrightarrow>
   realloc (Addr b 0) n e s = (Ok Null, s)"
  by (simp_all add: realloc_def run_realloc_as)

lemma run_realloc_ptrs [exec]:
  "blocks s b = Some old \<Longrightarrow> malloc_ok e (nxt s) n \<Longrightarrow>
   realloc_ptrs (Addr b 0) n e s = (Ok (Addr (nxt s) 0),
     new_block (take (n div 8) old @ replicate (n div 8 - length old) Undef) (drop_block b s))"
  "blocks s b = Some old \<Longrightarrow> \<not> malloc_ok e (nxt s) n \<Longrightarrow>
   realloc_ptrs (Addr b 0) n e s = (Ok Null, s)"
  by (simp_all add: realloc_ptrs_def run_realloc_as)

lemma run_read_bytes [exec]:
  "get_bytes (blocks s) p n = Inr bs \<Longrightarrow> read_bytes p n e s = (Ok bs, s)"
  "get_bytes (blocks s) p n = Inl x \<Longrightarrow> read_bytes p n e s = (Err x, s)"
  by (simp_all add: read_bytes_def run_read_mem)

lemma run_read_cells [exec]:
  "get_cells (blocks s) p n = Inr cs \<Longrightarrow> read_cells p n e s = (Ok cs, s)"
  "get_cells (blocks s) p n = Inl x \<Longrightarrow> read_cells p n e s = (Err x, s)"
  by (simp_all add: read_cells_def run_read_mem)

lemma run_lib_block [exec]: "lib_block cs e s = (Ok (Addr (nxt s) 0), new_block cs s)"
  by (simp add: lib_block_def)

lemma run_rand [exec]:
  "rand e s = (Ok (rand_val e (evs s)),
     s\<lparr>evs := (Libc Rand, answer e (evs s) (Libc Rand)) # evs s\<rparr>)"
  by (simp add: rand_def exec rand_val_def)

text \<open>The same, read backwards: what is known when a primitive returns.\<close>

lemma ok_iff_basic [ok_iff]:
  "bnd m f e s = (Ok b, t) \<longleftrightarrow> (\<exists>a u. m e s = (Ok a, u) \<and> f a e u = (Ok b, t))"
  "ret a e s = (Ok b, t) \<longleftrightarrow> b = a \<and> t = s"
  "fail x e s = (Ok b, t) \<longleftrightarrow> False"
  "ext c e s = (Ok r, t) \<longleftrightarrow> r = answer e (evs s) c \<and> t = s\<lparr>evs := (c, r) # evs s\<rparr>"
  "(if B then m1 else m2) e s = (Ok b, t) \<longleftrightarrow> (if B then m1 e s = (Ok b, t) else m2 e s = (Ok b, t))"
  by (auto simp: exec cont_eq_Ok)

lemma ok_iff_state [ok_iff]:
  "gets f e s = (Ok a, t) \<longleftrightarrow> a = f s \<and> t = s"
  "modify g e s = (Ok u, t) \<longleftrightarrow> t = g s"
  by (auto simp: exec)

lemma ext_OkD: "ext c e s = (Ok r, t) \<Longrightarrow> t = s\<lparr>evs := (c, r) # evs s\<rparr>"
  by (auto simp: ext_def Let_def)

lemma read_mem_Ok: "read_mem g e s = (Ok b, t) \<longleftrightarrow> g (blocks s) = Inr b \<and> t = s"
  by (auto simp: read_mem_def split: sum.split)

lemma write_mem_Ok:
  "write_mem g e s = (Ok u, t) \<longleftrightarrow> (\<exists>m. g (blocks s) = Inr m \<and> t = s\<lparr>blocks := m\<rparr>)"
  by (auto simp: write_mem_def split: sum.split)

lemma ok_iff_mem [ok_iff]:
  "strlen p e s = (Ok n, t) \<longleftrightarrow> t = s \<and> (\<exists>bs. get_str (blocks s) p = Inr bs \<and> n = length bs)"
  "read_str p e s = (Ok bs, t) \<longleftrightarrow> t = s \<and> get_str (blocks s) p = Inr bs"
  "read_bytes p n e s = (Ok bs, t) \<longleftrightarrow> t = s \<and> get_bytes (blocks s) p n = Inr bs"
  "load_byte p e s = (Ok v, t) \<longleftrightarrow> t = s \<and> get_byte (blocks s) p = Inr v"
  "load_ptr p e s = (Ok q, t) \<longleftrightarrow> t = s \<and> get_ptr (blocks s) p = Inr q"
  "write_bytes p bs e s = (Ok u, t) \<longleftrightarrow>
     (\<exists>m. put_cells (blocks s) p (map Byte bs) = Inr m \<and> t = s\<lparr>blocks := m\<rparr>)"
  "store_byte p v e s = (Ok u, t) \<longleftrightarrow>
     (\<exists>m. put_cells (blocks s) p [Byte v] = Inr m \<and> t = s\<lparr>blocks := m\<rparr>)"
  "store_ptr p q e s = (Ok u, t) \<longleftrightarrow>
     (\<exists>m. put_cells (blocks s) p [PtrC q] = Inr m \<and> t = s\<lparr>blocks := m\<rparr>)"
  by (auto simp: strlen_def read_str_def read_bytes_def load_byte_def load_ptr_def write_bytes_def
      store_byte_def store_ptr_def ok_iff_basic read_mem_Ok write_mem_Ok)

lemma field_Ok [ok_iff]: "field x e s = (Ok v, t) \<longleftrightarrow> x = Some v \<and> t = s"
  by (cases x) (auto simp: exec)

lemma read_cells_Ok [ok_iff]:
  "read_cells p n e s = (Ok cs, t) \<longleftrightarrow> t = s \<and> get_cells (blocks s) p n = Inr cs"
  by (auto simp: read_cells_def read_mem_Ok)

lemma local_arr_Ok: "local_arr n body e s = (Ok a, t) \<Longrightarrow> \<exists>p u u'. body p e u = (Ok a, u')"
  by (auto simp: local_arr_def split: if_splits prod.splits)

lemma get_bytes_length: "get_bytes m p n = Inr bs \<Longrightarrow> length bs = n"
proof -
  have as: "as_bytes cs = Inr bs \<Longrightarrow> length bs = length cs" for cs bs
    by (induction cs arbitrary: bs) (auto split: sum.splits)
  show "get_bytes m p n = Inr bs \<Longrightarrow> length bs = n"
    by (auto simp: get_bytes_def get_cells_def split: sum.splits if_splits dest!: as)
qed

lemma as_bytes_InrD: "as_bytes cs = Inr bs \<Longrightarrow> cs = map Byte bs"
proof (induction cs arbitrary: bs)
  case (Cons c cs)
  then show ?case
    by (cases c) (auto split: sum.splits)
qed simp

lemma get_bytes_cells: "get_bytes m p n = Inr bs \<Longrightarrow> get_cells m p n = Inr (map Byte bs)"
  by (auto simp: get_bytes_def dest: as_bytes_InrD split: sum.splits)

lemma events_simps [simp]:
  "events (s\<lparr>evs := l\<rparr>) = rev l" "events (s\<lparr>blocks := m\<rparr>) = events s"
  "events (s\<lparr>nxt := n\<rparr>) = events s"
  by (simp_all add: events_def)

lemma rand_val_bound: "rand_val e l < 2 ^ 31"
  by (simp add: rand_val_def nat_less_iff)

lemma new_block_simps [simp]:
  "blocks (new_block cs s) = (blocks s)(nxt s := Some cs)"
  "nxt (new_block cs s) = Suc (nxt s)"
  "evs (new_block cs s) = evs s"
  by (simp_all add: new_block_def)

lemma drop_block_simps [simp]:
  "blocks (drop_block b s) = (blocks s)(b := None)"
  "nxt (drop_block b s) = nxt s"
  "evs (drop_block b s) = evs s"
  by (simp_all add: drop_block_def)

subsection \<open>Fresh blocks\<close>

text \<open>
  Block numbers are handed out in order: nothing is allocated at or above \<open>nxt\<close>.
\<close>

definition fresh :: "'z cstate_scheme \<Rightarrow> bool" where
  "fresh s \<longleftrightarrow> (\<forall>b. blocks s b \<noteq> None \<longrightarrow> b < nxt s)"

lemma fresh_nxt [simp]: "fresh s \<Longrightarrow> blocks s (nxt s) = None"
  by (auto simp: fresh_def)

lemma fresh_above: "fresh s \<Longrightarrow> nxt s \<le> b \<Longrightarrow> blocks s b = None"
  by (auto simp: fresh_def)

lemma fresh_less: "fresh s \<Longrightarrow> blocks s b = Some cs \<Longrightarrow> b < nxt s"
  by (auto simp: fresh_def)

lemma fresh_new_block [simp]: "fresh s \<Longrightarrow> fresh (new_block cs s)"
  by (auto simp: fresh_def less_Suc_eq)

lemma fresh_drop_block [simp]: "fresh s \<Longrightarrow> fresh (drop_block b s)"
  by (auto simp: fresh_def)

lemma fresh_empty [simp]: "fresh empty_state"
  by (simp add: fresh_def empty_state_def)

text \<open>A string is not disturbed by a change of a block that did not hold one.\<close>

lemma get_str_upd_dead [simp]:
  assumes "get_str m p = Inr bs" "m b = None"
  shows "get_str (m(b := x)) p = Inr bs"
proof -
  obtain c i cs r where p: "p = Addr c i" "m c = Some cs"
    using get_str_AddrE [OF assms(1)] by metis
  with assms(2) have "c \<noteq> b"
    by auto
  with p assms(1) show ?thesis
    by simp
qed

lemma get_ptr_upd_dead [simp]:
  assumes "get_ptr m p = Inr q" "m b = None"
  shows "get_ptr (m(b := x)) p = Inr q"
  using assms
  by (cases p) (auto simp: get_ptr_def get_cells_def cells_of_def split: sum.splits option.splits if_splits)

lemma get_str_removed:
  assumes "get_str (m(a := None)) p = Inr bs"
  shows "get_str m p = Inr bs" "get_str (m(a := x)) p = Inr bs"
proof -
  show "get_str (m(a := x)) p = Inr bs" for x
    using get_str_upd_dead [OF assms, of a x] by simp
  from this [of "m a"] show "get_str m p = Inr bs"
    by simp
qed

lemma get_cells_upd_str:
  assumes "get_str m p = Inr bs" "m b = None" "n \<le> length bs"
  shows "get_cells (m(b := x)) p n = Inr (map Byte (take n bs))"
  using assms by (simp add: get_cells_str)

lemma get_str_blockE:
  assumes "get_str m p = Inr bs"
  obtains b i where "p = Addr b i" "m b \<noteq> None"
  using get_str_AddrE [OF assms] by (metis option.distinct(1))

subsection \<open>Concrete states\<close>

text \<open>The state whose blocks are the given ones, numbered from 0.\<close>

definition state_of :: "cell list list \<Rightarrow> cstate" where
  "state_of cs = \<lparr>blocks = (\<lambda>b. if b < length cs then Some (cs ! b) else None),
     nxt = length cs, evs = []\<rparr>"

lemma state_of_simps [simp]:
  "blocks (state_of cs) b = (if b < length cs then Some (cs ! b) else None)"
  "nxt (state_of cs) = length cs" "evs (state_of cs) = []" "fresh (state_of cs)"
  by (simp_all add: state_of_def fresh_def)

lemma get_bytes_byte:
  assumes "get_bytes m p n = Inr bs" "i < n"
  shows "get_byte m (padd p i) = Inr (bs ! i)"
proof -
  have cells: "get_cells m p n = Inr (map Byte bs)" and len: "length bs = n"
    using assms(1) by (rule get_bytes_cells, rule get_bytes_length)
  have n: "n \<noteq> 0"
    using assms(2) by simp
  then obtain b j cs where p: "p = Addr b j" "m b = Some cs" "j + n \<le> length cs" "take n (drop j cs) = map Byte bs"
    using cells by (cases p) (auto simp: get_cells_def cells_of_def split: option.splits if_splits)
  have "cs ! (j + i) = take n (drop j cs) ! i"
    using assms(2) p(3) by simp
  then have "cs ! (j + i) = Byte (bs ! i)"
    using assms(2) by (simp add: p(4) len)
  then show ?thesis
    using p(1-3) assms(2) by (simp add: get_byte_block)
qed

lemma get_bytes_upd_dead [simp]:
  assumes "get_bytes m p n = Inr bs" "m b = None"
  shows "get_bytes (m(b := x)) p n = Inr bs"
  using assms
  by (cases p; cases "n = 0") (auto simp: get_bytes_def get_cells_def cells_of_def split: sum.splits option.splits if_splits)

lemma find_sub_le: "find_sub pat xs = Some i \<Longrightarrow> i + length pat \<le> length xs"
proof (induction pat xs arbitrary: i rule: find_sub.induct)
  case (2 pat x xs)
  show ?case
  proof (cases "take (length pat) (x # xs) = pat")
    case True
    then have "length pat \<le> length (x # xs)"
      by (metis length_take min.cobounded1)
    then show ?thesis
      using 2 True by auto
  qed (use 2 in auto)
qed (auto split: if_splits)


lemma scan_uninit: "NUL \<notin> set bs \<Longrightarrow> scan (map Byte bs @ Undef # cs) = Inl UninitRead"
  by (induction bs) auto

lemma scan_map_Byte: "NUL \<notin> set bs \<Longrightarrow> scan (map Byte bs) = Inl OutOfBounds"
  by (induction bs) auto

text \<open>The digits that \<open>%d\<close> prints.\<close>

lemma dec_digits: "b \<in> set (dec n) \<Longrightarrow> 48 \<le> unat b \<and> unat b \<le> 57"
proof (induction n rule: dec.induct)
  case (1 n)
  have digit: "unat (of_nat (48 + k) :: byte) = 48 + k" if "k < 10" for k :: nat
    using that by (simp only: unat_of_nat) simp
  show ?case
    using 1 digit [of n] digit [of "n mod 10"] by (cases "n < 10") (auto simp: dec.simps [of n])
qed

lemma dec_nonzero: "NUL \<notin> set (dec n)"
  using dec_digits [of 0 n] by auto

end
