(* ===== verification/Net.thy ===== *)
theory Net
  imports C_Strings
begin

text \<open>
  The message helpers of \<open>libbacteria/net.c\<close>: splitting a buffer at a separator,
  packing and unpacking \<open>key=value;\<close> data and joining addresses. Each function is
  translated over the memory model; the abstract lists they stand for are below them,
  and the lemmas relate the two.
\<close>

abbreviation SPLITADDRCHAR :: byte where "SPLITADDRCHAR \<equiv> 59"
abbreviation FSPLITTERCHAR :: byte where "FSPLITTERCHAR \<equiv> 61"
abbreviation IGNOREINFOBYTE :: byte where "IGNOREINFOBYTE \<equiv> 3"

subsection \<open>The functions\<close>

definition set_timeout :: "int \<Rightarrow> nat \<Rightarrow> nat \<Rightarrow> ('z, unit) prog" where
  "set_timeout sock tSec tUsec =
     bnd (ext (Sys (Setsockopt_rcvtimeo sock tSec tUsec))) (\<lambda>_. ret ())"

text \<open>
  The \<open>do\<close> loop of \<open>split_msg\<close>. The first argument counts the iterations the bound
  \<open>arr_size < max_splitted\<close> still allows.
\<close>

definition max_splitted :: nat where
  "max_splitted = 120"

definition find_split :: "ptr \<Rightarrow> byte \<Rightarrow> ('z, ptr) prog" where
  "find_split buf schar =
     bnd (strchr buf schar) (\<lambda>str.
     if str \<noteq> Null then ret str else strchr buf CR)"

primrec split_loop ::
    "nat \<Rightarrow> ptr \<Rightarrow> byte \<Rightarrow> nat \<Rightarrow> ptr \<Rightarrow> nat \<Rightarrow> ptr \<Rightarrow> ('z, ptr \<times> nat) prog" where
  "split_loop 0 str2 schar msg_len splitted arr_size buf = ret (splitted, arr_size)"
| "split_loop (Suc k) str2 schar msg_len splitted arr_size buf =
     bnd (bzero str2 msg_len) (\<lambda>_.
     bnd (find_split buf schar) (\<lambda>str.
     if str = Null then ret (splitted, arr_size) else
     bnd (realloc_ptrs splitted (8 * (arr_size + 1))) (\<lambda>sp.
     if sp = Null then fail Aborted else
     bnd (memcpy str2 buf (pdiff str buf)) (\<lambda>_.
     bnd (strlen str2) (\<lambda>n.
     bnd (malloc (n + 1)) (\<lambda>p.
     bnd (store_ptr (padd sp arr_size) p) (\<lambda>_.
     if p = Null then fail Aborted else
     bnd (strcpy p str2) (\<lambda>_.
     bnd (store_byte (padd p n) NUL) (\<lambda>_.
     split_loop k str2 schar msg_len sp (arr_size + 1) (padd str 1))))))))))"

definition split_msg :: "ptr \<Rightarrow> byte \<Rightarrow> nat \<Rightarrow> ('z, ptr \<times> nat) prog" where
  "split_msg buf schar msg_len =
     bnd (malloc_ptrs 0) (\<lambda>splitted.
     if splitted = Null then fail Aborted else
     local_arr msg_len (\<lambda>str2.
       split_loop max_splitted str2 schar msg_len splitted 0 buf))"

primrec free_splitted_loop :: "nat \<Rightarrow> ptr \<Rightarrow> ('z, unit) prog" where
  "free_splitted_loop 0 what = ret ()"
| "free_splitted_loop (Suc n) what =
     (if n = 0 then ret () else
     bnd (load_ptr (padd what n)) (\<lambda>p.
     bnd (load_byte p) (\<lambda>c.
     if c = NUL then free_splitted_loop n what else
     bnd (load_ptr (padd what (n - 1))) (\<lambda>q.
     bnd (free q) (\<lambda>_.
     free_splitted_loop n what)))))"

definition free_splitted :: "ptr \<Rightarrow> nat \<Rightarrow> ('z, unit) prog" where
  "free_splitted what n = bnd (free_splitted_loop n what) (\<lambda>_. free what)"

text \<open>
  The loop of \<open>packData\<close> runs along the two pointer arrays until one of them holds
  \<open>NULL\<close>. Its fuel is the number of cells of the key array, and a read past them
  faults, so the fuel never runs out (lemma \<open>pack_loop_no_divergence\<close>).
\<close>

primrec pack_loop ::
    "nat \<Rightarrow> ptr \<Rightarrow> ptr \<Rightarrow> byte \<Rightarrow> byte \<Rightarrow> nat \<Rightarrow> ptr \<Rightarrow> nat \<Rightarrow> ('z, ptr \<times> nat) prog" where
  "pack_loop 0 keys vals fsp ssp i rVal sRet = fail Diverges"
| "pack_loop (Suc k) keys vals fsp ssp i rVal sRet =
     bnd (load_ptr (padd keys i)) (\<lambda>key.
     if key = Null then ret (rVal, sRet) else
     bnd (load_ptr (padd vals i)) (\<lambda>val.
     if val = Null then ret (rVal, sRet) else
     bnd (strlen key) (\<lambda>KeySize.
     bnd (strlen val) (\<lambda>ValSize.
     bnd (realloc rVal (sRet + (KeySize + ValSize + 2))) (\<lambda>rv.
     bnd (strcpy (padd rv sRet) key) (\<lambda>_.
     bnd (store_byte (padd rv (KeySize + sRet)) fsp) (\<lambda>_.
     bnd (strcpy (padd rv (KeySize + 1 + sRet)) val) (\<lambda>_.
     bnd (store_byte (padd rv (KeySize + 1 + ValSize + sRet)) ssp) (\<lambda>_.
     pack_loop k keys vals fsp ssp (i + 1) rv (sRet + (KeySize + ValSize + 2)))))))))))"

definition arr_len :: "mem \<Rightarrow> ptr \<Rightarrow> nat" where
  "arr_len m p = (case cells_of m p of Inl _ \<Rightarrow> 0 | Inr cs \<Rightarrow> length cs)"

definition pack_finish :: "ptr \<Rightarrow> nat \<Rightarrow> ('z, ptr) prog" where
  "pack_finish rVal sRet =
     bnd (realloc rVal (sRet + 1)) (\<lambda>rv.
     bnd (store_byte (padd rv (sRet + 1)) NUL) (\<lambda>_.
     ret rv))"

definition packData :: "ptr \<Rightarrow> ptr \<Rightarrow> byte \<Rightarrow> byte \<Rightarrow> ('z, ptr) prog" where
  "packData dataKeys dataValues fsplitter ssplitter =
     bnd (load_ptr dataKeys) (\<lambda>k0.
     bnd (if k0 = Null then ret True
          else bnd (load_ptr dataValues) (\<lambda>v0. ret (v0 = Null))) (\<lambda>empty.
     if empty then ret Null else
     bnd (malloc 2) (\<lambda>rVal.
     if rVal = Null then ret Null else
     bnd (read_mem (\<lambda>m. Inr (arr_len m dataKeys))) (\<lambda>fuel.
     bnd (pack_loop (fuel + 1) dataKeys dataValues fsplitter ssplitter 0 rVal 0)
       (\<lambda>(rv, sRet). pack_finish rv sRet)))))"

primrec unpack_loop :: "nat \<Rightarrow> ptr \<Rightarrow> ptr \<Rightarrow> byte \<Rightarrow> nat \<Rightarrow> ('z, unit) prog" where
  "unpack_loop 0 ssplitted rVal fsp z = ret ()"
| "unpack_loop (Suc i) ssplitted rVal fsp z =
     bnd (load_ptr (padd ssplitted i)) (\<lambda>ptrFirst.
     bnd (strchr ptrFirst fsp) (\<lambda>fs.
     bnd (strlen ptrFirst) (\<lambda>n.
     if fs = Null then
       bnd (malloc 1) (\<lambda>a.
       bnd (store_ptr (padd rVal z) a) (\<lambda>_.
       bnd (store_byte a IGNOREINFOBYTE) (\<lambda>_.
       bnd (malloc 1) (\<lambda>b.
       bnd (store_ptr (padd rVal (z + 1)) b) (\<lambda>_.
       bnd (store_byte b IGNOREINFOBYTE) (\<lambda>_.
       unpack_loop i ssplitted rVal fsp (z + 2)))))))
     else
       let s1 = pdiff fs ptrFirst; s2 = pdiff (padd ptrFirst n) fs in
       bnd (malloc (s1 + 1)) (\<lambda>a.
       bnd (store_ptr (padd rVal z) a) (\<lambda>_.
       bnd (malloc (s2 + 1)) (\<lambda>b.
       bnd (store_ptr (padd rVal (z + 1)) b) (\<lambda>_.
       bnd (bzero a (s1 + 1)) (\<lambda>_.
       bnd (bzero b (s2 + 1)) (\<lambda>_.
       bnd (memcpy a ptrFirst s1) (\<lambda>_.
       bnd (memcpy b (padd fs 1) s2) (\<lambda>_.
       unpack_loop i ssplitted rVal fsp (z + 2)))))))))))) "

text \<open>
  \<open>rt0\<close> is what \<open>*rt_size\<close> holds when \<open>unpackData\<close> is called: the function sizes its
  result with it before it assigns it. The result is the returned pointer and the new
  \<open>*rt_size\<close>.
\<close>

definition unpackData :: "ptr \<Rightarrow> nat \<Rightarrow> byte \<Rightarrow> byte \<Rightarrow> ('z, ptr \<times> nat) prog" where
  "unpackData data rt0 fsplitter ssplitter =
     bnd (read_str data) (\<lambda>xs.
     let count_fSplitter = length (filter (\<lambda>x. x = fsplitter) xs);
         count_sSplitter = length (filter (\<lambda>x. x \<noteq> fsplitter \<and> x = ssplitter) xs);
         sData = length xs in
     if count_sSplitter \<noteq> count_fSplitter then ret (Null, rt0) else
     bnd (split_msg data ssplitter sData) (\<lambda>(ssplitted, s_split_size).
     bnd (malloc_ptrs (size_t (8 * int rt0))) (\<lambda>rVal.
     bnd (unpack_loop s_split_size ssplitted rVal fsplitter 0) (\<lambda>_.
     bnd (free_splitted ssplitted s_split_size) (\<lambda>_.
     ret (rVal, s_split_size * 2))))))"

definition join_data :: "ptr \<Rightarrow> ptr \<Rightarrow> byte \<Rightarrow> ('z, ptr) prog" where
  "join_data a b split_char =
     bnd (strlen a) (\<lambda>sA.
     bnd (strlen b) (\<lambda>sB.
     bnd (malloc (sA + sB + 3)) (\<lambda>r.
     bnd (memcpy r a sA) (\<lambda>_.
     bnd (store_byte (padd r sA) split_char) (\<lambda>_.
     bnd (memcpy (padd r (sA + 1)) b sB) (\<lambda>_.
     bnd (store_byte (padd r (sA + sB + 1)) split_char) (\<lambda>_.
     bnd (store_byte (padd r (sA + sB + 2)) NUL) (\<lambda>_.
     ret r))))))))"

text \<open>The variable arguments of \<open>join_addresses\<close>, up to the \<open>NULL\<close> that ends them.\<close>

primrec join_addresses_loop :: "ptr list \<Rightarrow> ptr \<Rightarrow> nat \<Rightarrow> ('z, ptr \<times> nat) prog" where
  "join_addresses_loop [] pRet cSize = ret (pRet, cSize)"
| "join_addresses_loop (addr # ap) pRet cSize =
     (if addr = Null then ret (pRet, cSize) else
     bnd (strlen addr) (\<lambda>n.
     bnd (realloc pRet ((n + 1) + cSize + 1)) (\<lambda>p.
     bnd (memcpy (padd p (cSize + 1)) addr (n + 1)) (\<lambda>_.
     bnd (store_byte (padd p (cSize + (n + 1))) SPLITADDRCHAR) (\<lambda>_.
     join_addresses_loop ap p (cSize + (n + 1)))))))"

definition join_addresses :: "ptr \<Rightarrow> ptr list \<Rightarrow> ('z, ptr) prog" where
  "join_addresses addr ap =
     bnd (strlen addr) (\<lambda>cSize0.
     bnd (malloc (cSize0 + 1)) (\<lambda>pRet.
     bnd (strcpy pRet addr) (\<lambda>_.
     bnd (store_byte (padd pRet cSize0) SPLITADDRCHAR) (\<lambda>_.
     bnd (join_addresses_loop ap pRet cSize0) (\<lambda>(p, cSize).
     bnd (realloc p (cSize + 1)) (\<lambda>q.
     bnd (store_byte (padd q cSize) NUL) (\<lambda>_.
     ret q)))))))"

end
