(* ===== verification/Net_Join.thy ===== *)
theory Net_Join
  imports Net
begin

text \<open>
  \<open>join_data\<close> and \<open>join_addresses\<close>: the block they return holds exactly the joined
  string, every write is inside its block, and nothing else in memory changes.
\<close>

lemma join_data_run:
  assumes al: "alloc_total e" and fr: "fresh s"
    and a: "get_str (blocks s) a = Inr xs" and b: "get_str (blocks s) b = Inr ys"
  shows "join_data a b c e s =
    (Ok (Addr (nxt s) 0), new_block (map Byte (xs @ [c] @ ys @ [c, NUL])) s)"
  using al fr a b
  by (simp add: join_data_def exec get_cells_upd_str get_cells_str new_block_def)


subsection \<open>Joining addresses\<close>

definition join_spec :: "byte list \<Rightarrow> byte list list \<Rightarrow> byte list" where
  "join_spec x ys = x @ concat (map (\<lambda>y. SPLITADDRCHAR # y) ys)"

lemma join_spec_simps [simp]:
  "join_spec x [] = x"
  "join_spec x (y # ys) = join_spec (x @ SPLITADDRCHAR # y) ys"
  by (simp_all add: join_spec_def)

text \<open>
  The loop from a state whose blocks are \<open>m0\<close> and the block \<open>a\<close> of the string joined so
  far. One turn: the block grows by one address, whose terminator becomes the next
  separator.
\<close>

lemma join_addresses_step:
  assumes al: "alloc_total e" and fr: "fresh s" and a: "m0 a = None"
    and blk: "blocks s = m0(a \<mapsto> map Byte cur @ [Byte SPLITADDRCHAR])"
    and p: "get_str m0 p = Inr y"
  shows "join_addresses_loop (p # ps) (Addr a 0) (length cur) e s =
    join_addresses_loop ps (Addr (nxt s) 0) (length (cur @ SPLITADDRCHAR # y)) e
      (s\<lparr>blocks := m0(nxt s \<mapsto> map Byte (cur @ SPLITADDRCHAR # y) @ [Byte SPLITADDRCHAR]),
         nxt := Suc (nxt s)\<rparr>)"
proof -
  have "p \<noteq> Null"
    using p by auto
  moreover have n: "m0 (nxt s) = None" "a \<noteq> nxt s"
    using fresh_nxt [OF fr] blk by (auto split: if_splits)
  moreover have "get_str (m0(nxt s := x)) p = Inr y" for x
    using p n by simp
  moreover note get_cells_str_NUL [OF this]
  moreover have "m0(a := None) = m0"
    using a by auto
  ultimately show ?thesis
    using al blk p a by (simp add: exec new_block_def drop_block_def)
qed

lemma join_addresses_loop_run:
  assumes "alloc_total e" "fresh s" "m0 a = None"
    and "blocks s = m0(a \<mapsto> map Byte cur @ [Byte SPLITADDRCHAR])"
    and "list_all2 (\<lambda>p y. get_str m0 p = Inr y) ps ys"
  shows "\<exists>a'. join_addresses_loop ps (Addr a 0) (length cur) e s =
      (Ok (Addr a' 0, length (join_spec cur ys)),
       s\<lparr>blocks := m0(a' \<mapsto> map Byte (join_spec cur ys) @ [Byte SPLITADDRCHAR]),
         nxt := nxt s + length ps\<rparr>) \<and> m0 a' = None \<and> a' < nxt s + length ps"
  using assms
proof (induction ps arbitrary: s a cur ys)
  case Nil
  then have "a < nxt s"
    by (auto intro: fresh_less)
  with Nil show ?case
    by (auto simp: exec)
next
  case (Cons p ps)
  from Cons.prems(5) obtain y yt where ys: "ys = y # yt" and p: "get_str m0 p = Inr y"
    and pt: "list_all2 (\<lambda>p y. get_str m0 p = Inr y) ps yt"
    unfolding list_all2_Cons1 by blast
  let ?t = "s\<lparr>blocks := m0(nxt s \<mapsto> map Byte (cur @ SPLITADDRCHAR # y) @ [Byte SPLITADDRCHAR]),
    nxt := Suc (nxt s)\<rparr>"
  have above: "m0 b = None" if "nxt s \<le> b" for b
    using fresh_above [OF Cons.prems(2) that] Cons.prems(3,4) by (auto split: if_splits)
  have fr: "fresh ?t"
    using above by (auto simp: fresh_def less_Suc_eq not_le [symmetric])
  have blk: "blocks ?t = m0(nxt s \<mapsto> map Byte (cur @ SPLITADDRCHAR # y) @ [Byte SPLITADDRCHAR])"
    by simp
  show ?case
    using Cons.IH [OF Cons.prems(1) fr above blk pt]
    unfolding join_addresses_step [OF Cons.prems(1-4) p] ys by auto
qed

lemma join_addresses_run:
  assumes al: "alloc_total e" and fr: "fresh s"
    and p: "get_str (blocks s) p = Inr x"
    and ps: "list_all2 (\<lambda>p y. get_str (blocks s) p = Inr y) ps ys"
  shows "join_addresses p ps e s =
    (Ok (Addr (nxt s + length ps + 1) 0),
     s\<lparr>blocks := (blocks s)(nxt s + length ps + 1 \<mapsto> map Byte (join_spec x ys) @ [Byte NUL]),
       nxt := nxt s + length ps + 2\<rparr>)"
proof -
  let ?t = "s\<lparr>blocks := (blocks s)(nxt s \<mapsto> map Byte x @ [Byte SPLITADDRCHAR]),
    nxt := Suc (nxt s)\<rparr>"
  have n: "blocks s (nxt s) = None" and t: "fresh ?t"
    using fr by (auto simp: fresh_def less_Suc_eq)
  obtain a' where loop: "join_addresses_loop ps (Addr (nxt s) 0) (length x) e ?t =
      (Ok (Addr a' 0, length (join_spec x ys)),
       ?t\<lparr>blocks := (blocks s)(a' \<mapsto> map Byte (join_spec x ys) @ [Byte SPLITADDRCHAR]),
         nxt := nxt ?t + length ps\<rparr>)" and a': "blocks s a' = None"
    using join_addresses_loop_run [OF al t n _ ps] by auto
  have "(blocks s)(a' := None) = blocks s"
    using a' by auto
  then show ?thesis
    using al n p loop
    by (simp add: join_addresses_def exec new_block_def drop_block_def)
qed

end
