(* ===== verification/Net_Split.thy ===== *)
theory Net_Split
  imports Net
begin

text \<open>
  \<open>split_msg\<close> refines a function on lists: on a readable string it returns an array of
  fresh blocks, one per piece, leaves every other block alone, frees its work buffer and
  faults nowhere, provided the work buffer is as long as the message.
\<close>

definition find_sep :: "byte \<Rightarrow> byte list \<Rightarrow> byte option" where
  "find_sep c xs = (if c \<in> set xs then Some c else if CR \<in> set xs then Some CR else None)"

primrec split_spec :: "nat \<Rightarrow> byte \<Rightarrow> byte list \<Rightarrow> byte list list" where
  "split_spec 0 c xs = []"
| "split_spec (Suc k) c xs = (case find_sep c xs of
     None \<Rightarrow> []
   | Some d \<Rightarrow> takeWhile (\<lambda>x. x \<noteq> d) xs # split_spec k c (tl (dropWhile (\<lambda>x. x \<noteq> d) xs)))"

lemma find_sep_SomeD: "find_sep c xs = Some d \<Longrightarrow> d \<in> set xs"
  by (auto simp: find_sep_def split: if_splits)

lemma length_split_spec: "length (split_spec k c xs) \<le> k"
  by (induction k arbitrary: xs) (auto split: option.splits)

lemma split_spec_Nil [simp]: "split_spec k c [] = []"
  by (cases k) (simp_all add: find_sep_def)

text \<open>The bytes of the pieces all come from the message, and no piece holds the separator.\<close>

lemma split_spec_subset: "q \<in> set (split_spec k c xs) \<Longrightarrow> set q \<subseteq> set xs"
proof (induction k arbitrary: xs)
  case (Suc k)
  show ?case
  proof (cases "find_sep c xs")
    case (Some d)
    then consider "q = takeWhile (\<lambda>x. x \<noteq> d) xs"
      | "q \<in> set (split_spec k c (tl (dropWhile (\<lambda>x. x \<noteq> d) xs)))"
      using Suc.prems by auto
    then show ?thesis
      using Suc.IH set_tl_dropWhile [of "\<lambda>x. x \<noteq> d" xs]
      by cases (auto dest: set_takeWhileD)
  qed (use Suc.prems in auto)
qed simp

lemma split_spec_no_sep: "q \<in> set (split_spec k c xs) \<Longrightarrow> c \<notin> set q"
proof (induction k arbitrary: xs)
  case (Suc k)
  show ?case
  proof (cases "find_sep c xs")
    case (Some d)
    have "c \<notin> set (takeWhile (\<lambda>x. x \<noteq> d) xs)"
      using Some by (auto simp: find_sep_def split: if_splits dest: set_takeWhileD)
    then show ?thesis
      using Suc Some by auto
  qed (use Suc.prems in auto)
qed simp

lemma split_spec_concat:
  assumes "\<forall>q\<in>set qs. c \<notin> set q" "length qs \<le> k"
  shows "split_spec k c (concat (map (\<lambda>q. q @ [c]) qs) @ rest) = qs @ split_spec (k - length qs) c rest"
  using assms
proof (induction qs arbitrary: k)
  case (Cons q qs)
  then obtain k' where k: "k = Suc k'"
    by (cases k) auto
  show ?case
    using Cons by (simp add: k find_sep_def takeWhile_append_notin dropWhile_append_notin)
qed simp

text \<open>The terminator is never searched for, so \<open>strchr\<close> finds what \<open>find_sep\<close> finds.\<close>

lemma run_find_split [exec]:
  assumes "c \<noteq> NUL" and "get_str (blocks s) (Addr bb i) = Inr xs"
  shows "find_split (Addr bb i) c e s =
    (Ok (case find_sep c xs of None \<Rightarrow> Null
         | Some d \<Rightarrow> Addr bb (i + length (takeWhile (\<lambda>x. x \<noteq> d) xs))), s)"
  using assms by (simp add: find_split_def exec find_chr_def find_sep_def)

lemma split_loop_stop:
  assumes c: "c \<noteq> NUL" and none: "find_sep c xs = None"
    and bb: "get_str m0 (Addr bb i) = Inr xs" "m0 t = None" "m0 a = None" "t \<noteq> a"
    and blk: "blocks s = m0(a \<mapsto> arr, t \<mapsto> tc)" and L: "length tc = L"
  shows "split_loop (Suc k) (Addr t 0) c L (Addr a 0) n (Addr bb i) e s =
    (Ok (Addr a 0, n),
     s\<lparr>blocks := m0(a \<mapsto> arr, t \<mapsto> replicate L (Byte NUL))\<rparr>)"
proof -
  have ne: "bb \<noteq> t" "bb \<noteq> a"
    using bb by (auto elim: get_str_blockE)
  have str: "get_str (m0(a := x, t := y)) (Addr bb i) = Inr xs" for x y
    using bb ne by simp
  show ?thesis
    using L c
    by (simp add: run_bnd blk run_bzero run_find_split [OF c, where xs = xs] str none run_ret)
qed

lemma split_loop_step:
  assumes al: "alloc_total e" and c: "c \<noteq> NUL" and sep: "find_sep c xs = Some d"
    and bb: "get_str m0 (Addr bb i) = Inr xs" "m0 t = None" "m0 a = None" "t \<noteq> a"
    and new: "m0 (nxt s) = None" "m0 (Suc (nxt s)) = None" "t < nxt s" "a < nxt s"
    and blk: "blocks s = m0(a \<mapsto> map PtrC ps, t \<mapsto> tc)"
    and L: "length tc = L" "length xs \<le> L"
    and q: "q = takeWhile (\<lambda>x. x \<noteq> d) xs"
  shows "split_loop (Suc k) (Addr t 0) c L (Addr a 0) (length ps) (Addr bb i) e s =
    split_loop k (Addr t 0) c L (Addr (nxt s) 0) (Suc (length ps)) (Addr bb (i + length q + 1)) e
      (s\<lparr>blocks := m0(t \<mapsto> map Byte q @ replicate (L - length q) (Byte NUL),
            nxt s \<mapsto> map PtrC (ps @ [Addr (Suc (nxt s)) 0]),
            Suc (nxt s) \<mapsto> cstr q),
          nxt := Suc (Suc (nxt s))\<rparr>)"
proof -
  have bbne: "bb \<noteq> t" "bb \<noteq> a" "bb \<noteq> nxt s" "bb \<noteq> Suc (nxt s)"
    using bb new by (auto elim: get_str_blockE)
  have qx: "length q < length xs" "take (length q) xs = q"
    using find_sep_SomeD [OF sep] q by (simp_all add: length_takeWhile_less takeWhile_eq_take [symmetric])
  have cells: "get_cells m0 (Addr bb i) (length q) = Inr (map Byte q)"
    using get_cells_str [OF bb(1), of "length q"] qx by simp
  have "NUL \<notin> set q"
    using get_str_nonzero [OF bb(1)] q by (auto dest: set_takeWhileD)
  moreover have rep: "replicate (L - length q) (Byte NUL) =
      Byte NUL # replicate (L - length q - 1) (Byte NUL)"
    using qx L by (simp flip: replicate_Suc)
  ultimately have work: "get_str (m(t := Some (map Byte q @ replicate (L - length q) (Byte NUL))))
      (Addr t 0) = Inr q" for m
    by simp
  have m0: "m0(a := None) = m0" "m0(nxt s := None) = m0"
    using bb new by auto
  have ne: "a \<noteq> t" "nxt s \<noteq> t" "Suc (nxt s) \<noteq> t" "nxt s \<noteq> a" "Suc (nxt s) \<noteq> a" "t \<noteq> nxt s" "t \<noteq> Suc (nxt s)" "a \<noteq> nxt s" "a \<noteq> Suc (nxt s)"
    using new bb by auto
  show ?thesis
    using L c qx(1)
    by (simp add: run_bnd blk exec al sep bb bbne ne cells work q [symmetric] new_block_def
        drop_block_def) (simp add: cstr_def m0)
qed

text \<open>
  What the loop leaves behind: \<open>m1\<close> extends \<open>m0\<close> by one block per new piece, at or above
  \<open>lo\<close>, each holding exactly its piece.
\<close>

definition pieces_in :: "mem \<Rightarrow> mem \<Rightarrow> nat \<Rightarrow> ptr list \<Rightarrow> byte list list \<Rightarrow> bool" where
  "pieces_in m0 m1 lo ps qs \<longleftrightarrow>
     (\<forall>b. m0 b \<noteq> None \<longrightarrow> m1 b = m0 b) \<and>
     list_all2 (\<lambda>p q. \<exists>b\<ge>lo. p = Addr b 0 \<and> m1 b = Some (cstr q)) ps qs \<and>
     distinct ps \<and>
     (\<forall>b. m1 b \<noteq> None \<longrightarrow> m0 b = None \<longrightarrow> Addr b 0 \<in> set ps)"

lemma pieces_in_Nil: "pieces_in m m lo [] []"
  by (simp add: pieces_in_def)

lemma pieces_in_Cons:
  assumes "pieces_in (m0(Suc n \<mapsto> cstr q)) m1 (Suc (Suc n)) ps qs" and "m0 (Suc n) = None"
  shows "pieces_in m0 m1 n (Addr (Suc n) 0 # ps) (q # qs)"
proof -
  have old: "m1 b = (m0(Suc n \<mapsto> cstr q)) b" if "(m0(Suc n \<mapsto> cstr q)) b \<noteq> None" for b
    using assms(1) that by (auto simp: pieces_in_def)
  have "m1 (Suc n) = Some (cstr q)"
    using old [of "Suc n"] by simp
  moreover have l: "list_all2 (\<lambda>p q. \<exists>b\<ge>Suc (Suc n). p = Addr b 0 \<and> m1 b = Some (cstr q)) ps qs"
    using assms(1) by (simp add: pieces_in_def)
  moreover have "Addr (Suc n) 0 \<notin> set ps"
    using l by (auto simp: in_set_conv_decomp list_all2_append1 list_all2_Cons1)
  moreover have "list_all2 (\<lambda>p q. \<exists>b\<ge>n. p = Addr b 0 \<and> m1 b = Some (cstr q)) ps qs"
    using l by (rule list_all2_mono) (metis Suc_leD)
  moreover have "m1 b = m0 b" if "m0 b \<noteq> None" for b
    using old [of b] that assms(2) by (auto split: if_splits)
  moreover have "b = Suc n \<or> Addr b 0 \<in> set ps" if "m1 b \<noteq> None" "m0 b = None" for b
    using assms(1) that by (auto simp: pieces_in_def split: if_splits)
  ultimately show ?thesis
    using assms(1) by (auto simp: pieces_in_def)
qed

lemma split_loop_run:
  assumes "alloc_total e" "c \<noteq> NUL" "fresh s"
    and "get_str m0 (Addr bb i) = Inr xs" "m0 t = None" "m0 a = None" "t \<noteq> a"
    and "t < nxt s" "a < nxt s" "\<forall>b\<ge>nxt s. m0 b = None"
    and "blocks s = m0(a \<mapsto> map PtrC ps, t \<mapsto> tc)"
    and "length tc = L" "length xs \<le> L"
  shows "\<exists>m1 a1 tc1 ps1.
    split_loop k (Addr t 0) c L (Addr a 0) (length ps) (Addr bb i) e s =
      (Ok (Addr a1 0, length ps + length ps1),
       s\<lparr>blocks := m1(a1 \<mapsto> map PtrC (ps @ ps1), t \<mapsto> tc1), nxt := nxt s + 2 * length ps1\<rparr>) \<and>
    pieces_in m0 m1 (nxt s) ps1 (split_spec k c xs) \<and>
    m1 t = None \<and> m1 a1 = None \<and> t \<noteq> a1 \<and> (a1 = a \<or> nxt s \<le> a1) \<and>
    a1 < nxt s + 2 * length ps1 \<and> (\<forall>b\<ge>nxt s + 2 * length ps1. m1 b = None)"
  using assms
proof (induction k arbitrary: s m0 i xs a ps tc)
  case 0
  then show ?case
    by (intro exI [of _ m0] exI [of _ a] exI [of _ tc] exI [of _ "[]"])
      (auto simp: exec pieces_in_Nil)
next
  case (Suc k)
  note al = Suc.prems(1) and c = Suc.prems(2)
  show ?case
  proof (cases "find_sep c xs")
    case None
    have eq: "split_loop (Suc k) (Addr t 0) c L (Addr a 0) (length ps) (Addr bb i) e s =
      (Ok (Addr a 0, length ps + length ([] :: ptr list)),
       s\<lparr>blocks := m0(a \<mapsto> map PtrC (ps @ []), t \<mapsto> replicate L (Byte NUL)),
         nxt := nxt s + 2 * length ([] :: ptr list)\<rparr>)"
      unfolding split_loop_stop [OF c None Suc.prems(4-7,11,12)] by simp
    show ?thesis
      by (intro exI conjI, rule eq) (use Suc.prems(5-10) None in \<open>simp_all add: pieces_in_Nil\<close>)
  next
    case (Some d)
    define q where "q = takeWhile (\<lambda>x. x \<noteq> d) xs"
    define r where "r = tl (dropWhile (\<lambda>x. x \<noteq> d) xs)"
    let ?n = "nxt s"
    let ?m = "m0(Suc ?n \<mapsto> cstr q)"
    let ?w = "map Byte q @ replicate (L - length q) (Byte NUL)"
    let ?ps = "ps @ [Addr (Suc ?n) 0]"
    let ?t = "s\<lparr>blocks := m0(t \<mapsto> ?w, ?n \<mapsto> map PtrC ?ps, Suc ?n \<mapsto> cstr q), nxt := Suc (Suc ?n)\<rparr>"
    have d: "d \<in> set xs"
      using Some by (rule find_sep_SomeD)
    have new: "m0 ?n = None" "m0 (Suc ?n) = None"
      using Suc.prems(10) by simp_all
    have step: "split_loop (Suc k) (Addr t 0) c L (Addr a 0) (length ps) (Addr bb i) e s =
        split_loop k (Addr t 0) c L (Addr ?n 0) (length ?ps) (Addr bb (i + length q + 1)) e ?t"
      using split_loop_step [OF al c Some Suc.prems(4-7) new Suc.prems(8,9,11-13) q_def]
      by simp
    have "length q < length xs" "drop (length q + 1) xs = r"
      using d by (simp_all add: q_def r_def length_takeWhile_less drop_takeWhile_tl)
    moreover have "get_str ?m (Addr bb i) = Inr xs"
      using Suc.prems(4) new by simp
    ultimately have buf: "get_str ?m (Addr bb (i + length q + 1)) = Inr r"
      using get_str_padd [of ?m "Addr bb i" xs "length q + 1"] by simp
    have len: "length r \<le> L"
      using length_tl_dropWhile [OF d] Suc.prems(13) by (simp add: r_def)
    have blk: "blocks ?t = ?m(?n \<mapsto> map PtrC ?ps, t \<mapsto> ?w)"
      using Suc.prems(8) by (auto simp: fun_eq_iff)
    have fr: "fresh ?t"
      using Suc.prems(8,10) by (auto simp: fresh_def not_le [symmetric])
    have side: "?m t = None" "?m ?n = None" "t \<noteq> ?n" "t < nxt ?t" "?n < nxt ?t"
      "\<forall>b\<ge>nxt ?t. ?m b = None" "length ?w = L"
      using Suc.prems(5,8,10,13) \<open>length q < length xs\<close> new by auto
    obtain m1 a1 tc1 ps1 where IH:
      "split_loop k (Addr t 0) c L (Addr ?n 0) (length ?ps) (Addr bb (i + length q + 1)) e ?t =
        (Ok (Addr a1 0, length ?ps + length ps1),
         ?t\<lparr>blocks := m1(a1 \<mapsto> map PtrC (?ps @ ps1), t \<mapsto> tc1), nxt := nxt ?t + 2 * length ps1\<rparr>)"
      "pieces_in ?m m1 (nxt ?t) ps1 (split_spec k c r)"
      "m1 t = None" "m1 a1 = None" "t \<noteq> a1" "a1 = ?n \<or> nxt ?t \<le> a1"
      "a1 < nxt ?t + 2 * length ps1" "\<forall>b\<ge>nxt ?t + 2 * length ps1. m1 b = None"
      using Suc.IH [OF al c fr buf side(1-6) blk side(7) len] by blast
    have post: "pieces_in m0 m1 ?n (Addr (Suc ?n) 0 # ps1) (split_spec (Suc k) c xs)"
      using pieces_in_Cons [of m0 ?n q m1 ps1 "split_spec k c r"] new(2) IH(2) Some
      by (simp add: q_def r_def)
    have eq: "split_loop (Suc k) (Addr t 0) c L (Addr a 0) (length ps) (Addr bb i) e s =
      (Ok (Addr a1 0, length ps + length (Addr (Suc ?n) 0 # ps1)),
       s\<lparr>blocks := m1(a1 \<mapsto> map PtrC (ps @ Addr (Suc ?n) 0 # ps1), t \<mapsto> tc1),
         nxt := ?n + 2 * length (Addr (Suc ?n) 0 # ps1)\<rparr>)"
      unfolding step IH(1) by simp
    show ?thesis
      by (intro exI conjI, rule eq, rule post) (use IH(3-8) in auto)
  qed
qed

lemma split_msg_run:
  assumes al: "alloc_total e" and c: "c \<noteq> NUL" and fr: "fresh s"
    and buf: "get_str (blocks s) buf = Inr xs" and L: "length xs \<le> L" "0 < L"
  shows "\<exists>m1 a1 ps1. split_msg buf c L e s =
      (Ok (Addr a1 0, length ps1),
       s\<lparr>blocks := m1(a1 \<mapsto> map PtrC ps1), nxt := nxt s + 2 + 2 * length ps1\<rparr>) \<and>
    pieces_in (blocks s) m1 (nxt s) ps1 (split_spec max_splitted c xs) \<and>
    m1 a1 = None \<and> nxt s \<le> a1 \<and> (\<forall>b\<ge>nxt s + 2 + 2 * length ps1. m1 b = None) \<and>
    a1 < nxt s + 2 + 2 * length ps1"
proof -
  let ?n = "nxt s"
  let ?t = "s\<lparr>blocks := (blocks s)(?n \<mapsto> [], Suc ?n \<mapsto> replicate L Undef), nxt := Suc (Suc ?n)\<rparr>"
  obtain bb i where bb: "buf = Addr bb i"
    using buf by (cases buf) auto
  have above: "\<forall>b\<ge>?n. blocks s b = None"
    using fr by (simp add: fresh_above)
  have fr': "fresh ?t"
    using fr by (auto simp: fresh_def less_Suc_eq)
  obtain m1 a1 tc1 ps1 where loop:
    "split_loop max_splitted (Addr (Suc ?n) 0) c L (Addr ?n 0) (length ([] :: ptr list)) (Addr bb i) e ?t =
      (Ok (Addr a1 0, length ([] :: ptr list) + length ps1),
       ?t\<lparr>blocks := m1(a1 \<mapsto> map PtrC ([] @ ps1), Suc ?n \<mapsto> tc1), nxt := nxt ?t + 2 * length ps1\<rparr>)"
    "pieces_in (blocks s) m1 (nxt ?t) ps1 (split_spec max_splitted c xs)"
    "m1 (Suc ?n) = None" "m1 a1 = None" "Suc ?n \<noteq> a1" "a1 = ?n \<or> nxt ?t \<le> a1"
    "a1 < nxt ?t + 2 * length ps1" "\<forall>b\<ge>nxt ?t + 2 * length ps1. m1 b = None"
    using split_loop_run [OF al c fr', of "blocks s" bb i xs "Suc ?n" ?n "[]" "replicate L Undef" L max_splitted]
      above buf L bb by auto
  have drop: "m1(a1 \<mapsto> v, Suc ?n := None) = m1(a1 \<mapsto> v)" for v
    using loop(3,5) by (auto simp: fun_eq_iff)
  have post: "pieces_in (blocks s) m1 ?n ps1 (split_spec max_splitted c xs)"
    using loop(2) by (auto simp: pieces_in_def elim!: list_all2_mono)
  have eq: "split_msg buf c L e s = (Ok (Addr a1 0, length ps1),
       s\<lparr>blocks := m1(a1 \<mapsto> map PtrC ps1), nxt := ?n + 2 + 2 * length ps1\<rparr>)"
    using al bb L(2) loop(1) drop
    by (simp add: split_msg_def exec local_arr_def new_block_def drop_block_def)
  show ?thesis
    by (intro exI conjI, rule eq, rule post) (use loop(4,6,7,8) in auto)
qed

end
