(* ===== verification/C_Frame.thy ===== *)
theory C_Frame
  imports C_Strings
begin

text \<open>
  What a program may do to the memory of its caller, whatever its inputs and however it
  ends. The interface \<open>step_relation\<close> names the four ways in which a primitive changes a
  state; a relation that allows them is kept by every program built from the primitives.
  It is interpreted three times below: block numbers stay fresh, blocks are never
  resized or revived, and the record of external calls only grows.
\<close>

definition keeps :: "('s \<Rightarrow> 's \<Rightarrow> bool) \<Rightarrow> (env \<Rightarrow> 's \<Rightarrow> 'a res \<times> 's) \<Rightarrow> bool" where
  "keeps R m \<longleftrightarrow> (\<forall>e s. R s (snd (m e s)))"

lemma keepsD: "keeps R m \<Longrightarrow> m e s = (r, s') \<Longrightarrow> R s s'"
  unfolding keeps_def by (metis snd_conv)

lemma keeps_snd: "keeps R m \<Longrightarrow> R s (snd (m e s))"
  by (simp add: keeps_def)

locale step_relation =
  fixes R :: "'z cstate_scheme \<Rightarrow> 'z cstate_scheme \<Rightarrow> bool"
  assumes R_refl: "R s s"
    and R_trans: "R s t \<Longrightarrow> R t u \<Longrightarrow> R s u"
    and R_new: "R s (new_block cs s)"
    and R_drop: "blocks s b \<noteq> None \<Longrightarrow> R s (drop_block b s)"
    and R_write: "blocks s b = Some old \<Longrightarrow> length cs = length old \<Longrightarrow>
      R s (s\<lparr>blocks := (blocks s)(b \<mapsto> cs)\<rparr>)"
    and R_event: "R s (s\<lparr>evs := ev # evs s\<rparr>)"
begin

lemma R_drop_any: "R s (drop_block b s)"
proof (cases "blocks s b = None")
  case True
  then have "(blocks s)(b := None) = blocks s"
    by auto
  then have "drop_block b s = s"
    by (simp add: drop_block_def)
  then show ?thesis
    by (simp add: R_refl)
qed (rule R_drop)

lemma keeps_ret [intro!]: "keeps R (ret a)"
  by (simp add: keeps_def ret_def R_refl)

lemma keeps_fail [intro!]: "keeps R (fail x)"
  by (simp add: keeps_def fail_def R_refl)

lemma keeps_bnd [intro!]:
  assumes m: "keeps R m" and f: "\<And>a. keeps R (f a)"
  shows "keeps R (bnd m f)"
  unfolding keeps_def
proof (intro allI)
  fix e s
  obtain r t where t: "m e s = (r, t)"
    by (cases "m e s")
  then have st: "R s t"
    using m by (metis keepsD)
  show "R s (snd (bnd m f e s))"
  proof (cases r)
    case (Ok a)
    have "R t (snd (f a e t))"
      using f by (simp add: keeps_def)
    then show ?thesis
      using st R_trans by (simp add: run_bnd t Ok)
  qed (use st in \<open>simp add: run_bnd t\<close>)
qed

lemma keeps_if [intro!]: "keeps R m \<Longrightarrow> keeps R m' \<Longrightarrow> keeps R (if b then m else m')"
  by simp

lemma keeps_read_mem [intro!]: "keeps R (read_mem g)"
  by (simp add: keeps_def read_mem_def R_refl split: sum.split)

lemma keeps_put_cells [intro!]: "keeps R (write_mem (\<lambda>m. put_cells m p cs))"
  by (auto simp: keeps_def write_mem_def put_cells_def R_refl R_write
      split: sum.split ptr.split option.split)

lemma keeps_alloc [intro!]: "keeps R (alloc bytes n)"
  by (simp add: keeps_def alloc_def R_refl R_new)

lemma keeps_malloc [intro!]: "keeps R (malloc n)" "keeps R (malloc_ptrs n)" "keeps R (calloc n)"
  by (auto simp: malloc_def malloc_ptrs_def)
    (simp add: keeps_def calloc_def R_refl R_new)

lemma keeps_free [intro!]: "keeps R (free p)"
proof -
  have "R s (s\<lparr>blocks := (blocks s)(b := None)\<rparr>)" for s b
    using R_drop_any [of s b] by (simp add: drop_block_def)
  then show ?thesis
    by (auto simp: keeps_def free_def write_mem_def R_refl split: ptr.split)
qed

lemma keeps_realloc_as [intro!]: "keeps R (realloc_as bytes p n)"
proof -
  have "R s (new_block cs (drop_block b s))" for s b cs
    by (rule R_trans [OF R_drop_any R_new])
  moreover have "R s (snd (alloc bytes n e s))" for e s
    using keeps_alloc by (simp add: keeps_def)
  ultimately show ?thesis
    by (auto simp: keeps_def realloc_as_def R_refl split: ptr.split option.split)
qed

lemma keeps_realloc [intro!]: "keeps R (realloc p n)" "keeps R (realloc_ptrs p n)"
  by (auto simp: realloc_def realloc_ptrs_def)

lemma keeps_local_arr [intro!]:
  assumes "\<And>p. keeps R (body p)"
  shows "keeps R (local_arr n body)"
  unfolding keeps_def
proof (intro allI)
  fix e and s :: "'z cstate_scheme"
  let ?t = "new_block (replicate n Undef) s"
  obtain r u where u: "body (Addr (nxt s) 0) e ?t = (r, u)"
    by (cases "body (Addr (nxt s) 0) e ?t")
  have "R ?t u"
    using assms u by (metis keepsD)
  then have "R s (drop_block (nxt s) u)"
    using R_trans R_new R_drop_any by metis
  then show "R s (snd (local_arr n body e s))"
    by (simp add: local_arr_def u R_refl)
qed

lemma keeps_ext [intro!]: "keeps R (ext c)"
  by (simp add: keeps_def ext_def Let_def R_event)

lemma keeps_rand [intro!]: "keeps R rand"
  unfolding rand_def by auto

lemma keeps_access [intro!]:
  "keeps R (load_byte p)" "keeps R (load_ptr p)" "keeps R (store_byte p v)"
  "keeps R (store_ptr p q)"
  by (auto simp: load_byte_def load_ptr_def store_byte_def store_ptr_def)

lemma keeps_string [intro!]:
  "keeps R (strlen p)" "keeps R (strcpy p q)" "keeps R (memcpy p q n)" "keeps R (bzero p n)"
  "keeps R (write_bytes p bs)" "keeps R (strchr p c)" "keeps R (strstr p bs)"
  "keeps R (str_eq p q)" "keeps R (read_str p)"
  by (auto simp: strlen_def strcpy_def memcpy_def bzero_def write_bytes_def strchr_def
      strstr_def str_eq_def read_str_def)

lemma keeps_more [intro!]: "keeps R (read_bytes p n)" "keeps R (lib_block cs)"
  by (auto simp: read_bytes_def lib_block_def keeps_def R_new) (auto simp: read_mem_def R_refl split: sum.split)

lemma keeps_lib_str [intro!]: "keeps R (lib_str r)"
  by (auto simp: lib_str_def keeps_more split: reply.split)

lemma keeps_read_strn [intro!]: "keeps R (read_strn p n)"
  by (auto simp: read_strn_def)

lemma keeps_gets [intro!]: "keeps R (gets f)"
  by (simp add: keeps_def gets_def R_refl)

lemma keeps_while [intro!]:
  assumes "\<And>a. keeps R (body a)"
  shows "keeps R (c_while b body a)"
  unfolding keeps_def
proof (intro allI)
  fix e s
  let ?b = "\<lambda>(r, t). case r of Ok x \<Rightarrow> b x | Err x \<Rightarrow> False"
  let ?c = "\<lambda>(r, t). case r of Ok x \<Rightarrow> body x e t | Err x \<Rightarrow> (Err x, t)"
  show "R s (snd (c_while b body a e s))"
  proof (cases "while_option ?b ?c (Ok a, s)")
    case None
    then show ?thesis
      by (simp add: c_while_def R_refl)
  next
    case (Some rt)
    have "R s (snd rt)"
    proof (rule while_option_rule [of "\<lambda>rt. R s (snd rt)", OF _ Some])
      fix rt
      assume st: "R s (snd rt)" and "?b rt"
      then obtain x u where rt: "rt = (Ok x, u)"
        by (cases rt; cases "fst rt") auto
      have "R u (snd (body x e u))"
        using assms by (simp add: keeps_def)
      then show "R s (snd (?c rt))"
        using R_trans [of s u] st by (simp add: rt)
    qed (simp add: R_refl)
    then show ?thesis
      by (simp add: c_while_def Some)
  qed
qed

lemma keeps_local_cells [intro!]:
  assumes "\<And>p. keeps R (body p)"
  shows "keeps R (local_cells cs body)"
  unfolding local_cells_def using assms by auto

lemma keeps_field [intro!]: "keeps R (field x)" "keeps R (read_cells p n)"
  by (auto simp: field_def read_cells_def split: option.split)

lemma keeps_loop [intro!]:
  assumes "\<And>a. keeps R (test a)" "\<And>a. keeps R (body a)"
  shows "keeps R (c_loop test body a)"
  unfolding c_loop_def using assms by (auto split: prod.split)

end

subsection \<open>Programs that never end with a given fault\<close>

definition avoids :: "fault \<Rightarrow> ('s \<Rightarrow> bool) \<Rightarrow> (env \<Rightarrow> 's \<Rightarrow> 'a res \<times> 's) \<Rightarrow> bool" where
  "avoids x P m \<longleftrightarrow> (\<forall>e s. P s \<longrightarrow> fst (m e s) \<noteq> Err x)"

lemma avoidsD: "avoids x P m \<Longrightarrow> P s \<Longrightarrow> fst (m e s) \<noteq> Err x"
  by (simp add: avoids_def)

lemma bnd_avoids:
  assumes "fst (m e s) \<noteq> Err x" "\<And>a t. fst (f a e t) \<noteq> Err x"
  shows "fst (bnd m f e s) \<noteq> Err x"
proof (cases "m e s")
  case (Pair r t)
  then show ?thesis
    using assms by (cases r) (auto simp: run_bnd)
qed

lemma scan_no_div: "scan cs \<noteq> Inl Diverges"
  by (induction cs rule: scan.induct) (auto split: sum.splits)

lemma cells_no_div: "cells_of m p \<noteq> Inl Diverges"
  by (auto simp: cells_of_def split: ptr.splits option.splits)

lemma mem_no_div:
  "get_str m p \<noteq> Inl Diverges" "get_cells m p n \<noteq> Inl Diverges" "put_cells m p cs \<noteq> Inl Diverges"
  using cells_no_div [of m p]
  by (auto simp: get_str_def get_cells_def put_cells_def scan_no_div
      split: sum.splits ptr.splits option.splits)

lemma as_no_div: "as_byte c \<noteq> Inl Diverges" "as_ptr c \<noteq> Inl Diverges"
  by (cases c; simp)+

lemma elem_no_div: "get_byte m p \<noteq> Inl Diverges" "get_ptr m p \<noteq> Inl Diverges"
  using mem_no_div(2) [of m p 1]
  by (auto simp: get_byte_def get_ptr_def as_no_div split: sum.splits)

subsection \<open>What holds when a program returns\<close>

text \<open>
  \<open>ensures P m Q\<close>: if \<open>m\<close> runs in a state with \<open>P\<close> and returns, \<open>Q\<close> holds of its result and of
  the state. With a \<open>Q\<close> that is never true, \<open>m\<close> never returns.
\<close>

definition ensures :: "('s \<Rightarrow> bool) \<Rightarrow> (env \<Rightarrow> 's \<Rightarrow> 'a res \<times> 's) \<Rightarrow> ('a \<Rightarrow> 's \<Rightarrow> bool) \<Rightarrow> bool" where
  "ensures P m Q \<longleftrightarrow> (\<forall>e s a t. P s \<longrightarrow> m e s = (Ok a, t) \<longrightarrow> Q a t)"

lemma ensuresD: "ensures P m Q \<Longrightarrow> P s \<Longrightarrow> m e s = (Ok a, t) \<Longrightarrow> Q a t"
  unfolding ensures_def by blast

lemma ensures_never: "ensures P m (\<lambda>_ _. False) \<Longrightarrow> P s \<Longrightarrow> fst (m e s) \<noteq> Ok a"
  unfolding ensures_def by (metis prod.collapse)

lemma ensures_ret: "(\<And>s. P s \<Longrightarrow> Q a s) \<Longrightarrow> ensures P (ret a) Q"
  by (simp add: ensures_def exec)

lemma ensures_fail: "ensures P (fail x) Q"
  by (simp add: ensures_def exec)

lemma ensures_if: "(b \<Longrightarrow> ensures P m Q) \<Longrightarrow> (\<not> b \<Longrightarrow> ensures P m' Q) \<Longrightarrow> ensures P (if b then m else m') Q"
  by simp

lemma ensures_bnd: "ensures P m R \<Longrightarrow> (\<And>a. ensures (R a) (f a) Q) \<Longrightarrow> ensures P (bnd m f) Q"
  unfolding ensures_def run_bnd cont_eq_Ok by blast

lemma ensures_weaken: "ensures P m Q \<Longrightarrow> (\<And>s. P' s \<Longrightarrow> P s) \<Longrightarrow> (\<And>a s. Q a s \<Longrightarrow> Q' a s) \<Longrightarrow> ensures P' m Q'"
  unfolding ensures_def by blast

lemma ensures_loop:
  assumes "\<And>a. ensures (I a) (test a) (\<lambda>_. I a)" "\<And>a. ensures (I a) (body a) I"
  shows "ensures (I a) (c_loop test body a) I"
  unfolding ensures_def
proof (intro allI impI)
  fix e s v t
  assume init: "I a s" and run: "c_loop test body a e s = (Ok v, t)"
  show "I v t"
    by (rule c_loop_invariant [OF run, of I, OF init])
      (rule ensuresD [OF assms(1)] ensuresD [OF assms(2)]; assumption)+
qed

locale step_guard = step_relation R for R :: "'z cstate_scheme \<Rightarrow> 'z cstate_scheme \<Rightarrow> bool" +
  fixes P :: "'z cstate_scheme \<Rightarrow> bool"
  assumes closed: "P s \<Longrightarrow> R s t \<Longrightarrow> P t"
begin

lemma avoids_ret [intro!]: "avoids x P (ret a)"
  by (simp add: avoids_def ret_def)

lemma avoids_fail [intro]: "x \<noteq> y \<Longrightarrow> avoids x P (fail y)"
  by (simp add: avoids_def fail_def)

lemma avoids_bnd [intro]:
  assumes m: "keeps R m" "avoids x P m" and f: "\<And>a. avoids x P (f a)"
  shows "avoids x P (bnd m f)"
  unfolding avoids_def
proof (intro allI impI)
  fix e s
  assume s: "P s"
  obtain r t where t: "m e s = (r, t)"
    by (cases "m e s")
  have "P t"
    using closed [OF s] keepsD [OF m(1) t] by blast
  then show "fst (bnd m f e s) \<noteq> Err x"
    using avoidsD [OF m(2) s, of e] avoidsD [OF f] t by (cases r) (auto simp: run_bnd)
qed

lemma avoids_if [intro]:
  "(b \<Longrightarrow> avoids x P m) \<Longrightarrow> (\<not> b \<Longrightarrow> avoids x P m') \<Longrightarrow> avoids x P (if b then m else m')"
  by simp

lemma avoids_read_mem: "(\<And>m. g m \<noteq> Inl x) \<Longrightarrow> avoids x P (read_mem g)"
  by (auto simp: avoids_def read_mem_def split: sum.split)

lemma avoids_write_mem: "(\<And>m. g m \<noteq> Inl x) \<Longrightarrow> avoids x P (write_mem g)"
  by (auto simp: avoids_def write_mem_def split: sum.split)

lemma avoids_access [intro!]:
  "avoids Diverges P (load_byte p)" "avoids Diverges P (load_ptr p)"
  "avoids Diverges P (store_byte p v)" "avoids Diverges P (store_ptr p q)"
  by (auto simp: load_byte_def load_ptr_def store_byte_def store_ptr_def mem_no_div elem_no_div
      intro!: avoids_read_mem avoids_write_mem)

lemma avoids_string [intro!]:
  "avoids Diverges P (strlen p)" "avoids Diverges P (strcpy p q)" "avoids Diverges P (memcpy p q n)"
  "avoids Diverges P (bzero p n)" "avoids Diverges P (strchr p c)"
  by (auto simp: strlen_def strcpy_def memcpy_def bzero_def strchr_def mem_no_div
      intro!: avoids_read_mem avoids_write_mem avoids_bnd)

lemma avoids_alloc [intro!]:
  "avoids Diverges P (malloc n)" "avoids Diverges P (realloc q n)" "avoids Diverges P (free q)"
proof -
  show "avoids Diverges P (malloc n)"
    by (simp add: avoids_def malloc_def alloc_def)
  show "avoids Diverges P (realloc q n)"
    by (auto simp: avoids_def realloc_def realloc_as_def alloc_def split: ptr.split option.split)
  show "avoids Diverges P (free q)"
    unfolding free_def by (rule avoids_write_mem) (auto split: ptr.split)
qed

lemma ensures_keep: "keeps R m \<Longrightarrow> ensures P m (\<lambda>_. P)"
  unfolding ensures_def by (blast intro: closed dest: keepsD)

lemma ensures_keep_bnd: "keeps R m \<Longrightarrow> (\<And>a. ensures P (f a) Q) \<Longrightarrow> ensures P (bnd m f) Q"
  by (rule ensures_bnd [OF ensures_keep])

lemma ensures_bnd_pure:
  assumes "keeps R m" "ensures P m (\<lambda>a _. S a)" "\<And>a. S a \<Longrightarrow> ensures P (f a) Q"
  shows "ensures P (bnd m f) Q"
proof (rule ensures_bnd)
  show "ensures P m (\<lambda>a s. P s \<and> S a)"
    using ensures_keep [OF assms(1)] assms(2) unfolding ensures_def by blast
  show "ensures (\<lambda>s. P s \<and> S a) (f a) Q" for a
    using assms(3) unfolding ensures_def by blast
qed

lemma ensures_local_arr:
  assumes "\<And>p. ensures P (body p) (\<lambda>a _. Q a)"
  shows "ensures P (local_arr n body) (\<lambda>a _. Q a)"
  unfolding ensures_def
proof (intro allI impI)
  fix e s a t
  assume s: "P s" and run: "local_arr n body e s = (Ok a, t)"
  have "P (new_block (replicate n Undef) s)"
    using closed [OF s R_new] .
  then show "Q a"
    using run assms [THEN ensuresD] by (auto simp: local_arr_def split: if_splits prod.splits)
qed

end

subsection \<open>The two relations\<close>

definition fresh_kept :: "'z cstate_scheme \<Rightarrow> 'z cstate_scheme \<Rightarrow> bool" where
  "fresh_kept s t \<longleftrightarrow> (fresh s \<longrightarrow> fresh t)"

text \<open>
  No block of the caller is resized, and no block that was freed before is back.
\<close>

definition caller_blocks :: "'z cstate_scheme \<Rightarrow> 'z cstate_scheme \<Rightarrow> bool" where
  "caller_blocks s t \<longleftrightarrow> nxt s \<le> nxt t \<and>
     (\<forall>b cs'. b < nxt s \<longrightarrow> blocks t b = Some cs' \<longrightarrow>
        (\<exists>cs. blocks s b = Some cs \<and> length cs' = length cs))"

interpretation fk: step_relation fresh_kept
proof
  show "fresh_kept s (s\<lparr>blocks := (blocks s)(b \<mapsto> cs)\<rparr>)" if "blocks s b = Some old" for s b cs old
    using that by (auto simp: fresh_kept_def fresh_def)
qed (auto simp: fresh_kept_def fresh_def new_block_def drop_block_def less_Suc_eq)

interpretation cb: step_relation caller_blocks
proof
  fix s t u :: "'z cstate_scheme"
  assume st: "caller_blocks s t" and tu: "caller_blocks t u"
  show "caller_blocks s u"
    unfolding caller_blocks_def
  proof (intro conjI allI impI)
    show "nxt s \<le> nxt u"
      using st tu by (auto simp: caller_blocks_def)
    fix b cs'
    assume b: "b < nxt s" "blocks u b = Some cs'"
    moreover have "b < nxt t"
      using b st by (auto simp: caller_blocks_def)
    ultimately obtain ct where "blocks t b = Some ct" "length cs' = length ct"
      using tu by (auto simp: caller_blocks_def)
    then show "\<exists>cs. blocks s b = Some cs \<and> length cs' = length cs"
      using st b by (auto simp: caller_blocks_def)
  qed
qed (auto simp: caller_blocks_def new_block_def drop_block_def)

subsection \<open>The result of a run\<close>

text \<open>Stepping through a long program without its log growing in the goal.\<close>

lemma fst_bnd_Err: "fst (m e s) = Err x \<Longrightarrow> fst (bnd m f e s) = Err x"
  by (cases "m e s") (simp add: exec)

lemma fst_bnd_Ok: "m e s = (Ok a, t) \<Longrightarrow> fst (bnd m f e s) = fst (f a e t)"
  by (simp add: run_bnd)

lemma fst_bnd_ok: "m e s = (Ok a, t) \<Longrightarrow> fst (f a e t) = x \<Longrightarrow> fst (bnd m f e s) = x"
  by (simp add: exec)

lemma fst_bnd_ext: "(\<And>r. fst (f r e (s\<lparr>evs := (c, r) # evs s\<rparr>)) = x) \<Longrightarrow> fst (bnd (ext c) f e s) = x"
  by (simp add: exec)

end
