(* ===== verification/Net_Pack.thy ===== *)
theory Net_Pack
  imports Net C_Frame
begin

text \<open>
  \<open>packData\<close>: what its loop writes, and how the function ends.
\<close>

definition pack_spec :: "byte \<Rightarrow> byte \<Rightarrow> (byte list \<times> byte list) list \<Rightarrow> byte list" where
  "pack_spec f sp kvs = concat (map (\<lambda>(k, v). k @ f # v @ [sp]) kvs)"

lemma pack_spec_simps [simp]:
  "pack_spec f sp [] = []"
  "pack_spec f sp ((k, v) # kvs) = k @ f # v @ sp # pack_spec f sp kvs"
  by (simp_all add: pack_spec_def)

text \<open>One turn appends \<open>key\<close>, the first separator, \<open>value\<close> and the second separator.\<close>

lemma pack_loop_step:
  assumes al: "alloc_total e" and r: "m0 r = None" "m0 (nxt s) = None" "r < nxt s"
    and blk: "blocks s = m0(r \<mapsto> map Byte acc @ R)" and R: "length R \<le> 2"
    and k: "get_ptr m0 (Addr kb i) = Inr p" "get_str m0 p = Inr key"
    and v: "get_ptr m0 (Addr vb i) = Inr q" "get_str m0 q = Inr val"
  shows "pack_loop (Suc n) (Addr kb 0) (Addr vb 0) f sp i (Addr r 0) (length acc) e s =
    pack_loop n (Addr kb 0) (Addr vb 0) f sp (Suc i) (Addr (nxt s) 0)
      (length (acc @ key @ f # val @ [sp])) e
      (s\<lparr>blocks := m0(nxt s \<mapsto> map Byte (acc @ key @ f # val @ [sp])), nxt := Suc (nxt s)\<rparr>)"
proof -
  have ne: "p \<noteq> Null" "q \<noteq> Null" "r \<noteq> nxt s" "nxt s \<noteq> r"
    using k v r by auto
  have m0: "m0(r := None) = m0"
    using r by auto
  show ?thesis
    using al k v r R
    by (simp add: exec blk ne m0 new_block_def drop_block_def)
qed

text \<open>The loop stops at the first \<open>NULL\<close> of either array.\<close>

definition arrays_hold ::
    "mem \<Rightarrow> ptr \<Rightarrow> ptr \<Rightarrow> nat \<Rightarrow> (byte list \<times> byte list) list \<Rightarrow> bool" where
  "arrays_hold m keys vals i kvs \<longleftrightarrow>
     (\<forall>j<length kvs. \<exists>p q. get_ptr m (padd keys (i + j)) = Inr p \<and> get_str m p = Inr (fst (kvs ! j)) \<and>
        get_ptr m (padd vals (i + j)) = Inr q \<and> get_str m q = Inr (snd (kvs ! j))) \<and>
     (\<exists>p. get_ptr m (padd keys (i + length kvs)) = Inr p \<and>
        (p = Null \<or> get_ptr m (padd vals (i + length kvs)) = Inr Null))"

lemma arrays_hold_Cons:
  assumes "arrays_hold m keys vals i ((k, v) # kvs)"
  obtains p q where "get_ptr m (padd keys i) = Inr p" "get_str m p = Inr k"
    "get_ptr m (padd vals i) = Inr q" "get_str m q = Inr v" "arrays_hold m keys vals (Suc i) kvs"
  using assms unfolding arrays_hold_def by (simp add: All_less_Suc2) metis

lemma pack_loop_run:
  assumes "alloc_total e" and "m0 r = None" "r < nxt s" "\<forall>b\<ge>nxt s. m0 b = None"
    and "blocks s = m0(r \<mapsto> map Byte acc @ R)" "length R \<le> 2"
    and "arrays_hold m0 (Addr kb 0) (Addr vb 0) i kvs" "length kvs < n"
  shows "pack_loop n (Addr kb 0) (Addr vb 0) f sp i (Addr r 0) (length acc) e s =
    (Ok (Addr (if kvs = [] then r else nxt s + length kvs - 1) 0, length (acc @ pack_spec f sp kvs)),
     s\<lparr>blocks := m0((if kvs = [] then r else nxt s + length kvs - 1) \<mapsto>
         map Byte (acc @ pack_spec f sp kvs) @ (if kvs = [] then R else [])),
       nxt := nxt s + length kvs\<rparr>)"
  using assms
proof (induction kvs arbitrary: n s r acc R i)
  case Nil
  then obtain n' where n: "n = Suc n'"
    by (cases n) auto
  obtain p where p: "get_ptr m0 (Addr kb i) = Inr p" "p = Null \<or> get_ptr m0 (Addr vb i) = Inr Null"
    using Nil.prems(7) by (auto simp: arrays_hold_def)
  have "s\<lparr>blocks := m0(r \<mapsto> map Byte acc @ R)\<rparr> = s"
    using Nil.prems(5) by (simp flip: Nil.prems(5))
  moreover have "get_ptr (blocks s) (Addr kb i) = Inr p"
    "p = Null \<or> get_ptr (blocks s) (Addr vb i) = Inr Null"
    using p get_ptr_upd_dead [where m = m0 and b = r] Nil.prems(2) unfolding Nil.prems(5) by metis+
  ultimately show ?case
    by (elim disjE) (simp_all add: n exec flip: Nil.prems(5))
next
  case (Cons kv kvs)
  obtain k v where kv: "kv = (k, v)"
    by (cases kv)
  obtain n' where n: "n = Suc n'" "length kvs < n'"
    using Cons.prems(8) by (cases n) auto
  obtain p q where pq: "get_ptr m0 (Addr kb i) = Inr p" "get_str m0 p = Inr k"
    "get_ptr m0 (Addr vb i) = Inr q" "get_str m0 q = Inr v"
    and rest: "arrays_hold m0 (Addr kb 0) (Addr vb 0) (Suc i) kvs"
    using Cons.prems(7) by (auto simp: kv elim: arrays_hold_Cons)
  let ?acc = "acc @ k @ f # v @ [sp]"
  let ?t = "s\<lparr>blocks := m0(nxt s \<mapsto> map Byte ?acc), nxt := Suc (nxt s)\<rparr>"
  have new: "m0 (nxt s) = None" "\<forall>b\<ge>nxt ?t. m0 b = None" "nxt s < nxt ?t"
    using Cons.prems(4) by auto
  have blk: "blocks ?t = m0(nxt s \<mapsto> map Byte ?acc @ [])"
    by simp
  note step = pack_loop_step [OF Cons.prems(1,2) new(1) Cons.prems(3,5,6) pq]
  note IH = Cons.IH [OF Cons.prems(1) new(1,3,2) blk _ rest n(2)]
  show ?case
    unfolding n(1) step kv using IH by (cases kvs) simp_all
qed


text \<open>
  The final \<open>realloc\<close> makes room for one byte more than was written, and the terminator
  is stored one past it.
\<close>

lemma pack_finish_run:
  assumes "alloc_total e" and "blocks s r = Some (map Byte out)"
  shows "pack_finish (Addr r 0) (length out) e s =
    (Err OutOfBounds, new_block (map Byte out @ [Undef]) (drop_block r s))"
  using assms by (simp add: pack_finish_def exec new_block_def drop_block_def)

lemma packData_run:
  assumes al: "alloc_total e" and fr: "fresh s" and kvs: "kvs \<noteq> []"
    and arr: "arrays_hold (blocks s) (Addr kb 0) (Addr vb 0) 0 kvs"
    and len: "length kvs \<le> arr_len (blocks s) (Addr kb 0)"
  shows "packData (Addr kb 0) (Addr vb 0) f sp e s =
    (Err OutOfBounds,
     s\<lparr>blocks := (blocks s)(nxt s + length kvs + 1 \<mapsto> map Byte (pack_spec f sp kvs) @ [Undef]),
       nxt := nxt s + length kvs + 2\<rparr>)"
proof -
  obtain k v kvs' where kv: "kvs = (k, v) # kvs'"
    using kvs by (metis list.exhaust surj_pair)
  obtain p q where pq: "get_ptr (blocks s) (Addr kb 0) = Inr p"
    "get_ptr (blocks s) (Addr vb 0) = Inr q"
    and "get_str (blocks s) p = Inr k" "get_str (blocks s) q = Inr v"
    using arr unfolding kv by (rule arrays_hold_Cons) auto
  then have ne: "p \<noteq> Null" "q \<noteq> Null"
    by auto
  let ?t = "s\<lparr>blocks := (blocks s)(nxt s \<mapsto> map Byte [] @ [Undef, Undef]), nxt := Suc (nxt s)\<rparr>"
  have n: "blocks s (nxt s) = None" "\<forall>b\<ge>nxt ?t. blocks s b = None"
    using fr by (auto intro: fresh_above)
  have al2: "arr_len ((blocks s)(nxt s \<mapsto> x)) (Addr kb 0) = arr_len (blocks s) (Addr kb 0)" for x
    using fr pq by (auto simp: arr_len_def get_ptr_def get_cells_def cells_of_def fresh_def
        split: option.splits)
  let ?n = "arr_len (blocks s) (Addr kb 0) + 1"
  let ?r = "nxt s + length kvs"
  have loop: "pack_loop ?n (Addr kb 0) (Addr vb 0) f sp 0 (Addr (nxt s) 0) (length ([] :: byte list)) e ?t =
    (Ok (Addr ?r 0, length (pack_spec f sp kvs)),
     ?t\<lparr>blocks := (blocks s)(?r \<mapsto> map Byte (pack_spec f sp kvs)), nxt := nxt ?t + length kvs\<rparr>)"
    using pack_loop_run [of e "blocks s" "nxt s" ?t "[]" "[Undef, Undef]" kb vb 0 kvs ?n f sp]
      al n arr len kvs by simp
  let ?u = "?t\<lparr>blocks := (blocks s)(?r \<mapsto> map Byte (pack_spec f sp kvs)), nxt := nxt ?t + length kvs\<rparr>"
  have fin: "pack_finish (Addr ?r 0) (length (pack_spec f sp kvs)) e ?u =
      (Err OutOfBounds, new_block (map Byte (pack_spec f sp kvs) @ [Undef]) (drop_block ?r ?u))"
    using al by (intro pack_finish_run) simp_all
  have "blocks s ?r = None"
    using fr by (simp add: fresh_above)
  then have "(blocks s)(?r := None) = blocks s"
    by auto
  then show ?thesis
    using al pq n loop fin al2 ne
    by (simp add: packData_def exec run_read_mem(1) numeral_2_eq_2 new_block_def drop_block_def
        del: pack_loop.simps)
qed

text \<open>
  Each turn reads one cell further in the key array, which no step of the loop resizes,
  so a fuel of one more than its cells is never used up.
\<close>

lemma arr_len_caller:
  assumes "caller_blocks s t" "b < nxt s"
  shows "arr_len (blocks t) (Addr b j) \<le> arr_len (blocks s) (Addr b j)"
proof (cases "blocks t b")
  case (Some cs')
  then obtain cs where "blocks s b = Some cs" "length cs' = length cs"
    using assms by (auto simp: caller_blocks_def)
  then show ?thesis
    using Some by (simp add: arr_len_def cells_of_def)
qed (simp add: arr_len_def cells_of_def)

interpretation any: step_guard caller_blocks "\<lambda>_. True"
  by unfold_locales

interpretation arr: step_guard caller_blocks "\<lambda>s. b < nxt s \<and> arr_len (blocks s) (Addr b j) \<le> n"
  for b j n
proof unfold_locales
  fix s t :: "'z cstate_scheme"
  assume "b < nxt s \<and> arr_len (blocks s) (Addr b j) \<le> n" and R: "caller_blocks s t"
  moreover from R have "nxt s \<le> nxt t"
    by (simp add: caller_blocks_def)
  ultimately show "b < nxt t \<and> arr_len (blocks t) (Addr b j) \<le> n"
    using arr_len_caller [OF R, of b j] by auto
qed

lemma get_ptr_arr_len: "get_ptr m (Addr b (j + i)) = Inr p \<Longrightarrow> i < arr_len m (Addr b j)"
  by (auto simp: get_ptr_def get_cells_def cells_of_def arr_len_def
      split: option.splits if_splits sum.splits)

lemma pack_loop_no_divergence:
  fixes s :: "'z cstate_scheme"
  assumes "kb < nxt s" "arr_len (blocks s) (Addr kb j) < i + n" "0 < n"
  shows "fst (pack_loop n (Addr kb j) vals f sp i r l e s) \<noteq> Err Diverges"
  using assms
proof (induction n arbitrary: i r l s e)
  case (Suc k)
  show ?case
  proof (cases "get_ptr (blocks s) (Addr kb (j + i))")
    case (Inl x)
    then show ?thesis
      using elem_no_div(2) [of "blocks s" "Addr kb (j + i)"] by (auto simp: exec)
  next
    case (Inr p)
    let ?n = "arr_len (blocks s) (Addr kb j)"
    let ?P = "\<lambda>s :: 'z cstate_scheme. kb < nxt s \<and> arr_len (blocks s) (Addr kb j) \<le> ?n"
    have "0 < k"
      using get_ptr_arr_len [OF Inr] Suc.prems by simp
    then have rec: "avoids Diverges ?P (pack_loop k (Addr kb j) vals f sp (i + 1) r l)" for r l
      using Suc.prems(2) Suc.IH unfolding avoids_def by auto
    let ?rest = "if p = Null then ret (r, l) else
     bnd (load_ptr (padd vals i)) (\<lambda>val.
     if val = Null then ret (r, l) else
     bnd (strlen p) (\<lambda>KeySize.
     bnd (strlen val) (\<lambda>ValSize.
     bnd (realloc r (l + (KeySize + ValSize + 2))) (\<lambda>rv.
     bnd (strcpy (padd rv l) p) (\<lambda>_.
     bnd (store_byte (padd rv (KeySize + l)) f) (\<lambda>_.
     bnd (strcpy (padd rv (KeySize + 1 + l)) val) (\<lambda>_.
     bnd (store_byte (padd rv (KeySize + 1 + ValSize + l)) sp) (\<lambda>_.
     pack_loop k (Addr kb j) vals f sp (i + 1) rv (l + (KeySize + ValSize + 2))))))))))"
    have "avoids Diverges ?P ?rest"
      by (intro arr.avoids_if arr.avoids_bnd arr.avoids_ret arr.avoids_access arr.avoids_string
          arr.avoids_alloc cb.keeps_access cb.keeps_string cb.keeps_realloc rec)
    then have "fst (?rest e s) \<noteq> Err Diverges"
      by (rule avoidsD) (simp add: Suc.prems(1))
    moreover have "pack_loop (Suc k) (Addr kb j) vals f sp i r l e s = ?rest e s"
      using Inr by (simp only: pack_loop.simps run_bnd padd.simps run_load_ptr(1) cont.simps)
    ultimately show ?thesis
      by simp
  qed
qed simp

lemma packData_no_divergence:
  fixes s :: "'z cstate_scheme"
  assumes "fresh s"
  shows "fst (packData keys vals f sp e s) \<noteq> Err Diverges"
proof (cases "get_ptr (blocks s) keys")
  case (Inl x)
  then show ?thesis
    using elem_no_div(2) [of "blocks s" keys] by (auto simp: packData_def exec)
next
  case (Inr p)
  then obtain kb j cs where k: "keys = Addr kb j" "blocks s kb = Some cs"
    by (cases keys) (auto simp: get_ptr_def get_cells_def cells_of_def split: option.splits)
  have kb: "kb < nxt s"
    using assms k by (simp add: fresh_less)
  let ?k = "arr_len (blocks s) keys"
  let ?P = "\<lambda>s :: 'z cstate_scheme. kb < nxt s \<and> arr_len (blocks s) (Addr kb j) \<le> ?k"
  have fin: "avoids Diverges (\<lambda>_ :: 'z cstate_scheme. True) (pack_finish r l)" for r l
    unfolding pack_finish_def
    by (intro any.avoids_bnd any.avoids_ret any.avoids_access any.avoids_alloc cb.keeps_access
        cb.keeps_realloc)
  let ?main = "\<lambda>rVal. bnd (read_mem (\<lambda>m. Inr (arr_len m keys))) (\<lambda>fuel.
     bnd (pack_loop (fuel + 1) keys vals f sp 0 rVal 0) (\<lambda>(rv, sRet). pack_finish rv sRet))"
  have main: "avoids Diverges ?P (?main r)" for r
    unfolding avoids_def
  proof (intro allI impI)
    fix e and u :: "'z cstate_scheme"
    let ?n = "arr_len (blocks u) keys + 1"
    assume "?P u"
    then have "fst (pack_loop ?n keys vals f sp 0 r 0 e u) \<noteq> Err Diverges"
      unfolding k(1) by (intro pack_loop_no_divergence) auto
    then have "fst (bnd (pack_loop ?n keys vals f sp 0 r 0) (\<lambda>(rv, sRet). pack_finish rv sRet) e u)
        \<noteq> Err Diverges"
      by (rule bnd_avoids) (use avoidsD [OF fin] in \<open>auto split: prod.split\<close>)
    then show "fst (?main r e u) \<noteq> Err Diverges"
      by (simp only: run_bnd run_read_mem(1) cont.simps simp_thms)
  qed
  have "avoids Diverges ?P (packData keys vals f sp)"
    unfolding packData_def
    by (intro arr.avoids_if arr.avoids_bnd arr.avoids_ret arr.avoids_access arr.avoids_alloc
        cb.keeps_access cb.keeps_malloc cb.keeps_if cb.keeps_bnd cb.keeps_ret main)
  then show ?thesis
    by (rule avoidsD) (simp add: kb k(1))
qed

end
