(* ===== verification/Net_Unpack.thy ===== *)
theory Net_Unpack
  imports Net_Split Net_Pack
begin

text \<open>
  \<open>unpackData\<close> and \<open>free_splitted\<close>: the pairs a message unpacks to, what is left in
  memory, and how the function ends for messages of one, two and more pairs.
\<close>

subsection \<open>A run of new blocks\<close>

primrec add_blocks :: "mem \<Rightarrow> nat \<Rightarrow> cell list list \<Rightarrow> mem" where
  "add_blocks m n [] = m"
| "add_blocks m n (c # cs) = add_blocks (m(n \<mapsto> c)) (Suc n) cs"

lemma add_blocks_apply:
  "add_blocks m n cs b = (if n \<le> b \<and> b < n + length cs then Some (cs ! (b - n)) else m b)"
  by (induction cs arbitrary: m n) (auto simp: nth_Cons' Suc_diff_Suc)

lemma add_blocks_upd:
  "r < n \<Longrightarrow> add_blocks (m(r := x)) n cs = (add_blocks m n cs)(r := x)"
  by (auto simp: fun_eq_iff add_blocks_apply)

lemma add_blocks_append:
  "add_blocks m n (xs @ ys) = add_blocks (add_blocks m n xs) (n + length xs) ys"
  by (induction xs arbitrary: m n) auto

lemma map_upt_two:
  "map f [0..<Suc (Suc n)] = f 0 # f 1 # map (\<lambda>j. f (Suc (Suc j))) [0..<n]"
  by (induction n) auto

subsection \<open>The loop of \<open>unpackData\<close>\<close>

text \<open>
  The two blocks a piece unpacks to: key and value, the value with a second terminator,
  or two blocks of the single byte \<open>IGNOREINFOBYTE\<close>, which are not strings.
\<close>

definition key_of :: "byte \<Rightarrow> byte list \<Rightarrow> byte list" where
  "key_of f q = takeWhile (\<lambda>x. x \<noteq> f) q"

definition val_of :: "byte \<Rightarrow> byte list \<Rightarrow> byte list" where
  "val_of f q = tl (dropWhile (\<lambda>x. x \<noteq> f) q)"

definition pair_cells :: "byte \<Rightarrow> byte list \<Rightarrow> cell list list" where
  "pair_cells f q = (if f \<in> set q then [cstr (key_of f q), cstr (val_of f q) @ [Byte NUL]]
     else [[Byte IGNOREINFOBYTE], [Byte IGNOREINFOBYTE]])"

lemma length_pair_cells [simp]: "length (pair_cells f q) = 2"
  by (simp add: pair_cells_def)

lemma drop_Cons_replicate [simp]: "drop n (x # replicate n x) = [x]"
  using drop_replicate [of n "Suc n" x] by simp

lemma two_updates:
  "Suc z < length cs \<Longrightarrow>
   take (Suc z) (cs[z := x]) @ y # drop (Suc (Suc z)) cs = cs[z := x, Suc z := y]"
  by (simp add: upd_conv_take_nth_drop)

lemma unpack_loop_plain:
  assumes al: "alloc_total e" and f: "f \<noteq> NUL"
    and new: "m0 r = None" "m0 (nxt s) = None" "m0 (Suc (nxt s)) = None" "r < nxt s"
    and blk: "blocks s = m0(r \<mapsto> cs)" and z: "z + 2 \<le> length cs"
    and p: "get_ptr m0 (Addr a i) = Inr p" "get_str m0 p = Inr q" and no: "f \<notin> set q"
  shows "unpack_loop (Suc i) (Addr a 0) (Addr r 0) f z e s =
    unpack_loop i (Addr a 0) (Addr r 0) f (z + 2) e
      (s\<lparr>blocks := m0(nxt s \<mapsto> [Byte IGNOREINFOBYTE],
            r \<mapsto> cs[z := PtrC (Addr (nxt s) 0), Suc z := PtrC (Addr (Suc (nxt s)) 0)],
            Suc (nxt s) \<mapsto> [Byte IGNOREINFOBYTE]),
          nxt := nxt s + 2\<rparr>)"
proof -
  have ne: "r \<noteq> nxt s" "nxt s \<noteq> r" "r \<noteq> Suc (nxt s)" "Suc (nxt s) \<noteq> r"
    using new by auto
  show ?thesis
    using al f new p no z
    by (simp add: exec blk ne find_chr_def new_block_def upd_conv_take_nth_drop [symmetric]
        two_updates)
qed

lemma unpack_loop_pair:
  assumes al: "alloc_total e" and f: "f \<noteq> NUL"
    and new: "m0 r = None" "m0 (nxt s) = None" "m0 (Suc (nxt s)) = None" "r < nxt s"
    and blk: "blocks s = m0(r \<mapsto> cs)" and z: "z + 2 \<le> length cs"
    and p: "get_ptr m0 (Addr a i) = Inr (Addr pb 0)" "get_str m0 (Addr pb 0) = Inr q" and no: "f \<in> set q"
  shows "unpack_loop (Suc i) (Addr a 0) (Addr r 0) f z e s =
    unpack_loop i (Addr a 0) (Addr r 0) f (z + 2) e
      (s\<lparr>blocks := m0(r \<mapsto> cs[z := PtrC (Addr (nxt s) 0), Suc z := PtrC (Addr (Suc (nxt s)) 0)],
            nxt s \<mapsto> cstr (key_of f q),
            Suc (nxt s) \<mapsto> cstr (val_of f q) @ [Byte NUL]),
          nxt := nxt s + 2\<rparr>)"
proof -
  have ne: "r \<noteq> nxt s" "nxt s \<noteq> r" "r \<noteq> Suc (nxt s)" "Suc (nxt s) \<noteq> r"
    using new by auto
  have "pb \<noteq> r" "pb \<noteq> nxt s" "pb \<noteq> Suc (nxt s)"
    using p new by (auto elim: get_str_blockE)
  note ne = ne this
  let ?k = "length (takeWhile (\<lambda>x. x \<noteq> f) q)"
  have len: "length q = Suc (?k + length (val_of f q))" "?k < length q"
    using length_tl_dropWhile [OF no] length_takeWhile_less [OF no] by (simp_all add: val_of_def)
  have key: "get_cells m0 (Addr pb 0) ?k = Inr (map Byte (key_of f q))"
    using get_cells_str [OF p(2), of ?k] len by (simp add: key_of_def takeWhile_eq_take [symmetric])
  have "get_str m0 (Addr pb (Suc ?k)) = Inr (val_of f q)"
    using get_str_padd [OF p(2), of "Suc ?k"] len no by (simp add: drop_takeWhile_tl val_of_def)
  then have val: "get_cells m0 (Addr pb (Suc ?k)) (Suc (length (val_of f q))) = Inr (cstr (val_of f q))"
    by (simp add: get_cells_str_NUL cstr_def)
  have k: "?k = length (key_of f q)"
    by (simp add: key_of_def)
  show ?thesis
    using al f new p no z len key val
    by (simp add: exec blk ne find_chr_def new_block_def upd_conv_take_nth_drop [symmetric]
        two_updates Let_def k cstr_def)
qed

text \<open>The pieces that are still to be unpacked, the last one first.\<close>

definition pieces_at :: "mem \<Rightarrow> nat \<Rightarrow> byte list list \<Rightarrow> bool" where
  "pieces_at m a qs \<longleftrightarrow>
     (\<forall>j<length qs. \<exists>b. get_ptr m (Addr a j) = Inr (Addr b 0) \<and> get_str m (Addr b 0) = Inr (qs ! j))"

lemma pieces_at_snoc:
  assumes "pieces_at m a (qs @ [q])"
  shows "pieces_at m a qs"
    and "\<exists>b. get_ptr m (Addr a (length qs)) = Inr (Addr b 0) \<and> get_str m (Addr b 0) = Inr q"
proof -
  show "pieces_at m a qs"
    unfolding pieces_at_def
  proof (intro allI impI)
    fix j
    assume "j < length qs"
    then show "\<exists>b. get_ptr m (Addr a j) = Inr (Addr b 0) \<and> get_str m (Addr b 0) = Inr (qs ! j)"
      using assms unfolding pieces_at_def by (metis length_append less_SucI nth_append One_nat_def
          add.right_neutral add_Suc_right list.size(3,4))
  qed
  show "\<exists>b. get_ptr m (Addr a (length qs)) = Inr (Addr b 0) \<and> get_str m (Addr b 0) = Inr q"
    using assms unfolding pieces_at_def by (auto simp: nth_append dest: spec [of _ "length qs"])
qed

lemma pieces_at_upd:
  "pieces_at m a qs \<Longrightarrow> m b = None \<Longrightarrow> pieces_at (m(b := x)) a qs"
  unfolding pieces_at_def by (meson get_ptr_upd_dead get_str_upd_dead)

definition unpacked :: "byte \<Rightarrow> byte list list \<Rightarrow> cell list list" where
  "unpacked f qs = concat (map (pair_cells f) (rev qs))"

lemma unpacked_simps [simp]:
  "unpacked f [] = []"
  "unpacked f (qs @ [q]) = pair_cells f q @ unpacked f qs"
  by (simp_all add: unpacked_def)

lemma length_unpacked [simp]: "length (unpacked f qs) = 2 * length qs"
  by (induction qs rule: rev_induct) auto

text \<open>One turn, whatever the piece holds.\<close>

lemma unpack_loop_step:
  assumes al: "alloc_total e" and f: "f \<noteq> NUL"
    and new: "m0 r = None" "m0 (nxt s) = None" "m0 (Suc (nxt s)) = None" "r < nxt s"
    and blk: "blocks s = m0(r \<mapsto> cs)" and z: "z + 2 \<le> length cs"
    and p: "get_ptr m0 (Addr a i) = Inr (Addr pb 0)" "get_str m0 (Addr pb 0) = Inr q"
  shows "unpack_loop (Suc i) (Addr a 0) (Addr r 0) f z e s =
    unpack_loop i (Addr a 0) (Addr r 0) f (z + 2) e
      (s\<lparr>blocks := (add_blocks m0 (nxt s) (pair_cells f q))
            (r \<mapsto> cs[z := PtrC (Addr (nxt s) 0), Suc z := PtrC (Addr (Suc (nxt s)) 0)]),
          nxt := nxt s + 2\<rparr>)"
proof -
  have r: "r \<noteq> nxt s" "r \<noteq> Suc (nxt s)"
    using new by auto
  have perm: "m0(nxt s \<mapsto> x, r \<mapsto> w, Suc (nxt s) \<mapsto> y) = m0(nxt s \<mapsto> x, Suc (nxt s) \<mapsto> y, r \<mapsto> w)"
    "m0(r \<mapsto> w, nxt s \<mapsto> x, Suc (nxt s) \<mapsto> y) = m0(nxt s \<mapsto> x, Suc (nxt s) \<mapsto> y, r \<mapsto> w)" for x y w
    using r by (auto simp: fun_eq_iff)
  show ?thesis
  proof (cases "f \<in> set q")
    case True
    then show ?thesis
      unfolding unpack_loop_pair [OF al f new blk z p True] perm
      by (simp add: pair_cells_def)
  next
    case False
    then show ?thesis
      unfolding unpack_loop_plain [OF al f new blk z p False] perm
      by (simp add: pair_cells_def)
  qed
qed

lemma unpack_loop_run:
  assumes "alloc_total e" "f \<noteq> NUL" "m0 r = None" "r < nxt s" "\<forall>b\<ge>nxt s. m0 b = None"
    and "blocks s = m0(r \<mapsto> cs)" "z + 2 * length qs \<le> length cs" "pieces_at m0 a qs"
  shows "unpack_loop (length qs) (Addr a 0) (Addr r 0) f z e s =
    (Ok (), s\<lparr>blocks := (add_blocks m0 (nxt s) (unpacked f qs))
        (r \<mapsto> take z cs @ map (\<lambda>j. PtrC (Addr (nxt s + j) 0)) [0..<2 * length qs] @
             drop (z + 2 * length qs) cs),
       nxt := nxt s + 2 * length qs\<rparr>)"
  using assms
proof (induction qs arbitrary: m0 s cs z rule: rev_induct)
  case Nil
  then show ?case
    by (simp add: exec flip: Nil.prems(6))
next
  case (snoc q qs)
  obtain b where b: "get_ptr m0 (Addr a (length qs)) = Inr (Addr b 0)" "get_str m0 (Addr b 0) = Inr q"
    and rest: "pieces_at m0 a qs"
    using pieces_at_snoc [OF snoc.prems(8)] by auto
  have new: "m0 (nxt s) = None" "m0 (Suc (nxt s)) = None"
    using snoc.prems(5) by auto
  let ?m = "add_blocks m0 (nxt s) (pair_cells f q)"
  let ?c = "cs[z := PtrC (Addr (nxt s) 0), Suc z := PtrC (Addr (Suc (nxt s)) 0)]"
  let ?t = "s\<lparr>blocks := ?m(r \<mapsto> ?c), nxt := nxt s + 2\<rparr>"
  have z: "z + 2 \<le> length cs" "z + 2 + 2 * length qs \<le> length ?c"
    using snoc.prems(7) by auto
  note step = unpack_loop_step [OF snoc.prems(1-3) new snoc.prems(4,6) z(1) b]
  have "pieces_at ?m a qs"
    using rest new by (auto simp: pair_cells_def pieces_at_upd)
  moreover have "?m r = None" "\<forall>b\<ge>nxt ?t. ?m b = None" "r < nxt ?t"
    using snoc.prems(3-5) by (auto simp: add_blocks_apply)
  ultimately have IH: "unpack_loop (length qs) (Addr a 0) (Addr r 0) f (z + 2) e ?t =
    (Ok (), ?t\<lparr>blocks := (add_blocks ?m (nxt ?t) (unpacked f qs))
        (r \<mapsto> take (z + 2) ?c @ map (\<lambda>j. PtrC (Addr (nxt ?t + j) 0)) [0..<2 * length qs] @
             drop (z + 2 + 2 * length qs) ?c),
       nxt := nxt ?t + 2 * length qs\<rparr>)"
    by (intro snoc.IH snoc.prems(1,2) z(2)) simp_all
  have "take (z + 2) ?c = take z cs @ [PtrC (Addr (nxt s) 0), PtrC (Addr (Suc (nxt s)) 0)]"
    using z(1) by (simp add: list_update_append take_Suc_conv_app_nth)
  then have cells: "take (z + 2) ?c @ map (\<lambda>j. PtrC (Addr (nxt ?t + j) 0)) [0..<2 * length qs] @
      drop (z + 2 + 2 * length qs) ?c = take z cs @
      map (\<lambda>j. PtrC (Addr (nxt s + j) 0)) [0..<2 * length (qs @ [q])] @ drop (z + 2 * length (qs @ [q])) cs"
    by (simp add: map_upt_two del: upt_Suc)
  have mem: "add_blocks ?m (nxt ?t) (unpacked f qs) = add_blocks m0 (nxt s) (unpacked f (qs @ [q]))"
    by (simp add: add_blocks_append)
  have upd: "?t\<lparr>blocks := x, nxt := nxt ?t + 2 * length qs\<rparr> =
      s\<lparr>blocks := x, nxt := nxt s + 2 * length (qs @ [q])\<rparr>" for x
    by simp
  have "unpack_loop (Suc (length qs)) (Addr a 0) (Addr r 0) f z e s =
    (Ok (), s\<lparr>blocks := (add_blocks m0 (nxt s) (unpacked f (qs @ [q])))
        (r \<mapsto> take z cs @ map (\<lambda>j. PtrC (Addr (nxt s + j) 0)) [0..<2 * length (qs @ [q])] @
             drop (z + 2 * length (qs @ [q])) cs),
       nxt := nxt s + 2 * length (qs @ [q])\<rparr>)"
    unfolding step IH cells mem upd ..
  then show ?case
    by (simp only: length_append_singleton)
qed

subsection \<open>Freeing the pieces\<close>

lemma free_splitted_le1:
  "blocks s a = Some cs \<Longrightarrow> n \<le> 1 \<Longrightarrow> free_splitted (Addr a 0) n e s = (Ok (), drop_block a s)"
  by (cases n) (simp_all add: free_splitted_def exec)

text \<open>Of two pieces only the first is freed, and only if the second is not empty.\<close>

lemma free_splitted_two:
  assumes "blocks s a = Some cs" "get_ptr (blocks s) (Addr a 0) = Inr (Addr b0 0)"
    "get_ptr (blocks s) (Addr a 1) = Inr (Addr b1 0)"
    "blocks s b0 = Some (cstr q0)" "blocks s b1 = Some (cstr q1)" "NUL \<notin> set q1" "a \<noteq> b0"
  shows "free_splitted (Addr a 0) 2 e s =
    (Ok (), drop_block a (if q1 = [] then s else drop_block b0 s))"
proof -
  have "get_byte (blocks s) (Addr b1 0) = Inr (if q1 = [] then NUL else hd q1)"
    using assms by (cases q1) (simp_all add: get_byte_block cstr_def)
  moreover have "q1 \<noteq> [] \<Longrightarrow> hd q1 \<noteq> NUL"
    using assms(6) by (cases q1) auto
  ultimately show ?thesis
    using assms by (simp add: free_splitted_def exec numeral_2_eq_2)
qed

text \<open>With three pieces or more the loop reads the first byte of a piece it has freed.\<close>

lemma free_splitted_use_after_free:
  assumes "get_ptr (blocks s) (Addr a (n + 2)) = Inr p" "get_byte (blocks s) p = Inr c" "c \<noteq> NUL"
    and "get_ptr (blocks s) (Addr a (n + 1)) = Inr (Addr b 0)" "blocks s b = Some cs" "b \<noteq> a"
  shows "free_splitted (Addr a 0) (n + 3) e s = (Err UseAfterFree, drop_block b s)"
proof -
  have "get_ptr ((blocks s)(b := None)) (Addr a (n + 1)) = Inr (Addr b 0)"
    using assms(4,6) by (simp add: get_ptr_def)
  moreover have "get_byte ((blocks s)(b := None)) (Addr b 0) = Inl UseAfterFree"
    by (simp add: get_byte_def get_cells_def cells_of_def)
  ultimately show ?thesis
    using assms by (simp add: free_splitted_def exec numeral_2_eq_2 numeral_3_eq_3)
qed

subsection \<open>The whole function\<close>

lemma unpackData_mismatch:
  assumes "get_str (blocks s) data = Inr xs"
    and "length (filter (\<lambda>x. x \<noteq> f \<and> x = sp) xs) \<noteq> length (filter (\<lambda>x. x = f) xs)"
  shows "unpackData data rt0 f sp e s = (Ok (Null, rt0), s)"
  using assms by (simp add: unpackData_def exec Let_def)

definition balanced :: "byte \<Rightarrow> byte \<Rightarrow> byte list \<Rightarrow> bool" where
  "balanced f sp xs \<longleftrightarrow>
     length (filter (\<lambda>x. x \<noteq> f \<and> x = sp) xs) = length (filter (\<lambda>x. x = f) xs)"

lemma unpackData_until_free:
  assumes al: "alloc_total e" and fr: "fresh s" and c: "f \<noteq> NUL" "sp \<noteq> NUL"
    and data: "get_str (blocks s) data = Inr xs" "xs \<noteq> []" "balanced f sp xs"
    and qs: "qs = split_spec max_splitted sp xs" and room: "2 * length qs \<le> rt0" "rt0 < 2 ^ 61"
  shows "\<exists>u a ps r rs.
    unpackData data rt0 f sp e s =
      cont (free_splitted (Addr a 0) (length qs) e u) (\<lambda>_. ret (Addr r 0, length qs * 2) e) \<and>
    blocks u a = Some (map PtrC ps) \<and> distinct ps \<and>
    list_all2 (\<lambda>p q. \<exists>b. p = Addr b 0 \<and> blocks u b = Some (cstr q) \<and> b \<noteq> a \<and> b < r \<and> blocks s b = None) ps qs \<and>
    blocks u r = Some (map PtrC rs @ replicate (rt0 - 2 * length qs) Undef) \<and>
    list_all2 (\<lambda>p c. \<exists>b>r. p = Addr b 0 \<and> blocks u b = Some c) rs (unpacked f qs) \<and>
    (\<forall>b cs. blocks s b = Some cs \<longrightarrow> blocks u b = Some cs) \<and> blocks s a = None \<and> a < r"
proof -
  obtain m1 a ps where split: "split_msg data sp (length xs) e s =
      (Ok (Addr a 0, length ps),
       s\<lparr>blocks := m1(a \<mapsto> map PtrC ps), nxt := nxt s + 2 + 2 * length ps\<rparr>)"
    and pieces: "pieces_in (blocks s) m1 (nxt s) ps qs"
    and m1: "m1 a = None" "nxt s \<le> a" "\<forall>b\<ge>nxt s + 2 + 2 * length ps. m1 b = None"
      "a < nxt s + 2 + 2 * length ps"
    using split_msg_run [OF al c(2) fr data(1), of "length xs"] data(2) qs by auto
  let ?r = "nxt s + 2 + 2 * length qs"
  let ?m = "m1(a \<mapsto> map PtrC ps)"
  have len: "length ps = length qs"
    using pieces by (auto simp: pieces_in_def list_all2_lengthD)
  note split = split [unfolded len] and m1 = m1 [unfolded len]
  have nz: "NUL \<notin> set (qs ! j)" if "j < length qs" for j
    using split_spec_subset [of "qs ! j" max_splitted sp xs] that get_str_nonzero [OF data(1)] qs by auto
  have l: "list_all2 (\<lambda>p q. \<exists>b\<ge>nxt s. p = Addr b 0 \<and> m1 b = Some (cstr q)) ps qs"
    using pieces by (simp add: pieces_in_def)
  have at: "pieces_at ?m a qs"
    unfolding pieces_at_def
  proof (intro allI impI)
    fix j
    assume j: "j < length qs"
    then obtain b where b: "ps ! j = Addr b 0" "m1 b = Some (cstr (qs ! j))"
      using l by (auto dest: list_all2_nthD2)
    then have "b \<noteq> a"
      using m1 by auto
    then show "\<exists>b. get_ptr ?m (Addr a j) = Inr (Addr b 0) \<and> get_str ?m (Addr b 0) = Inr (qs ! j)"
      using b j len nz by (intro exI [of _ b]) (simp add: get_ptr_block)
  qed
  let ?c = "replicate rt0 Undef"
  let ?t = "s\<lparr>blocks := ?m(?r \<mapsto> ?c), nxt := Suc ?r\<rparr>"
  let ?rs = "map (\<lambda>j. Addr (Suc ?r + j) 0) [0..<2 * length qs]"
  let ?u = "?t\<lparr>blocks := (add_blocks ?m (nxt ?t) (unpacked f qs))
        (?r \<mapsto> take 0 ?c @ map (\<lambda>j. PtrC (Addr (nxt ?t + j) 0)) [0..<2 * length qs] @
             drop (0 + 2 * length qs) ?c),
       nxt := nxt ?t + 2 * length qs\<rparr>"
  have "unpack_loop (length qs) (Addr a 0) (Addr ?r 0) f 0 e ?t = (Ok (), ?u)"
    by (rule unpack_loop_run) (use al c m1 at room in auto)
  then have run: "unpackData data rt0 f sp e s =
      cont (free_splitted (Addr a 0) (length qs) e ?u) (\<lambda>_. ret (Addr ?r 0, length qs * 2) e)"
    using split al data(1,3) len room(2) by (simp add: unpackData_def exec balanced_def new_block_def)
      (simp cong del: cont_cong)
  have old: "blocks ?u b = ?m b" if "b < ?r" for b
    using that by (simp add: add_blocks_apply)
  have "list_all2 (\<lambda>p q. \<exists>b. p = Addr b 0 \<and> blocks ?u b = Some (cstr q) \<and> b \<noteq> a \<and> b < ?r \<and>
      blocks s b = None) ps qs"
    using l
  proof (rule list_all2_mono)
    fix p q
    assume "\<exists>b\<ge>nxt s. p = Addr b 0 \<and> m1 b = Some (cstr q)"
    then obtain b where b: "p = Addr b 0" "m1 b = Some (cstr q)" "nxt s \<le> b"
      by auto
    then have "b < ?r" "b \<noteq> a" "blocks s b = None"
      using m1 fr by (auto simp: not_le [symmetric] fresh_above)
    then show "\<exists>b. p = Addr b 0 \<and> blocks ?u b = Some (cstr q) \<and> b \<noteq> a \<and> b < ?r \<and> blocks s b = None"
      using b old [of b] by (intro exI [of _ b]) simp
  qed
  moreover have "list_all2 (\<lambda>p c. \<exists>b>?r. p = Addr b 0 \<and> blocks ?u b = Some c) ?rs (unpacked f qs)"
    by (auto simp: list_all2_conv_all_nth add_blocks_apply)
  moreover have "blocks ?u b = Some cs" if "blocks s b = Some cs" for b cs
  proof -
    have "b < nxt s"
      using that fr by (simp add: fresh_less)
    then show ?thesis
      using old [of b] m1 that pieces by (auto simp: pieces_in_def)
  qed
  moreover have "blocks ?u ?r = Some (map PtrC ?rs @ replicate (rt0 - 2 * length qs) Undef)"
    by simp
  moreover have "blocks ?u a = Some (map PtrC ps)" "blocks s a = None" "a < ?r" "distinct ps"
    using old [of a] m1 fr pieces by (auto simp: fresh_above pieces_in_def)
  ultimately show ?thesis
    using run by blast
qed

lemma unpackData_few:
  assumes al: "alloc_total e" and fr: "fresh s" and c: "f \<noteq> NUL" "sp \<noteq> NUL"
    and data: "get_str (blocks s) data = Inr xs" "xs \<noteq> []" "balanced f sp xs"
    and qs: "qs = split_spec max_splitted sp xs" and room: "2 * length qs \<le> rt0" "rt0 < 2 ^ 61"
    and few: "length qs \<le> 2"
  shows "\<exists>t r rs. unpackData data rt0 f sp e s = (Ok (Addr r 0, length qs * 2), t) \<and>
    blocks t r = Some (map PtrC rs @ replicate (rt0 - 2 * length qs) Undef) \<and>
    list_all2 (\<lambda>p c. \<exists>b. p = Addr b 0 \<and> blocks t b = Some c) rs (unpacked f qs) \<and>
    (\<forall>b cs. blocks s b = Some cs \<longrightarrow> blocks t b = Some cs)"
proof -
  obtain u a ps r rs where run: "unpackData data rt0 f sp e s =
      cont (free_splitted (Addr a 0) (length qs) e u) (\<lambda>_. ret (Addr r 0, length qs * 2) e)"
    and u: "blocks u a = Some (map PtrC ps)" "distinct ps"
    and ps: "list_all2 (\<lambda>p q. \<exists>b. p = Addr b 0 \<and> blocks u b = Some (cstr q) \<and> b \<noteq> a \<and> b < r \<and> blocks s b = None) ps qs"
    and r: "blocks u r = Some (map PtrC rs @ replicate (rt0 - 2 * length qs) Undef)"
    and rs: "list_all2 (\<lambda>p c. \<exists>b>r. p = Addr b 0 \<and> blocks u b = Some c) rs (unpacked f qs)"
    and old: "\<forall>b cs. blocks s b = Some cs \<longrightarrow> blocks u b = Some cs" and a: "blocks s a = None" "a < r"
    using unpackData_until_free [OF al fr c data qs room] by blast
  have "\<exists>t. free_splitted (Addr a 0) (length qs) e u = (Ok (), t) \<and>
      (\<forall>b. blocks s b \<noteq> None \<or> r \<le> b \<longrightarrow> blocks t b = blocks u b)"
  proof (cases "length qs \<le> 1")
    case True
    show ?thesis
      unfolding free_splitted_le1 [OF u(1) True] using a by auto
  next
    case False
    with few obtain q0 q1 where q: "qs = [q0, q1]"
      by (cases qs rule: remdups_adj.cases) auto
    with ps obtain b0 b1 where b: "ps = [Addr b0 0, Addr b1 0]" "blocks u b0 = Some (cstr q0)"
      "blocks u b1 = Some (cstr q1)" "a \<noteq> b0" "b0 < r" "blocks s b0 = None"
      by (auto simp: list_all2_Cons2)
    have "q1 \<in> set qs"
      by (simp add: q)
    then have "NUL \<notin> set q1"
      using split_spec_subset [of q1 max_splitted sp xs] get_str_nonzero [OF data(1)] qs by auto
    then have "free_splitted (Addr a 0) 2 e u =
        (Ok (), drop_block a (if q1 = [] then u else drop_block b0 u))"
      using b u by (intro free_splitted_two) (simp_all add: get_ptr_block)
    then show ?thesis
      using a b q by (auto simp: numeral_2_eq_2)
  qed
  then obtain t where t: "free_splitted (Addr a 0) (length qs) e u = (Ok (), t)"
    and keep: "blocks s b \<noteq> None \<or> r \<le> b \<Longrightarrow> blocks t b = blocks u b" for b
    by auto
  have "list_all2 (\<lambda>p c. \<exists>b. p = Addr b 0 \<and> blocks t b = Some c) rs (unpacked f qs)"
    using rs by (rule list_all2_mono) (use keep in \<open>metis order_less_imp_le\<close>)
  moreover have "unpackData data rt0 f sp e s = (Ok (Addr r 0, length qs * 2), t)"
    by (simp add: run t exec)
  ultimately show ?thesis
    using r old keep [of r] keep by (intro exI [of _ t] exI [of _ r] exI [of _ rs]) auto
qed

lemma unpackData_many:
  assumes al: "alloc_total e" and fr: "fresh s" and c: "f \<noteq> NUL" "sp \<noteq> NUL"
    and data: "get_str (blocks s) data = Inr xs" "xs \<noteq> []" "balanced f sp xs"
    and qs: "qs = split_spec max_splitted sp xs" and room: "2 * length qs \<le> rt0" "rt0 < 2 ^ 61"
    and many: "3 \<le> length qs" "last qs \<noteq> []"
  shows "fst (unpackData data rt0 f sp e s) = Err UseAfterFree"
proof -
  obtain u a ps r rs where run: "unpackData data rt0 f sp e s =
      cont (free_splitted (Addr a 0) (length qs) e u) (\<lambda>_. ret (Addr r 0, length qs * 2) e)"
    and u: "blocks u a = Some (map PtrC ps)" "distinct ps"
    and ps: "list_all2 (\<lambda>p q. \<exists>b. p = Addr b 0 \<and> blocks u b = Some (cstr q) \<and> b \<noteq> a \<and> b < r \<and> blocks s b = None) ps qs"
    using unpackData_until_free [OF al fr c data qs room] by blast
  obtain n where n: "length qs = n + 3"
    using many(1) by (metis le_add_diff_inverse2)
  obtain b q where b: "ps ! (n + 1) = Addr b 0" "blocks u b = Some (cstr q)" "b \<noteq> a"
    using list_all2_nthD2 [OF ps, of "n + 1"] n by auto
  obtain b' where b': "ps ! (n + 2) = Addr b' 0" "blocks u b' = Some (cstr (last qs))"
    using list_all2_nthD2 [OF ps, of "n + 2"] n last_conv_nth [of qs] many(1) by force
  have "last qs \<in> set qs"
    using many by (metis last_in_set list.size(3) not_numeral_le_zero)
  then have "NUL \<notin> set (last qs)"
    using split_spec_subset [of "last qs" max_splitted sp xs] get_str_nonzero [OF data(1)] qs by auto
  then obtain x y where xy: "last qs = x # y" "x \<noteq> NUL"
    using many(2) by (cases "last qs") auto
  have "length ps = n + 3"
    using ps n by (simp add: list_all2_lengthD)
  moreover have "get_byte (blocks u) (Addr b' 0) = Inr x"
    using get_byte_block [of "blocks u" b' "cstr (last qs)" 0] b'(2) by (simp add: xy cstr_def)
  ultimately have "free_splitted (Addr a 0) (n + 3) e u = (Err UseAfterFree, drop_block b u)"
    using b b'(1) u xy by (intro free_splitted_use_after_free) (simp_all add: get_ptr_block)
  then show ?thesis
    by (simp add: run n)
qed

subsection \<open>Packing and unpacking are inverse on lists\<close>

definition clean :: "byte \<Rightarrow> byte \<Rightarrow> byte list \<times> byte list \<Rightarrow> bool" where
  "clean f sp kv \<longleftrightarrow> f \<notin> set (fst kv) \<and> sp \<notin> set (fst kv) \<and> f \<notin> set (snd kv) \<and> sp \<notin> set (snd kv)"

lemma split_pack:
  assumes "list_all (clean f sp) kvs" "length kvs \<le> k" "f \<noteq> sp" "sp \<noteq> CR"
  shows "split_spec k sp (pack_spec f sp kvs) = map (\<lambda>(key, val). key @ f # val) kvs"
  using assms
proof (induction kvs arbitrary: k)
  case Nil
  then show ?case
    by (cases k) (simp_all add: find_sep_def)
next
  case (Cons kv kvs)
  obtain key val where kv: "kv = (key, val)"
    by (cases kv)
  obtain k' where k: "k = Suc k'"
    using Cons.prems by (cases k) auto
  let ?q = "key @ f # val"
  have no: "sp \<notin> set ?q"
    using Cons.prems kv by (auto simp: clean_def)
  have eq: "pack_spec f sp (kv # kvs) = ?q @ sp # pack_spec f sp kvs"
    by (simp add: kv)
  have "find_sep sp (pack_spec f sp (kv # kvs)) = Some sp"
    by (simp add: eq find_sep_def)
  then show ?case
    using Cons unfolding k eq
    by (simp add: takeWhile_append_notin [OF no, simplified] dropWhile_append_notin [OF no, simplified] kv)
qed

lemma balanced_pack:
  assumes "list_all (clean f sp) kvs" "f \<noteq> sp"
  shows "balanced f sp (pack_spec f sp kvs)"
  using assms
proof (induction kvs)
  case (Cons kv kvs)
  obtain key val where kv: "kv = (key, val)"
    by (cases kv)
  have none: "filter (\<lambda>x. x \<noteq> f \<and> x = sp) xs = []" "filter (\<lambda>x. x = f) xs = []"
    if "f \<notin> set xs" "sp \<notin> set xs" for xs
    using that by (auto simp: filter_empty_conv)
  show ?case
    using Cons by (auto simp: balanced_def kv clean_def none)
qed (simp add: balanced_def)

lemma key_val_of:
  "f \<notin> set key \<Longrightarrow> key_of f (key @ f # val) = key \<and> val_of f (key @ f # val) = val"
  by (simp add: key_of_def val_of_def takeWhile_append_notin dropWhile_append_notin)

lemma unpack_pack:
  assumes "list_all (clean f sp) kvs" "length kvs \<le> k" "f \<noteq> sp" "sp \<noteq> CR"
  shows "map (\<lambda>q. (key_of f q, val_of f q)) (split_spec k sp (pack_spec f sp kvs)) = kvs"
  using assms(1) unfolding split_pack [OF assms]
  by (induction kvs) (auto simp: clean_def key_val_of)

end
