(* ===== verification/Net_Props.thy ===== *)
theory Net_Props
  imports Net_Join Net_Unpack
begin

text \<open>The properties of the message helpers of \<open>net.c\<close>, each with a concrete instance.\<close>

subsection \<open>Splitting\<close>

text \<open>Claim C1: on a readable message, with a work buffer as long as the message and a
  separator other than the terminator, \<open>split_msg\<close> returns an array with one fresh block
  for each piece of the list specification \<open>split_spec\<close>, each block holding exactly its
  piece; every block that existed before is as it was, the work buffer is gone, and
  nothing else is allocated.\<close>

theorem split_msg_refines:
  assumes "alloc_total e" "c \<noteq> NUL" "fresh s" "get_str (blocks s) buf = Inr xs"
    and "length xs \<le> n" "0 < n"
  shows "\<exists>m1 a1 ps1. split_msg buf c n e s =
      (Ok (Addr a1 0, length ps1),
       s\<lparr>blocks := m1(a1 \<mapsto> map PtrC ps1), nxt := nxt s + 2 + 2 * length ps1\<rparr>) \<and>
    pieces_in (blocks s) m1 (nxt s) ps1 (split_spec max_splitted c xs) \<and>
    m1 a1 = None \<and> nxt s \<le> a1"
  using split_msg_run [OF assms] by blast

theorem split_msg_refines_witness:
  fixes s defines "s \<equiv> state_of [cstr [97, 59, 98, 59]]"
  shows "\<exists>m1 a1 ps1. split_msg (Addr 0 0) 59 4 (const_env RUnit) s =
      (Ok (Addr a1 0, length ps1),
       s\<lparr>blocks := m1(a1 \<mapsto> map PtrC ps1), nxt := nxt s + 2 + 2 * length ps1\<rparr>) \<and>
    pieces_in (blocks s) m1 (nxt s) ps1 (split_spec max_splitted 59 [97, 59, 98, 59]) \<and>
    m1 a1 = None \<and> nxt s \<le> a1"
  by (rule split_msg_refines) (simp_all add: s_def)

text \<open>A message whose pieces all end with the separator is split into exactly
  those pieces, up to the limit \<open>max_splitted\<close> of the source, and what follows them is
  split with the turns that are left.\<close>

theorem split_gives_pieces_back:
  assumes "\<forall>q\<in>set qs. c \<notin> set q" "length qs \<le> max_splitted"
  shows "split_spec max_splitted c (concat (map (\<lambda>q. q @ [c]) qs) @ rest) =
    qs @ split_spec (max_splitted - length qs) c rest"
  using assms by (rule split_spec_concat)

theorem split_gives_pieces_back_witness:
  "split_spec max_splitted 59 (concat (map (\<lambda>q. q @ [59]) [[97], [], [98, 99]]) @ [100]) =
    [[97], [], [98, 99]] @ split_spec (max_splitted - length [[97], [], [98, 99 :: byte]]) 59 [100]"
  by (rule split_gives_pieces_back) (simp_all add: max_splitted_def)

subsection \<open>Packing\<close>

text \<open>Claim C20: for two arrays of readable strings up to the first \<open>NULL\<close>, \<open>packData\<close> returns \<open>NULL\<close> if
  there is no pair, and otherwise writes \<open>key=value;\<close> for every pair, in order and each into the block that it has resized
  to hold it, and then stores the terminator one cell past the last of these blocks: with a pair it never returns.
  (That block is one byte longer than the text, and the byte is left unwritten.)\<close>

theorem packData_overflows:
  assumes "alloc_total e" "fresh s"
    and "arrays_hold (blocks s) (Addr kb 0) (Addr vb 0) 0 kvs"
    and "length kvs \<le> arr_len (blocks s) (Addr kb 0)"
  shows "packData (Addr kb 0) (Addr vb 0) f sp e s =
    (if kvs = [] then (Ok Null, s) else
     (Err OutOfBounds,
      s\<lparr>blocks := (blocks s)(nxt s + length kvs + 1 \<mapsto> map Byte (pack_spec f sp kvs) @ [Undef]),
        nxt := nxt s + length kvs + 2\<rparr>))"
proof (cases "kvs = []")
  case True
  then obtain p where "get_ptr (blocks s) (Addr kb 0) = Inr p" "p = Null \<or> get_ptr (blocks s) (Addr vb 0) = Inr Null"
    using assms(3) by (auto simp: arrays_hold_def)
  then show ?thesis
    using True by (auto simp: packData_def exec)
next
  case False
  then show ?thesis
    using packData_run [OF assms(1,2) False assms(3,4)] by simp
qed

theorem packData_overflows_witness:
  fixes s defines "s \<equiv> state_of [[PtrC (Addr 2 0), PtrC Null], [PtrC (Addr 3 0), PtrC Null], cstr [107], cstr [118]]"
  shows "packData (Addr 0 0) (Addr 1 0) 61 59 (const_env RUnit) s =
    (if [([107 :: byte], [118 :: byte])] = [] then (Ok Null, s) else
     (Err OutOfBounds,
      s\<lparr>blocks := (blocks s)(nxt s + length [([107 :: byte], [118 :: byte])] + 1 \<mapsto> map Byte (pack_spec 61 59 [([107], [118])]) @ [Undef]),
        nxt := nxt s + length [([107 :: byte], [118 :: byte])] + 2\<rparr>))"
  by (rule packData_overflows)
    (simp_all add: s_def arrays_hold_def get_ptr_def get_cells_def cells_of_def arr_len_def)

text \<open>The fuel of the loop, one more than the cells of the key array, is never used up, because a read past the array
  faults (\<open>packData_no_divergence\<close>).\<close>

subsection \<open>Unpacking\<close>

text \<open>When the two separators do not occur equally often, \<open>unpackData\<close>
  returns \<open>NULL\<close>, leaves \<open>*rt_size\<close> as it was and touches no memory.\<close>

theorem unpackData_unbalanced:
  assumes "get_str (blocks s) data = Inr xs" "\<not> balanced f sp xs"
  shows "unpackData data rt0 f sp e s = (Ok (Null, rt0), s)"
  using assms by (intro unpackData_mismatch) (simp_all add: balanced_def)

theorem unpackData_unbalanced_witness:
  "unpackData (Addr 0 0) 7 61 59 (const_env RUnit) (state_of [cstr [97, 61, 98]]) =
    (Ok (Null, 7), state_of [cstr [97, 61, 98]])"
  by (rule unpackData_unbalanced [where xs = "[97, 61, 98]"]) (simp_all add: balanced_def)

text \<open>Claim C10: packed data of one or two clean pairs are unpacked to those pairs, the
  last pair first: the result array holds, for each pair, a block with the key and a
  block with the value (terminated twice), and every earlier block is as it was. The
  value \<open>*rt_size\<close> had before the call has to allow for the pairs.\<close>

theorem unpackData_inverts_pack:
  assumes "alloc_total e" "fresh s" "f \<noteq> NUL" "sp \<noteq> NUL" "f \<noteq> sp" "sp \<noteq> CR"
    and "get_str (blocks s) data = Inr (pack_spec f sp kvs)"
    and "list_all (clean f sp) kvs" "kvs \<noteq> []" "length kvs \<le> 2" "2 * length kvs \<le> rt0" "rt0 < 2 ^ 61"
  shows "\<exists>t r rs. unpackData data rt0 f sp e s = (Ok (Addr r 0, 2 * length kvs), t) \<and>
    blocks t r = Some (map PtrC rs @ replicate (rt0 - 2 * length kvs) Undef) \<and>
    list_all2 (\<lambda>p c. \<exists>b. p = Addr b 0 \<and> blocks t b = Some c) rs
      (concat (map (\<lambda>(k, v). [cstr k, cstr v @ [Byte NUL]]) (rev kvs))) \<and>
    blocks s \<subseteq>\<^sub>m blocks t"
proof -
  let ?qs = "split_spec max_splitted sp (pack_spec f sp kvs)"
  have qs: "?qs = map (\<lambda>(k, v). k @ f # v) kvs"
    using assms by (intro split_pack) (simp_all add: max_splitted_def)
  have ne: "pack_spec f sp kvs \<noteq> []"
    using assms(9) by (cases kvs) auto
  have "unpacked f ?qs = concat (map (\<lambda>(k, v). [cstr k, cstr v @ [Byte NUL]]) (rev kvs))"
    using assms(8) unfolding qs unpacked_def
    by (induction kvs) (auto simp: pair_cells_def clean_def key_val_of)
  then show ?thesis
    using unpackData_few [OF assms(1-4,7) ne balanced_pack [OF assms(8,5)] refl, of rt0]
      assms(10-12) by (simp add: qs mult.commute map_le_Some)
qed

theorem unpackData_inverts_pack_witness:
  fixes s defines "s \<equiv> state_of [cstr (pack_spec 61 59 [([107], [118])])]"
  shows "\<exists>t r rs. unpackData (Addr 0 0) 2 61 59 (const_env RUnit) s =
      (Ok (Addr r 0, 2 * length [([107 :: byte], [118 :: byte])]), t) \<and>
    blocks t r = Some (map PtrC rs @ replicate (2 - 2 * length [([107 :: byte], [118 :: byte])]) Undef) \<and>
    list_all2 (\<lambda>p c. \<exists>b. p = Addr b 0 \<and> blocks t b = Some c) rs
      (concat (map (\<lambda>(k, v). [cstr k, cstr v @ [Byte NUL]]) (rev [([107], [118])]))) \<and>
    blocks s \<subseteq>\<^sub>m blocks t"
  by (rule unpackData_inverts_pack) (simp_all add: s_def clean_def)

text \<open>A balanced message of three pieces or more, the last one not empty,
  makes \<open>unpackData\<close> read a piece that \<open>free_splitted\<close> has just freed.\<close>

theorem unpackData_use_after_free:
  assumes "alloc_total e" "fresh s" "f \<noteq> NUL" "sp \<noteq> NUL"
    and "get_str (blocks s) data = Inr xs" "xs \<noteq> []" "balanced f sp xs"
    and "qs = split_spec max_splitted sp xs" "2 * length qs \<le> rt0" "rt0 < 2 ^ 61"
    and "3 \<le> length qs" "last qs \<noteq> []"
  shows "fst (unpackData data rt0 f sp e s) = Err UseAfterFree"
  using assms by (rule unpackData_many)

theorem unpackData_use_after_free_witness:
  "fst (unpackData (Addr 0 0) 6 61 59 (const_env RUnit)
     (state_of [cstr [97, 61, 59, 98, 61, 59, 99, 61, 59]])) = Err UseAfterFree"
proof -
  have qs: "split_spec max_splitted 59 [97, 61, 59, 98, 61, 59, 99, 61, 59] = [[97, 61], [98, 61], [99, 61]]"
    using split_spec_concat [of "[[97, 61], [98, 61], [99, 61]]" 59 max_splitted "[]"]
    by (simp add: max_splitted_def)
  show ?thesis
    by (rule unpackData_use_after_free [where xs = "[97, 61, 59, 98, 61, 59, 99, 61, 59]", OF _ _ _ _ _ _ _ qs [symmetric]])
      (simp_all add: balanced_def)
qed

subsection \<open>Joining\<close>

text \<open>\<open>join_addresses\<close> returns one new block that holds the addresses joined
  by \<open>;\<close> and terminated, every write on the way is inside its block, and no other block
  changes or is left behind.\<close>

theorem join_addresses_joins:
  assumes "alloc_total e" "fresh s" "get_str (blocks s) p = Inr x"
    and "list_all2 (\<lambda>p y. get_str (blocks s) p = Inr y) ps ys"
  shows "join_addresses p ps e s =
    (Ok (Addr (nxt s + length ps + 1) 0),
     s\<lparr>blocks := (blocks s)(nxt s + length ps + 1 \<mapsto> map Byte (join_spec x ys) @ [Byte NUL]),
       nxt := nxt s + length ps + 2\<rparr>)"
  using assms by (rule join_addresses_run)

theorem join_addresses_joins_witness:
  fixes s defines "s \<equiv> state_of [cstr [97], cstr [98]]"
  shows "join_addresses (Addr 0 0) [Addr 1 0] (const_env RUnit) s =
    (Ok (Addr (nxt s + length [Addr 1 0] + 1) 0),
     s\<lparr>blocks := (blocks s)(nxt s + length [Addr 1 0] + 1 \<mapsto> map Byte (join_spec [97] [[98]]) @ [Byte NUL]),
       nxt := nxt s + length [Addr 1 0] + 2\<rparr>)"
  by (rule join_addresses_joins) (simp_all add: s_def)

text \<open>\<open>join_data\<close> returns one new block of exactly the two strings, each
  followed by the separator, and a terminator.\<close>

theorem join_data_joins:
  assumes "alloc_total e" "fresh s" "get_str (blocks s) a = Inr xs" "get_str (blocks s) b = Inr ys"
  shows "join_data a b c e s =
    (Ok (Addr (nxt s) 0), new_block (map Byte (xs @ [c] @ ys @ [c, NUL])) s)"
  using assms by (rule join_data_run)

theorem join_data_joins_witness:
  fixes s defines "s \<equiv> state_of [cstr [97], cstr [98]]"
  shows "join_data (Addr 0 0) (Addr 1 0) 59 (const_env RUnit) s =
    (Ok (Addr (nxt s) 0), new_block (map Byte ([97] @ [59] @ [98] @ [59, NUL])) s)"
  by (rule join_data_joins) (simp_all add: s_def)

end
