(* ===== verification/Base64.thy ===== *)
theory Base64
  imports C_Frame
begin

text \<open>
  \<open>libbacteria/encdec/verify/base64.c\<close>: the length of a decoded text, and the OpenSSL BIO
  chains that decode and encode. The coding itself is OpenSSL's; \<open>b64_encode\<close> is the
  reference encoding of RFC 4648, which the length computation is measured against.
\<close>

subsection \<open>The functions\<close>

definition calcDecodeLength :: "ptr \<Rightarrow> ('z, nat) prog" where
  "calcDecodeLength b64input =
     bnd (strlen b64input) (\<lambda>len.
     bnd (load_byte (padd b64input (size_t (int len - 1)))) (\<lambda>last1.
     bnd (if last1 = 61 then bnd (load_byte (padd b64input (size_t (int len - 2)))) (\<lambda>c. ret (c = 61))
          else ret False) (\<lambda>both.
     let padding = (if both then 2 else if last1 = 61 then 1 else 0) in
     ret (size_t (int (size_t (int len * 3) div 4) - padding)))))"

definition Base64Decode :: "ptr \<Rightarrow> ('z, ptr \<times> nat) prog" where
  "Base64Decode b64message =
     bnd (calcDecodeLength b64message) (\<lambda>l.
     let decodeLen = c_int (int l) in
     bnd (malloc (size_t (decodeLen + 1))) (\<lambda>buffer.
     bnd (store_byte (padd buffer (size_t decodeLen)) NUL) (\<lambda>_.
     bnd (read_str b64message) (\<lambda>msg.
     bnd (ext (Ssl (BIO_new_mem_buf msg))) (\<lambda>bio.
     bnd (ext (Ssl BIO_new_f_base64)) (\<lambda>b64.
     bnd (ext (Ssl (BIO_push (r_handle b64) (r_handle bio)))) (\<lambda>chain.
     bnd (ext (Ssl (BIO_set_flags_no_nl (r_handle chain)))) (\<lambda>_.
     bnd (ext (Ssl (BIO_read (r_handle chain) (length msg)))) (\<lambda>r.
     bnd (write_bytes buffer (r_bytes r)) (\<lambda>_.
     if size_t (r_int r) \<noteq> size_t decodeLen then fail AssertFailed else
     bnd (ext (Ssl (BIO_free_all (r_handle chain)))) (\<lambda>_.
     ret (buffer, size_t (r_int r)))))))))))))"

definition Base64Encode :: "ptr \<Rightarrow> nat \<Rightarrow> ('z, ptr) prog" where
  "Base64Encode buffer len =
     bnd (ext (Ssl BIO_new_f_base64)) (\<lambda>b64.
     bnd (ext (Ssl BIO_new_s_mem)) (\<lambda>bio.
     bnd (ext (Ssl (BIO_push (r_handle b64) (r_handle bio)))) (\<lambda>chain.
     bnd (ext (Ssl (BIO_set_flags_no_nl (r_handle chain)))) (\<lambda>_.
     bnd (read_bytes buffer len) (\<lambda>bs.
     bnd (ext (Ssl (BIO_write (r_handle chain) bs len))) (\<lambda>_.
     bnd (ext (Ssl (BIO_flush (r_handle chain)))) (\<lambda>_.
     bnd (ext (Ssl (BIO_get_mem_data (r_handle chain)))) (\<lambda>r.
     bnd (lib_block (map Byte (r_bytes r))) (\<lambda>b64text.
     bnd (ext (Ssl (BIO_set_noclose (r_handle chain)))) (\<lambda>_.
     bnd (ext (Ssl (BIO_free_all (r_handle chain)))) (\<lambda>_.
     ret b64text)))))))))))"

subsection \<open>The reference encoding\<close>

definition alphabet :: "byte list" where
  "alphabet = bytes_of ''ABCDEFGHIJKLMNOPQRSTUVWXYZabcdefghijklmnopqrstuvwxyz0123456789+/''"

definition sextet :: "nat \<Rightarrow> byte" where
  "sextet n = alphabet ! (n mod 64)"

fun b64_encode :: "byte list \<Rightarrow> byte list" where
  "b64_encode [] = []"
| "b64_encode [a] =
     (let n = unat a * 2 ^ 16 in
      [sextet (n div 2 ^ 18), sextet (n div 2 ^ 12), 61, 61])"
| "b64_encode [a, b] =
     (let n = unat a * 2 ^ 16 + unat b * 2 ^ 8 in
      [sextet (n div 2 ^ 18), sextet (n div 2 ^ 12), sextet (n div 2 ^ 6), 61])"
| "b64_encode (a # b # c # xs) =
     (let n = unat a * 2 ^ 16 + unat b * 2 ^ 8 + unat c in
      [sextet (n div 2 ^ 18), sextet (n div 2 ^ 12), sextet (n div 2 ^ 6), sextet n] @
      b64_encode xs)"

lemma alphabet_clean: "x \<in> set alphabet \<Longrightarrow> x \<noteq> NUL \<and> x \<noteq> 61"
  by (auto simp: alphabet_def)

lemma sextet_in: "sextet n \<in> set alphabet"
proof -
  have "n mod 64 < length alphabet"
    by (simp add: alphabet_def)
  then show ?thesis
    unfolding sextet_def by (rule nth_mem)
qed

lemma sextet_clean [simp]: "sextet n \<noteq> NUL" "sextet n \<noteq> 61"
  using alphabet_clean [OF sextet_in] by auto

text \<open>The shape of an encoding: its length and its last two characters.\<close>

definition pad :: "nat \<Rightarrow> nat" where
  "pad n = (if n mod 3 = 0 then 0 else 3 - n mod 3)"

lemma b64_shape:
  assumes "xs \<noteq> []"
  shows "\<exists>pre c d. b64_encode xs = pre @ [c, d] \<and>
    4 * (length xs + pad (length xs)) = 3 * (length pre + 2) \<and>
    (c = 61 \<longleftrightarrow> pad (length xs) = 2) \<and> (d = 61 \<longleftrightarrow> pad (length xs) \<noteq> 0) \<and>
    2 \<le> length pre"
  using assms
proof (induction xs rule: b64_encode.induct)
  case (4 a b c xs)
  show ?case
  proof (cases "xs = []")
    case True
    then show ?thesis
      by (simp add: Let_def pad_def)
  next
    case False
    from 4(1) [OF refl False] obtain pre c' d where IH: "b64_encode xs = pre @ [c', d]"
      "4 * (length xs + pad (length xs)) = 3 * (length pre + 2)"
      "(c' = 61) = (pad (length xs) = 2)" "(d = 61) = (pad (length xs) \<noteq> 0)" "2 \<le> length pre"
      by blast
    have "pad (length (a # b # c # xs)) = pad (length xs)"
      by (simp add: pad_def mod_Suc)
    then show ?thesis
      using IH by (simp add: Let_def)
  qed
qed (simp_all add: Let_def pad_def)

lemma b64_no_NUL: "NUL \<notin> set (b64_encode xs)"
  by (induction xs rule: b64_encode.induct) (auto simp: Let_def)

subsection \<open>What the functions compute\<close>

text \<open>The computed length is the length of the encoded bytes.\<close>

lemma calcDecodeLength_run:
  assumes str: "get_str (blocks s) p = Inr (b64_encode xs)" and xs: "xs \<noteq> []" "length xs < 2 ^ 60"
  shows "calcDecodeLength p e s = (Ok (length xs), s)"
proof -
  obtain pre c d where t: "b64_encode xs = pre @ [c, d]"
    and len: "4 * (length xs + pad (length xs)) = 3 * (length pre + 2)"
    and c: "c = 61 \<longleftrightarrow> pad (length xs) = 2" and d: "d = 61 \<longleftrightarrow> pad (length xs) \<noteq> 0"
    using b64_shape [OF xs(1)] by blast
  let ?n = "length pre + 2"
  have pad: "pad (length xs) \<le> 2" "length xs > 0"
    using xs(1) by (auto simp: pad_def)
  have n: "3 * ?n div 4 = length xs + pad (length xs)" "?n < 2 ^ 62"
    using len xs(2) pad by auto
  have last1: "get_byte (blocks s) (padd p (Suc (length pre))) = Inr d"
    and last2: "get_byte (blocks s) (padd p (length pre)) = Inr c"
    using get_byte_str [OF str, of "Suc (length pre)"] get_byte_str [OF str, of "length pre"]
    by (simp_all add: t nth_append)
  have idx: "size_t (int ?n - 1) = Suc (length pre)" "size_t (int ?n - 2) = length pre"
    using n(2) by simp_all
  have three: "size_t (int ?n * 3) = 3 * ?n"
    using n(2) by simp
  have "size_t (int (3 * ?n div 4) - 2) = length xs" if "pad (length xs) = 2"
    using n(1) that xs(2) by simp
  moreover have "size_t (int (3 * ?n div 4) - 1) = length xs" if "pad (length xs) = 1"
    using n(1) that xs(2) by simp
  moreover have "size_t (int (3 * ?n div 4)) = length xs" if "pad (length xs) = 0"
    using n(1) that xs(2) by simp
  moreover have "pad (length xs) \<in> {0, 1, 2}"
    using pad by auto
  ultimately show ?thesis
    using str last1 last2 c d idx three 
    by (auto simp: calcDecodeLength_def exec t Let_def)
qed

text \<open>An empty text is read in front of its first character.\<close>

lemma calcDecodeLength_empty:
  assumes "blocks s b = Some (cstr [])"
  shows "calcDecodeLength (Addr b 0) e s = (Err OutOfBounds, s)"
proof -
  have "get_str (blocks s) (Addr b 0) = Inr []"
    using assms by simp
  moreover have "get_byte (blocks s) (Addr b (size_t (- 1))) = Inl OutOfBounds"
    using assms by (simp add: get_byte_def get_cells_def cells_of_def size_t_def cstr_def)
  ultimately show ?thesis
    by (simp add: calcDecodeLength_def exec)
qed

lemma Base64Decode_until_read:
  assumes al: "alloc_total e" and fr: "fresh s"
    and str: "get_str (blocks s) p = Inr (b64_encode xs)" and xs: "xs \<noteq> []" "length xs < 2 ^ 30"
    and r: "\<And>l h. answer e l (Ssl (BIO_read h (length (b64_encode xs)))) = ROut n ds"
    and fit: "length ds \<le> length xs + 1"
  shows "\<exists>l h. Base64Decode p e s = (if size_t n \<noteq> length xs then fail AssertFailed else
     bnd (ext (Ssl (BIO_free_all h))) (\<lambda>_. ret (Addr (nxt s) 0, size_t n))) e
      ((new_block (map Byte ds @ drop (length ds) (replicate (length xs) Undef @ [Byte NUL])) s)
        \<lparr>evs := l\<rparr>)"
proof -
  have len: "c_int (int (length xs)) = int (length xs)"
    using xs by simp
  have str': "get_str ((blocks s)(nxt s := x)) p = Inr (b64_encode xs)" for x
    using str fr by simp
  have cells: "take (length xs) (replicate (Suc (length xs)) Undef) = replicate (length xs) Undef"
    by (simp del: replicate_Suc)
  show ?thesis
    using al xs fit
    by (simp add: Base64Decode_def run_bnd calcDecodeLength_run [OF str] len exec str' r Let_def
        new_block_def cells del: replicate_Suc) blast
qed

lemma Base64Decode_run:
  assumes al: "alloc_total e" and fr: "fresh s"
    and str: "get_str (blocks s) p = Inr (b64_encode xs)" and xs: "xs \<noteq> []" "length xs < 2 ^ 30"
    and r: "\<And>l h. answer e l (Ssl (BIO_read h (length (b64_encode xs)))) = ROut (int (length xs)) xs"
  shows "\<exists>l. Base64Decode p e s =
    (Ok (Addr (nxt s) 0, length xs), (new_block (cstr xs) s)\<lparr>evs := l\<rparr>)"
  using Base64Decode_until_read [OF al fr str xs r] xs
  by (auto simp: run_bnd exec cstr_def)

lemma Base64Decode_mismatch:
  assumes al: "alloc_total e" and fr: "fresh s"
    and str: "get_str (blocks s) p = Inr (b64_encode xs)" and xs: "xs \<noteq> []" "length xs < 2 ^ 30"
    and r: "\<And>l h. answer e l (Ssl (BIO_read h (length (b64_encode xs)))) = ROut n ds"
    and fit: "length ds \<le> length xs + 1" and n: "n \<noteq> int (length xs)" "\<bar>n\<bar> < 2 ^ 31"
  shows "fst (Base64Decode p e s) = Err AssertFailed"
proof -
  have "size_t n \<noteq> length xs"
    using n xs size_t_neg [of n] by (cases "0 \<le> n") auto
  then show ?thesis
    using Base64Decode_until_read [OF al fr str xs r fit] by (auto simp: exec)
qed

text \<open>
  The encoder hands out the memory of the BIO: exactly the bytes OpenSSL produced, with
  no terminator behind them.
\<close>

lemma Base64Encode_run:
  assumes bs: "get_bytes (blocks s) p n = Inr bs"
    and r: "\<And>l h. answer e l (Ssl (BIO_get_mem_data h)) = ROut k out"
  shows "\<exists>l. Base64Encode p n e s = (Ok (Addr (nxt s) 0), (new_block (map Byte out) s)\<lparr>evs := l\<rparr>)"
  using bs by (simp add: Base64Encode_def exec r new_block_def) blast

end
