(* ===== verification/Hashes.thy ===== *)
theory Hashes
  imports C_Frame
begin

text \<open>
  \<open>libbacteria/encdec/hashes.c\<close> and the macro \<open>INITHASHFUNC\<close> of \<open>macros.h\<close>: a digest is
  computed by OpenSSL into a local array and printed as hexadecimal digits.
\<close>

fun SHA_DIGEST_LENGTH :: "hash \<Rightarrow> nat" where
  "SHA_DIGEST_LENGTH SHA256 = 32"
| "SHA_DIGEST_LENGTH SHA512 = 64"

definition hex_digit :: "nat \<Rightarrow> byte" where
  "hex_digit n = (if n < 10 then of_nat (48 + n) else of_nat (87 + n))"

text \<open>What \<open>sprintf (p, "%02x", b)\<close> prints.\<close>

definition hex2 :: "byte \<Rightarrow> byte list" where
  "hex2 b = [hex_digit (unat b div 16), hex_digit (unat b mod 16)]"

primrec hash_loop :: "nat \<Rightarrow> ptr \<Rightarrow> ptr \<Rightarrow> nat \<Rightarrow> ('z, unit) prog" where
  "hash_loop 0 hash out i = ret ()"
| "hash_loop (Suc k) hash out i =
     bnd (load_byte (padd hash i)) (\<lambda>b.
     bnd (write_bytes (padd out (i * 2)) (hex2 b @ [NUL])) (\<lambda>_.
     hash_loop k hash out (i + 1)))"

definition init_hash_func :: "hash \<Rightarrow> nat \<Rightarrow> ptr \<Rightarrow> ptr \<Rightarrow> ('z, unit) prog" where
  "init_hash_func name outputstringsize data outputstring =
     local_arr (SHA_DIGEST_LENGTH name) (\<lambda>hash.
       bnd (ext (Ssl (SHA_Init name))) (\<lambda>_.
       bnd (read_str data) (\<lambda>bs.
       bnd (ext (Ssl (SHA_Update name bs))) (\<lambda>_.
       bnd (ext (Ssl (SHA_Final name))) (\<lambda>r.
       bnd (write_bytes hash (r_bytes r)) (\<lambda>_.
       bnd (hash_loop (SHA_DIGEST_LENGTH name) hash outputstring 0) (\<lambda>_.
       store_byte (padd outputstring outputstringsize) NUL)))))))"

definition toSHA256 :: "ptr \<Rightarrow> ptr \<Rightarrow> ('z, unit) prog" where
  "toSHA256 = init_hash_func SHA256 65"

definition toSHA512 :: "ptr \<Rightarrow> ptr \<Rightarrow> ('z, unit) prog" where
  "toSHA512 = init_hash_func SHA512 129"

subsection \<open>Hexadecimal output\<close>

definition hex :: "byte list \<Rightarrow> byte list" where
  "hex bs = concat (map hex2 bs)"

lemma length_hex [simp]: "length (hex bs) = 2 * length bs"
  by (induction bs) (simp_all add: hex_def hex2_def)

lemma hex_digit_eq:
  assumes "m < 16" "n < 16"
  shows "hex_digit m = hex_digit n \<longleftrightarrow> m = n"
proof -
  have "\<forall>m\<in>set [0..<16]. \<forall>n\<in>set [0..<16]. hex_digit m = hex_digit n \<longleftrightarrow> m = n"
    by code_simp
  then show ?thesis
    using assms by simp
qed

lemma unat_byte_less [simp]: "unat (b :: byte) < 256"
proof -
  have "unat b < 2 ^ LENGTH(8)"
    by (rule unsigned_less)
  then show ?thesis
    by simp
qed

lemma hex2_inj: "hex2 a = hex2 b \<longleftrightarrow> a = b"
proof
  assume h: "hex2 a = hex2 b"
  have "unat a div 16 < 16" "unat b div 16 < 16"
    using unat_byte_less [of a] unat_byte_less [of b] by presburger+
  then have "unat a div 16 = unat b div 16" "unat a mod 16 = unat b mod 16"
    using h by (simp_all add: hex2_def hex_digit_eq)
  then have "unat a = unat b"
    by (metis div_mult_mod_eq)
  then show "a = b"
    by (simp add: word_unat_eq_iff)
qed simp

text \<open>The digits determine the digest.\<close>

lemma hex_inj: "length xs = length ys \<Longrightarrow> hex xs = hex ys \<longleftrightarrow> xs = ys"
proof (induction xs ys rule: list_induct2)
  case (Cons x xs y ys)
  have "length (hex2 x) = length (hex2 y)"
    by (simp add: hex2_def)
  then have "hex (x # xs) = hex (y # ys) \<longleftrightarrow> hex2 x = hex2 y \<and> hex xs = hex ys"
    by (simp add: hex_def)
  then show ?case
    using Cons by (simp add: hex2_inj)
qed (simp add: hex_def)

lemma hex_snoc: "hex (bs @ [b]) = hex bs @ hex2 b"
  by (simp add: hex_def)

text \<open>
  The loop, from the digit pairs written so far. Each turn overwrites the terminator of
  the turn before.
\<close>

lemma hash_loop_step:
  assumes h: "m0 h = Some (map Byte d)" "h \<noteq> q"
    and blk: "blocks s = m0(q \<mapsto> map Byte (hex (take i d)) @ cs)"
    and i: "i < length d" "2 < length cs"
  shows "hash_loop (Suc k) (Addr h 0) (Addr q 0) i e s = hash_loop k (Addr h 0) (Addr q 0) (Suc i) e
    (s\<lparr>blocks := m0(q \<mapsto> map Byte (hex (take (Suc i) d)) @ Byte NUL # drop 3 cs)\<rparr>)"
proof -
  have "get_byte (blocks s) (Addr h i) = Inr (d ! i)"
    using h i by (simp add: get_byte_block blk)
  then show ?thesis
    using i by (simp add: exec take_Suc_conv_app_nth hex_snoc hex2_def blk)
qed

lemma hash_loop_run:
  assumes "m0 h = Some (map Byte d)" "h \<noteq> q"
    and "blocks s = m0(q \<mapsto> map Byte (hex (take i d)) @ cs)"
    and "i + k = length d" "2 * k < length cs" "k = 0 \<longrightarrow> cs ! 0 = Byte NUL"
  shows "hash_loop k (Addr h 0) (Addr q 0) i e s =
    (Ok (), s\<lparr>blocks := m0(q \<mapsto> map Byte (hex d) @ Byte NUL # drop (2 * k + 1) cs)\<rparr>)"
  using assms
proof (induction k arbitrary: s i cs)
  case 0
  then have "cs = Byte NUL # drop 1 cs"
    by (cases cs) auto
  with 0 show ?case
    by (simp add: exec)
next
  case (Suc k)
  let ?t = "s\<lparr>blocks := m0(q \<mapsto> map Byte (hex (take (Suc i) d)) @ Byte NUL # drop 3 cs)\<rparr>"
  have "hash_loop (Suc k) (Addr h 0) (Addr q 0) i e s = hash_loop k (Addr h 0) (Addr q 0) (Suc i) e ?t"
    using Suc.prems by (intro hash_loop_step) auto
  also have "\<dots> = (Ok (), ?t\<lparr>blocks := m0(q \<mapsto> map Byte (hex d) @ Byte NUL #
      drop (2 * k + 1) (Byte NUL # drop 3 cs))\<rparr>)"
    using Suc.prems by (intro Suc.IH) auto
  also have "?t\<lparr>blocks := x\<rparr> = s\<lparr>blocks := x\<rparr>" for x
    by simp
  also have "drop (2 * k + 1) (Byte NUL # drop 3 cs) = drop (2 * Suc k + 1) cs"
    by (simp add: numeral_3_eq_3)
  finally show ?case .
qed

text \<open>
  A run of the whole function on an output of \<open>2 * n + 1\<close> cells or more, for a library
  that writes a digest of the documented length.
\<close>

lemma init_hash_func_until_end:
  assumes fr: "fresh s" and data: "get_str (blocks s) p = Inr bs"
    and out: "blocks s q = Some cs" "2 * SHA_DIGEST_LENGTH h < length cs"
    and r: "\<And>l. answer e l (Ssl (SHA_Final h)) = ROut k d" "length d = SHA_DIGEST_LENGTH h"
  shows "\<exists>l. init_hash_func h n p (Addr q 0) e s =
    (case store_byte (Addr q n) NUL e (s\<lparr>blocks := (blocks s)(nxt s \<mapsto> map Byte d,
         q \<mapsto> cstr (hex d) @ drop (2 * length d + 1) cs), nxt := Suc (nxt s), evs := l\<rparr>) of
       (v, t) \<Rightarrow> (v, drop_block (nxt s) t))"
proof -
  let ?h = "nxt s"
  have ne: "?h \<noteq> q" "q \<noteq> ?h"
    using out fr by auto
  have data': "get_str ((blocks s)(?h := x)) p = Inr bs" for x
    using data fr by simp
  have pos: "0 < SHA_DIGEST_LENGTH h"
    by (cases h) auto
  have loop: "hash_loop (length d) (Addr ?h 0) (Addr q 0) 0 e
      (s\<lparr>blocks := (blocks s)(?h \<mapsto> map Byte d), nxt := Suc ?h, evs := l\<rparr>) =
    (Ok (), s\<lparr>blocks := (blocks s)(?h \<mapsto> map Byte d, q \<mapsto> map Byte (hex d) @ Byte NUL #
      drop (2 * length d + 1) cs), nxt := Suc ?h, evs := l\<rparr>)" for l
    using hash_loop_run [of "(blocks s)(?h \<mapsto> map Byte d)" ?h d q
        "s\<lparr>blocks := (blocks s)(?h \<mapsto> map Byte d), nxt := Suc ?h, evs := l\<rparr>" 0 cs "length d" e]
      ne out r(2) pos by (simp add: hex_def fun_upd_idem)
  show ?thesis
    using r(2) pos by (simp add: init_hash_func_def local_arr_def exec data' r(1) new_block_def
        loop [unfolded r(2)] cstr_def) blast
qed

lemma init_hash_func_overflow:
  assumes "fresh s" and "get_str (blocks s) p = Inr bs"
    and out: "blocks s q = Some cs" "length cs = 2 * SHA_DIGEST_LENGTH h + 1"
    and r: "\<And>l. answer e l (Ssl (SHA_Final h)) = ROut k d" "length d = SHA_DIGEST_LENGTH h"
  shows "\<exists>t. init_hash_func h (length cs) p (Addr q 0) e s = (Err OutOfBounds, t) \<and>
    blocks t q = Some (cstr (hex d))"
proof -
  have "nxt s \<noteq> q"
    using assms(1) out by auto
  then show ?thesis
    using init_hash_func_until_end [OF assms(1,2) out(1) _ r, of "length cs"] out(2) r(2)
    by (auto simp: exec)
qed

lemma init_hash_func_run:
  assumes "fresh s" and "get_str (blocks s) p = Inr bs"
    and out: "blocks s q = Some cs" "2 * SHA_DIGEST_LENGTH h + 1 < length cs"
    and r: "\<And>l. answer e l (Ssl (SHA_Final h)) = ROut k d" "length d = SHA_DIGEST_LENGTH h"
  shows "\<exists>t. init_hash_func h (2 * SHA_DIGEST_LENGTH h + 1) p (Addr q 0) e s = (Ok (), t) \<and>
    blocks t = (blocks s)(q \<mapsto> cstr (hex d) @ Byte NUL # drop (2 * SHA_DIGEST_LENGTH h + 2) cs)"
proof -
  have ne: "nxt s \<noteq> q" "(blocks s)(nxt s := None) = blocks s"
    using assms(1) out by (auto simp: fun_upd_idem)
  let ?n = "2 * SHA_DIGEST_LENGTH h + 1"
  obtain l where run: "init_hash_func h ?n p (Addr q 0) e s =
    (case store_byte (Addr q ?n) NUL e (s\<lparr>blocks := (blocks s)(nxt s \<mapsto> map Byte d,
         q \<mapsto> cstr (hex d) @ drop (2 * length d + 1) cs), nxt := Suc (nxt s), evs := l\<rparr>) of
       (v, t) \<Rightarrow> (v, drop_block (nxt s) t))"
    using init_hash_func_until_end [OF assms(1,2) out(1) _ r, of ?n] out(2) by auto
  show ?thesis
    unfolding run using ne out(2) r(2) by (simp add: exec fun_upd_twist)
qed

end
