(* ===== verification/AES.thy ===== *)
theory AES
  imports C_Frame
begin

text \<open>
  \<open>libbacteria/encdec/sync/AES.c\<close>: the wrappers around OpenSSL's EVP ciphers, the key and
  IV generator, and the command-line test. \<open>AES_any_decrypt\<close> and \<open>AES_any_encrypt\<close>
  differ only in the three EVP functions they call, which are the parameters of
  \<open>AES_any\<close>.
\<close>

subsection \<open>The functions\<close>

definition HANDLERRSSL :: "('z, int) prog" where
  "HANDLERRSSL = bnd (ext (Ssl ERR_print_errors_fp)) (\<lambda>_. ret (- 1))"

type_synonym cipher_init = "handle \<Rightarrow> cipher \<Rightarrow> byte list \<Rightarrow> byte list \<Rightarrow> ssl_call"
type_synonym cipher_update = "handle \<Rightarrow> byte list \<Rightarrow> int \<Rightarrow> ssl_call"

definition cipher_steps ::
    "cipher_init \<Rightarrow> cipher_update \<Rightarrow> (handle \<Rightarrow> ssl_call) \<Rightarrow> cipher \<Rightarrow>
     ptr \<Rightarrow> int \<Rightarrow> ptr \<Rightarrow> ptr \<Rightarrow> ptr \<Rightarrow> ('z, int) prog" where
  "cipher_steps init update final enc input input_len key iv output =
     bnd (ext (Ssl EVP_CIPHER_CTX_new)) (\<lambda>c.
     if r_handle c = 0 then HANDLERRSSL else
     bnd (read_str key) (\<lambda>k.
     bnd (read_str iv) (\<lambda>v.
     bnd (ext (Ssl (init (r_handle c) enc k v))) (\<lambda>i.
     if r_int i \<noteq> 1 then HANDLERRSSL else
     bnd (read_bytes input (nat input_len)) (\<lambda>bs.
     bnd (ext (Ssl (update (r_handle c) bs input_len))) (\<lambda>u.
     bnd (write_bytes output (r_bytes u)) (\<lambda>_.
     if r_int u \<noteq> 1 then HANDLERRSSL else
     bnd (ext (Ssl (final (r_handle c)))) (\<lambda>f.
     bnd (write_bytes (padd output (length (r_bytes u))) (r_bytes f)) (\<lambda>_.
     if r_int f \<noteq> 1 then HANDLERRSSL else
     bnd (ext (Ssl (EVP_CIPHER_CTX_free (r_handle c)))) (\<lambda>_.
     ret (int (length (r_bytes u)) + int (length (r_bytes f)))))))))))))"

definition AES_any ::
    "cipher_init \<Rightarrow> cipher_update \<Rightarrow> (handle \<Rightarrow> ssl_call) \<Rightarrow> cipher \<Rightarrow>
     ptr \<Rightarrow> int \<Rightarrow> ptr \<Rightarrow> ptr \<Rightarrow> ptr \<Rightarrow> ('z, int) prog" where
  "AES_any init update final enc input input_len key iv output =
     bnd (strlen iv) (\<lambda>ni.
     bnd (if ni \<noteq> 16 then ret True else bnd (strlen key) (\<lambda>nk. ret (nk \<noteq> 32))) (\<lambda>bad.
     if bad then
       bnd (strlen iv) (\<lambda>_.
       bnd (strlen key) (\<lambda>_.
       bnd (ext (Libc (Fprintf_stderr ''IV size will be 16. and key will be 32. (%d:%d) ''))) (\<lambda>_.
       ret (- 1))))
     else cipher_steps init update final enc input input_len key iv output))"

definition AES_any_decrypt :: "cipher \<Rightarrow> ptr \<Rightarrow> int \<Rightarrow> ptr \<Rightarrow> ptr \<Rightarrow> ptr \<Rightarrow> ('z, int) prog" where
  "AES_any_decrypt = AES_any EVP_DecryptInit_ex EVP_DecryptUpdate EVP_DecryptFinal_ex"

definition AES_any_encrypt :: "cipher \<Rightarrow> ptr \<Rightarrow> int \<Rightarrow> ptr \<Rightarrow> ptr \<Rightarrow> ptr \<Rightarrow> ('z, int) prog" where
  "AES_any_encrypt = AES_any EVP_EncryptInit_ex EVP_EncryptUpdate EVP_EncryptFinal_ex"

definition AES_256_cbc_decrypt :: "ptr \<Rightarrow> int \<Rightarrow> ptr \<Rightarrow> ptr \<Rightarrow> ptr \<Rightarrow> ('z, int) prog" where
  "AES_256_cbc_decrypt = AES_any_decrypt EVP_aes_256_cbc"

definition AES_256_cbc_encrypt :: "ptr \<Rightarrow> int \<Rightarrow> ptr \<Rightarrow> ptr \<Rightarrow> ptr \<Rightarrow> ('z, int) prog" where
  "AES_256_cbc_encrypt = AES_any_encrypt EVP_aes_256_cbc"

definition AES_256_ecb_decrypt :: "ptr \<Rightarrow> int \<Rightarrow> ptr \<Rightarrow> ptr \<Rightarrow> ptr \<Rightarrow> ('z, int) prog" where
  "AES_256_ecb_decrypt = AES_any_decrypt EVP_aes_256_ecb"

definition AES_256_ecb_encrypt :: "ptr \<Rightarrow> int \<Rightarrow> ptr \<Rightarrow> ptr \<Rightarrow> ptr \<Rightarrow> ('z, int) prog" where
  "AES_256_ecb_encrypt = AES_any_encrypt EVP_aes_256_ecb"

definition chacha20_poly1305_decrypt :: "ptr \<Rightarrow> int \<Rightarrow> ptr \<Rightarrow> ptr \<Rightarrow> ptr \<Rightarrow> ('z, int) prog" where
  "chacha20_poly1305_decrypt = AES_any_decrypt EVP_chacha20_poly1305"

definition chacha20_poly1305_encrypt :: "ptr \<Rightarrow> int \<Rightarrow> ptr \<Rightarrow> ptr \<Rightarrow> ptr \<Rightarrow> ('z, int) prog" where
  "chacha20_poly1305_encrypt = AES_any_encrypt EVP_chacha20_poly1305"

text \<open>The counter of the loop is an \<open>unsigned int\<close>, decremented before the body runs.\<close>

primrec rand_bytes_loop :: "nat \<Rightarrow> ptr \<Rightarrow> ('z, unit) prog" where
  "rand_bytes_loop 0 key = ret ()"
| "rand_bytes_loop (Suc i) key =
     bnd rand (\<lambda>r.
     bnd (store_byte (padd key i) (of_nat (r mod 255 + 1))) (\<lambda>_.
     rand_bytes_loop i key))"

definition generate_rand_bytes :: "nat \<Rightarrow> ptr \<Rightarrow> ('z, unit) prog" where
  "generate_rand_bytes len key =
     bnd (ext (Libc Time)) (\<lambda>t.
     bnd (ext (Libc (Srand (r_int t)))) (\<lambda>_.
     rand_bytes_loop (c_uint (int len - 1)) key))"

subsection \<open>The test program\<close>

datatype ENCType = t_cbc | t_ecb | t_chacha20

fun enc_bit :: "ENCType \<Rightarrow> nat" where
  "enc_bit t_cbc = 1"
| "enc_bit t_ecb = 2"
| "enc_bit t_chacha20 = 3"

fun enc_cipher :: "ENCType \<Rightarrow> cipher" where
  "enc_cipher t_cbc = EVP_aes_256_cbc"
| "enc_cipher t_ecb = EVP_aes_256_ecb"
| "enc_cipher t_chacha20 = EVP_chacha20_poly1305"

fun enc_name :: "ENCType \<Rightarrow> string" where
  "enc_name t_cbc = ''t_cbc''"
| "enc_name t_ecb = ''t_ecb''"
| "enc_name t_chacha20 = ''t_chacha20''"

definition CHECKTYPE ::
    "ENCType \<Rightarrow> nat \<Rightarrow> ptr \<Rightarrow> ptr \<Rightarrow> ptr \<Rightarrow> ptr \<Rightarrow> ptr \<Rightarrow> ('z, unit) prog" where
  "CHECKTYPE who enctype plaintext key iv ciphertext decryptedtext =
     (if \<not> bit enctype (enc_bit who) then ret () else
     bnd (ext (Libc (Puts (enc_name who)))) (\<lambda>_.
     bnd (strlen plaintext) (\<lambda>n.
     bnd (AES_any_encrypt (enc_cipher who) plaintext (int n) key iv ciphertext) (\<lambda>ciphertext_len.
     bnd (ext (Libc (Printf ''Ciphertext is:'' []))) (\<lambda>_.
     bnd (read_bytes ciphertext (nat ciphertext_len)) (\<lambda>bs.
     bnd (ext (Ssl (BIO_dump_fp bs))) (\<lambda>_.
     bnd (AES_any_decrypt (enc_cipher who) ciphertext ciphertext_len key iv decryptedtext) (\<lambda>decryptedtext_len.
     bnd (store_byte (padd decryptedtext (size_t decryptedtext_len)) NUL) (\<lambda>_.
     bnd (ext (Libc (Printf ''Decrypted text is:'' []))) (\<lambda>_.
     bnd (read_str decryptedtext) (\<lambda>ds.
     bnd (ext (Libc (Printf ''%s'' ds))) (\<lambda>_.
     ret ()))))))))))))"

definition is_digit :: "byte \<Rightarrow> bool" where
  "is_digit b \<longleftrightarrow> 48 \<le> unat b \<and> unat b \<le> 57"

definition digits_val :: "byte list \<Rightarrow> int" where
  "digits_val bs = foldl (\<lambda>n b. n * 10 + (int (unat b) - 48)) 0 (takeWhile is_digit bs)"

text \<open>\<open>atoi\<close>, for values in the range of \<open>int\<close>.\<close>

definition atoi :: "byte list \<Rightarrow> int" where
  "atoi bs = (case dropWhile (\<lambda>b. b \<in> set [32, 9, 10, 11, 12, 13]) bs of
     [] \<Rightarrow> 0
   | b # r \<Rightarrow> if b = 45 then - digits_val r else if b = 43 then digits_val r
       else digits_val (b # r))"

definition libbacteria_AES_test :: "int \<Rightarrow> ptr \<Rightarrow> ('z, int) prog" where
  "libbacteria_AES_test count values =
     (if count \<noteq> 3 then
       bnd (load_ptr values) (\<lambda>v0.
       bnd (read_str v0) (\<lambda>_.
       bnd (ext (Libc (Fprintf_stderr ''%s msg ENCType(2,4,8 (2|4[6]),(2|4|8[14]) )''))) (\<lambda>r.
       ret (r_int r))))
     else
       local_arr 32 (\<lambda>key.
       local_arr 16 (\<lambda>iv.
       bnd (generate_rand_bytes 32 key) (\<lambda>_.
       bnd (generate_rand_bytes 16 iv) (\<lambda>_.
       bnd (read_str key) (\<lambda>k.
       bnd (ext (Libc (Printf ''Key is:%s'' k))) (\<lambda>_.
       bnd (load_ptr (padd values 2)) (\<lambda>v2.
       bnd (read_str v2) (\<lambda>a.
       let enctype = c_uint (atoi a) in
       bnd (load_ptr (padd values 1)) (\<lambda>plaintext.
       local_arr 128 (\<lambda>ciphertext.
       local_arr 128 (\<lambda>decryptedtext.
       bnd (ext (Libc (Puts ''Enc''))) (\<lambda>_.
       bnd (CHECKTYPE t_cbc enctype plaintext key iv ciphertext decryptedtext) (\<lambda>_.
       bnd (CHECKTYPE t_ecb enctype plaintext key iv ciphertext decryptedtext) (\<lambda>_.
       bnd (CHECKTYPE t_chacha20 enctype plaintext key iv ciphertext decryptedtext) (\<lambda>_.
       ret 0))))))))))))))))"

subsection \<open>The two directions\<close>

text \<open>
  What the wrapper relies on: none of the three functions is the one that makes or
  frees a context.
\<close>

definition is_free :: "call \<Rightarrow> bool" where
  "is_free c \<longleftrightarrow> (case c of Ssl (EVP_CIPHER_CTX_free h) \<Rightarrow> True | _ \<Rightarrow> False)"

lemma is_free_simps [simp]:
  "is_free (Ssl (EVP_CIPHER_CTX_free h))" "\<not> is_free (Ssl EVP_CIPHER_CTX_new)"
  "\<not> is_free (Ssl ERR_print_errors_fp)" "\<not> is_free (Libc l)"
  by (simp_all add: is_free_def)

text \<open>The calls of a run that succeeds, and of a run that does not.\<close>

definition success_log ::
    "cipher_init \<Rightarrow> cipher_update \<Rightarrow> (handle \<Rightarrow> ssl_call) \<Rightarrow> cipher \<Rightarrow> int \<Rightarrow> int \<Rightarrow> event list \<Rightarrow> bool" where
  "success_log init update final enc n r new \<longleftrightarrow>
     (\<exists>c i u f x k v bs. new =
        [(Ssl EVP_CIPHER_CTX_new, c), (Ssl (init (r_handle c) enc k v), i),
         (Ssl (update (r_handle c) bs n), u), (Ssl (final (r_handle c)), f),
         (Ssl (EVP_CIPHER_CTX_free (r_handle c)), x)] \<and>
      r_handle c \<noteq> 0 \<and> length k = 32 \<and> length v = 16 \<and> length bs = nat n \<and>
      r_int i = 1 \<and> r_int u = 1 \<and> r_int f = 1 \<and>
      r = int (length (r_bytes u)) + int (length (r_bytes f)))"

lemma success_logI:
  assumes "r_handle c \<noteq> 0" "length k = 32" "length v = 16" "length bs = nat n"
    and "r_int i = 1" "r_int u = 1" "r_int f = 1"
  shows "success_log init update final enc n
    (int (length (r_bytes u)) + int (length (r_bytes f)))
    [(Ssl EVP_CIPHER_CTX_new, c), (Ssl (init (r_handle c) enc k v), i),
     (Ssl (update (r_handle c) bs n), u), (Ssl (final (r_handle c)), f),
     (Ssl (EVP_CIPHER_CTX_free (r_handle c)), x)]"
  unfolding success_log_def using assms by (intro exI conjI) (rule refl | assumption)+

locale cipher_calls =
  fixes init :: cipher_init and update :: cipher_update and final :: "handle \<Rightarrow> ssl_call"
  assumes init_no_free: "\<not> is_free (Ssl (init h enc k v))"
    and update_no_free: "\<not> is_free (Ssl (update h bs n))"
    and final_no_free: "\<not> is_free (Ssl (final h))"
begin

lemma bad_sizes:
  assumes "get_str (blocks s) iv = Inr v" "get_str (blocks s) key = Inr k"
    and "length v \<noteq> 16 \<or> length k \<noteq> 32"
  shows "AES_any init update final enc p n key iv q e s =
    (Ok (- 1), s\<lparr>evs := (Libc (Fprintf_stderr ''IV size will be 16. and key will be 32. (%d:%d) ''),
       answer e (evs s) (Libc (Fprintf_stderr ''IV size will be 16. and key will be 32. (%d:%d) ''))) # evs s\<rparr>)"
  using assms by (auto simp: AES_any_def exec)

lemma good_sizes:
  assumes "get_str (blocks s) iv = Inr v" "get_str (blocks s) key = Inr k"
    and "length v = 16" "length k = 32"
  shows "AES_any init update final enc p n key iv q e s =
    cipher_steps init update final enc p n key iv q e s"
  using assms by (simp add: AES_any_def exec)

lemma steps_run:
  assumes iv: "get_str (blocks s) iv = Inr v" and key: "get_str (blocks s) key = Inr k"
    and inp: "get_bytes (blocks s) p (nat n) = Inr bs"
    and out: "blocks s q = Some old" "length us + length fs \<le> length old"
    and new: "\<And>l. answer e l (Ssl EVP_CIPHER_CTX_new) = RHandle h" "h \<noteq> 0"
    and init: "\<And>l. answer e l (Ssl (init h enc k v)) = RInt 1"
    and update: "\<And>l. answer e l (Ssl (update h bs n)) = ROut 1 us"
    and final: "\<And>l. answer e l (Ssl (final h)) = ROut 1 fs"
  shows "\<exists>l. cipher_steps init update final enc p n key iv (Addr q 0) e s =
    (Ok (int (length us + length fs)),
     s\<lparr>blocks := (blocks s)(q \<mapsto> map Byte (us @ fs) @ drop (length us + length fs) old), evs := l\<rparr>)"
  using assms by (simp add: cipher_steps_def exec add.commute) blast

lemma steps_log:
  assumes "cipher_steps init update final enc p n key iv q e s = (Ok r, t)"
    and "get_str (blocks s) iv = Inr v" "get_str (blocks s) key = Inr k"
    and "length v = 16" "length k = 32"
  shows "\<exists>new. events t = events s @ new \<and>
    (r = - 1 \<and> (\<forall>ev\<in>set new. \<not> is_free (fst ev)) \<or> success_log init update final enc n r new)"
  using assms
  by (auto simp: cipher_steps_def HANDLERRSSL_def ok_iff_basic(1,2,3,5) ok_iff_mem
      init_no_free update_no_free final_no_free events_def
      split: if_splits intro!: success_logI dest!: ext_OkD get_bytes_length)

end

interpretation decrypting: cipher_calls EVP_DecryptInit_ex EVP_DecryptUpdate EVP_DecryptFinal_ex
  by unfold_locales (simp_all add: is_free_def)

interpretation encrypting: cipher_calls EVP_EncryptInit_ex EVP_EncryptUpdate EVP_EncryptFinal_ex
  by unfold_locales (simp_all add: is_free_def)

subsection \<open>Random keys\<close>

lemma rand_byte_nonzero: "(of_nat (r mod 255 + 1) :: byte) \<noteq> NUL"
proof
  assume "(of_nat (r mod 255 + 1) :: byte) = NUL"
  then have "2 ^ LENGTH(8) dvd r mod 255 + 1"
    by (subst (asm) word_of_nat_eq_0_iff)
  then have "256 \<le> r mod 255 + 1"
    by (intro dvd_imp_le) simp_all
  then show False
    using mod_less_divisor [of 255 r] by simp
qed

lemma rand_bytes_loop_run:
  assumes "blocks s b = Some cs" "i \<le> length cs"
  shows "\<exists>bs l. rand_bytes_loop i (Addr b 0) e s =
      (Ok (), s\<lparr>blocks := (blocks s)(b \<mapsto> map Byte bs @ drop i cs), evs := l @ evs s\<rparr>) \<and>
    length bs = i \<and> NUL \<notin> set bs \<and> length l = i"
  using assms
proof (induction i arbitrary: s cs)
  case 0
  then show ?case
    by (intro exI [of _ "[]"]) (simp add: exec fun_upd_idem)
next
  case (Suc i)
  let ?x = "of_nat (rand_val e (evs s) mod 255 + 1) :: byte"
  let ?ev = "(Libc Rand, answer e (evs s) (Libc Rand))"
  let ?t = "s\<lparr>blocks := (blocks s)(b \<mapsto> cs[i := Byte ?x]), evs := ?ev # evs s\<rparr>"
  have step: "rand_bytes_loop (Suc i) (Addr b 0) e s = rand_bytes_loop i (Addr b 0) e ?t"
    using Suc.prems by (simp add: exec upd_conv_take_nth_drop)
  have 1: "blocks ?t b = Some (cs[i := Byte ?x])" and 2: "i \<le> length (cs[i := Byte ?x])"
    using Suc.prems(2) by simp_all
  obtain bs l where IH: "rand_bytes_loop i (Addr b 0) e ?t =
      (Ok (), ?t\<lparr>blocks := (blocks ?t)(b \<mapsto> map Byte bs @ drop i (cs[i := Byte ?x])), evs := l @ evs ?t\<rparr>)"
    "length bs = i" "NUL \<notin> set bs" "length l = i"
    using Suc.IH [OF 1 2] by blast
  have "drop i (cs[i := Byte ?x]) = Byte ?x # drop (Suc i) cs"
    using Suc.prems(2) by (simp add: drop_update_swap Cons_nth_drop_Suc [symmetric])
  then have eq: "rand_bytes_loop (Suc i) (Addr b 0) e s =
      (Ok (), s\<lparr>blocks := (blocks s)(b \<mapsto> map Byte (bs @ [?x]) @ drop (Suc i) cs), evs := (l @ [?ev]) @ evs s\<rparr>)"
    unfolding step IH(1) by simp
  show ?case
    by (intro exI conjI, rule eq) (use IH(2-4) rand_byte_nonzero in \<open>simp_all del: of_nat_add of_nat_Suc\<close>)
qed

lemma generate_rand_bytes_run:
  assumes b: "blocks s b = Some cs" and len: "0 < n" "n \<le> length cs" "n \<le> 2 ^ 32"
  shows "\<exists>bs l. generate_rand_bytes n (Addr b 0) e s =
      (Ok (), s\<lparr>blocks := (blocks s)(b \<mapsto> map Byte bs @ drop (n - 1) cs), evs := l\<rparr>) \<and>
    length bs = n - 1 \<and> NUL \<notin> set bs"
proof -
  have "c_uint (int n - 1) = n - 1"
    using len by (simp add: nat_diff_distrib)
  moreover define l0 where "l0 = (Libc (Srand (r_int (answer e (evs s) (Libc Time)))),
      answer e ((Libc Time, answer e (evs s) (Libc Time)) # evs s)
        (Libc (Srand (r_int (answer e (evs s) (Libc Time)))))) #
      (Libc Time, answer e (evs s) (Libc Time)) # evs s"
  ultimately have "generate_rand_bytes n (Addr b 0) e s = rand_bytes_loop (n - 1) (Addr b 0) e (s\<lparr>evs := l0\<rparr>)"
    by (simp add: generate_rand_bytes_def exec)
  moreover have 1: "blocks (s\<lparr>evs := l0\<rparr>) b = Some cs" and 2: "n - 1 \<le> length cs"
    using b len by simp_all
  moreover obtain bs l where "rand_bytes_loop (n - 1) (Addr b 0) e (s\<lparr>evs := l0\<rparr>) =
      (Ok (), s\<lparr>evs := l0, blocks := (blocks s)(b \<mapsto> map Byte bs @ drop (n - 1) cs), evs := l\<rparr>)"
    "length bs = n - 1" "NUL \<notin> set bs"
    using rand_bytes_loop_run [OF 1 2, of e] by auto
  ultimately show ?thesis
    by (intro exI [of _ bs] exI [of _ l]) simp
qed

lemma rand_bytes_loop_oob:
  "blocks s b = Some cs \<Longrightarrow> length cs \<le> i \<Longrightarrow>
   fst (rand_bytes_loop (Suc i) (Addr b 0) e s) = Err OutOfBounds"
  by (simp add: exec)

text \<open>A length of 0 wraps the counter around, and the first store is far outside.\<close>

lemma generate_rand_bytes_zero:
  assumes "blocks s b = Some cs" "length cs < 2 ^ 32 - 1"
  shows "fst (generate_rand_bytes 0 (Addr b 0) e s) = Err OutOfBounds"
proof -
  have "c_uint (int 0 - 1) = Suc 4294967294"
    by (simp add: c_uint_def)
  then show ?thesis
    using assms
    by (simp add: generate_rand_bytes_def exec rand_bytes_loop_oob [of _ _ _ 4294967294, simplified]
        del: rand_bytes_loop.simps)
qed

subsection \<open>The test program reads a byte that was never written\<close>

lemma get_str_unterminated:
  "m b = Some (map Byte bs @ [Undef]) \<Longrightarrow> NUL \<notin> set bs \<Longrightarrow> get_str m (Addr b 0) = Inl UninitRead"
  by (induction bs arbitrary: m) (simp_all add: get_str_def cells_of_def)

lemma AES_test_uninit:
  assumes fr: "fresh s"
  shows "fst (libbacteria_AES_test 3 values e s) = Err UninitRead"
proof -
  let ?k = "nxt s" and ?i = "Suc (nxt s)"
  let ?s = "new_block (replicate 16 Undef) (new_block (replicate 32 Undef) s)"
  obtain ks l1 where k: "generate_rand_bytes 32 (Addr ?k 0) e ?s =
      (Ok (), ?s\<lparr>blocks := (blocks ?s)(?k \<mapsto> map Byte ks @ [Undef]), evs := l1\<rparr>)" "NUL \<notin> set ks"
    using generate_rand_bytes_run [of ?s ?k "replicate 32 Undef" 32 e] by (auto simp: )
  let ?t = "?s\<lparr>blocks := (blocks ?s)(?k \<mapsto> map Byte ks @ [Undef]), evs := l1\<rparr>"
  obtain vs l2 where i: "generate_rand_bytes 16 (Addr ?i 0) e ?t =
      (Ok (), ?t\<lparr>blocks := (blocks ?t)(?i \<mapsto> map Byte vs @ [Undef]), evs := l2\<rparr>)"
    using generate_rand_bytes_run [of ?t ?i "replicate 16 Undef" 16 e] by auto
  have "get_str ((blocks ?t)(?i \<mapsto> map Byte vs @ [Undef])) (Addr ?k 0) = Inl UninitRead"
    using k(2) by (intro get_str_unterminated) auto
  then show ?thesis
    using k(1) i by (simp add: libbacteria_AES_test_def local_arr_def exec split: prod.split)
qed

end
