(* ===== verification/Encdec_Props.thy ===== *)
theory Encdec_Props
  imports Base64 Hashes AES
begin

text \<open>The properties of the coding, hashing and cipher wrappers, each with an instance.\<close>

subsection \<open>Base64\<close>

text \<open>On the reference encoding of any non-empty byte string,
  \<open>calcDecodeLength\<close> returns the number of bytes that were encoded, for every padding,
  and reads nothing outside the text.\<close>

theorem calcDecodeLength_correct:
  assumes "get_str (blocks s) p = Inr (b64_encode xs)" "xs \<noteq> []" "length xs < 2 ^ 60"
  shows "calcDecodeLength p e s = (Ok (length xs), s)"
  using assms by (rule calcDecodeLength_run)

theorem calcDecodeLength_correct_witness:
  "calcDecodeLength (Addr 0 0) (const_env RUnit) (state_of [cstr (b64_encode [77])]) =
    (Ok (length [77 :: byte]), state_of [cstr (b64_encode [77])])"
  by (rule calcDecodeLength_correct) (simp_all add: b64_no_NUL)

text \<open>An empty text makes \<open>calcDecodeLength\<close> read in front of its block.\<close>

theorem calcDecodeLength_underflow:
  assumes "blocks s b = Some (cstr [])"
  shows "calcDecodeLength (Addr b 0) e s = (Err OutOfBounds, s)"
  using assms by (rule calcDecodeLength_empty)

theorem calcDecodeLength_underflow_witness:
  "calcDecodeLength (Addr 0 0) (const_env RUnit) (state_of [cstr []]) = (Err OutOfBounds, state_of [cstr []])"
  by (rule calcDecodeLength_underflow) simp

text \<open>Claim C38: when OpenSSL decodes an encoded text to the bytes it encodes,
  \<open>Base64Decode\<close> returns a new block of exactly those bytes and a terminator, with
  their number, and changes nothing else in memory.\<close>

theorem Base64Decode_correct:
  assumes "alloc_total e" "fresh s" "get_str (blocks s) p = Inr (b64_encode xs)"
    and "xs \<noteq> []" "length xs < 2 ^ 30"
    and "\<And>l h. answer e l (Ssl (BIO_read h (length (b64_encode xs)))) = ROut (int (length xs)) xs"
  shows "\<exists>l. Base64Decode p e s =
    (Ok (Addr (nxt s) 0, length xs), (new_block (cstr xs) s)\<lparr>evs := l\<rparr>)"
  using assms by (rule Base64Decode_run)

theorem Base64Decode_correct_witness:
  "\<exists>l. Base64Decode (Addr 0 0) (const_env (ROut (int (length [77 :: byte])) [77])) (state_of [cstr (b64_encode [77])]) =
    (Ok (Addr (nxt (state_of [cstr (b64_encode [77])])) 0, length [77 :: byte]),
     (new_block (cstr [77]) (state_of [cstr (b64_encode [77])]))\<lparr>evs := l\<rparr>)"
  by (rule Base64Decode_correct) (simp_all add: b64_no_NUL)

text \<open>When OpenSSL reports another number of bytes, an error included,
  \<open>Base64Decode\<close> stops at its assertion instead of returning.\<close>

theorem Base64Decode_asserts:
  assumes "alloc_total e" "fresh s" "get_str (blocks s) p = Inr (b64_encode xs)"
    and "xs \<noteq> []" "length xs < 2 ^ 30"
    and "\<And>l h. answer e l (Ssl (BIO_read h (length (b64_encode xs)))) = ROut n ds"
    and "length ds \<le> length xs + 1" "n \<noteq> int (length xs)" "\<bar>n\<bar> < 2 ^ 31"
  shows "fst (Base64Decode p e s) = Err AssertFailed"
  using assms by (rule Base64Decode_mismatch)

theorem Base64Decode_asserts_witness:
  "fst (Base64Decode (Addr 0 0) (const_env (ROut (- 1) [])) (state_of [cstr (b64_encode [77])])) = Err AssertFailed"
  by (rule Base64Decode_asserts [where xs = "[77]" and n = "- 1" and ds = "[]"]) (simp_all add: b64_no_NUL)

text \<open>\<open>Base64Encode\<close> hands out the bytes OpenSSL produced and no terminator:
  a caller that reads the result as a string reads past its end.\<close>

theorem Base64Encode_unterminated:
  assumes "get_bytes (blocks s) p n = Inr bs"
    and "\<And>l h. answer e l (Ssl (BIO_get_mem_data h)) = ROut k out" "NUL \<notin> set out"
  shows "\<exists>t. Base64Encode p n e s = (Ok (Addr (nxt s) 0), t) \<and>
    blocks t = (blocks s)(nxt s \<mapsto> map Byte out) \<and>
    get_str (blocks t) (Addr (nxt s) 0) = Inl OutOfBounds"
proof -
  obtain l where "Base64Encode p n e s = (Ok (Addr (nxt s) 0), (new_block (map Byte out) s)\<lparr>evs := l\<rparr>)"
    using Base64Encode_run [OF assms(1,2)] by blast
  then show ?thesis
    using assms(3) by (simp add: get_str_def cells_of_def scan_map_Byte)
qed

theorem Base64Encode_unterminated_witness:
  "\<exists>t. Base64Encode (Addr 0 0) 1 (const_env (ROut 4 (b64_encode [77]))) (state_of [[Byte 77]]) =
      (Ok (Addr (nxt (state_of [[Byte 77]])) 0), t) \<and>
    blocks t = (blocks (state_of [[Byte 77]]))(nxt (state_of [[Byte 77]]) \<mapsto> map Byte (b64_encode [77])) \<and>
    get_str (blocks t) (Addr (nxt (state_of [[Byte 77]])) 0) = Inl OutOfBounds"
  by (rule Base64Encode_unterminated [where bs = "[77]"])
    (simp_all add: b64_no_NUL get_bytes_def get_cells_def cells_of_def)

subsection \<open>Digests\<close>

text \<open>\<open>toSHA256\<close> and \<open>toSHA512\<close> fill an output array of the size their
  prototypes declare, 65 and 129, with the hexadecimal digits of the digest and the
  terminator, and then store a zero one element past that array.\<close>

theorem sha_overflows:
  assumes "fresh s" "get_str (blocks s) p = Inr bs" "blocks s q = Some cs"
    and "\<And>l. answer e l (Ssl (SHA_Final h)) = ROut k d"
    and "length d = (case h of SHA256 \<Rightarrow> 32 | SHA512 \<Rightarrow> 64)"
    and "length cs = (case h of SHA256 \<Rightarrow> 65 | SHA512 \<Rightarrow> 129)"
  shows "\<exists>t. (case h of SHA256 \<Rightarrow> toSHA256 | SHA512 \<Rightarrow> toSHA512) p (Addr q 0) e s = (Err OutOfBounds, t) \<and>
    blocks t q = Some (cstr (hex d))"
  using init_hash_func_overflow [OF assms(1-3), of h e k d] assms(4-6)
  by (cases h) (simp_all add: toSHA256_def toSHA512_def)

theorem sha_overflows_witness:
  "\<exists>t. (case SHA256 of SHA256 \<Rightarrow> toSHA256 | SHA512 \<Rightarrow> toSHA512) (Addr 0 0) (Addr 1 0)
      (const_env (ROut 1 (replicate 32 7))) (state_of [cstr [97], replicate 65 Undef]) = (Err OutOfBounds, t) \<and>
    blocks t 1 = Some (cstr (hex (replicate 32 7)))"
  by (rule sha_overflows [where cs = "replicate 65 Undef"]) simp_all

text \<open>Into an output array with at least one cell more, the same call writes
  the digits and two zeros, leaves the rest of the array and every other block as they
  were, and different digests of the declared length give different digits.\<close>

theorem sha_into_larger_buffer:
  assumes "fresh s" "get_str (blocks s) p = Inr bs" "blocks s q = Some cs"
    and "\<And>l. answer e l (Ssl (SHA_Final SHA256)) = ROut k d" "length d = 32" "65 < length cs"
    and "length d' = 32"
  shows "(\<exists>t. toSHA256 p (Addr q 0) e s = (Ok (), t) \<and>
      blocks t = (blocks s)(q \<mapsto> cstr (hex d) @ Byte NUL # drop 66 cs)) \<and>
    (hex d' = hex d \<longleftrightarrow> d' = d)"
  using init_hash_func_run [OF assms(1-3), of SHA256 e k d] assms(4-7)
  by (simp add: toSHA256_def hex_inj)

theorem sha_into_larger_buffer_witness:
  "(\<exists>t. toSHA256 (Addr 0 0) (Addr 1 0) (const_env (ROut 1 (replicate 32 7)))
        (state_of [cstr [97], replicate 66 Undef]) = (Ok (), t) \<and>
      blocks t = (blocks (state_of [cstr [97], replicate 66 Undef]))
        (1 \<mapsto> cstr (hex (replicate 32 7)) @ Byte NUL # drop 66 (replicate 66 Undef))) \<and>
    (hex (replicate 32 8) = hex (replicate 32 7) \<longleftrightarrow> replicate 32 8 = replicate 32 (7 :: byte))"
  by (rule sha_into_larger_buffer) simp_all

subsection \<open>Ciphers\<close>

text \<open>A key that is not 32 bytes long or an IV that is not 16 bytes long makes
  both directions return -1 after one message on standard error: no OpenSSL function is
  called and no memory changes.\<close>

theorem AES_rejects_sizes:
  assumes "get_str (blocks s) iv = Inr v" "get_str (blocks s) key = Inr k"
    and "length v \<noteq> 16 \<or> length k \<noteq> 32"
  shows "\<exists>r. AES_any_encrypt enc p n key iv q e s =
      (Ok (- 1), s\<lparr>evs := (Libc (Fprintf_stderr ''IV size will be 16. and key will be 32. (%d:%d) ''), r) # evs s\<rparr>) \<and>
    AES_any_decrypt enc p n key iv q e s =
      (Ok (- 1), s\<lparr>evs := (Libc (Fprintf_stderr ''IV size will be 16. and key will be 32. (%d:%d) ''), r) # evs s\<rparr>)"
  using encrypting.bad_sizes [OF assms] decrypting.bad_sizes [OF assms]
  by (simp add: AES_any_encrypt_def AES_any_decrypt_def) blast

theorem AES_rejects_sizes_witness:
  "\<exists>r. AES_any_encrypt EVP_aes_256_cbc Null 0 (Addr 0 0) (Addr 0 0) Null (const_env RUnit) (state_of [cstr [97]]) =
      (Ok (- 1), (state_of [cstr [97]])\<lparr>evs := (Libc (Fprintf_stderr ''IV size will be 16. and key will be 32. (%d:%d) ''), r) # evs (state_of [cstr [97]])\<rparr>) \<and>
    AES_any_decrypt EVP_aes_256_cbc Null 0 (Addr 0 0) (Addr 0 0) Null (const_env RUnit) (state_of [cstr [97]]) =
      (Ok (- 1), (state_of [cstr [97]])\<lparr>evs := (Libc (Fprintf_stderr ''IV size will be 16. and key will be 32. (%d:%d) ''), r) # evs (state_of [cstr [97]])\<rparr>)"
  by (rule AES_rejects_sizes [where v = "[97]" and k = "[97]"]) simp_all

text \<open>Claim C13: for a key and an IV of the right sizes, encryption returns either -1, and
  then it has not freed the context it made, or the number of bytes the two output
  steps wrote, and then the calls were exactly: make a context, initialise it with the
  32 key bytes and the 16 IV bytes, one update with all the input, one final, free the
  context; each of them succeeded.\<close>

theorem AES_encrypt_protocol:
  assumes "AES_any_encrypt enc p n key iv q e s = (Ok r, t)"
    and "get_str (blocks s) iv = Inr v" "get_str (blocks s) key = Inr k"
    and "length v = 16" "length k = 32"
  shows "\<exists>new. events t = events s @ new \<and>
    (r = - 1 \<and> list_all (\<lambda>ev. \<not> is_free (fst ev)) new \<or>
     success_log EVP_EncryptInit_ex EVP_EncryptUpdate EVP_EncryptFinal_ex enc n r new)"
  using assms encrypting.steps_log [OF _ assms(2-5)] encrypting.good_sizes [OF assms(2-5)]
  by (simp add: AES_any_encrypt_def list_all_iff)

text \<open>An environment for the instances: every call but the making of a context answers
  with success and one byte.\<close>

definition cipher_env :: env where
  "cipher_env = \<lparr>malloc_ok = (\<lambda>_ _. True),
     answer = (\<lambda>l c. if c = Ssl EVP_CIPHER_CTX_new then RHandle 1 else ROut 1 [])\<rparr>"

theorem AES_encrypt_protocol_witness:
  fixes s defines "s \<equiv> state_of [cstr (replicate 32 75), cstr (replicate 16 86), [Byte 97], [Undef]]"
  shows "\<exists>new. events (snd (AES_any_encrypt EVP_aes_256_cbc (Addr 2 0) 1 (Addr 0 0) (Addr 1 0) (Addr 3 0) cipher_env s)) = events s @ new \<and>
    (0 = (- 1 :: int) \<and> list_all (\<lambda>ev. \<not> is_free (fst ev)) new \<or>
     success_log EVP_EncryptInit_ex EVP_EncryptUpdate EVP_EncryptFinal_ex EVP_aes_256_cbc 1 0 new)"
proof (rule AES_encrypt_protocol)
  have str: "get_str (blocks s) (Addr 1 0) = Inr (replicate 16 86)" "get_str (blocks s) (Addr 0 0) = Inr (replicate 32 75)"
    by (simp_all add: s_def)
  have "fst (AES_any_encrypt EVP_aes_256_cbc (Addr 2 0) 1 (Addr 0 0) (Addr 1 0) (Addr 3 0) cipher_env s) = Ok 0"
    using str by (simp add: AES_any_encrypt_def AES_any_def cipher_steps_def exec cipher_env_def s_def get_bytes_def
        get_cells_def cells_of_def)
  then show "AES_any_encrypt EVP_aes_256_cbc (Addr 2 0) 1 (Addr 0 0) (Addr 1 0) (Addr 3 0) cipher_env s =
      (Ok 0, snd (AES_any_encrypt EVP_aes_256_cbc (Addr 2 0) 1 (Addr 0 0) (Addr 1 0) (Addr 3 0) cipher_env s))"
    by (metis prod.collapse)
  show "get_str (blocks s) (Addr 1 0) = Inr (replicate 16 86)" "get_str (blocks s) (Addr 0 0) = Inr (replicate 32 75)"
    by (rule str)+
qed simp_all

text \<open>Claim C16: if OpenSSL's decryption of a ciphertext gives back the plaintext, then
  what \<open>AES_any_encrypt\<close> leaves in its output buffer, passed to \<open>AES_any_decrypt\<close> with
  the length it returned, gives back the plaintext: the wrappers pass on all of the
  data, in order, with the right lengths.\<close>

theorem AES_roundtrip:
  assumes "get_str (blocks s) iv = Inr v" "get_str (blocks s) key = Inr k" "length v = 16" "length k = 32"
    and "iv = Addr vb i" "key = Addr kb j" "distinct [pb, kb, vb, cb, qb]"
    and "blocks s pb = Some (map Byte pt)" "blocks s cb = Some cold" "blocks s qb = Some qold"
    and "length us + length fs \<le> length cold" "length pt \<le> length qold" "us' @ fs' = pt"
    and "\<And>l. answer e l (Ssl EVP_CIPHER_CTX_new) = RHandle h" "h \<noteq> 0"
    and "\<And>l. answer e l (Ssl (EVP_EncryptInit_ex h enc k v)) = RInt 1"
    and "\<And>l. answer e l (Ssl (EVP_EncryptUpdate h pt (int (length pt)))) = ROut 1 us"
    and "\<And>l. answer e l (Ssl (EVP_EncryptFinal_ex h)) = ROut 1 fs"
    and "\<And>l. answer e l (Ssl (EVP_DecryptInit_ex h enc k v)) = RInt 1"
    and "\<And>l. answer e l (Ssl (EVP_DecryptUpdate h (us @ fs) (int (length (us @ fs))))) = ROut 1 us'"
    and "\<And>l. answer e l (Ssl (EVP_DecryptFinal_ex h)) = ROut 1 fs'"
  shows "\<exists>t. bnd (AES_any_encrypt enc (Addr pb 0) (int (length pt)) key iv (Addr cb 0)) (\<lambda>n.
      AES_any_decrypt enc (Addr cb 0) n key iv (Addr qb 0)) e s = (Ok (int (length pt)), t) \<and>
    get_bytes (blocks t) (Addr qb 0) (length pt) = Inr pt"
proof -
  have inp: "get_bytes (blocks s) (Addr pb 0) (nat (int (length pt))) = Inr pt"
    using assms(8) by simp
  obtain l1 where enc: "AES_any_encrypt enc (Addr pb 0) (int (length pt)) key iv (Addr cb 0) e s =
      (Ok (int (length us + length fs)),
       s\<lparr>blocks := (blocks s)(cb \<mapsto> map Byte (us @ fs) @ drop (length us + length fs) cold), evs := l1\<rparr>)"
    using encrypting.steps_run [OF assms(1,2) inp assms(9,11,14,15,16-18)]
      encrypting.good_sizes [OF assms(1-4)] by (auto simp: AES_any_encrypt_def)
  let ?s = "s\<lparr>blocks := (blocks s)(cb \<mapsto> map Byte (us @ fs) @ drop (length us + length fs) cold), evs := l1\<rparr>"
  have str: "get_str (blocks ?s) iv = Inr v" "get_str (blocks ?s) key = Inr k"
    using assms(1,2,5-7) by simp_all
  have inp2: "get_bytes (blocks ?s) (Addr cb 0) (nat (int (length us + length fs))) = Inr (us @ fs)"
    unfolding nat_int by (simp add: get_bytes_def get_cells_def cells_of_def flip: map_append)
  have qb: "blocks ?s qb = Some qold" "length us' + length fs' \<le> length qold"
    using assms(7,10,12,13) by auto
  have upd: "\<And>l. answer e l (Ssl (EVP_DecryptUpdate h (us @ fs) (int (length us + length fs)))) = ROut 1 us'"
    using assms(20) by simp
  obtain l2 where "AES_any_decrypt enc (Addr cb 0) (int (length us + length fs)) key iv (Addr qb 0) e ?s =
      (Ok (int (length us' + length fs')),
       ?s\<lparr>blocks := (blocks ?s)(qb \<mapsto> map Byte (us' @ fs') @ drop (length us' + length fs') qold), evs := l2\<rparr>)"
    using decrypting.steps_run [OF str inp2 qb assms(14,15,19) upd assms(21)]
      decrypting.good_sizes [OF str assms(3,4)] by (auto simp: AES_any_decrypt_def)
  moreover have "length us' + length fs' = length pt"
    using assms(13) by auto
  ultimately show ?thesis
    using enc assms(13)
    by (simp add: run_bnd get_bytes_def get_cells_def cells_of_def flip: map_append)
qed

text \<open>A cipher that encrypts one \<open>a\<close> to two bytes.\<close>

definition toy_cipher :: env where
  "toy_cipher = \<lparr>malloc_ok = (\<lambda>_ _. True), answer = (\<lambda>l c.
     case c of
       Ssl EVP_CIPHER_CTX_new \<Rightarrow> RHandle 1
     | Ssl (EVP_EncryptUpdate h bs n) \<Rightarrow> ROut 1 [9]
     | Ssl (EVP_EncryptFinal_ex h) \<Rightarrow> ROut 1 [8]
     | Ssl (EVP_DecryptUpdate h bs n) \<Rightarrow> ROut 1 [97]
     | Ssl (EVP_DecryptFinal_ex h) \<Rightarrow> ROut 1 []
     | _ \<Rightarrow> RInt 1)\<rparr>"

theorem AES_roundtrip_witness:
  fixes s defines "s \<equiv> state_of [cstr (replicate 32 75), cstr (replicate 16 86), map Byte [97], [Undef, Undef], [Undef]]"
  shows "\<exists>t. bnd (AES_any_encrypt EVP_aes_256_cbc (Addr 2 0) (int (length [97 :: byte])) (Addr 0 0) (Addr 1 0) (Addr 3 0)) (\<lambda>n.
      AES_any_decrypt EVP_aes_256_cbc (Addr 3 0) n (Addr 0 0) (Addr 1 0) (Addr 4 0)) toy_cipher s = (Ok (int (length [97 :: byte])), t) \<and>
    get_bytes (blocks t) (Addr 4 0) (length [97 :: byte]) = Inr [97]"
  by (rule AES_roundtrip [where h = 1 and us = "[9]" and fs = "[8]" and us' = "[97]" and fs' = "[]" and
        v = "replicate 16 86" and k = "replicate 32 75" and cold = "[Undef, Undef]" and qold = "[Undef]" and vb = 1 and i = 0 and kb = 0 and j = 0])
    (simp_all add: s_def toy_cipher_def)

subsection \<open>Random keys\<close>

text \<open>\<open>generate_rand_bytes\<close> stores a byte between 1 and 255 in every element
  but the last of the \<open>len\<close> it is asked for, whatever \<open>rand\<close> returns, and leaves the
  last one, the rest of the block and all other blocks as they were.\<close>

theorem generate_rand_bytes_skips_last:
  assumes "blocks s b = Some cs" "0 < n" "n \<le> length cs" "n \<le> 2 ^ 32"
  shows "\<exists>bs l. generate_rand_bytes n (Addr b 0) e s =
      (Ok (), s\<lparr>blocks := (blocks s)(b \<mapsto> map Byte bs @ drop (n - 1) cs), evs := l\<rparr>) \<and>
    length bs = n - 1 \<and> NUL \<notin> set bs"
  using assms by (rule generate_rand_bytes_run)

theorem generate_rand_bytes_skips_last_witness:
  "\<exists>bs l. generate_rand_bytes 2 (Addr 0 0) (const_env (RInt 7)) (state_of [[Undef, Undef]]) =
      (Ok (), (state_of [[Undef, Undef]])\<lparr>blocks := (blocks (state_of [[Undef, Undef]]))(0 \<mapsto>
         map Byte bs @ drop (2 - 1) [Undef, Undef]), evs := l\<rparr>) \<and>
    length bs = 2 - 1 \<and> NUL \<notin> set bs"
  by (rule generate_rand_bytes_skips_last) simp_all

text \<open>Asked for no bytes at all, \<open>generate_rand_bytes\<close> wraps its counter around
  and its first store is outside every block of less than \<open>2 ^ 32 - 1\<close> bytes.\<close>

theorem generate_rand_bytes_zero_wraps:
  assumes "blocks s b = Some cs" "length cs < 2 ^ 32 - 1"
  shows "fst (generate_rand_bytes 0 (Addr b 0) e s) = Err OutOfBounds"
  using assms by (rule generate_rand_bytes_zero)

theorem generate_rand_bytes_zero_wraps_witness:
  "fst (generate_rand_bytes 0 (Addr 0 0) (const_env (RInt 7)) (state_of [[Undef]])) = Err OutOfBounds"
  by (rule generate_rand_bytes_zero_wraps [where cs = "[Undef]"]) simp_all

text \<open>Because of the byte that is never written, the test program reads
  uninitialised memory when it prints its key, for every message, cipher and value of
  \<open>rand\<close>.\<close>

theorem AES_test_reads_uninitialised:
  assumes "fresh s"
  shows "fst (libbacteria_AES_test 3 values e s) = Err UninitRead"
  using assms by (rule AES_test_uninit)

theorem AES_test_reads_uninitialised_witness:
  "fst (libbacteria_AES_test 3 Null (const_env (RInt 0)) empty_state) = Err UninitRead"
  by (rule AES_test_reads_uninitialised) simp

end
