(* ===== verification/Images.thy ===== *)
theory Images
  imports C_Frame
begin

text \<open>
  \<open>libbacteria/images/images.c\<close>: the table of named colours, random strings, drawing with
  bounds checks, and the captcha. The static variables \<open>colors\<close> and \<open>cColors\<close> are
  fields of the state. The four random arguments of \<open>RANDCLR\<close>, whose order of
  evaluation C leaves open, are drawn from left to right.
\<close>

subsection \<open>Data\<close>

abbreviation MAXNAMECOLOR :: nat where "MAXNAMECOLOR \<equiv> 128"
abbreviation MAXCOLORS :: nat where "MAXCOLORS \<equiv> 128"
abbreviation CAPTCHALEN :: nat where "CAPTCHALEN \<equiv> 14"

record gdColor =
  cname :: "byte list"
  color :: int

record RGBa =
  red :: nat
  green :: nat
  blue :: nat
  alpha :: nat

text \<open>\<open>textOnImage\<close> is \<open>None\<close> while it was never assigned.\<close>

record image =
  im :: handle
  width :: nat
  height :: nat
  textOnImage :: "ptr option"

record captcha =
  captcha_text :: "byte list"
  raw :: ptr
  raw_size :: "int option"

record img_state = cstate +
  colors :: "gdColor list"
  cColors :: nat

definition img_start :: img_state where
  "img_start = \<lparr>blocks = Map.empty, nxt = 0, evs = [],
     colors = replicate MAXCOLORS \<lparr>cname = replicate MAXNAMECOLOR NUL, color = 0\<rparr>, cColors = 0\<rparr>"

subsection \<open>Colours\<close>

definition gdInitColor :: "image \<Rightarrow> RGBa \<Rightarrow> ('z, int) prog" where
  "gdInitColor i c =
     bnd (ext (Gd (gdImageColorAllocateAlpha (im i) (red c) (green c) (blue c) (alpha c)))) (\<lambda>r.
     ret (r_int r))"

text \<open>An assignment to \<open>colors[i]\<close>; the table has \<open>MAXCOLORS\<close> entries.\<close>

definition set_entry :: "nat \<Rightarrow> (gdColor \<Rightarrow> gdColor) \<Rightarrow> ('z img_state_scheme \<Rightarrow> 'z img_state_scheme)" where
  "set_entry i f s = s\<lparr>colors := (colors s)[i := f (colors s ! i)]\<rparr>"

definition entry_ok :: "nat \<Rightarrow> env \<Rightarrow> 'z img_state_scheme \<Rightarrow> unit res \<times> 'z img_state_scheme" where
  "entry_ok i = bnd (gets (\<lambda>s. i < length (colors s))) (\<lambda>ok. if ok then ret () else fail OutOfBounds)"

definition pad_name :: "byte list \<Rightarrow> byte list" where
  "pad_name nm = nm @ replicate (MAXNAMECOLOR - length nm) NUL"

definition gdSetColor ::
    "image \<Rightarrow> int \<Rightarrow> ptr \<Rightarrow> RGBa \<Rightarrow> env \<Rightarrow> 'z img_state_scheme \<Rightarrow> int res \<times> 'z img_state_scheme" where
  "gdSetColor img i name c =
     (if i > int MAXCOLORS \<or> i < 0 then ret (- 1) else
     bnd (read_strn name MAXNAMECOLOR) (\<lambda>nm.
     bnd (entry_ok (nat i)) (\<lambda>_.
     bnd (modify (set_entry (nat i) (\<lambda>g. g\<lparr>cname := pad_name nm\<rparr>))) (\<lambda>_.
     bnd (gdInitColor img c) (\<lambda>col.
     bnd (modify (set_entry (nat i) (\<lambda>g. g\<lparr>color := col\<rparr>))) (\<lambda>_.
     ret 1))))))"

definition gdAddColor ::
    "image \<Rightarrow> ptr \<Rightarrow> RGBa \<Rightarrow> env \<Rightarrow> 'z img_state_scheme \<Rightarrow> unit res \<times> 'z img_state_scheme" where
  "gdAddColor img name c =
     bnd (gets cColors) (\<lambda>n.
     bnd (gdSetColor img (int n) name c) (\<lambda>r.
     if r = - 1 then ret () else
     modify (\<lambda>s. s\<lparr>cColors := c_uchar (int (cColors s) + 1)\<rparr>)))"

text \<open>
  \<open>strcmp (a, b) == 0\<close> for the array \<open>a\<close> and the string \<open>b\<close>: it looks no further than
  the first difference.
\<close>

fun name_eq :: "byte list \<Rightarrow> byte list \<Rightarrow> fault + bool" where
  "name_eq [] ys = Inl OutOfBounds"
| "name_eq (x # xs) [] = Inr (x = NUL)"
| "name_eq (x # xs) (y # ys) = (if x = y then name_eq xs ys else Inr False)"

primrec found_loop ::
    "nat \<Rightarrow> byte list \<Rightarrow> env \<Rightarrow> 'z img_state_scheme \<Rightarrow> int res \<times> 'z img_state_scheme" where
  "found_loop 0 nm = ret 0"
| "found_loop (Suc i) nm =
     bnd (entry_ok i) (\<lambda>_.
     bnd (gets (\<lambda>s. colors s ! i)) (\<lambda>g.
     case name_eq (cname g) nm of
       Inl x \<Rightarrow> fail x
     | Inr True \<Rightarrow> ret (color g)
     | Inr False \<Rightarrow> found_loop i nm))"

definition gdFoundColor :: "ptr \<Rightarrow> env \<Rightarrow> 'z img_state_scheme \<Rightarrow> int res \<times> 'z img_state_scheme" where
  "gdFoundColor name =
     bnd (gets cColors) (\<lambda>n.
     if n = 0 then ret 0 else
     bnd (read_str name) (\<lambda>nm. found_loop n nm))"

definition seed :: "('z, unit) prog" where
  "seed = bnd (ext (Libc Time)) (\<lambda>t. bnd (ext (Libc (Srand (r_int t)))) (\<lambda>_. ret ()))"

definition gdRandColor :: "('z, RGBa) prog" where
  "gdRandColor =
     bnd seed (\<lambda>_.
     bnd rand (\<lambda>r.
     bnd rand (\<lambda>g.
     bnd rand (\<lambda>b.
     bnd rand (\<lambda>a.
     ret \<lparr>red = r mod 255, green = g mod 255, blue = b mod 255, alpha = a mod 255\<rparr>)))))"

subsection \<open>Random strings\<close>

definition alnum :: "nat \<Rightarrow> bool" where
  "alnum b \<longleftrightarrow> 48 \<le> b \<and> b \<le> 57 \<or> 97 \<le> b \<and> b \<le> 122 \<or> 65 \<le> b \<and> b \<le> 90"

definition draw_alnum :: "('z, nat) prog" where
  "draw_alnum = c_while (\<lambda>b. \<not> alnum b) (\<lambda>b. bnd rand (\<lambda>r. ret (r mod 127))) 0"

primrec rand_str_loop :: "nat \<Rightarrow> ptr \<Rightarrow> ('z, unit) prog" where
  "rand_str_loop 0 p = ret ()"
| "rand_str_loop (Suc len) p =
     bnd draw_alnum (\<lambda>b.
     bnd (store_byte (padd p len) (of_nat b)) (\<lambda>_.
     rand_str_loop len p))"

definition gdGetRandStr :: "ptr \<Rightarrow> nat \<Rightarrow> ('z, unit) prog" where
  "gdGetRandStr p len =
     bnd (store_byte (padd p len) NUL) (\<lambda>_. rand_str_loop len p)"

subsection \<open>Drawing\<close>

definition MAXSIZEYX :: "image \<Rightarrow> nat \<Rightarrow> nat \<Rightarrow> bool" where
  "MAXSIZEYX i x y \<longleftrightarrow> x > width i \<or> y > height i"

definition gdDrawRect :: "image \<Rightarrow> nat \<Rightarrow> nat \<Rightarrow> nat \<Rightarrow> nat \<Rightarrow> int \<Rightarrow> ('z, int) prog" where
  "gdDrawRect i x y x1 y1 c =
     (if MAXSIZEYX i x y then ret (- 1) else
     bnd (ext (Gd (gdImageRectangle (im i) (c_int (int x)) (c_int (int y)) (c_int (int x1)) (c_int (int y1)) c)))
       (\<lambda>_. ret 1))"

text \<open>\<open>None\<close> is a return without a value.\<close>

definition gdDrawLine :: "image \<Rightarrow> nat \<Rightarrow> nat \<Rightarrow> nat \<Rightarrow> nat \<Rightarrow> int \<Rightarrow> ('z, int option) prog" where
  "gdDrawLine i x y x1 y1 c =
     (if MAXSIZEYX i x y then ret (Some (- 1)) else
     bnd (ext (Gd (gdImageLine (im i) (c_int (int x)) (c_int (int y)) (c_int (int x1)) (c_int (int y1)) c)))
       (\<lambda>_. ret None))"

definition gdSetPixel :: "image \<Rightarrow> nat \<Rightarrow> nat \<Rightarrow> int \<Rightarrow> ('z, int) prog" where
  "gdSetPixel i x y c =
     (if MAXSIZEYX i x y then ret (- 1) else
     bnd (ext (Gd (gdImageSetPixel (im i) (c_int (int x)) (c_int (int y)) c))) (\<lambda>_. ret 1))"

definition gdInitImageFromFile :: "ptr \<Rightarrow> nat \<Rightarrow> nat \<Rightarrow> ('z, image) prog" where
  "gdInitImageFromFile filename w h =
     bnd (read_str filename) (\<lambda>f.
     bnd (ext (Gd (gdImageCreateFromFile f))) (\<lambda>r.
     ret \<lparr>im = r_handle r, width = w, height = h, textOnImage = None\<rparr>))"

definition gdInitImage :: "nat \<Rightarrow> nat \<Rightarrow> RGBa \<Rightarrow> ('z, image) prog" where
  "gdInitImage w h bgcolor =
     bnd (ext (Gd (gdImageCreate (c_int (int w)) (c_int (int h))))) (\<lambda>r.
     let rt = \<lparr>im = r_handle r, width = w, height = h, textOnImage = None\<rparr> in
     bnd (gdInitColor rt bgcolor) (\<lambda>bg.
     bnd (ext (Gd (gdImageRectangle (r_handle r) 0 0 (c_int (int w)) (c_int (int h)) bg))) (\<lambda>_.
     ret rt)))"

definition RANDCLR :: "image \<Rightarrow> nat \<Rightarrow> ('z, int) prog" where
  "RANDCLR i al =
     bnd rand (\<lambda>r.
     bnd rand (\<lambda>g.
     bnd rand (\<lambda>b.
     bnd rand (\<lambda>a.
     bnd (ext (Gd (gdImageColorAllocateAlpha (im i) (r mod 255) (g mod 255) (b mod 255) (a mod al)))) (\<lambda>c.
     ret (r_int c))))))"

text \<open>\<open>rand () % n\<close> for an \<open>unsigned int\<close> \<open>n\<close>.\<close>

definition rand_below :: "nat \<Rightarrow> ('z, nat) prog" where
  "rand_below n = (if n = 0 then fail DivByZero else bnd rand (\<lambda>r. ret (r mod n)))"

primrec pixels_loop :: "nat \<Rightarrow> image \<Rightarrow> ('z, unit) prog" where
  "pixels_loop 0 img = ret ()"
| "pixels_loop (Suc i) img =
     bnd (rand_below (width img)) (\<lambda>x.
     bnd (rand_below (height img)) (\<lambda>y.
     bnd (RANDCLR img 15) (\<lambda>c.
     bnd (gdSetPixel img x y c) (\<lambda>_.
     pixels_loop i img))))"

definition gdDrawRandomPixels :: "image \<Rightarrow> nat \<Rightarrow> nat \<Rightarrow> ('z, unit) prog" where
  "gdDrawRandomPixels img mn mx =
     bnd seed (\<lambda>_.
     if mn > mx then ret () else
     bnd (c_while (\<lambda>count. count < mn) (\<lambda>_. rand_below mx) 0) (\<lambda>count.
     pixels_loop count img))"

primrec gdDrawRandomLines :: "nat \<Rightarrow> image \<Rightarrow> ('z, unit) prog" where
  "gdDrawRandomLines 0 img = ret ()"
| "gdDrawRandomLines (Suc count) img =
     bnd (rand_below (width img)) (\<lambda>x.
     bnd (rand_below (height img)) (\<lambda>y.
     bnd (rand_below (width img)) (\<lambda>x1.
     bnd (rand_below (height img)) (\<lambda>y1.
     bnd (RANDCLR img 5) (\<lambda>c.
     bnd (gdDrawLine img x y x1 y1 c) (\<lambda>_.
     gdDrawRandomLines count img))))))"

text \<open>The data of an encoded image belong to gd; the size is written only on success.\<close>

definition getImageData :: "image \<Rightarrow> nat \<Rightarrow> ('z, ptr \<times> int option) prog" where
  "getImageData i quality =
     bnd (ext (Gd (gdImageJpegPtr (im i) (c_int (int quality))))) (\<lambda>r.
     case r of
       ROut n bs \<Rightarrow> bnd (lib_block (map Byte bs)) (\<lambda>p. ret (p, Some n))
     | _ \<Rightarrow> ret (Null, None))"

text \<open>\<open>fun\<close> names one of gd's writers.\<close>

definition writeToFile :: "string \<Rightarrow> ptr \<Rightarrow> image \<Rightarrow> nat \<Rightarrow> ('z, int option) prog" where
  "writeToFile fun1 namefile i quality =
     bnd (read_str namefile) (\<lambda>nm.
     bnd (ext (Libc (Fopen nm ''wb''))) (\<lambda>out.
     bnd (ext (Gd (gdImageWrite fun1 (im i) (r_handle out) (c_int (int quality))))) (\<lambda>_.
     if r_handle out = 0 then fail NullDeref else
     bnd (ext (Libc (Fclose (r_handle out)))) (\<lambda>_.
     ret None))))"

subsection \<open>The captcha\<close>

definition RANDSTRCAPTCHA :: "image \<Rightarrow> int \<Rightarrow> ptr \<Rightarrow> ptr \<Rightarrow> rat \<Rightarrow> int \<Rightarrow> int \<Rightarrow> ('z, unit) prog" where
  "RANDSTRCAPTCHA img black randStr cap a b c =
     bnd (gdGetRandStr randStr 2) (\<lambda>_.
     bnd (read_str randStr) (\<lambda>rs.
     bnd (ext (Gd (gdImageStringTTF (im img) black (bytes_of ''./dummy.ttf'') 10 a b c rs))) (\<lambda>_.
     bnd (read_str cap) (\<lambda>old.
     bnd (read_str randStr) (\<lambda>rs2.
     write_bytes cap (old @ rs2 @ [NUL]))))))"

definition str_lit :: "string \<Rightarrow> ('z, ptr) prog" where
  "str_lit s = lib_block (cstr (bytes_of s))"

definition gdDrawCaptcha :: "env \<Rightarrow> 'z img_state_scheme \<Rightarrow> captcha res \<times> 'z img_state_scheme" where
  "gdDrawCaptcha =
     bnd gdRandColor (\<lambda>bg.
     bnd (gdInitImage 100 40 bg) (\<lambda>img.
     bnd (str_lit ''black'') (\<lambda>sb.
     bnd (gdAddColor img sb \<lparr>red = 0, green = 0, blue = 0, alpha = 255\<rparr>) (\<lambda>_.
     bnd (str_lit ''white'') (\<lambda>sw.
     bnd (gdAddColor img sw \<lparr>red = 255, green = 255, blue = 255, alpha = 255\<rparr>) (\<lambda>_.
     bnd (gdFoundColor sb) (\<lambda>black.
     bnd (gdFoundColor sw) (\<lambda>white.
     bnd (gdDrawLine img 0 0 (width img) (height img) white) (\<lambda>_.
     local_arr CAPTCHALEN (\<lambda>cap.
     local_arr 3 (\<lambda>randStr.
     bnd (store_byte (padd randStr 2) NUL) (\<lambda>_.
     bnd (bzero cap CAPTCHALEN) (\<lambda>_.
     bnd (RANDSTRCAPTCHA img black randStr cap 0 0 10) (\<lambda>_.
     bnd (RANDSTRCAPTCHA img black randStr cap 0 10 21) (\<lambda>_.
     bnd (RANDSTRCAPTCHA img black randStr cap (1 / 10) 20 35) (\<lambda>_.
     bnd (RANDSTRCAPTCHA img black randStr cap (- 2 / 10) 60 10) (\<lambda>_.
     bnd (gdDrawRandomPixels img 100 200) (\<lambda>_.
     bnd (gdDrawRandomLines 5 img) (\<lambda>_.
     bnd (ext (Gd (gdImageContrast (im img) (1 / 2)))) (\<lambda>_.
     bnd (getImageData img 95) (\<lambda>(data, sz).
     bnd (ext (Gd (gdImageDestroy (im img)))) (\<lambda>_.
     bnd (case textOnImage img of None \<Rightarrow> fail UninitRead
          | Some t \<Rightarrow> if t \<noteq> Null then free t else ret ()) (\<lambda>_.
     bnd (read_bytes cap CAPTCHALEN) (\<lambda>cs.
     ret \<lparr>captcha_text = cs, raw = data, raw_size = sz\<rparr>))))))))))))))))))))))))"

end
