(* ===== verification/Images_Colors.thy ===== *)
theory Images_Colors
  imports Images
begin

text \<open>
  The table of named colours: what a well-formed table is, what an operation does to it,
  and the contract of a registry of names, which the table implements.
\<close>

subsection \<open>Registries of names\<close>

text \<open>An added name shadows an earlier one of the same name and disturbs no other.\<close>

locale name_registry =
  fixes add :: "'t \<Rightarrow> 'k \<Rightarrow> 'v \<Rightarrow> 't" and look :: "'t \<Rightarrow> 'k \<Rightarrow> 'v"
  assumes look_add: "look (add t k v) k' = (if k' = k then v else look t k')"
begin

definition add_all :: "'t \<Rightarrow> ('k \<times> 'v) list \<Rightarrow> 't" where
  "add_all t kvs = foldl (\<lambda>t (k, v). add t k v) t kvs"

lemma add_all_simps [simp]:
  "add_all t [] = t"
  "add_all t ((k, v) # kvs) = add_all (add t k v) kvs"
  by (simp_all add: add_all_def)

lemma look_shadow: "look (add (add t k v) k w) k' = look (add t k w) k'"
  by (simp add: look_add)

lemma look_swap: "k \<noteq> j \<Longrightarrow> look (add (add t k v) j w) i = look (add (add t j w) k v) i"
  by (simp add: look_add)

lemma look_add_all:
  "look (add_all t kvs) k = (case map_of (rev kvs) k of None \<Rightarrow> look t k | Some v \<Rightarrow> v)"
  by (induction kvs arbitrary: t) (auto simp: look_add map_add_def split: option.splits)

end

subsection \<open>The table\<close>

definition cstring :: "byte list \<Rightarrow> byte list" where
  "cstring a = takeWhile (\<lambda>x. x \<noteq> NUL) a"

lemma cstring_pad:
  "NUL \<notin> set nm \<Longrightarrow> length nm < MAXNAMECOLOR \<Longrightarrow> cstring (pad_name nm) = nm"
  by (simp add: cstring_def pad_name_def takeWhile_append)

lemma name_eq_cstring:
  "NUL \<in> set a \<Longrightarrow> NUL \<notin> set nm \<Longrightarrow> name_eq a nm = Inr (cstring a = nm)"
  by (induction a nm rule: name_eq.induct) (auto simp: cstring_def)

text \<open>The invariant: \<open>MAXCOLORS\<close> entries, and every name is terminated.\<close>

definition table_ok :: "'z img_state_scheme \<Rightarrow> bool" where
  "table_ok s \<longleftrightarrow> length (colors s) = MAXCOLORS \<and> cColors s \<le> MAXCOLORS \<and>
     (\<forall>g\<in>set (colors s). NUL \<in> set (cname g) \<and> length (cname g) = MAXNAMECOLOR)"

lemma table_ok_start: "table_ok img_start"
  by (simp add: table_ok_def img_start_def)

definition entries :: "gdColor list \<Rightarrow> (byte list \<times> int) list" where
  "entries gs = map (\<lambda>g. (cstring (cname g), color g)) gs"

definition table :: "'z img_state_scheme \<Rightarrow> (byte list \<times> int) list" where
  "table s = entries (take (cColors s) (colors s))"

definition color_of :: "(byte list \<times> int) list \<Rightarrow> byte list \<Rightarrow> int" where
  "color_of t nm = (case map_of (rev t) nm of None \<Rightarrow> 0 | Some c \<Rightarrow> c)"

definition with_color :: "(byte list \<times> int) list \<Rightarrow> byte list \<Rightarrow> int \<Rightarrow> (byte list \<times> int) list" where
  "with_color t nm c = t @ [(nm, c)]"

interpretation color_table: name_registry with_color color_of
  by unfold_locales (simp add: with_color_def color_of_def)

lemma entries_snoc: "entries (gs @ [g]) = with_color (entries gs) (cstring (cname g)) (color g)"
  by (simp add: entries_def with_color_def)

lemma found_loop_run:
  assumes "i \<le> length (colors s)" "\<forall>g\<in>set (take i (colors s)). NUL \<in> set (cname g)" "NUL \<notin> set nm"
  shows "found_loop i nm e s = (Ok (color_of (entries (take i (colors s))) nm), s)"
  using assms
proof (induction i)
  case 0
  then show ?case
    by (simp add: exec color_of_def entries_def)
next
  case (Suc i)
  let ?g = "colors s ! i"
  have snoc: "take (Suc i) (colors s) = take i (colors s) @ [?g]"
    using Suc.prems(1) by (simp add: take_Suc_conv_app_nth)
  then have "name_eq (cname ?g) nm = Inr (cstring (cname ?g) = nm)"
    using Suc.prems by (simp add: name_eq_cstring)
  with snoc show ?case
    using Suc by (auto simp: exec entry_ok_def entries_snoc color_table.look_add)
qed

lemma gdFoundColor_run:
  assumes "table_ok s" "get_str (blocks s) p = Inr nm"
  shows "gdFoundColor p e s = (Ok (color_of (table s) nm), s)"
proof (cases "cColors s = 0")
  case True
  then show ?thesis
    by (simp add: gdFoundColor_def exec table_def entries_def color_of_def)
next
  case False
  then show ?thesis
    using assms found_loop_run [of "cColors s" s nm e] get_str_nonzero [OF assms(2)]
    by (auto simp: gdFoundColor_def exec table_def table_ok_def dest: in_set_takeD)
qed

lemma gdSetColor_range:
  "i < 0 \<or> 128 < i \<Longrightarrow> gdSetColor img i name c e s = (Ok (- 1), s)"
  by (auto simp: gdSetColor_def exec)

text \<open>The guard lets the index \<open>MAXCOLORS\<close> through.\<close>

lemma gdSetColor_128:
  assumes "table_ok s" "get_str (blocks s) p = Inr nm"
  shows "gdSetColor img 128 p c e s = (Err OutOfBounds, s)"
  using assms by (simp add: gdSetColor_def exec entry_ok_def table_ok_def)

definition new_color :: "image \<Rightarrow> RGBa \<Rightarrow> env \<Rightarrow> 'z img_state_scheme \<Rightarrow> int" where
  "new_color img c e s = r_int (answer e (evs s)
     (Gd (gdImageColorAllocateAlpha (im img) (red c) (green c) (blue c) (alpha c))))"

lemma gdAddColor_full:
  assumes "table_ok s" "cColors s = MAXCOLORS" "get_str (blocks s) p = Inr nm"
  shows "gdAddColor img p c e s = (Err OutOfBounds, s)"
  using assms by (simp add: gdAddColor_def exec gdSetColor_128)

text \<open>What adding a colour does to the table: the name is cut at the size of its array.\<close>

lemma gdAddColor_state:
  assumes "table_ok s" "cColors s < MAXCOLORS" "get_str (blocks s) p = Inr nm"
  shows "\<exists>t. gdAddColor img p c e s = (Ok (), t) \<and> cColors t = Suc (cColors s) \<and> blocks t = blocks s \<and> nxt t = nxt s \<and>
    colors t = (colors s)[cColors s :=
      (colors s ! cColors s)\<lparr>cname := pad_name (take MAXNAMECOLOR nm), color := new_color img c e s\<rparr>]"
proof -
  let ?n = "cColors s"
  let ?ev = "Gd (gdImageColorAllocateAlpha (im img) (red c) (green c) (blue c) (alpha c))"
  have "length (colors s) = 128" "?n < 128" "c_uchar (int ?n + 1) = Suc ?n"
    using assms(1,2) by (simp_all add: table_ok_def)
  then have "gdAddColor img p c e s = (Ok (), s\<lparr>colors := (colors s)[?n :=
      (colors s ! ?n)\<lparr>cname := pad_name (take MAXNAMECOLOR nm), color := new_color img c e s\<rparr>],
      cColors := Suc ?n, evs := (?ev, answer e (evs s) ?ev) # evs s\<rparr>)"
    using assms(3) by (simp add: gdAddColor_def gdSetColor_def exec entry_ok_def set_entry_def gdInitColor_def new_color_def)
  then show ?thesis
    by simp
qed

lemma gdAddColor_run:
  assumes ok: "table_ok s" and room: "cColors s < MAXCOLORS"
    and nm: "get_str (blocks s) p = Inr nm" "length nm < MAXNAMECOLOR"
  shows "\<exists>t. gdAddColor img p c e s = (Ok (), t) \<and> table_ok t \<and>
    table t = with_color (table s) nm (new_color img c e s) \<and>
    cColors t = Suc (cColors s) \<and> blocks t = blocks s \<and> nxt t = nxt s"
proof -
  let ?n = "cColors s"
  let ?g = "(colors s ! ?n)\<lparr>cname := pad_name nm, color := new_color img c e s\<rparr>"
  obtain t where t: "gdAddColor img p c e s = (Ok (), t)" "cColors t = Suc ?n" "blocks t = blocks s" "nxt t = nxt s"
    "colors t = (colors s)[?n := ?g]"
    using gdAddColor_state [OF ok room nm(1), of img c e] nm(2) by auto
  have len: "length (colors s) = 128" "?n < 128"
    using ok room by (simp_all add: table_ok_def)
  have "cstring (pad_name nm) = nm"
    using get_str_nonzero [OF nm(1)] nm(2) by (rule cstring_pad)
  moreover have "take (Suc ?n) ((colors s)[?n := ?g]) = take ?n (colors s) @ [?g]"
    using len by (simp add: take_Suc_conv_app_nth)
  ultimately have "table t = with_color (table s) nm (new_color img c e s)"
    by (simp add: table_def entries_snoc t(2,5))
  moreover have "NUL \<in> set (pad_name nm)" "length (pad_name nm) = MAXNAMECOLOR"
    using nm(2) by (auto simp: pad_name_def)
  then have "table_ok t"
    using ok room set_update_subset_insert [of "colors s" ?n ?g] by (auto simp: table_ok_def t(2,5))
  ultimately show ?thesis
    using t by blast
qed

text \<open>A name that fills its array has no terminator there: comparing it reads past the array as soon as
  the other name goes on as long.\<close>

lemma name_eq_full:
  "NUL \<notin> set a \<Longrightarrow> NUL \<notin> set nm \<Longrightarrow> name_eq a nm = (if take (length a) nm = a then Inl OutOfBounds else Inr False)"
  by (induction a nm rule: name_eq.induct) auto

lemma gdAddColor_long:
  assumes ok: "table_ok s" and room: "cColors s < MAXCOLORS"
    and nm: "get_str (blocks s) p = Inr nm" "MAXNAMECOLOR \<le> length nm" and q: "get_str (blocks s) q = Inr nm'"
  shows "\<exists>t. gdAddColor img p c e s = (Ok (), t) \<and> \<not> table_ok t \<and> cColors t = Suc (cColors s) \<and> blocks t = blocks s \<and>
    gdFoundColor q e t = (if take MAXNAMECOLOR nm' = take MAXNAMECOLOR nm then Err OutOfBounds else Ok (color_of (table s) nm'), t)"
proof -
  let ?n = "cColors s" and ?a = "take MAXNAMECOLOR nm"
  let ?g = "(colors s ! ?n)\<lparr>cname := ?a, color := new_color img c e s\<rparr>"
  have "pad_name ?a = ?a"
    using nm(2) by (simp add: pad_name_def)
  then obtain t where t: "gdAddColor img p c e s = (Ok (), t)" "cColors t = Suc ?n" "blocks t = blocks s"
    "colors t = (colors s)[?n := ?g]"
    using gdAddColor_state [OF ok room nm(1), of img c e] by auto
  have len: "length (colors s) = 128" "?n < 128"
    using ok room by (simp_all add: table_ok_def)
  have a: "NUL \<notin> set ?a" "length ?a = 128"
    using get_str_nonzero [OF nm(1)] nm(2) by (auto dest: in_set_takeD)
  have nth: "colors t ! ?n = ?g" "take ?n (colors t) = take ?n (colors s)" "length (colors t) = 128"
    using len t(4) by simp_all
  have "?g \<in> set (colors t)"
    using nth(1,3) len(2) by (metis nth_mem)
  then have "\<not> table_ok t"
    using a(1) unfolding table_ok_def by fastforce
  moreover have "name_eq (cname ?g) nm' = (if take MAXNAMECOLOR nm' = ?a then Inl OutOfBounds else Inr False)"
    using name_eq_full [OF a(1) get_str_nonzero [OF q]] a(2) by simp
  moreover have "found_loop ?n nm' e t = (Ok (color_of (table s) nm'), t)"
    using found_loop_run [of ?n t nm' e] ok get_str_nonzero [OF q] len nth(2,3)
    by (auto simp: table_def table_ok_def dest: in_set_takeD)
  ultimately show ?thesis
    using t q len(2) nth by (intro exI [of _ t]) (simp add: gdFoundColor_def exec entry_ok_def)
qed

text \<open>
  A client: colours added one after the other are found as the registry promises.
\<close>

lemma gdFoundColor_after_add:
  assumes "table_ok s" "cColors s < MAXCOLORS"
    and "get_str (blocks s) p = Inr nm" "length nm < MAXNAMECOLOR"
    and "get_str (blocks s) q = Inr nm'"
  shows "fst (bnd (gdAddColor img p c) (\<lambda>_. gdFoundColor q) e s) =
    Ok (if nm' = nm then new_color img c e s else color_of (table s) nm')"
proof -
  obtain t where t: "gdAddColor img p c e s = (Ok (), t)" "table_ok t"
    "table t = with_color (table s) nm (new_color img c e s)" "blocks t = blocks s"
    using gdAddColor_run [OF assms(1-4)] by blast
  then show ?thesis
    using gdFoundColor_run [of t q nm' e] assms(5) by (simp add: exec color_table.look_add)
qed

end
