(* ===== verification/Images_Random.thy ===== *)
theory Images_Random
  imports Images
begin

text \<open>
  The functions of \<open>images.c\<close> that draw random values: what they return whatever
  \<open>rand\<close> answers, when their loops end, and where they draw.
\<close>

lemma gdRandColor_bounds:
  assumes "gdRandColor e s = (Ok c, t)"
  shows "red c < 255 \<and> green c < 255 \<and> blue c < 255 \<and> alpha c < 255 \<and> blocks t = blocks s"
  using assms by (auto simp: gdRandColor_def seed_def exec)

subsection \<open>Random strings\<close>

text \<open>The log after \<open>k\<close> more calls of \<open>rand\<close>.\<close>

primrec rand_log :: "env \<Rightarrow> event list \<Rightarrow> nat \<Rightarrow> event list" where
  "rand_log e l 0 = l"
| "rand_log e l (Suc k) = rand_log e ((Libc Rand, answer e l (Libc Rand)) # l) k"

text \<open>
  The generator does not get stuck on values whose remainder is no letter and no digit:
  from every point on, one comes up after some number of calls.
\<close>

definition rand_fair :: "env \<Rightarrow> bool" where
  "rand_fair e \<longleftrightarrow> (\<forall>l. \<exists>k. alnum (rand_val e (rand_log e l k) mod 127))"

lemma not_alnum_0: "\<not> alnum 0"
  by (simp add: alnum_def)

lemma draw_alnum_Ok:
  assumes "draw_alnum e s = (Ok b, t)"
  shows "alnum b \<and> b < 127 \<and> blocks t = blocks s \<and> nxt t = nxt s"
proof -
  have "(b < 127 \<and> blocks t = blocks s \<and> nxt t = nxt s) \<and> \<not> \<not> alnum b"
    using assms unfolding draw_alnum_def
  proof (rule c_while_invariant)
    fix a u a' u'
    assume "a < 127 \<and> blocks u = blocks s \<and> nxt u = nxt s"
      and "bnd rand (\<lambda>r. ret (r mod 127)) e u = (Ok a', u')"
    then show "a' < 127 \<and> blocks u' = blocks s \<and> nxt u' = nxt s"
      by (auto simp: exec)
  qed simp
  then show ?thesis
    by simp
qed

text \<open>A loop that draws until a value is wanted ends when one comes up.\<close>

lemma draw_until_ends:
  fixes s :: "'z cstate_scheme"
  assumes body: "\<And>a (u :: 'z cstate_scheme). body a e u = (Ok (g (rand_val e (evs u))),
      u\<lparr>evs := (Libc Rand, answer e (evs u) (Libc Rand)) # evs u\<rparr>)"
    and stop: "\<not> go (g (rand_val e (rand_log e (evs s) k)))"
  shows "\<exists>v l. c_while go body a e s = (Ok v, s\<lparr>evs := l\<rparr>)"
  using stop
proof (induction k arbitrary: s a)
  case 0
  let ?v = "g (rand_val e (evs s))"
  let ?t = "s\<lparr>evs := (Libc Rand, answer e (evs s) (Libc Rand)) # evs s\<rparr>"
  have "c_while go body ?v e ?t = (Ok ?v, ?t)"
    using 0 by (simp add: c_while_stop)
  then have "c_while go body a e s = (Ok ?v, ?t)" if "go a"
    by (intro c_while_next [where b = go and body = body, OF that body]) simp_all
  then show ?case
    by (cases "go a") (auto simp: c_while_stop intro: exI [of _ "evs s"])
next
  case (Suc k)
  let ?t = "s\<lparr>evs := (Libc Rand, answer e (evs s) (Libc Rand)) # evs s\<rparr>"
  obtain v l where v: "c_while go body (g (rand_val e (evs s))) e ?t = (Ok v, ?t\<lparr>evs := l\<rparr>)"
    using Suc.IH [of ?t "g (rand_val e (evs s))"] Suc.prems by auto
  then have "c_while go body a e s = (Ok v, ?t\<lparr>evs := l\<rparr>)" if "go a"
    by (intro c_while_next [where b = go and body = body, OF that body]) simp_all
  then show ?case
    by (cases "go a") (auto simp: c_while_stop intro: exI [of _ "evs s"])
qed

lemma draw_alnum_ends:
  assumes "alnum (rand_val e (rand_log e (evs s) k) mod 127)"
  shows "\<exists>b l. draw_alnum e s = (Ok b, s\<lparr>evs := l\<rparr>)"
  unfolding draw_alnum_def
  by (rule draw_until_ends [where g = "\<lambda>r. r mod 127"]) (use assms in \<open>simp_all add: exec\<close>)

definition alnum_byte :: "byte \<Rightarrow> bool" where
  "alnum_byte b \<longleftrightarrow> alnum (unat b)"

lemma alnum_byte_of_nat: "alnum b \<Longrightarrow> b < 127 \<Longrightarrow> alnum_byte (of_nat b)"
  by (simp add: alnum_byte_def unat_of_nat)

text \<open>Whenever the loop returns, every cell below \<open>len\<close> is a letter or a digit.\<close>

lemma rand_str_loop_Ok:
  assumes "rand_str_loop len (Addr b 0) e s = (Ok u, t)" "blocks s b = Some cs" "len \<le> length cs"
  shows "\<exists>bs. blocks t = (blocks s)(b \<mapsto> map Byte bs @ drop len cs) \<and> length bs = len \<and>
    list_all alnum_byte bs"
  using assms
proof (induction len arbitrary: s cs)
  case 0
  then show ?case
    by (auto simp: exec intro!: exI [of _ "[]"])
next
  case (Suc len)
  from Suc.prems(1) obtain c s1 m where d: "draw_alnum e s = (Ok c, s1)"
    and m: "put_cells (blocks s1) (Addr b len) [Byte (of_nat c)] = Inr m"
    and rest: "rand_str_loop len (Addr b 0) e (s1\<lparr>blocks := m\<rparr>) = (Ok u, t)"
    by (auto simp: ok_iff)
  have c: "alnum c" "c < 127" "blocks s1 = blocks s"
    using draw_alnum_Ok [OF d] by auto
  have m': "m = (blocks s)(b \<mapsto> cs[len := Byte (of_nat c)])"
    using m Suc.prems(2,3) c by (simp add: upd_conv_take_nth_drop)
  have 1: "blocks (s1\<lparr>blocks := m\<rparr>) b = Some (cs[len := Byte (of_nat c)])"
    and 2: "len \<le> length (cs[len := Byte (of_nat c)])"
    using Suc.prems(3) by (simp_all add: m')
  have upd: "blocks (s1\<lparr>blocks := m\<rparr>) = m"
    by simp
  obtain bs where bs: "blocks t = m(b \<mapsto> map Byte bs @ drop len (cs[len := Byte (of_nat c)]))"
    "length bs = len" "list_all alnum_byte bs"
    using Suc.IH [OF rest 1 2] unfolding upd by blast
  have "drop len (cs[len := Byte (of_nat c)]) = Byte (of_nat c) # drop (Suc len) cs"
    using Suc.prems(3) by (simp add: Cons_nth_drop_Suc [symmetric])
  then show ?case
    using bs m' alnum_byte_of_nat [OF c(1,2)] by (intro exI [of _ "bs @ [of_nat c]"]) simp
qed

lemma gdGetRandStr_Ok:
  assumes run: "gdGetRandStr (Addr b 0) len e s = (Ok u, t)" and b: "blocks s b = Some cs" "len < length cs"
  shows "\<exists>bs. blocks t = (blocks s)(b \<mapsto> map Byte bs @ Byte NUL # drop (Suc len) cs) \<and>
    length bs = len \<and> list_all alnum_byte bs"
proof -
  let ?s = "s\<lparr>blocks := (blocks s)(b \<mapsto> cs[len := Byte NUL])\<rparr>"
  have "gdGetRandStr (Addr b 0) len e s = rand_str_loop len (Addr b 0) e ?s"
    using b by (simp add: gdGetRandStr_def exec upd_conv_take_nth_drop)
  then have "rand_str_loop len (Addr b 0) e ?s = (Ok u, t)"
    using run by simp
  then obtain bs where bs: "blocks t = (blocks ?s)(b \<mapsto> map Byte bs @ drop len (cs[len := Byte NUL]))"
    "length bs = len" "list_all alnum_byte bs"
    using rand_str_loop_Ok [of len b e ?s u t "cs[len := Byte NUL]"] b by auto
  have "drop len (cs[len := Byte NUL]) = Byte NUL # drop (Suc len) cs"
    using b(2) by (simp add: Cons_nth_drop_Suc [symmetric])
  then show ?thesis
    using bs by (intro exI [of _ bs]) simp
qed

lemma rand_str_loop_ends:
  assumes fair: "rand_fair e"
  shows "blocks s b = Some cs \<Longrightarrow> len \<le> length cs \<Longrightarrow> \<exists>t. rand_str_loop len (Addr b 0) e s = (Ok (), t)"
proof (induction len arbitrary: s cs)
  case 0
  then show ?case
    by (simp add: exec)
next
  case (Suc len)
  obtain k where "alnum (rand_val e (rand_log e (evs s) k) mod 127)"
    using fair by (auto simp: rand_fair_def)
  then obtain c l where d: "draw_alnum e s = (Ok c, s\<lparr>evs := l\<rparr>)"
    using draw_alnum_ends by blast
  let ?t = "s\<lparr>blocks := (blocks s)(b \<mapsto> cs[len := Byte (of_nat c)]), evs := l\<rparr>"
  have "rand_str_loop (Suc len) (Addr b 0) e s = rand_str_loop len (Addr b 0) e ?t"
    using d Suc.prems by (simp add: exec upd_conv_take_nth_drop)
  then show ?case
    using Suc.IH [of ?t "cs[len := Byte (of_nat c)]"] Suc.prems(2) by simp
qed

lemma gdGetRandStr_ends:
  assumes "rand_fair e" "blocks s b = Some cs" "len < length cs"
  shows "\<exists>t. gdGetRandStr (Addr b 0) len e s = (Ok (), t)"
  using assms rand_str_loop_ends [OF assms(1),
      of "s\<lparr>blocks := (blocks s)(b \<mapsto> cs[len := Byte NUL])\<rparr>" b "cs[len := Byte NUL]" len]
  by (simp add: gdGetRandStr_def exec upd_conv_take_nth_drop)

subsection \<open>Random pixels\<close>

text \<open>With equal bounds the wanted number of pixels is never drawn.\<close>

lemma gdDrawRandomPixels_diverges:
  assumes "0 < n"
  shows "fst (gdDrawRandomPixels img n n e s) = Err Diverges"
proof -
  have "c_while (\<lambda>count. count < n) (\<lambda>_. rand_below n) 0 e u = (Err Diverges, u)" for u :: "'a cstate_scheme"
    by (rule c_while_diverges [where P = "\<lambda>count _. count < n"])
      (use assms in \<open>auto simp: rand_below_def exec\<close>)
  then show ?thesis
    by (simp add: gdDrawRandomPixels_def seed_def exec)
qed

definition is_pixel :: "event \<Rightarrow> bool" where
  "is_pixel ev \<longleftrightarrow> (case fst ev of Gd (gdImageSetPixel h x y c) \<Rightarrow> True | _ \<Rightarrow> False)"

definition pixel_inside :: "image \<Rightarrow> event \<Rightarrow> bool" where
  "pixel_inside img ev \<longleftrightarrow> (case fst ev of
     Gd (gdImageSetPixel h x y c) \<Rightarrow> h = im img \<and> 0 \<le> x \<and> x < int (width img) \<and> 0 \<le> y \<and> y < int (height img)
   | _ \<Rightarrow> True)"

lemma rand_below_Ok:
  "rand_below n e s = (Ok r, t) \<Longrightarrow> r < n \<and> (\<exists>a. t = s\<lparr>evs := (Libc Rand, a) # evs s\<rparr>)"
  by (auto simp: rand_below_def exec split: if_splits)

lemma rand_OkD: "rand e s = (Ok r, t) \<Longrightarrow> \<exists>a. t = s\<lparr>evs := (Libc Rand, a) # evs s\<rparr>"
  by (auto simp: exec)

lemma seed_Ok:
  assumes "seed e s = (Ok u, t)"
  shows "\<exists>n a b. t = s\<lparr>evs := [(Libc (Srand n), a), (Libc Time, b)] @ evs s\<rparr>"
  using assms by (auto simp: seed_def exec)

lemma RANDCLR_Ok:
  assumes "RANDCLR img al e s = (Ok c, t)"
  shows "\<exists>new. t = s\<lparr>evs := new @ evs s\<rparr> \<and> list_all (pixel_inside img) new \<and> filter is_pixel new = []"
proof -
  obtain r1 s1 r2 s2 r3 s3 r4 s4 a s5 where
    "rand e s = (Ok r1, s1)" "rand e s1 = (Ok r2, s2)" "rand e s2 = (Ok r3, s3)" "rand e s3 = (Ok r4, s4)"
    "ext (Gd (gdImageColorAllocateAlpha (im img) (r1 mod 255) (r2 mod 255) (r3 mod 255) (r4 mod al))) e s4
       = (Ok a, s5)" "t = s5"
    using assms by (auto simp: RANDCLR_def ok_iff_basic(1,2))
  then obtain a1 a2 a3 a4 where "t = s\<lparr>evs := [(Gd (gdImageColorAllocateAlpha (im img) (r1 mod 255)
      (r2 mod 255) (r3 mod 255) (r4 mod al)), a), (Libc Rand, a1), (Libc Rand, a2), (Libc Rand, a3),
      (Libc Rand, a4)] @ evs s\<rparr>"
    by (auto dest!: rand_OkD ext_OkD)
  then show ?thesis
    by (intro exI conjI) (assumption, simp_all add: pixel_inside_def is_pixel_def)
qed

lemma pixels_loop_Ok:
  assumes "pixels_loop n img e s = (Ok u, t)" "width img \<le> 2 ^ 31" "height img \<le> 2 ^ 31"
  shows "\<exists>new. t = s\<lparr>evs := new @ evs s\<rparr> \<and> list_all (pixel_inside img) new \<and>
    length (filter is_pixel new) = n"
  using assms
proof (induction n arbitrary: s)
  case 0
  then show ?case
    by (intro exI [of _ "[]"]) (simp add: ok_iff)
next
  case (Suc n)
  from Suc.prems(1) obtain x s1 y s2 c s3 r s4 where
    st: "rand_below (width img) e s = (Ok x, s1)" "rand_below (height img) e s1 = (Ok y, s2)"
      "RANDCLR img 15 e s2 = (Ok c, s3)" "gdSetPixel img x y c e s3 = (Ok r, s4)"
      "pixels_loop n img e s4 = (Ok u, t)"
    by (auto simp: ok_iff_basic(1))
  obtain a b where x: "x < width img" "s1 = s\<lparr>evs := (Libc Rand, a) # evs s\<rparr>"
    and y: "y < height img" "s2 = s1\<lparr>evs := (Libc Rand, b) # evs s1\<rparr>"
    using rand_below_Ok [OF st(1)] rand_below_Ok [OF st(2)] by auto
  obtain cn where c: "s3 = s2\<lparr>evs := cn @ evs s2\<rparr>" "list_all (pixel_inside img) cn" "filter is_pixel cn = []"
    using RANDCLR_Ok [OF st(3)] by auto
  have "\<not> MAXSIZEYX img x y"
    using x y by (simp add: MAXSIZEYX_def)
  then obtain d where s4: "s4 = s3\<lparr>evs := (Gd (gdImageSetPixel (im img) (int x) (int y) c), d) # evs s3\<rparr>"
    using st(4) x y Suc.prems(2,3) by (auto simp: gdSetPixel_def exec)
  obtain new where new: "t = s4\<lparr>evs := new @ evs s4\<rparr>" "list_all (pixel_inside img) new"
    "length (filter is_pixel new) = n"
    using Suc.IH [OF st(5) Suc.prems(2,3)] by auto
  let ?new = "new @ (Gd (gdImageSetPixel (im img) (int x) (int y) c), d) # cn @ [(Libc Rand, b), (Libc Rand, a)]"
  have "t = s\<lparr>evs := ?new @ evs s\<rparr>"
    by (simp add: new(1) s4 c(1) x(2) y(2))
  moreover have "list_all (pixel_inside img) ?new"
    using new(2) c(2) x(1) y(1) by (simp add: pixel_inside_def)
  moreover have "length (filter is_pixel ?new) = Suc n"
    using new(3) c(3) by (simp add: is_pixel_def)
  ultimately show ?case
    by blast
qed

lemma gdDrawRandomPixels_Ok:
  assumes run: "gdDrawRandomPixels img mn mx e s = (Ok u, t)" and mm: "mn \<le> mx"
    and dim: "width img \<le> 2 ^ 31" "height img \<le> 2 ^ 31"
  shows "\<exists>new. events t = events s @ new \<and> blocks t = blocks s \<and> list_all (pixel_inside img) new \<and>
    (if mn = 0 then filter is_pixel new = [] else mn \<le> length (filter is_pixel new) \<and> length (filter is_pixel new) < mx)"
proof -
  from run mm obtain s1 n s2 where st: "seed e s = (Ok (), s1)"
    "c_while (\<lambda>count. count < mn) (\<lambda>_. rand_below mx) 0 e s1 = (Ok n, s2)"
    "pixels_loop n img e s2 = (Ok u, t)"
    by (auto simp: gdDrawRandomPixels_def ok_iff_basic(1))
  obtain l1 where s1: "s1 = s\<lparr>evs := l1 @ evs s\<rparr>" "list_all (pixel_inside img) l1" "filter is_pixel l1 = []"
    using seed_Ok [OF st(1)] by (elim exE) (rule that, assumption, simp_all add: pixel_inside_def is_pixel_def)
  let ?P = "\<lambda>n u. (n < mx \<and> 0 < mn \<or> n = 0) \<and>
    (\<exists>l. u = s\<lparr>evs := l @ evs s\<rparr> \<and> list_all (pixel_inside img) l \<and> filter is_pixel l = [])"
  have "?P n s2 \<and> \<not> n < mn"
    using st(2)
  proof (rule c_while_invariant)
    show "?P 0 s1"
      using s1 by blast
    fix a u a' u'
    assume P: "?P a u" and a: "a < mn" and r: "rand_below mx e u = (Ok a', u')"
    then obtain l where l: "u = s\<lparr>evs := l @ evs s\<rparr>" "list_all (pixel_inside img) l" "filter is_pixel l = []"
      by blast
    obtain b where b: "a' < mx" "u' = u\<lparr>evs := (Libc Rand, b) # evs u\<rparr>"
      using rand_below_Ok [OF r] by blast
    have "u' = s\<lparr>evs := ((Libc Rand, b) # l) @ evs s\<rparr>"
      using l b by simp
    moreover have "list_all (pixel_inside img) ((Libc Rand, b) # l)" "filter is_pixel ((Libc Rand, b) # l) = []"
      using l by (simp_all add: pixel_inside_def is_pixel_def)
    moreover have "0 < mn"
      using a by simp
    ultimately show "?P a' u'"
      using b(1) by blast
  qed
  then obtain l2 where n: "n < mx \<and> 0 < mn \<or> n = 0" "\<not> n < mn"
    and s2: "s2 = s\<lparr>evs := l2 @ evs s\<rparr>" "list_all (pixel_inside img) l2" "filter is_pixel l2 = []"
    by blast
  obtain new where new: "t = s2\<lparr>evs := new @ evs s2\<rparr>" "list_all (pixel_inside img) new"
    "length (filter is_pixel new) = n"
    using pixels_loop_Ok [OF st(3) dim] by blast
  show ?thesis
    by (intro exI [of _ "rev (new @ l2)"])
      (use new s2 n in \<open>auto simp: events_def list_all_iff rev_filter [symmetric]\<close>)
qed

text \<open>
  From every point on, a remainder modulo the upper bound comes up that is not below the lower bound. Then the loop for the
  number of pixels ends, and with it the function.
\<close>

definition pixel_fair :: "env \<Rightarrow> nat \<Rightarrow> nat \<Rightarrow> bool" where
  "pixel_fair e mn mx \<longleftrightarrow> (\<forall>l. \<exists>k. mn \<le> rand_val e (rand_log e l k) mod mx)"

lemma pixels_loop_ends: "0 < width img \<Longrightarrow> 0 < height img \<Longrightarrow> \<exists>t. pixels_loop n img e s = (Ok (), t)"
  by (induction n arbitrary: s) (simp_all add: rand_below_def RANDCLR_def gdSetPixel_def exec)

lemma pixels_loop_empty: "0 < n \<Longrightarrow> width img = 0 \<or> height img = 0 \<Longrightarrow> fst (pixels_loop n img e s) = Err DivByZero"
  by (cases n; cases "width img = 0") (simp_all add: rand_below_def exec)

lemma count_ends:
  fixes s :: "'z cstate_scheme"
  assumes "mn \<le> mx" "0 < mn \<Longrightarrow> pixel_fair e mn mx"
  shows "\<exists>v t. seed e s = (Ok (), t) \<and> \<not> v < mn \<and> (\<exists>l. c_while (\<lambda>count. count < mn) (\<lambda>_. rand_below mx) 0 e t = (Ok v, t\<lparr>evs := l\<rparr>))"
proof -
  have loop: "\<exists>v l. c_while (\<lambda>count. count < mn) (\<lambda>_. rand_below mx) 0 e u = (Ok v, u\<lparr>evs := l\<rparr>)" for u :: "'z cstate_scheme"
  proof (cases "mn = 0")
    case True
    then show ?thesis
      by (auto simp: c_while_stop intro: exI [of _ "evs u"])
  next
    case False
    obtain k where "mn \<le> rand_val e (rand_log e (evs u) k) mod mx"
      using assms(2) False unfolding pixel_fair_def by blast
    then show ?thesis
      by (intro draw_until_ends [where g = "\<lambda>r. r mod mx" and k = k]) (use False assms(1) in \<open>simp_all add: rand_below_def exec\<close>)
  qed
  obtain t where t: "seed e s = (Ok (), t)"
    by (simp add: seed_def exec)
  obtain v l where v: "c_while (\<lambda>count. count < mn) (\<lambda>_. rand_below mx) 0 e t = (Ok v, t\<lparr>evs := l\<rparr>)"
    using loop by blast
  then have "\<not> v < mn"
    using c_while_invariant [OF v, of "\<lambda>_ _. True"] by simp
  then show ?thesis
    using t v by blast
qed

lemma gdDrawRandomPixels_ends:
  assumes "mn \<le> mx" "0 < mn \<Longrightarrow> pixel_fair e mn mx" "0 < mn \<Longrightarrow> 0 < width img \<and> 0 < height img"
  shows "\<exists>t. gdDrawRandomPixels img mn mx e s = (Ok (), t)"
proof -
  obtain v t l where t: "seed e s = (Ok (), t)" "\<not> v < mn"
    "c_while (\<lambda>count. count < mn) (\<lambda>_. rand_below mx) 0 e t = (Ok v, t\<lparr>evs := l\<rparr>)"
    using count_ends [OF assms(1,2), of s] by blast
  show ?thesis
  proof (cases "mn = 0")
    case True
    then have "v = 0"
      using t(3) by (simp add: c_while_stop)
    then show ?thesis
      using t True by (simp add: gdDrawRandomPixels_def run_bnd run_ret)
  next
    case False
    then show ?thesis
      using pixels_loop_ends [of img v e "t\<lparr>evs := l\<rparr>"] assms(1,3) t by (simp add: gdDrawRandomPixels_def run_bnd)
  qed
qed

lemma gdDrawRandomPixels_no_area:
  assumes "0 < mn" "mn < mx" "pixel_fair e mn mx" "width img = 0 \<or> height img = 0"
  shows "fst (gdDrawRandomPixels img mn mx e s) = Err DivByZero"
proof -
  obtain v t l where "seed e s = (Ok (), t)" "\<not> v < mn"
    "c_while (\<lambda>count. count < mn) (\<lambda>_. rand_below mx) 0 e t = (Ok v, t\<lparr>evs := l\<rparr>)"
    using count_ends [of mn mx e s] assms by auto
  then show ?thesis
    using pixels_loop_empty [OF _ assms(4), of v e "t\<lparr>evs := l\<rparr>"] assms(1,2) by (simp add: gdDrawRandomPixels_def run_bnd)
qed

lemma gdDrawRandomPixels_wrong_order:
  "mx < mn \<Longrightarrow> \<exists>new t. gdDrawRandomPixels img mn mx e s = (Ok (), t) \<and> events t = events s @ new \<and> blocks t = blocks s \<and>
    list_all (pixel_inside img) new \<and> filter is_pixel new = []"
  by (simp add: gdDrawRandomPixels_def seed_def exec events_def pixel_inside_def is_pixel_def)

subsection \<open>The captcha\<close>

text \<open>
  \<open>gdDrawCaptcha\<close> tests a member of the image that no function has assigned: it never
  returns a captcha.
\<close>

lemma gdInitImage_Ok: "gdInitImage w h c e s = (Ok img, t) \<Longrightarrow> textOnImage img = None"
  by (auto simp: gdInitImage_def gdInitColor_def exec Let_def)

lemma gdDrawCaptcha_no_value: "fst (gdDrawCaptcha e s) \<noteq> Ok c"
proof
  assume "fst (gdDrawCaptcha e s) = Ok c"
  then obtain t where "gdDrawCaptcha e s = (Ok c, t)"
    by (cases "gdDrawCaptcha e s") auto
  then show False
    by (auto simp: gdDrawCaptcha_def ok_iff_basic dest!: gdInitImage_Ok local_arr_Ok split: prod.splits)
qed

end
