(* ===== verification/Images_Props.thy ===== *)
theory Images_Props
  imports Images_Colors Images_Random
begin

text \<open>The properties of the image functions, each with an instance.\<close>

text \<open>The start state with one string in memory.\<close>

definition img_with :: "byte list \<Rightarrow> img_state" where
  "img_with bs = img_start\<lparr>blocks := [0 \<mapsto> cstr bs], nxt := 1\<rparr>"

lemma img_with_simps [simp]:
  "blocks (img_with bs) = [0 \<mapsto> cstr bs]" "cColors (img_with bs) = 0" "table_ok (img_with bs)"
  using table_ok_start by (simp_all add: img_with_def img_start_def table_ok_def)

text \<open>Claim C14: adding a colour to a well-formed table. While the table has room and the name has fewer than 128 bytes the
  table stays well formed, and every later \<open>gdFoundColor\<close> answers with the new colour for that name and with what it
  answered before for every other name; no string in memory changes. A name of 128 bytes or more is stored without a
  terminator, so the table is not well formed any more and looking for a name that begins with the same 128 bytes reads
  past the entry. On a full table nothing is stored: the range check lets the index through and the code writes past the table.\<close>

theorem color_table_add_find:
  assumes "table_ok s" "get_str (blocks s) p = Inr nm" "get_str (blocks s) q = Inr nm'"
  shows "if cColors s = MAXCOLORS then gdAddColor img p c e s = (Err OutOfBounds, s)
    else \<exists>t. gdAddColor img p c e s = (Ok (), t) \<and> cColors t = Suc (cColors s) \<and> blocks t = blocks s \<and>
      (table_ok t \<longleftrightarrow> length nm < MAXNAMECOLOR) \<and>
      fst (gdFoundColor q e t) =
        (if length nm < MAXNAMECOLOR then Ok (if nm' = nm then new_color img c e s else color_of (table s) nm')
         else if take MAXNAMECOLOR nm' = take MAXNAMECOLOR nm then Err OutOfBounds else Ok (color_of (table s) nm'))"
proof (cases "cColors s = MAXCOLORS")
  case True
  then show ?thesis
    using gdAddColor_full [OF assms(1) _ assms(2)] by simp
next
  case False
  then have room: "cColors s < MAXCOLORS"
    using assms(1) by (simp add: table_ok_def)
  show ?thesis
  proof (cases "length nm < MAXNAMECOLOR")
    case True
    obtain t where "gdAddColor img p c e s = (Ok (), t)" "table_ok t" "cColors t = Suc (cColors s)" "blocks t = blocks s"
      using gdAddColor_run [OF assms(1) room assms(2) True] by blast
    then show ?thesis
      using gdFoundColor_after_add [OF assms(1) room assms(2) True assms(3), of img c e] False True by (simp add: run_bnd)
  next
    case long: False
    then show ?thesis
      using gdAddColor_long [OF assms(1) room assms(2) _ assms(3), of img c e] False by (auto simp: not_less)
  qed
qed

theorem color_table_add_find_witness:
  fixes i defines "i \<equiv> \<lparr>im = 1, width = 1, height = 1, textOnImage = None\<rparr>"
  fixes c defines "c \<equiv> \<lparr>red = 1, green = 2, blue = 3, alpha = 4\<rparr>"
  shows "(\<exists>t. gdAddColor i (Addr 0 0) c (const_env (RInt 7)) (img_with [97]) = (Ok (), t) \<and> table_ok t \<and> cColors t = 1 \<and>
      fst (gdFoundColor (Addr 0 0) (const_env (RInt 7)) t) = Ok 7) \<and>
    (\<exists>t. gdAddColor i (Addr 0 0) c (const_env (RInt 7)) (img_with (replicate 128 97)) = (Ok (), t) \<and> \<not> table_ok t \<and>
      fst (gdFoundColor (Addr 0 0) (const_env (RInt 7)) t) = Err OutOfBounds) \<and>
    fst (gdAddColor i (Addr 0 0) c (const_env (RInt 7)) ((img_with [97])\<lparr>cColors := MAXCOLORS\<rparr>)) = Err OutOfBounds"
proof -
  have full: "table_ok ((img_with [97])\<lparr>cColors := MAXCOLORS\<rparr>)"
    using img_with_simps(3) [of "[97]"] by (simp add: table_ok_def)
  show ?thesis
    using color_table_add_find [where s = "img_with [97]" and p = "Addr 0 0" and q = "Addr 0 0" and nm = "[97]" and nm' = "[97]"
        and img = i and c = c and e = "const_env (RInt 7)"]
      color_table_add_find [where s = "img_with (replicate 128 97)" and p = "Addr 0 0" and q = "Addr 0 0" and nm = "replicate 128 97"
        and nm' = "replicate 128 97" and img = i and c = c and e = "const_env (RInt 7)"]
      color_table_add_find [where s = "(img_with [97])\<lparr>cColors := MAXCOLORS\<rparr>" and p = "Addr 0 0" and q = "Addr 0 0" and nm = "[97]"
        and nm' = "[97]" and img = i and c = c and e = "const_env (RInt 7)", OF full]
    by (simp add: new_color_def get_str_cstr) blast
qed

text \<open>The range check of \<open>gdSetColor\<close> lets the index \<open>MAXCOLORS\<close> through, so
  adding a colour to a full table writes past it.\<close>

theorem color_table_overflow:
  assumes "table_ok s" "cColors s = MAXCOLORS" "get_str (blocks s) p = Inr nm"
  shows "gdAddColor img p c e s = (Err OutOfBounds, s)"
  using assms by (rule gdAddColor_full)

theorem color_table_overflow_witness:
  fixes s defines "s \<equiv> (img_with [97])\<lparr>cColors := MAXCOLORS\<rparr>"
  shows "gdAddColor \<lparr>im = 1, width = 1, height = 1, textOnImage = None\<rparr> (Addr 0 0)
      \<lparr>red = 1, green = 2, blue = 3, alpha = 4\<rparr> (const_env RUnit) s = (Err OutOfBounds, s)"
  using img_with_simps(3) [of "[97]"]
  by (intro color_table_overflow [where nm = "[97]"]) (simp_all add: s_def table_ok_def)

text \<open>The components of a random colour are at most 254, so the value 255 is
  never drawn.\<close>

theorem gdRandColor_range:
  assumes "gdRandColor e s = (Ok c, t)"
  shows "red c < 255 \<and> green c < 255 \<and> blue c < 255 \<and> alpha c < 255 \<and> blocks t = blocks s"
  using assms by (rule gdRandColor_bounds)

theorem gdRandColor_range_witness:
  fixes r defines "r \<equiv> gdRandColor (const_env (RInt 700)) empty_state"
  shows "red \<lparr>red = 190, green = 190, blue = 190, alpha = 190\<rparr> < 255 \<and>
    green \<lparr>red = 190, green = 190, blue = 190, alpha = 190\<rparr> < 255 \<and>
    blue \<lparr>red = 190, green = 190, blue = 190, alpha = 190\<rparr> < 255 \<and>
    alpha \<lparr>red = 190, green = 190, blue = 190, alpha = 190\<rparr> < 255 \<and> blocks (snd r) = blocks empty_state"
proof (rule gdRandColor_range)
  have "fst r = Ok \<lparr>red = 190, green = 190, blue = 190, alpha = 190\<rparr>"
    by (simp add: r_def gdRandColor_def seed_def exec rand_val_def)
  then show "gdRandColor (const_env (RInt 700)) empty_state = (Ok \<lparr>red = 190, green = 190, blue = 190, alpha = 190\<rparr>, snd r)"
    by (metis prod.collapse r_def)
qed

text \<open>Whenever \<open>gdGetRandStr\<close> returns, the first \<open>len\<close> elements of the buffer
  hold letters and digits only, the element behind them the terminator, and the rest of
  the buffer and all other blocks are as they were.\<close>

theorem gdGetRandStr_alnum:
  assumes "gdGetRandStr (Addr b 0) len e s = (Ok u, t)" "blocks s b = Some cs" "len < length cs"
  shows "\<exists>bs. blocks t = (blocks s)(b \<mapsto> map Byte bs @ Byte NUL # drop (Suc len) cs) \<and>
    length bs = len \<and> list_all alnum_byte bs"
  using assms by (rule gdGetRandStr_Ok)

lemma rand_log_const: "rand_val (const_env (RInt 97)) l = 97"
  by (simp add: rand_val_def)

theorem gdGetRandStr_alnum_witness:
  fixes s defines "s \<equiv> state_of [[Undef, Undef]]"
  shows "\<exists>bs. blocks (snd (gdGetRandStr (Addr 0 0) 1 (const_env (RInt 97)) s)) =
      (blocks s)(0 \<mapsto> map Byte bs @ Byte NUL # drop (Suc 1) [Undef, Undef]) \<and>
    length bs = 1 \<and> list_all alnum_byte bs"
proof (rule gdGetRandStr_alnum)
  have "rand_fair (const_env (RInt 97))"
    by (simp add: rand_fair_def rand_log_const alnum_def)
  then obtain t where "gdGetRandStr (Addr 0 0) 1 (const_env (RInt 97)) s = (Ok (), t)"
    using gdGetRandStr_ends [of "const_env (RInt 97)" s 0 "[Undef, Undef]" 1] by (auto simp: s_def)
  then show "gdGetRandStr (Addr 0 0) 1 (const_env (RInt 97)) s =
      (Ok (), snd (gdGetRandStr (Addr 0 0) 1 (const_env (RInt 97)) s))"
    by simp
qed (simp_all add: s_def)

text \<open>\<open>gdGetRandStr\<close> ends if, from every point on, some later value of \<open>rand\<close>
  has a letter or a digit as its remainder modulo 127.\<close>

theorem gdGetRandStr_terminates:
  assumes "rand_fair e" "blocks s b = Some cs" "len < length cs"
  shows "\<exists>t. gdGetRandStr (Addr b 0) len e s = (Ok (), t)"
  using assms by (rule gdGetRandStr_ends)

theorem gdGetRandStr_terminates_witness:
  "\<exists>t. gdGetRandStr (Addr 0 0) 2 (const_env (RInt 97)) (state_of [replicate 3 Undef]) = (Ok (), t)"
  by (rule gdGetRandStr_terminates [where cs = "replicate 3 Undef"])
    (simp_all add: rand_fair_def rand_log_const alnum_def)

text \<open>Claim C39: if, from every point on, some later value of \<open>rand\<close> has a letter or a digit as its remainder modulo 127,
  \<open>gdGetRandStr\<close> returns, and the buffer then begins with \<open>len\<close> letters and digits and a terminator; the rest of it and all other
  blocks are as they were.\<close>

theorem gdGetRandStr_fills:
  assumes "rand_fair e" "blocks s b = Some cs" "len < length cs"
  shows "\<exists>t bs. gdGetRandStr (Addr b 0) len e s = (Ok (), t) \<and>
    blocks t = (blocks s)(b \<mapsto> map Byte bs @ Byte NUL # drop (Suc len) cs) \<and> length bs = len \<and> list_all alnum_byte bs"
  using gdGetRandStr_ends [OF assms] gdGetRandStr_Ok [OF _ assms(2,3)] by blast

theorem gdGetRandStr_fills_witness:
  fixes s defines "s \<equiv> state_of [replicate 3 Undef]"
  shows "\<exists>t bs. gdGetRandStr (Addr 0 0) 2 (const_env (RInt 97)) s = (Ok (), t) \<and>
    blocks t = (blocks s)(0 \<mapsto> map Byte bs @ Byte NUL # drop (Suc 2) (replicate 3 Undef)) \<and> length bs = 2 \<and> list_all alnum_byte bs"
  by (rule gdGetRandStr_fills) (simp_all add: s_def rand_fair_def rand_log_const alnum_def)

text \<open>With a positive lower bound equal to the upper bound, \<open>gdDrawRandomPixels\<close>
  never ends, whatever \<open>rand\<close> returns: the number it waits for is never below the
  upper bound.\<close>

theorem gdDrawRandomPixels_never_ends:
  assumes "0 < n"
  shows "fst (gdDrawRandomPixels img n n e s) = Err Diverges"
  using assms by (rule gdDrawRandomPixels_diverges)

theorem gdDrawRandomPixels_never_ends_witness:
  "fst (gdDrawRandomPixels \<lparr>im = 1, width = 9, height = 9, textOnImage = None\<rparr> 1 1 (const_env (RInt 7)) empty_state) = Err Diverges"
  by (rule gdDrawRandomPixels_never_ends) simp

text \<open>Claim C40: if the remainder modulo the upper bound, drawn again and again, always reaches the lower bound,
  \<open>gdDrawRandomPixels\<close> returns from bounds \<open>0 < mn < mx\<close> having drawn at least \<open>mn\<close> and fewer than \<open>mx\<close> pixels, every one
  inside the image, with no memory changed; in an image without area it divides by 0. From a lower bound of 0 or bounds in
  the wrong order it returns without a pixel, from positive bounds that are equal it never returns.\<close>

theorem gdDrawRandomPixels_draws:
  assumes "0 < mn \<Longrightarrow> mn < mx \<Longrightarrow> pixel_fair e mn mx" "width img \<le> 2 ^ 31" "height img \<le> 2 ^ 31"
  shows "if 0 < mn \<and> mn = mx then fst (gdDrawRandomPixels img mn mx e s) = Err Diverges
    else if 0 < mn \<and> mn < mx \<and> (width img = 0 \<or> height img = 0) then fst (gdDrawRandomPixels img mn mx e s) = Err DivByZero
    else \<exists>new t. gdDrawRandomPixels img mn mx e s = (Ok (), t) \<and> events t = events s @ new \<and> blocks t = blocks s \<and>
      list_all (pixel_inside img) new \<and>
      (if 0 < mn \<and> mn < mx then mn \<le> length (filter is_pixel new) \<and> length (filter is_pixel new) < mx
       else filter is_pixel new = [])"
proof -
  have "\<exists>new t. gdDrawRandomPixels img mn mx e s = (Ok (), t) \<and> events t = events s @ new \<and> blocks t = blocks s \<and>
      list_all (pixel_inside img) new \<and>
      (if mn = 0 then filter is_pixel new = [] else mn \<le> length (filter is_pixel new) \<and> length (filter is_pixel new) < mx)"
    if "mn \<le> mx" "0 < mn \<Longrightarrow> mn < mx" "0 < mn \<Longrightarrow> 0 < width img \<and> 0 < height img"
    using gdDrawRandomPixels_ends [OF that(1) assms(1) that(3), of s] gdDrawRandomPixels_Ok [OF _ that(1) assms(2,3)] that(2) by blast
  then show ?thesis
    using gdDrawRandomPixels_diverges [of mx img e s] gdDrawRandomPixels_no_area [of mn mx e img s] assms(1)
      gdDrawRandomPixels_wrong_order [of mx mn img e s] by (cases mn mx rule: linorder_cases; cases "mn = 0") auto
qed

theorem gdDrawRandomPixels_draws_witness:
  fixes i defines "i \<equiv> \<lparr>im = 1, width = 10, height = 10, textOnImage = None\<rparr>"
  shows "\<exists>new t. gdDrawRandomPixels i 1 2 (const_env (RInt 3)) empty_state = (Ok (), t) \<and>
    events t = events empty_state @ new \<and> blocks t = blocks empty_state \<and> list_all (pixel_inside i) new \<and>
    1 \<le> length (filter is_pixel new) \<and> length (filter is_pixel new) < 2"
proof -
  have "pixel_fair (const_env (RInt 3)) 1 2" "width i \<le> 2 ^ 31" "height i \<le> 2 ^ 31"
    by (simp_all add: i_def pixel_fair_def rand_val_def)
  from gdDrawRandomPixels_draws [OF this, of empty_state] show ?thesis
    by (simp add: i_def)
qed

text \<open>\<open>gdDrawCaptcha\<close> never returns a captcha: on every path that gets that
  far, its last test reads \<open>im.textOnImage\<close>, which no function has assigned.\<close>

theorem gdDrawCaptcha_never_returns:
  "fst (gdDrawCaptcha e s) \<noteq> Ok c"
  by (rule gdDrawCaptcha_no_value)

end
