(* ===== verification/CryptoCoins.thy ===== *)
theory CryptoCoins
  imports C_Frame
begin

text \<open>
  \<open>libbacteria/cryptocoins.c\<close>: the table of coins that is read from an ini file. The
  static counter of the translation unit is a field of the state. An array of
  \<open>struct cryptocoin\<close> is a block of seven cells per coin, in the order of the members;
  \<open>rpcport\<close>, a \<open>uint16_t\<close>, takes two of them. Strings of the dictionary are blocks that
  iniparser owns; that \<open>iniparser_freedict\<close> releases them is not modelled.
\<close>

record cc_state = cstate +
  count_cryptocoins :: nat

type_synonym ('z, 'a) cc_prog = "env \<Rightarrow> 'z cc_state_scheme \<Rightarrow> 'a res \<times> 'z cc_state_scheme"

datatype coin_field = testnet | rpcuser | rpcpassword | rpcport | rpchost | cryptocoin_name

fun field_off :: "coin_field \<Rightarrow> nat" where
  "field_off testnet = 0"
| "field_off rpcuser = 1"
| "field_off rpcpassword = 2"
| "field_off rpcport = 3"
| "field_off rpchost = 5"
| "field_off cryptocoin_name = 6"

definition coin_at :: "ptr \<Rightarrow> nat \<Rightarrow> coin_field \<Rightarrow> ptr" where
  "coin_at p i f = padd p (7 * i + field_off f)"

definition zero_coin :: "cell list" where
  "zero_coin = [Byte 0, PtrC Null, PtrC Null, Byte 0, Byte 0, PtrC Null, PtrC Null]"

abbreviation sizeof_cryptocoin :: nat where "sizeof_cryptocoin \<equiv> 48"

definition calloc_coins :: "nat \<Rightarrow> ('z, ptr) prog" where
  "calloc_coins n = (\<lambda>e s. if malloc_ok e (nxt s) (sizeof_cryptocoin * n)
     then (Ok (Addr (nxt s) 0), new_block (concat (replicate n zero_coin)) s) else (Ok Null, s))"

definition load_port :: "ptr \<Rightarrow> ('z, nat) prog" where
  "load_port p = bnd (load_byte p) (\<lambda>lo. bnd (load_byte (padd p 1)) (\<lambda>hi. ret (unat lo + 256 * unat hi)))"

definition store_port :: "ptr \<Rightarrow> int \<Rightarrow> ('z, unit) prog" where
  "store_port p v = write_bytes p [word_of_int v, word_of_int (v div 256)]"

definition getCountCryptocoins :: "('z, nat) cc_prog" where
  "getCountCryptocoins = gets count_cryptocoins"

text \<open>Declared to return a \<open>uint\<close>, it returns nothing.\<close>

definition setCountCryptocoins :: "nat \<Rightarrow> ('z, nat option) cc_prog" where
  "setCountCryptocoins i = bnd (modify (\<lambda>s. s\<lparr>count_cryptocoins := i\<rparr>)) (\<lambda>_. ret None)"

subsection \<open>Loading\<close>

definition GET_SEC :: "ptr \<Rightarrow> ptr \<Rightarrow> string \<Rightarrow> ('z, byte list) prog" where
  "GET_SEC tmp_buf sec_name def =
     bnd (read_str sec_name) (\<lambda>sec.
     bnd (write_bytes tmp_buf (sec @ [COLON] @ bytes_of def @ [NUL])) (\<lambda>_.
     read_str tmp_buf))"

definition GETSEC_STRING :: "handle \<Rightarrow> ptr \<Rightarrow> ptr \<Rightarrow> string \<Rightarrow> string \<Rightarrow> ('z, ptr) prog" where
  "GETSEC_STRING ini tmp_buf sec_name def dev_val =
     bnd (GET_SEC tmp_buf sec_name def) (\<lambda>key.
     bnd (ext (Ini (iniparser_getstring ini key dev_val))) lib_str)"

definition GETSEC_INT :: "handle \<Rightarrow> ptr \<Rightarrow> ptr \<Rightarrow> string \<Rightarrow> int \<Rightarrow> ('z, int) prog" where
  "GETSEC_INT ini tmp_buf sec_name def dev_val =
     bnd (GET_SEC tmp_buf sec_name def) (\<lambda>key.
     bnd (ext (Ini (iniparser_getint ini key dev_val))) (\<lambda>r. ret (r_int r)))"

definition GETSEC_BOOL :: "handle \<Rightarrow> ptr \<Rightarrow> ptr \<Rightarrow> string \<Rightarrow> ('z, int) prog" where
  "GETSEC_BOOL ini tmp_buf sec_name def =
     bnd (GET_SEC tmp_buf sec_name def) (\<lambda>key.
     bnd (ext (Ini (iniparser_getboolean ini key 0))) (\<lambda>r. ret (r_int r)))"

definition SET_VALUE_string :: "ptr \<Rightarrow> nat \<Rightarrow> coin_field \<Rightarrow> ptr \<Rightarrow> ('z, unit) prog" where
  "SET_VALUE_string coins i what pre =
     bnd (strlen pre) (\<lambda>n.
     bnd (calloc (n + 1)) (\<lambda>p.
     bnd (store_ptr (coin_at coins i what) p) (\<lambda>_.
     strcpy p pre)))"

text \<open>
  \<open>const int pre_rpcport = iniparser_getint (.., pre_rpcport)\<close> passes its own value before
  it has one: the default is whatever the environment says the variable held.
\<close>

text \<open>What the conversion to \<open>bool\<close> stores.\<close>

definition bool_byte :: "int \<Rightarrow> byte" where
  "bool_byte v = (if v = 0 then 0 else 1)"

definition load_coin :: "handle \<Rightarrow> ptr \<Rightarrow> ptr \<Rightarrow> nat \<Rightarrow> ('z, unit) prog" where
  "load_coin ini coins tmp_buf i =
     bnd (ext (Ini (iniparser_getsecname ini i))) (\<lambda>r.
     bnd (lib_str r) (\<lambda>sec_name.
     bnd (SET_VALUE_string coins i cryptocoin_name sec_name) (\<lambda>_.
     bnd (GETSEC_STRING ini tmp_buf sec_name ''rpcpassword'' ''nopass'') (\<lambda>pre_rpcpassword.
     bnd (GETSEC_STRING ini tmp_buf sec_name ''rpcuser'' ''user'') (\<lambda>pre_rpcuser.
     bnd (GETSEC_STRING ini tmp_buf sec_name ''rpchost'' ''localhost'') (\<lambda>pre_rpchost.
     bnd (ext (Indeterminate ''pre_rpcport'')) (\<lambda>garbage.
     bnd (GETSEC_INT ini tmp_buf sec_name ''rpcport'' (r_int garbage)) (\<lambda>pre_rpcport.
     bnd (GETSEC_BOOL ini tmp_buf sec_name ''testnet'') (\<lambda>pre_testnet.
     bnd (SET_VALUE_string coins i rpcuser pre_rpcuser) (\<lambda>_.
     bnd (SET_VALUE_string coins i rpcuser pre_rpcuser) (\<lambda>_.
     bnd (SET_VALUE_string coins i rpchost pre_rpchost) (\<lambda>_.
     bnd (SET_VALUE_string coins i rpcpassword pre_rpcpassword) (\<lambda>_.
     bnd (store_byte (coin_at coins i testnet) (bool_byte pre_testnet)) (\<lambda>_.
     bnd (store_port (coin_at coins i rpcport) pre_rpcport) (\<lambda>_.
     bnd (GETSEC_BOOL ini tmp_buf sec_name ''testnet'') (\<lambda>b.
     store_byte (coin_at coins i testnet) (bool_byte b)))))))))))))))))"

primrec load_coins :: "nat \<Rightarrow> handle \<Rightarrow> ptr \<Rightarrow> ptr \<Rightarrow> ('z, unit) prog" where
  "load_coins 0 ini coins tmp_buf = ret ()"
| "load_coins (Suc i) ini coins tmp_buf =
     bnd (load_coin ini coins tmp_buf i) (\<lambda>_. load_coins i ini coins tmp_buf)"

definition init_cryptocoins :: "ptr \<Rightarrow> ('z, ptr) cc_prog" where
  "init_cryptocoins pathToIniFile =
     bnd (read_str pathToIniFile) (\<lambda>path.
     bnd (ext (Ini (iniparser_load path))) (\<lambda>ini.
     if r_handle ini = 0 then ret Null else
     bnd (ext (Ini (iniparser_getnsec (r_handle ini)))) (\<lambda>n.
     bnd (modify (\<lambda>s. s\<lparr>count_cryptocoins := c_uint (r_int n)\<rparr>)) (\<lambda>_.
     bnd (gets count_cryptocoins) (\<lambda>count.
     bnd (calloc_coins count) (\<lambda>cryptocoins.
     if cryptocoins = Null then
       bnd (ext (Libc (Perror ''Access memory''))) (\<lambda>_. fail (Exited 1))
     else
     local_arr 1024 (\<lambda>tmp_buf.
       bnd (bzero tmp_buf 1024) (\<lambda>_.
       bnd (load_coins count (r_handle ini) cryptocoins tmp_buf) (\<lambda>_.
       bnd (ext (Ini (iniparser_freedict (r_handle ini)))) (\<lambda>_.
       ret cryptocoins))))))))))"

definition init_new_cryptocoins :: "ptr \<Rightarrow> ('z, ptr \<times> nat) cc_prog" where
  "init_new_cryptocoins path =
     bnd getCountCryptocoins (\<lambda>tmp.
     bnd (init_cryptocoins path) (\<lambda>rt.
     bnd getCountCryptocoins (\<lambda>size.
     bnd (setCountCryptocoins tmp) (\<lambda>_.
     ret (rt, size)))))"

subsection \<open>Printing and freeing\<close>

primrec dump_loop :: "nat \<Rightarrow> ptr \<Rightarrow> ('z, unit) prog" where
  "dump_loop 0 coins = ret ()"
| "dump_loop (Suc i) coins =
     bnd (load_ptr (coin_at coins i cryptocoin_name)) (\<lambda>np.
     bnd (read_str np) (\<lambda>name.
     bnd (ext (Libc (Printf ''Cryptocoin - %s'' name))) (\<lambda>_.
     bnd (load_ptr (coin_at coins i rpchost)) (\<lambda>hp.
     bnd (load_port (coin_at coins i rpcport)) (\<lambda>port.
     bnd (load_ptr (coin_at coins i rpcuser)) (\<lambda>up.
     bnd (load_ptr (coin_at coins i rpcpassword)) (\<lambda>pp.
     bnd (load_byte (coin_at coins i testnet)) (\<lambda>tn.
     bnd (read_str hp) (\<lambda>host.
     bnd (read_str up) (\<lambda>user.
     bnd (read_str pp) (\<lambda>pass.
     bnd (ext (Libc (Printf ''%s:%d %s:%s testnet:%s''
       (host @ [COLON] @ dec port @ [SPACE] @ user @ [COLON] @ pass @ bytes_of '' testnet:'' @
         bytes_of (if tn \<noteq> 0 then ''is testnet'' else ''is not testnet''))))) (\<lambda>_.
     dump_loop i coins))))))))))))"

definition dump_cryptocoins :: "ptr \<Rightarrow> ('z, unit) cc_prog" where
  "dump_cryptocoins coins =
     bnd (gets count_cryptocoins) (\<lambda>n. dump_loop (c_uchar (int n)) coins)"

definition clear_coin :: "ptr \<Rightarrow> nat \<Rightarrow> ('z, unit) prog" where
  "clear_coin coins i =
     bnd (load_ptr (coin_at coins i cryptocoin_name)) (\<lambda>p. bnd (free p) (\<lambda>_.
     bnd (load_ptr (coin_at coins i rpchost)) (\<lambda>p. bnd (free p) (\<lambda>_.
     bnd (load_ptr (coin_at coins i rpcuser)) (\<lambda>p. bnd (free p) (\<lambda>_.
     bnd (load_ptr (coin_at coins i rpcpassword)) (\<lambda>p. bnd (free p) (\<lambda>_.
     bnd (load_ptr (coin_at coins i rpchost)) (\<lambda>p. bnd (free p) (\<lambda>_.
     bnd (store_byte (coin_at coins i testnet) 0) (\<lambda>_.
     store_ptr (coin_at coins i rpchost) Null)))))))))))"

text \<open>The condition of the loop, in the order the code tests it.\<close>

definition clear_cond :: "ptr \<Rightarrow> nat \<Rightarrow> ('z, bool) cc_prog" where
  "clear_cond coins i =
     bnd (load_ptr (coin_at coins i rpchost)) (\<lambda>h.
     if h = Null then ret False else
     bnd (load_port (coin_at coins i rpcport)) (\<lambda>port.
     if port = 0 then ret False else
     gets (\<lambda>s. i < count_cryptocoins s)))"

text \<open>One test of the condition, and the body if it holds; \<open>i\<close> is an \<open>unsigned char\<close>.\<close>

definition clear_step :: "ptr \<Rightarrow> bool \<times> nat \<Rightarrow> ('z, bool \<times> nat) cc_prog" where
  "clear_step coins = (\<lambda>(_, i).
     bnd (clear_cond coins i) (\<lambda>go.
     if \<not> go then ret (False, i) else
     bnd (clear_coin coins i) (\<lambda>_.
     ret (True, c_uchar (int i + 1)))))"

definition clear_cryptocoins :: "ptr \<Rightarrow> ('z, unit) cc_prog" where
  "clear_cryptocoins coins =
     bnd (c_while fst (clear_step coins) (True, 0)) (\<lambda>_.
     free coins)"

subsection \<open>The counter\<close>

text \<open>No step of loading touches the counter once it is set.\<close>

definition same_count :: "'z cc_state_scheme \<Rightarrow> 'z cc_state_scheme \<Rightarrow> bool" where
  "same_count s t \<longleftrightarrow> count_cryptocoins t = count_cryptocoins s"

interpretation sc: step_relation "same_count :: 'z cc_state_scheme \<Rightarrow> 'z cc_state_scheme \<Rightarrow> bool"
  by unfold_locales (auto simp: same_count_def new_block_def drop_block_def)



lemma load_coins_same_count: "keeps same_count (load_coins n ini coins tmp :: ('z cc_state_ext, unit) prog)"
proof (induction n)
  case (Suc n)
  then show ?case
    by (auto simp: load_coin_def SET_VALUE_string_def GETSEC_STRING_def GETSEC_INT_def GETSEC_BOOL_def
        GET_SEC_def store_port_def)
qed auto

text \<open>
  After a successful load the counter is the number of sections iniparser reported; a
  file that cannot be loaded leaves the counter alone.
\<close>

lemma init_cryptocoins_count:
  assumes "init_cryptocoins p e s = (Ok q, t)"
  shows "q = Null \<and> count_cryptocoins t = count_cryptocoins s \<or>
    q \<noteq> Null \<and> (\<exists>l h. count_cryptocoins t = c_uint (r_int (answer e l (Ini (iniparser_getnsec h)))))"
proof -
  let ?load = "\<lambda>h count c tmp. bnd (bzero tmp 1024) (\<lambda>_. bnd (load_coins count h c tmp) (\<lambda>_.
       bnd (ext (Ini (iniparser_freedict h))) (\<lambda>_. ret c)))"
  have keeps: "keeps same_count (local_arr 1024 (?load h count c) :: ('z cc_state_ext, ptr) prog)" for h count c
    using load_coins_same_count by auto
  have same: "count_cryptocoins u = count_cryptocoins v \<and> r = c"
    if "local_arr 1024 (?load h count c) e v = (Ok r, u)" for h count c v r and u :: "'z cc_state_scheme"
    using keepsD [OF keeps that] local_arr_Ok [OF that] by (auto simp: same_count_def ok_iff_basic)
  have calloc: "count_cryptocoins u = count_cryptocoins v"
    if "calloc_coins n e v = (Ok r, u)" for n v r and u :: "'z cc_state_scheme"
    using that by (auto simp: calloc_coins_def new_block_def split: if_splits)
  show ?thesis
    using assms unfolding init_cryptocoins_def
    by (auto simp: ok_iff_basic ok_iff_mem ok_iff_state split: if_splits dest!: same calloc)
      blast+
qed

lemma init_new_cryptocoins_count:
  assumes "init_new_cryptocoins p e s = (Ok (q, n), t)"
  shows "count_cryptocoins t = count_cryptocoins s \<and>
    (\<exists>u. init_cryptocoins p e s = (Ok q, u) \<and> n = count_cryptocoins u)"
  using assms
  by (auto simp: init_new_cryptocoins_def getCountCryptocoins_def setCountCryptocoins_def ok_iff)

subsection \<open>Freeing\<close>

text \<open>A coin as \<open>load_coin\<close> leaves it: four strings in blocks of their own and a port.\<close>

definition coin_cells :: "byte \<Rightarrow> nat \<Rightarrow> nat \<Rightarrow> byte \<Rightarrow> byte \<Rightarrow> nat \<Rightarrow> nat \<Rightarrow> cell list" where
  "coin_cells tn u p lo hi h n =
     [Byte tn, PtrC (Addr u 0), PtrC (Addr p 0), Byte lo, Byte hi, PtrC (Addr h 0), PtrC (Addr n 0)]"

lemma clear_cryptocoins_double_free:
  assumes a: "blocks s a = Some (coin_cells tn u p lo hi h n @ rest)"
    and port: "lo \<noteq> 0 \<or> hi \<noteq> 0" and count: "0 < count_cryptocoins s"
    and live: "blocks s u \<noteq> None" "blocks s p \<noteq> None" "blocks s h \<noteq> None" "blocks s n \<noteq> None"
    and dist: "distinct [a, u, p, h, n]"
  shows "fst (clear_cryptocoins (Addr a 0) e s) = Err BadFree"
proof -
  have cell: "get_ptr m (Addr a (Suc 0)) = Inr (Addr u 0)" "get_ptr m (Addr a (Suc (Suc 0))) = Inr (Addr p 0)"
    "get_ptr m (Addr a 5) = Inr (Addr h 0)" "get_ptr m (Addr a 6) = Inr (Addr n 0)"
    "get_byte m (Addr a 3) = Inr lo" "get_byte m (Addr a 4) = Inr hi"
    if "m a = Some (coin_cells tn u p lo hi h n @ rest)" for m
    using that by (simp_all add: get_ptr_block get_byte_block coin_cells_def)
  obtain cu cp ch cn where b: "blocks s u = Some cu" "blocks s p = Some cp" "blocks s h = Some ch"
    "blocks s n = Some cn"
    using live by auto
  have ne: "p \<noteq> u" "h \<noteq> u" "h \<noteq> p" "n \<noteq> u" "n \<noteq> p" "n \<noteq> h" "u \<noteq> a" "p \<noteq> a" "h \<noteq> a" "n \<noteq> a"
    using dist by auto
  have "unat lo + 256 * unat hi \<noteq> 0"
    using port by (auto simp: unat_eq_zero)
  have run: "fst (clear_step (Addr a 0) (True, 0) e s) = Err BadFree"
    using a b count \<open>unat lo + 256 * unat hi \<noteq> 0\<close> ne dist
    by (simp add: clear_step_def clear_cond_def clear_coin_def coin_at_def load_port_def exec cell)
  have "clear_step (Addr a 0) (True, 0) e s = (Err BadFree, snd (clear_step (Addr a 0) (True, 0) e s))"
    unfolding run [symmetric] by (rule prod.collapse [symmetric])
  note loop = c_while_Err [of fst "(True, 0)" "clear_step (Addr a 0)", OF _ this]
  show ?thesis
    unfolding clear_cryptocoins_def by (simp add: run_bnd loop)
qed

end
