(* ===== verification/Json_Rpc.thy ===== *)
theory Json_Rpc
  imports CryptoCoins
begin

text \<open>
  \<open>libbacteria/json_rpc.c\<close> and the static functions of \<open>json_rpc.h\<close>: building a request,
  sending it with curl, and collecting the answer in a growing string. The chunks in
  which curl delivers the answer are part of the reply to \<open>curl_easy_perform\<close>, which
  calls \<open>writefunc\<close> once for each.
\<close>

record jstring =
  sptr :: ptr
  slen :: nat

record bitcoin_rpc_data =
  rpc_method :: ptr
  rpc_params :: handle
  json_ret :: ptr

subsection \<open>The functions\<close>

definition init_string :: "('z, jstring) prog" where
  "init_string =
     bnd (malloc 1) (\<lambda>p.
     if p = Null then
       bnd (ext (Libc (Fprintf_stderr ''malloc() failed''))) (\<lambda>_. fail (Exited 1))
     else
     bnd (store_byte p NUL) (\<lambda>_.
     ret \<lparr>sptr = p, slen = 0\<rparr>))"

definition writefunc :: "ptr \<Rightarrow> nat \<Rightarrow> nat \<Rightarrow> jstring \<Rightarrow> ('z, nat \<times> jstring) prog" where
  "writefunc p sz nmemb st =
     (let n = size_t (int sz * int nmemb); new_len = size_t (int (slen st) + int n) in
     bnd (realloc (sptr st) (size_t (int new_len + 1))) (\<lambda>q.
     if q = Null then
       bnd (ext (Libc (Fprintf_stderr ''realloc() failed''))) (\<lambda>_. fail (Exited 1))
     else
     bnd (memcpy (padd q (slen st)) p n) (\<lambda>_.
     bnd (store_byte (padd q new_len) NUL) (\<lambda>_.
     ret (n, \<lparr>sptr = q, slen = new_len\<rparr>)))))"

text \<open>curl calls \<open>writefunc\<close> with a size of 1 and each chunk in its own buffer.\<close>

primrec deliver :: "byte list list \<Rightarrow> jstring \<Rightarrow> ('z, jstring) prog" where
  "deliver [] st = ret st"
| "deliver (c # cs) st =
     bnd (lib_block (map Byte c)) (\<lambda>p.
     bnd (writefunc p 1 (length c) st) (\<lambda>(_, st').
     deliver cs st'))"

primrec params_loop :: "ptr list \<Rightarrow> handle \<Rightarrow> ('z, unit) prog" where
  "params_loop [] r = fail TypeFault"
| "params_loop (data # ap) r =
     (if data = Null then ret () else
     bnd (read_str data) (\<lambda>bs.
     bnd (ext (Web (json_string bs))) (\<lambda>js.
     bnd (ext (Web (json_array_append r (r_handle js)))) (\<lambda>_.
     params_loop ap r))))"

text \<open>The arguments, with the \<open>NULL\<close> that has to end them; without it \<open>va_arg\<close> is undefined.\<close>

definition brpc_prepare_params :: "ptr list \<Rightarrow> ('z, handle) prog" where
  "brpc_prepare_params args =
     bnd (ext (Web json_array)) (\<lambda>r.
     bnd (params_loop args (r_handle r)) (\<lambda>_.
     ret (r_handle r)))"

definition brpc_get_json :: "bitcoin_rpc_data \<Rightarrow> ('z, bitcoin_rpc_data) prog" where
  "brpc_get_json data =
     bnd (ext (Web json_object)) (\<lambda>root.
     bnd (ext (Web (json_integer 1))) (\<lambda>one.
     bnd (ext (Web (json_object_set_new (r_handle root) ''jsonrpc'' (r_handle one)))) (\<lambda>_.
     bnd (ext (Web (json_string (bytes_of ''bacteria'')))) (\<lambda>ident.
     bnd (ext (Web (json_object_set_new (r_handle root) ''id'' (r_handle ident)))) (\<lambda>_.
     bnd (read_str (rpc_method data)) (\<lambda>m.
     bnd (ext (Web (json_string m))) (\<lambda>meth.
     bnd (ext (Web (json_object_set_new (r_handle root) ''method'' (r_handle meth)))) (\<lambda>_.
     bnd (ext (Web (json_object_set_new (r_handle root) ''params'' (rpc_params data)))) (\<lambda>_.
     bnd (ext (Web (json_dumps (r_handle root)))) (\<lambda>d.
     bnd (lib_str d) (\<lambda>s.
     bnd (strlen s) (\<lambda>n.
     bnd (calloc (n + 1)) (\<lambda>j.
     bnd (strcpy j s) (\<lambda>_.
     bnd (ext (Web (json_decref (r_handle root)))) (\<lambda>_.
     ret (data\<lparr>json_ret := j\<rparr>))))))))))))))))"

definition brpc_clear_bdata :: "bitcoin_rpc_data \<Rightarrow> ('z, unit) prog" where
  "brpc_clear_bdata data = free (json_ret data)"

definition sizeof_http :: nat where
  "sizeof_http = 8"

definition sizeof_port :: nat where
  "sizeof_port = 6"

definition request_body ::
    "handle \<Rightarrow> ptr \<Rightarrow> ptr \<Rightarrow> ptr \<Rightarrow> bitcoin_rpc_data \<Rightarrow> ('z, handle \<times> handle) prog" where
  "request_body curl c userpwd url bdata =
     bnd (load_ptr (coin_at c 0 rpcuser)) (\<lambda>up.
     bnd (read_str up) (\<lambda>user.
     bnd (load_ptr (coin_at c 0 rpcpassword)) (\<lambda>pp.
     bnd (read_str pp) (\<lambda>pass.
     bnd (write_bytes userpwd (user @ [COLON] @ pass @ [0, NUL])) (\<lambda>_.
     bnd (load_ptr (coin_at c 0 rpchost)) (\<lambda>hp.
     bnd (read_str hp) (\<lambda>host.
     bnd (load_port (coin_at c 0 rpcport)) (\<lambda>port.
     bnd (write_bytes url (bytes_of ''http://'' @ host @ [COLON] @ dec port @ [0, NUL])) (\<lambda>_.
     bnd init_string (\<lambda>s.
     bnd (ext (Web (curl_slist_append 0 ''content-type: text/plain;''))) (\<lambda>headers.
     bnd (ext (Web (curl_setopt_header curl (r_handle headers)))) (\<lambda>_.
     bnd (read_str url) (\<lambda>u.
     bnd (ext (Web (curl_setopt_url curl u))) (\<lambda>_.
     bnd (read_str (json_ret bdata)) (\<lambda>data.
     bnd (ext (Web (curl_setopt_postfieldsize curl (int (length data))))) (\<lambda>_.
     bnd (ext (Web (curl_setopt_postfields curl data))) (\<lambda>_.
     bnd (read_str userpwd) (\<lambda>up2.
     bnd (ext (Web (curl_setopt_userpwd curl up2))) (\<lambda>_.
     bnd (ext (Web (curl_setopt_use_ssl curl))) (\<lambda>_.
     bnd (ext (Web (curl_setopt_write curl))) (\<lambda>_.
     bnd (ext (Web (curl_easy_perform curl))) (\<lambda>r.
     bnd (deliver (r_chunks r) s) (\<lambda>s2.
     bnd (brpc_clear_bdata bdata) (\<lambda>_.
     bnd (read_str (sptr s2)) (\<lambda>answer_text.
     bnd (ext (Web (json_loads answer_text))) (\<lambda>js.
     bnd (free (sptr s2)) (\<lambda>_.
     bnd (if r_handle js = 0
          then bnd (ext (Libc (Fprintf_stderr ''JSON-RPC; Error decode; Maybe unathorized %d -> %s'')))
            (\<lambda>_. ret ())
          else ret ()) (\<lambda>_.
     ret (r_handle js, r_handle headers)))))))))))))))))))))))))))))"

definition brpc_json_request :: "ptr \<Rightarrow> bitcoin_rpc_data \<Rightarrow> ('z, handle) prog" where
  "brpc_json_request c bdata =
     bnd (ext (Web curl_easy_init)) (\<lambda>curl.
     bnd (if r_handle curl = 0 then ret (0, 0) else
          bnd (load_ptr (coin_at c 0 rpcuser)) (\<lambda>up.
          bnd (strlen up) (\<lambda>nu.
          bnd (load_ptr (coin_at c 0 rpcpassword)) (\<lambda>pp.
          bnd (strlen pp) (\<lambda>np.
          local_arr (nu + np + 2) (\<lambda>userpwd.
          bnd (load_ptr (coin_at c 0 rpchost)) (\<lambda>hp.
          bnd (strlen hp) (\<lambda>nh.
          local_arr (nh + sizeof_http + sizeof_port + 2) (\<lambda>url.
          request_body (r_handle curl) c userpwd url bdata))))))))) (\<lambda>(js, headers).
     bnd (ext (Web (curl_slist_free_all headers))) (\<lambda>_.
     bnd (ext (Web (curl_easy_cleanup (r_handle curl)))) (\<lambda>_.
     ret js))))"

subsection \<open>The growing string\<close>

text \<open>
  The invariant: the buffer is one byte longer than the text, and terminated.
\<close>

definition holds :: "'z cstate_scheme \<Rightarrow> jstring \<Rightarrow> byte list \<Rightarrow> bool" where
  "holds s st bs \<longleftrightarrow> (\<exists>b. sptr st = Addr b 0 \<and> blocks s b = Some (cstr bs)) \<and> slen st = length bs"

lemma init_string_run:
  assumes "alloc_total e"
  shows "init_string e s = (Ok \<lparr>sptr = Addr (nxt s) 0, slen = 0\<rparr>, new_block (cstr []) s)"
  using assms by (simp add: init_string_def exec cstr_def new_block_def)

lemma writefunc_run:
  assumes al: "alloc_total e"
    and a: "blocks s a = Some (cstr bs)" and p: "get_bytes (blocks s) (Addr b i) (sz * n) = Inr chunk" "a \<noteq> b"
    and fr: "fresh s" "blocks s b \<noteq> None" and small: "length bs + sz * n < 2 ^ 63"
  shows "writefunc (Addr b i) sz n \<lparr>sptr = Addr a 0, slen = length bs\<rparr> e s =
    (Ok (sz * n, \<lparr>sptr = Addr (nxt s) 0, slen = length (bs @ chunk)\<rparr>),
     new_block (cstr (bs @ chunk)) (drop_block a s))"
proof -
  have len: "length chunk = sz * n"
    using get_bytes_length [OF p(1)] .
  have ne: "b \<noteq> nxt s" "b \<noteq> a" "nxt s \<noteq> a" "a \<noteq> nxt s"
    using fr p(2) a by (auto simp: fresh_def)
  have sizes: "size_t (int sz * int n) = sz * n" "size_t (int (length bs) + int (sz * n)) = length bs + sz * n"
    "size_t (int (length bs + sz * n) + 1) = length bs + sz * n + 1"
    using small by (simp_all flip: of_nat_mult of_nat_add)
  have cells: "get_cells (blocks s) (Addr b i) (sz * n) = Inr (map Byte chunk)"
    using p(1) by (rule get_bytes_cells)
  show ?thesis
    unfolding writefunc_def Let_def jstring.simps sizes
    using al a len ne cells
    by (simp add: exec new_block_def drop_block_def cstr_def)
qed

text \<open>Whatever the chunks, the string is their concatenation.\<close>

lemma deliver_run:
  assumes "alloc_total e" "fresh s" "blocks s a = Some (cstr bs)"
    and "length bs + length (concat chunks) < 2 ^ 63"
  shows "\<exists>t a'. deliver chunks \<lparr>sptr = Addr a 0, slen = length bs\<rparr> e s =
      (Ok \<lparr>sptr = Addr a' 0, slen = length (bs @ concat chunks)\<rparr>, t) \<and>
    blocks t a' = Some (cstr (bs @ concat chunks)) \<and>
    (\<forall>b. b < nxt s \<longrightarrow> b \<noteq> a \<longrightarrow> blocks t b = blocks s b) \<and> (a' = a \<or> nxt s \<le> a')"
  using assms
proof (induction chunks arbitrary: s a bs)
  case Nil
  then show ?case
    by (simp add: exec)
next
  case (Cons c chunks)
  let ?n = "nxt s"
  let ?s1 = "new_block (map Byte c) s"
  let ?s2 = "new_block (cstr (bs @ c)) (drop_block a ?s1)"
  have an: "a < ?n"
    using Cons.prems by (simp add: fresh_less)
  have 1: "blocks ?s1 a = Some (cstr bs)"
    using Cons.prems an by simp
  have 2: "get_bytes (blocks ?s1) (Addr ?n 0) (1 * length c) = Inr c"
    by simp
  have w: "writefunc (Addr ?n 0) 1 (length c) \<lparr>sptr = Addr a 0, slen = length bs\<rparr> e ?s1 =
      (Ok (1 * length c, \<lparr>sptr = Addr (Suc ?n) 0, slen = length (bs @ c)\<rparr>), ?s2)"
    using writefunc_run [OF Cons.prems(1) 1 2] Cons.prems an by simp
  have 3: "fresh ?s2"
    using Cons.prems(2) by (intro fresh_new_block fresh_drop_block)
  have 4: "blocks ?s2 (Suc ?n) = Some (cstr (bs @ c))"
    by simp
  obtain t a' where IH: "deliver chunks \<lparr>sptr = Addr (Suc ?n) 0, slen = length (bs @ c)\<rparr> e ?s2 =
      (Ok \<lparr>sptr = Addr a' 0, slen = length ((bs @ c) @ concat chunks)\<rparr>, t)"
    "blocks t a' = Some (cstr ((bs @ c) @ concat chunks))"
    "\<forall>b. b < nxt ?s2 \<longrightarrow> b \<noteq> Suc ?n \<longrightarrow> blocks t b = blocks ?s2 b" "a' = Suc ?n \<or> nxt ?s2 \<le> a'"
    using Cons.IH [OF Cons.prems(1) 3 4] Cons.prems(4) by auto
  have keep: "blocks t b = blocks s b" if "b < ?n" "b \<noteq> a" for b
    using IH(3) that by simp
  have "deliver (c # chunks) \<lparr>sptr = Addr a 0, slen = length bs\<rparr> e s =
      (Ok \<lparr>sptr = Addr a' 0, slen = length (bs @ concat (c # chunks))\<rparr>, t)"
    using w IH(1) by (simp add: run_bnd run_lib_block)
  then show ?case
    using IH(2,4) keep by (intro exI [of _ t] exI [of _ a']) auto
qed

subsection \<open>The request\<close>

text \<open>
  The buffer for the user name and the password is one byte shorter than what
  \<open>sprintf\<close> stores in it: separator, the zero of \<open>%c\<close>, and the terminator.
\<close>

lemma brpc_json_request_overflow:
  assumes fr: "fresh s"
    and c: "blocks s cb = Some (coin_cells tn ub pb lo hi hb nb @ rest)"
    and str: "get_str (blocks s) (Addr ub 0) = Inr user" "get_str (blocks s) (Addr pb 0) = Inr pass"
      "get_str (blocks s) (Addr hb 0) = Inr host"
    and curl: "r_handle (answer e (evs s) (Web curl_easy_init)) \<noteq> 0"
  shows "fst (brpc_json_request (Addr cb 0) bdata e s) = Err OutOfBounds"
proof -
  have ne: "cb \<noteq> nxt s" "cb \<noteq> Suc (nxt s)" "nxt s \<noteq> Suc (nxt s)"
    using fr c by (auto simp: fresh_def)
  have dead: "blocks s (nxt s) = None" "blocks s (Suc (nxt s)) = None"
    using fr by (simp_all add: fresh_above)
  have ptrs: "get_ptr m (Addr cb (Suc 0)) = Inr (Addr ub 0)" "get_ptr m (Addr cb (Suc (Suc 0))) = Inr (Addr pb 0)"
    "get_ptr m (Addr cb 5) = Inr (Addr hb 0)"
    if "m cb = Some (coin_cells tn ub pb lo hi hb nb @ rest)" for m
    using that by (simp_all add: get_ptr_block coin_cells_def)
  show ?thesis
    using c str curl ne dead
    by (simp add: brpc_json_request_def request_body_def exec local_arr_def ptrs coin_at_def new_block_def
        sizeof_http_def sizeof_port_def split: prod.split)
qed

text \<open>The buffer for the address is long enough for every port.\<close>

lemma length_dec_port: "p < 65536 \<Longrightarrow> length (dec p) \<le> 5"
  by (subst dec.simps, simp, subst dec.simps, simp, subst dec.simps, simp, subst dec.simps, simp,
      subst dec.simps, simp)

lemma url_fits:
  assumes "p < 65536"
  shows "length (bytes_of ''http://'' @ host @ [COLON] @ dec p @ [0, NUL]) \<le>
    length host + sizeof_http + sizeof_port + 2"
  using length_dec_port [OF assms] by (simp add: sizeof_http_def sizeof_port_def)

text \<open>Without a curl handle nothing is sent and \<open>NULL\<close> is returned.\<close>

lemma brpc_json_request_no_curl:
  assumes "r_handle (answer e (evs s) (Web curl_easy_init)) = 0"
  shows "\<exists>t. brpc_json_request c bdata e s = (Ok 0, t) \<and> blocks t = blocks s \<and>
    map fst (events t) = map fst (events s) @
      [Web curl_easy_init, Web (curl_slist_free_all 0), Web (curl_easy_cleanup 0)]"
  using assms by (simp add: brpc_json_request_def exec events_def)

end
