(* ===== verification/Coins_Props.thy ===== *)
theory Coins_Props
  imports Json_Rpc
begin

text \<open>The properties of the coin table and of the JSON-RPC client, each with an instance.\<close>

definition cc_state_of :: "cell list list \<Rightarrow> nat \<Rightarrow> cc_state" where
  "cc_state_of cs n = cstate.extend (state_of cs) \<lparr>count_cryptocoins = n\<rparr>"

lemma cc_state_of_simps [simp]:
  "blocks (cc_state_of cs n) b = (if b < length cs then Some (cs ! b) else None)"
  "nxt (cc_state_of cs n) = length cs" "evs (cc_state_of cs n) = []"
  "count_cryptocoins (cc_state_of cs n) = n" "fresh (cc_state_of cs n)"
  by (simp_all add: cc_state_of_def state_of_def cstate.defs fresh_def)

subsection \<open>Coins\<close>

text \<open>\<open>init_new_cryptocoins\<close> loads a table without touching the counter of the
  current one: after it returns the counter is what it was, and the size it reports is
  what the counter was after the load.\<close>

theorem init_new_keeps_count:
  assumes "init_new_cryptocoins p e s = (Ok (q, n), t)"
  shows "count_cryptocoins t = count_cryptocoins s \<and>
    (\<exists>u. init_cryptocoins p e s = (Ok q, u) \<and> n = count_cryptocoins u)"
  using assms by (rule init_new_cryptocoins_count)

theorem init_new_keeps_count_witness:
  fixes s defines "s \<equiv> cc_state_of [cstr [97]] 5"
  shows "count_cryptocoins (snd (init_new_cryptocoins (Addr 0 0) (const_env RUnit) s)) = count_cryptocoins s \<and>
    (\<exists>u. init_cryptocoins (Addr 0 0) (const_env RUnit) s = (Ok Null, u) \<and> 5 = count_cryptocoins u)"
  by (rule init_new_keeps_count [of "Addr 0 0" "const_env RUnit" s Null 5])
    (simp add: s_def init_new_cryptocoins_def init_cryptocoins_def getCountCryptocoins_def
      setCountCryptocoins_def exec)

text \<open>When \<open>init_cryptocoins\<close> returns a table, the counter is the number of
  sections iniparser reported, as an unsigned 32-bit number; when it returns \<open>NULL\<close>, the
  counter is unchanged.\<close>

theorem init_sets_count:
  assumes "init_cryptocoins p e s = (Ok q, t)"
  shows "q = Null \<and> count_cryptocoins t = count_cryptocoins s \<or>
    q \<noteq> Null \<and> (\<exists>l h. count_cryptocoins t = c_uint (r_int (answer e l (Ini (iniparser_getnsec h)))))"
  using assms by (rule init_cryptocoins_count)

definition empty_ini :: env where
  "empty_ini = \<lparr>malloc_ok = (\<lambda>_ _. True), answer = (\<lambda>l c.
     case c of Ini (iniparser_load p) \<Rightarrow> RHandle 1 | _ \<Rightarrow> RInt 0)\<rparr>"

theorem init_sets_count_witness:
  fixes s defines "s \<equiv> cc_state_of [cstr [97]] 5"
  shows "Addr 1 0 = Null \<and> count_cryptocoins (snd (init_cryptocoins (Addr 0 0) empty_ini s)) = count_cryptocoins s \<or>
    Addr 1 0 \<noteq> Null \<and> (\<exists>l h. count_cryptocoins (snd (init_cryptocoins (Addr 0 0) empty_ini s)) =
      c_uint (r_int (answer empty_ini l (Ini (iniparser_getnsec h)))))"
proof (rule init_sets_count)
  have "fst (init_cryptocoins (Addr 0 0) empty_ini s) = Ok (Addr 1 0)"
    by (simp add: s_def init_cryptocoins_def exec empty_ini_def calloc_coins_def local_arr_def)
  then show "init_cryptocoins (Addr 0 0) empty_ini s = (Ok (Addr 1 0), snd (init_cryptocoins (Addr 0 0) empty_ini s))"
    by (metis prod.collapse)
qed

text \<open>\<open>clear_cryptocoins\<close> frees the host name of the first coin twice: for every
  table whose first coin has its four strings in live blocks of their own and a port, the
  call faults.\<close>

theorem clear_frees_host_twice:
  assumes "blocks s a = Some (coin_cells tn u p lo hi h n @ rest)"
    and "lo \<noteq> 0 \<or> hi \<noteq> 0" "0 < count_cryptocoins s"
    and "blocks s u \<noteq> None" "blocks s p \<noteq> None" "blocks s h \<noteq> None" "blocks s n \<noteq> None"
    and "distinct [a, u, p, h, n]"
  shows "fst (clear_cryptocoins (Addr a 0) e s) = Err BadFree"
  using assms by (rule clear_cryptocoins_double_free)

theorem clear_frees_host_twice_witness:
  "fst (clear_cryptocoins (Addr 0 0) (const_env RUnit)
     (cc_state_of [coin_cells 0 1 2 144 31 3 4, cstr [97], cstr [98], cstr [99], cstr [100]] 1)) = Err BadFree"
  by (rule clear_frees_host_twice [where tn = 0 and u = 1 and p = 2 and lo = 144 and hi = 31 and h = 3 and n = 4 and rest = "[]"])
    simp_all

subsection \<open>JSON-RPC\<close>

text \<open>Claim C15: whatever the chunks in which curl delivers an answer, the string that
  \<open>writefunc\<close> accumulates is their concatenation, terminated, in a block one byte longer
  than its recorded length; no other block of the caller changes.\<close>

theorem writefunc_accumulates:
  assumes "alloc_total e" "fresh s" "blocks s a = Some (cstr bs)"
    and "length bs + length (concat chunks) < 2 ^ 63"
  shows "\<exists>t a'. deliver chunks \<lparr>sptr = Addr a 0, slen = length bs\<rparr> e s =
      (Ok \<lparr>sptr = Addr a' 0, slen = length (bs @ concat chunks)\<rparr>, t) \<and>
    blocks t a' = Some (cstr (bs @ concat chunks)) \<and>
    blocks t |` ({..<nxt s} - {a}) = blocks s |` ({..<nxt s} - {a})"
  using deliver_run [OF assms] by (auto simp: restrict_map_def fun_eq_iff)

theorem writefunc_accumulates_witness:
  fixes s defines "s \<equiv> state_of [cstr [97]]"
  shows "\<exists>t a'. deliver [[98], [99, 100]] \<lparr>sptr = Addr 0 0, slen = length [97 :: byte]\<rparr> (const_env RUnit) s =
      (Ok \<lparr>sptr = Addr a' 0, slen = length ([97] @ concat [[98], [99, 100 :: byte]])\<rparr>, t) \<and>
    blocks t a' = Some (cstr ([97] @ concat [[98], [99, 100]])) \<and>
    blocks t |` ({..<nxt s} - {0}) = blocks s |` ({..<nxt s} - {0})"
  by (rule writefunc_accumulates) (simp_all add: s_def)

text \<open>For every coin with readable strings, once curl has a handle,
  \<open>brpc_json_request\<close> writes one byte past its buffer for user name and password and
  never gets as far as sending the request.\<close>

theorem request_overflows_userpwd:
  assumes "fresh s" "blocks s cb = Some (coin_cells tn ub pb lo hi hb nb @ rest)"
    and "get_str (blocks s) (Addr ub 0) = Inr user" "get_str (blocks s) (Addr pb 0) = Inr pass"
    and "get_str (blocks s) (Addr hb 0) = Inr host"
    and "r_handle (answer e (evs s) (Web curl_easy_init)) \<noteq> 0"
  shows "fst (brpc_json_request (Addr cb 0) bdata e s) = Err OutOfBounds"
  using assms by (rule brpc_json_request_overflow)

theorem request_overflows_userpwd_witness:
  "fst (brpc_json_request (Addr 0 0) \<lparr>rpc_method = Null, rpc_params = 0, json_ret = Null\<rparr> (const_env (RHandle 1))
     (state_of [coin_cells 0 1 2 144 31 3 4, cstr [97], cstr [98], cstr [99], cstr [100]])) = Err OutOfBounds"
  by (rule request_overflows_userpwd [where tn = 0 and ub = 1 and pb = 2 and lo = 144 and hi = 31 and
        hb = 3 and nb = 4 and rest = "[]" and user = "[97]" and pass = "[98]" and host = "[99]"]) simp_all

text \<open>Without a curl handle \<open>brpc_json_request\<close> returns \<open>NULL\<close>, changes no
  memory, and makes exactly three calls, which release nothing that was made.\<close>

theorem request_without_curl:
  assumes "r_handle (answer e (evs s) (Web curl_easy_init)) = 0"
  shows "\<exists>t. brpc_json_request c bdata e s = (Ok 0, t) \<and> blocks t = blocks s \<and>
    map fst (events t) = map fst (events s) @
      [Web curl_easy_init, Web (curl_slist_free_all 0), Web (curl_easy_cleanup 0)]"
  using assms by (rule brpc_json_request_no_curl)

theorem request_without_curl_witness:
  "\<exists>t. brpc_json_request Null \<lparr>rpc_method = Null, rpc_params = 0, json_ret = Null\<rparr> (const_env RUnit) empty_state = (Ok 0, t) \<and>
    blocks t = blocks empty_state \<and>
    map fst (events t) = map fst (events empty_state) @
      [Web curl_easy_init, Web (curl_slist_free_all 0), Web (curl_easy_cleanup 0)]"
  by (rule request_without_curl) simp

end
