(* ===== verification/C_Logs.thy ===== *)
theory C_Logs
  imports C_Frame
begin

text \<open>
  Which external calls a program issues. \<open>logs Q m\<close>: whenever \<open>m\<close> returns, the record of
  calls has grown by a list that satisfies \<open>Q\<close> together with the result. The rules follow
  the structure of a program and compute \<open>Q\<close> backwards, so a property of the calls of a
  function is proved by \<open>(intro logs_rules)\<close> and simplification.
\<close>

named_theorems quiet_rules \<open>programs that issue no external call\<close>
named_theorems logs_rules \<open>the external calls of a program, by its structure\<close>

definition quiet :: "(env \<Rightarrow> 'z cstate_scheme \<Rightarrow> 'a res \<times> 'z cstate_scheme) \<Rightarrow> bool" where
  "quiet m \<longleftrightarrow> (\<forall>e s. evs (snd (m e s)) = evs s)"

definition logs :: "('a \<Rightarrow> event list \<Rightarrow> bool) \<Rightarrow>
    (env \<Rightarrow> 'z cstate_scheme \<Rightarrow> 'a res \<times> 'z cstate_scheme) \<Rightarrow> bool" where
  "logs Q m \<longleftrightarrow> (\<forall>e s a t. m e s = (Ok a, t) \<longrightarrow> (\<exists>new. events t = events s @ new \<and> Q a new))"

lemma logsD: "logs Q m \<Longrightarrow> m e s = (Ok a, t) \<Longrightarrow> \<exists>new. events t = events s @ new \<and> Q a new"
  by (simp add: logs_def)

lemma quietD: "quiet m \<Longrightarrow> m e s = (r, t) \<Longrightarrow> evs t = evs s"
  unfolding quiet_def by (metis snd_conv)

lemma quiet_mem [quiet_rules]:
  fixes p :: ptr
  shows "quiet (read_mem g :: ('z, 'a) prog)" "quiet (write_mem h :: ('z, unit) prog)"
    "quiet (load_byte p :: ('z, byte) prog)" "quiet (load_ptr p :: ('z, ptr) prog)"
    "quiet (store_byte p v :: ('z, unit) prog)" "quiet (store_ptr p q :: ('z, unit) prog)"
    "quiet (bzero p n :: ('z, unit) prog)" "quiet (write_bytes p bs :: ('z, unit) prog)"
    "quiet (read_str p :: ('z, byte list) prog)" "quiet (read_bytes p n :: ('z, byte list) prog)"
    "quiet (read_cells p n :: ('z, cell list) prog)" "quiet (read_strn p n :: ('z, byte list) prog)"
    "quiet (free p :: ('z, unit) prog)"
  by (simp_all add: quiet_def read_mem_def write_mem_def load_byte_def load_ptr_def store_byte_def
      store_ptr_def bzero_def write_bytes_def read_str_def read_bytes_def read_cells_def
      read_strn_def free_def split: sum.split)

lemma quiet_alloc [quiet_rules]:
  "quiet (alloc b n)" "quiet (malloc n)" "quiet (malloc_ptrs n)" "quiet (calloc n)"
  "quiet (lib_block cs)"
  by (auto simp: quiet_def alloc_def malloc_def malloc_ptrs_def calloc_def lib_block_def new_block_def)

lemma quiet_realloc [quiet_rules]: "quiet (realloc p n)" "quiet (realloc_ptrs p n)"
  by (auto simp: quiet_def realloc_def realloc_ptrs_def realloc_as_def alloc_def new_block_def
      drop_block_def split: ptr.split option.split)

lemma quiet_pure [quiet_rules]:
  "quiet (ret a :: ('z, 'a) prog)" "quiet (fail x :: ('z, 'a) prog)"
  "quiet (gets f :: ('z, 'a) prog)" "quiet (field o' :: ('z, 'a) prog)"
  by (auto simp: quiet_def exec field_def split: option.split)

lemma quiet_lib_str [quiet_rules]: "quiet (lib_str r)"
  by (auto simp: lib_str_def intro: quiet_rules split: reply.split)

lemma quiet_bnd [quiet_rules]:
  assumes "quiet m" "\<And>a. quiet (f a)"
  shows "quiet (bnd m f)"
  unfolding quiet_def
proof (intro allI)
  fix e s
  obtain r t where t: "m e s = (r, t)"
    by (cases "m e s")
  then show "evs (snd (bnd m f e s)) = evs s"
    using assms quietD [OF assms(1) t] by (cases r) (auto simp: run_bnd quiet_def)
qed

lemma quiet_if [quiet_rules]: "quiet m \<Longrightarrow> quiet m' \<Longrightarrow> quiet (if b then m else m')"
  by simp

lemma quiet_string [quiet_rules]:
  "quiet (strlen p)" "quiet (strcpy p q)" "quiet (memcpy p q n)" "quiet (strchr p c)"
  "quiet (strstr p bs)" "quiet (str_eq p q)"
  by (auto simp: strlen_def strcpy_def memcpy_def strchr_def strstr_def str_eq_def
      intro!: quiet_rules)

lemma quiet_modify: "(\<And>s. evs (f s) = evs s) \<Longrightarrow> quiet (modify f)"
  by (simp add: quiet_def exec)

lemma quiet_local_arr [quiet_rules]:
  assumes "\<And>p. quiet (body p)"
  shows "quiet (local_arr n body)"
  using assms by (auto simp: quiet_def local_arr_def new_block_def drop_block_def split: prod.split)
    (metis (no_types, lifting) cstate.select_convs(3) cstate.surjective cstate.update_convs(1,2) snd_conv)

text \<open>The calls of a program, rule by rule.\<close>

lemma logs_ret [logs_rules]: "Q a [] \<Longrightarrow> logs Q (ret a)"
  by (auto simp: logs_def exec)

lemma logs_fail [logs_rules]: "logs Q (fail x)"
  by (auto simp: logs_def exec)

lemma logs_ext: "(\<And>r. Q r [(c, r)]) \<Longrightarrow> logs Q (ext c)"
  by (auto simp: logs_def exec events_def)

lemma logs_bnd:
  assumes m: "logs P m" and f: "\<And>a l. P a l \<Longrightarrow> logs (\<lambda>b new. Q b (l @ new)) (f a)"
  shows "logs Q (bnd m f)"
  unfolding logs_def
proof (intro allI impI)
  fix e s b u
  assume "bnd m f e s = (Ok b, u)"
  then obtain a t where a: "m e s = (Ok a, t)" and b: "f a e t = (Ok b, u)"
    by (auto simp: ok_iff_basic(1))
  obtain l where l: "events t = events s @ l" "P a l"
    using logsD [OF m a] by blast
  obtain l' where "events u = events t @ l'" "Q b (l @ l')"
    using logsD [OF f [OF l(2)] b] by blast
  then show "\<exists>new. events u = events s @ new \<and> Q b new"
    using l(1) by simp
qed

lemma logs_bnd_ext [logs_rules]:
  assumes "\<And>r. logs (\<lambda>b new. Q b ((c, r) # new)) (f r)"
  shows "logs Q (bnd (ext c) f)"
  by (rule logs_bnd [where P = "\<lambda>r l. l = [(c, r)]"]) (auto intro: logs_ext assms)

lemma logs_quiet: "quiet m \<Longrightarrow> (\<And>a. Q a []) \<Longrightarrow> logs Q m"
  by (auto simp: logs_def events_def dest: quietD)

lemma logs_bnd_quiet:
  assumes "quiet m" "\<And>a. logs Q (f a)"
  shows "logs Q (bnd m f)"
  by (rule logs_bnd [where P = "\<lambda>a l. l = []"]) (auto intro: logs_quiet assms)

lemma logs_if [logs_rules]:
  "(b \<Longrightarrow> logs Q m) \<Longrightarrow> (\<not> b \<Longrightarrow> logs Q m') \<Longrightarrow> logs Q (if b then m else m')"
  by simp

lemma logs_bnd_if:
  assumes "b \<Longrightarrow> logs Q (bnd m f)" "\<not> b \<Longrightarrow> logs Q (bnd m' f)"
  shows "logs Q (bnd (if b then m else m') f)"
  using assms by simp

lemma logs_bnd_bnd: "logs Q (bnd m (\<lambda>a. bnd (f a) g)) \<Longrightarrow> logs Q (bnd (bnd m f) g)"
  by (simp add: bnd_assoc)

lemma logs_bnd_let: "logs Q (bnd (f x) g) \<Longrightarrow> logs Q (bnd (let a = x in f a) g)"
  by simp

lemma logs_bnd_case_prod:
  "(\<And>a b. x = (a, b) \<Longrightarrow> logs Q (bnd (f a b) g)) \<Longrightarrow> logs Q (bnd (case x of (a, b) \<Rightarrow> f a b) g)"
  by (cases x) simp

lemma logs_bnd_case_option:
  "(x = None \<Longrightarrow> logs Q (bnd m g)) \<Longrightarrow> (\<And>a. x = Some a \<Longrightarrow> logs Q (bnd (f a) g)) \<Longrightarrow>
   logs Q (bnd (case x of None \<Rightarrow> m | Some a \<Rightarrow> f a) g)"
  by (cases x) simp_all

lemma logs_bnd_fail: "logs Q (bnd (fail x) f)"
  by (auto simp: logs_def exec)

lemma logs_bnd_ret: "logs Q (f a) \<Longrightarrow> logs Q (bnd (ret a) f)"
  by (simp add: bnd_def ret_def)

lemma logs_local_arr [logs_rules]:
  fixes body :: "ptr \<Rightarrow> ('z, 'a) prog"
  assumes body: "\<And>p. logs Q (body p)"
  shows "logs Q (local_arr n body)"
  unfolding logs_def
proof (intro allI impI)
  fix e and s t :: "'z cstate_scheme" and a
  assume run: "local_arr n body e s = (Ok a, t)"
  let ?s = "new_block (replicate n Undef) s"
  obtain r u where u: "body (Addr (nxt s) 0) e ?s = (r, u)"
    by (cases "body (Addr (nxt s) 0) e ?s")
  have r: "r = Ok a" "t = drop_block (nxt s) u"
    using run by (auto simp: local_arr_def u split: if_splits)
  obtain new where "events u = events ?s @ new" "Q a new"
    using logsD [OF body u [unfolded r(1)]] by blast
  then show "\<exists>new. events t = events s @ new \<and> Q a new"
    by (auto simp: r(2) events_def new_block_def drop_block_def)
qed

lemma logs_weaken: "logs P m \<Longrightarrow> (\<And>a l. P a l \<Longrightarrow> Q a l) \<Longrightarrow> logs Q m"
  unfolding logs_def by blast

lemma logs_case_prod [logs_rules]:
  "(\<And>a b. x = (a, b) \<Longrightarrow> logs Q (f a b)) \<Longrightarrow> logs Q (case x of (a, b) \<Rightarrow> f a b)"
  by (cases x) simp

lemma logs_case_option [logs_rules]:
  "(x = None \<Longrightarrow> logs Q m) \<Longrightarrow> (\<And>a. x = Some a \<Longrightarrow> logs Q (f a)) \<Longrightarrow>
   logs Q (case x of None \<Rightarrow> m | Some a \<Rightarrow> f a)"
  by (cases x) simp_all

lemma logs_let [logs_rules]: "logs Q (f x) \<Longrightarrow> logs Q (let a = x in f a)"
  by simp

lemmas logs_quiet_rules [logs_rules] =
  logs_bnd_quiet [OF quiet_mem(1)] logs_bnd_quiet [OF quiet_mem(2)] logs_bnd_quiet [OF quiet_mem(3)]
  logs_bnd_quiet [OF quiet_mem(4)] logs_bnd_quiet [OF quiet_mem(5)] logs_bnd_quiet [OF quiet_mem(6)]
  logs_bnd_quiet [OF quiet_mem(7)] logs_bnd_quiet [OF quiet_mem(8)] logs_bnd_quiet [OF quiet_mem(9)]
  logs_bnd_quiet [OF quiet_mem(10)] logs_bnd_quiet [OF quiet_mem(11)]
  logs_bnd_quiet [OF quiet_mem(12)] logs_bnd_quiet [OF quiet_mem(13)]
  logs_bnd_quiet [OF quiet_alloc(1)] logs_bnd_quiet [OF quiet_alloc(2)]
  logs_bnd_quiet [OF quiet_alloc(3)] logs_bnd_quiet [OF quiet_alloc(4)]
  logs_bnd_quiet [OF quiet_alloc(5)]
  logs_bnd_quiet [OF quiet_realloc(1)] logs_bnd_quiet [OF quiet_realloc(2)]
  logs_bnd_quiet [OF quiet_pure(3)] logs_bnd_quiet [OF quiet_pure(4)]
  logs_bnd_quiet [OF quiet_lib_str]
  logs_bnd_quiet [OF quiet_string(1)] logs_bnd_quiet [OF quiet_string(2)]
  logs_bnd_quiet [OF quiet_string(3)] logs_bnd_quiet [OF quiet_string(4)]
  logs_bnd_quiet [OF quiet_string(5)] logs_bnd_quiet [OF quiet_string(6)]
  logs_bnd_if logs_bnd_let logs_bnd_case_prod logs_bnd_case_option logs_bnd_bnd logs_bnd_ret logs_bnd_fail

lemma quiet_while:
  fixes body :: "'a \<Rightarrow> ('z, 'a) prog"
  assumes "\<And>a. quiet (body a)"
  shows "quiet (c_while b body a)"
  unfolding quiet_def
proof (intro allI)
  fix e and s :: "'z cstate_scheme"
  let ?b = "\<lambda>(r, t). case r of Ok x \<Rightarrow> b x | Err x \<Rightarrow> False"
  let ?c = "\<lambda>(r, t). case r of Ok x \<Rightarrow> body x e t | Err x \<Rightarrow> (Err x, t)"
  show "evs (snd (c_while b body a e s)) = evs s"
  proof (cases "while_option ?b ?c (Ok a, s)")
    case (Some rt)
    have "evs (snd rt) = evs s"
    proof (rule while_option_rule [of "\<lambda>rt :: 'a res \<times> 'z cstate_scheme. evs (snd rt) = evs s", OF _ Some])
      fix rt :: "'a res \<times> 'z cstate_scheme"
      assume st: "evs (snd rt) = evs s" and "?b rt"
      then obtain x u where rt: "rt = (Ok x, u)"
        by (cases rt; cases "fst rt") auto
      show "evs (snd (?c rt)) = evs s"
        using st assms by (simp add: rt quiet_def)
    qed simp
    then show ?thesis
      by (simp add: c_while_def Some)
  qed (simp add: c_while_def)
qed

lemma quiet_loop [quiet_rules]:
  assumes "\<And>a. quiet (test a)" "\<And>a. quiet (body a)"
  shows "quiet (c_loop test body a)"
  unfolding c_loop_def by (auto intro!: quiet_rules quiet_while assms split: prod.split)

end
