(* ===== verification/Lua_Api.thy ===== *)
theory Lua_Api
  imports C_Logs
begin

text \<open>
  The functions of Lua's C interface that the glue code calls, as far as they touch the
  memory of the model. Lua itself is external: what is on its stack is the environment's
  answer. \<open>luaL_error\<close> and a failed argument check leave the C function by a long jump,
  which is the fault \<open>LuaError\<close>. Strings are handed out as memory that Lua owns. Numbers
  are the integers that the C conversion of a Lua number gives.
\<close>

definition luaL_error :: "string \<Rightarrow> ('z, 'a) prog" where
  "luaL_error msg = fail (LuaError msg)"

text \<open>\<open>luaL_checkstring\<close> raises an error where \<open>lua_tostring\<close> returns \<open>NULL\<close>.\<close>

definition lua_tostring :: "int \<Rightarrow> ('z, ptr) prog" where
  "lua_tostring i = bnd (ext (Lua (lua_arg_string i))) lib_str"

definition luaL_checkstring :: "int \<Rightarrow> ('z, ptr) prog" where
  "luaL_checkstring i = bnd (lua_tostring i) (\<lambda>p.
     if p = Null then luaL_error ''string expected'' else ret p)"

definition lua_tonumber :: "int \<Rightarrow> ('z, int) prog" where
  "lua_tonumber i = bnd (ext (Lua (lua_arg_number i))) (\<lambda>r. ret (r_int r))"

text \<open>A reply that is not a number is an argument that is not one.\<close>

definition luaL_checknumber :: "int \<Rightarrow> ('z, int) prog" where
  "luaL_checknumber i = bnd (ext (Lua (lua_arg_number i))) (\<lambda>r.
     case r of RInt n \<Rightarrow> ret n | _ \<Rightarrow> luaL_error ''number expected'')"

text \<open>A question to Lua with a yes or no answer.\<close>

definition lua_test :: "lua_call \<Rightarrow> ('z, bool) prog" where
  "lua_test c = bnd (ext (Lua c)) (\<lambda>r. ret (r_int r \<noteq> 0))"

definition to_userdata :: "int \<Rightarrow> ('z, handle) prog" where
  "to_userdata i = bnd (ext (Lua (lua_touserdata i))) (\<lambda>r. ret (r_handle r))"

definition gettop :: "('z, nat) prog" where
  "gettop = bnd (ext (Lua lua_gettop)) (\<lambda>r. ret (nat (r_int r)))"

definition lua_do :: "lua_call \<Rightarrow> ('z, unit) prog" where
  "lua_do c = bnd (ext (Lua c)) (\<lambda>_. ret ())"

definition push :: "lua_val \<Rightarrow> ('z, unit) prog" where
  "push v = lua_do (lua_push v)"

text \<open>\<open>lua_pushstring\<close> of \<open>NULL\<close> pushes nil.\<close>

definition lua_pushstring :: "ptr \<Rightarrow> ('z, unit) prog" where
  "lua_pushstring p = (if p = Null then push LNil else bnd (read_str p) (\<lambda>bs. push (LStr bs)))"

definition lua_pushlstring :: "ptr \<Rightarrow> nat \<Rightarrow> ('z, unit) prog" where
  "lua_pushlstring p n = bnd (read_bytes p n) (\<lambda>bs. push (LStr bs))"

text \<open>A structure behind a userdata handle; what was never stored there is no such structure.\<close>

definition deref :: "('z cstate_scheme \<Rightarrow> handle \<Rightarrow> 'a option) \<Rightarrow> handle \<Rightarrow> ('z, 'a) prog" where
  "deref f h = (\<lambda>e s. case f s h of None \<Rightarrow> (Err TypeFault, s) | Some v \<Rightarrow> (Ok v, s))"

lemma run_deref [exec]:
  "f s h = Some v \<Longrightarrow> deref f h e s = (Ok v, s)"
  "f s h = None \<Longrightarrow> deref f h e s = (Err TypeFault, s)"
  by (simp_all add: deref_def)

text \<open>\<open>lua_newuserdata\<close> for a structure of so many bytes that is written at once.\<close>

definition new_struct :: "nat \<Rightarrow> nat \<Rightarrow> ('z, handle) prog" where
  "new_struct nbytes need = bnd (ext (Lua (lua_newuserdata nbytes))) (\<lambda>r.
     if nbytes < need then fail OutOfBounds else ret (r_handle r))"

lemma lua_string_run [exec]:
  "answer e (evs s) (Lua (lua_arg_string i)) = ROut n bs \<Longrightarrow>
   lua_tostring i e s = (Ok (Addr (nxt s) 0),
     new_block (map Byte bs @ [Byte NUL]) (s\<lparr>evs := (Lua (lua_arg_string i), ROut n bs) # evs s\<rparr>))"
  "answer e (evs s) (Lua (lua_arg_string i)) = ROut n bs \<Longrightarrow>
   luaL_checkstring i e s = (Ok (Addr (nxt s) 0),
     new_block (map Byte bs @ [Byte NUL]) (s\<lparr>evs := (Lua (lua_arg_string i), ROut n bs) # evs s\<rparr>))"
  by (simp_all add: luaL_checkstring_def lua_tostring_def exec lib_str_def)

lemma lua_number_run [exec]:
  "answer e (evs s) (Lua (lua_arg_number i)) = RInt n \<Longrightarrow>
   luaL_checknumber i e s = (Ok n, s\<lparr>evs := (Lua (lua_arg_number i), RInt n) # evs s\<rparr>)"
  "lua_tonumber i e s = (Ok (r_int (answer e (evs s) (Lua (lua_arg_number i)))),
     s\<lparr>evs := (Lua (lua_arg_number i), answer e (evs s) (Lua (lua_arg_number i))) # evs s\<rparr>)"
  by (simp_all add: luaL_checknumber_def lua_tonumber_def exec)

lemma lua_do_run [exec]:
  "lua_do c e s = (Ok (), s\<lparr>evs := (Lua c, answer e (evs s) (Lua c)) # evs s\<rparr>)"
  "push v e s = (Ok (), s\<lparr>evs := (Lua (lua_push v), answer e (evs s) (Lua (lua_push v))) # evs s\<rparr>)"
  by (simp_all add: push_def lua_do_def exec)

text \<open>The interface changes a state only as the primitives do.\<close>

context step_relation begin

lemma keeps_lua [intro!]:
  "keeps R (lua_tostring i)" "keeps R (lua_test c)" "keeps R (lua_tonumber i)" "keeps R (lua_do c)"
  "keeps R (push v)" "keeps R (lua_pushstring p)" "keeps R (lua_pushlstring p n)"
  "keeps R (to_userdata i)" "keeps R (luaL_error m)" "keeps R gettop"
  by (auto simp: lua_tostring_def lua_test_def lua_tonumber_def lua_do_def push_def lua_pushstring_def
      lua_pushlstring_def to_userdata_def luaL_error_def gettop_def)

lemma keeps_deref [intro!]: "keeps R (deref f h)"
  by (simp add: keeps_def deref_def R_refl split: option.split)

lemma keeps_checked [intro!]: "keeps R (luaL_checkstring i)" "keeps R (luaL_checknumber i)" "keeps R (new_struct n m)"
  by (auto simp: luaL_checkstring_def luaL_checknumber_def new_struct_def split: reply.split)

end

end
