(* ===== verification/Lua_Encdec.thy ===== *)
theory Lua_Encdec
  imports AES X25519 Hashes Lua_Api
begin

text \<open>
  \<open>libbacteria/lua/libencdec.c\<close>: the functions that scripts call for ciphers, X25519 keys
  and digests. A \<open>struct lua_AESData\<close> and a \<open>struct x25519_keysPair\<close> live in Lua userdata,
  so they outlive the call: the two stores of the state hold them by handle. Each function
  returns the number of values it pushed.
\<close>

record lua_AESData =
  data :: ptr
  sz :: nat

record le_state = x_state +
  aes_data :: "handle \<Rightarrow> lua_AESData option"
  pairs :: "handle \<Rightarrow> x25519_keysPair option"

type_synonym ('z, 'a) leprog = "('z le_state_ext x_state_ext, 'a) prog"

text \<open>The stores commute with the fields of the memory.\<close>

lemma le_state_order [simp]:
  fixes s :: "'z le_state_scheme"
  shows "aes_data_update f (blocks_update g s) = blocks_update g (aes_data_update f s)"
    "aes_data_update f (nxt_update g' s) = nxt_update g' (aes_data_update f s)"
    "aes_data_update f (evs_update h s) = evs_update h (aes_data_update f s)"
    "pairs_update k (blocks_update g s) = blocks_update g (pairs_update k s)"
    "pairs_update k (nxt_update g' s) = nxt_update g' (pairs_update k s)"
    "pairs_update k (evs_update h s) = evs_update h (pairs_update k s)"
  by simp_all

text \<open>\<open>sizeof (struct lua_AESData) + (n - 1) * sizeof (size_t) + sizeof (char * )\<close>.\<close>

definition aes_nbytes :: "int \<Rightarrow> nat" where
  "aes_nbytes n = size_t (16 + (n - 1) * 8 + 8)"

definition new_AESData :: "int \<Rightarrow> ptr \<Rightarrow> ('z, int) leprog" where
  "new_AESData n d =
     bnd (new_struct (aes_nbytes n) 16) (\<lambda>h.
     bnd (modify (aes_data_update (\<lambda>m. m(h \<mapsto> \<lparr>data = d, sz = size_t n\<rparr>)))) (\<lambda>_.
     ret 1))"

subsection \<open>Ciphers\<close>

definition lua_genRandBytes :: "('z, int) leprog" where
  "lua_genRandBytes =
     bnd (luaL_checknumber 1) (\<lambda>len.
     if len \<le> 0 then luaL_error ''genRandBytes. bytes will be more than 0.'' else
     local_arr (nat (len + 1)) (\<lambda>bytes.
     bnd (generate_rand_bytes (nat (len + 1)) bytes) (\<lambda>_.
     bnd (store_byte (padd bytes (nat len)) 48) (\<lambda>_.
     bnd (lua_pushlstring bytes (nat len)) (\<lambda>_.
     ret 1)))))"

text \<open>
  The chain of \<open>INITENCTYPE\<close> or \<open>INITDECTYPE\<close>: the first type whose bit is set selects the
  cipher; with none of the three the function returns.
\<close>

definition enc_select :: "int \<Rightarrow> ENCType option" where
  "enc_select ty =
     (if bit ty (enc_bit t_cbc) then Some t_cbc
      else if bit ty (enc_bit t_ecb) then Some t_ecb
      else if bit ty (enc_bit t_chacha20) then Some t_chacha20 else None)"

fun enc_fun :: "ENCType \<Rightarrow> ptr \<Rightarrow> int \<Rightarrow> ptr \<Rightarrow> ptr \<Rightarrow> ptr \<Rightarrow> ('z, int) prog" where
  "enc_fun t_cbc = AES_256_cbc_encrypt"
| "enc_fun t_ecb = AES_256_ecb_encrypt"
| "enc_fun t_chacha20 = chacha20_poly1305_encrypt"

fun dec_fun :: "ENCType \<Rightarrow> ptr \<Rightarrow> int \<Rightarrow> ptr \<Rightarrow> ptr \<Rightarrow> ptr \<Rightarrow> ('z, int) prog" where
  "dec_fun t_cbc = AES_256_cbc_decrypt"
| "dec_fun t_ecb = AES_256_ecb_decrypt"
| "dec_fun t_chacha20 = chacha20_poly1305_decrypt"

definition lua_AESenc :: "('z, int) leprog" where
  "lua_AESenc =
     bnd (luaL_checkstring 1) (\<lambda>key.
     bnd (luaL_checkstring 2) (\<lambda>iv.
     bnd (luaL_checkstring 3) (\<lambda>plaintext.
     bnd (luaL_checknumber 4) (\<lambda>ty.
     bnd (strlen plaintext) (\<lambda>n.
     let size_msg = c_int (int n) in
     if size_msg = 0 then ret 0 else
     bnd (malloc (size_t (size_msg + 16))) (\<lambda>ciphertext.
     if ciphertext = Null then ret 0 else
     case enc_select ty of None \<Rightarrow> ret 0 | Some c \<Rightarrow>
     bnd (enc_fun c plaintext size_msg key iv ciphertext) (\<lambda>ciphertext_len.
     if ciphertext_len \<le> 0 then bnd (push LNil) (\<lambda>_. ret 1) else
     bnd (store_byte (padd ciphertext (nat ciphertext_len)) NUL) (\<lambda>_.
     new_AESData ciphertext_len ciphertext))))))))"

definition lua_AESdec :: "('z, int) leprog" where
  "lua_AESdec =
     bnd (luaL_checkstring 1) (\<lambda>key.
     bnd (luaL_checkstring 2) (\<lambda>iv.
     bnd (to_userdata 3) (\<lambda>h.
     bnd (luaL_checknumber 4) (\<lambda>ty.
     if h = 0 then ret 0 else
     bnd (deref aes_data h) (\<lambda>d.
     if data d = Null \<or> sz d = 0 then ret 0 else
     bnd (malloc (sz d)) (\<lambda>plaintext.
     if plaintext = Null then ret 0 else
     case enc_select ty of None \<Rightarrow> ret 0 | Some c \<Rightarrow>
     bnd (dec_fun c (data d) (c_int (int (sz d))) key iv plaintext) (\<lambda>plaintext_len.
     if plaintext_len \<le> 0 then bnd (push LNil) (\<lambda>_. ret 1) else
     bnd (store_byte (padd plaintext (nat plaintext_len)) NUL) (\<lambda>_.
     new_AESData plaintext_len plaintext))))))))"

text \<open>\<open>strncpy\<close> pads the rest of the destination with zeros.\<close>

definition strncpy :: "ptr \<Rightarrow> ptr \<Rightarrow> nat \<Rightarrow> ('z, unit) prog" where
  "strncpy d p n = bnd (read_strn p n) (\<lambda>bs. write_bytes d (bs @ replicate (n - length bs) NUL))"

definition lua_createAESData :: "('z, int) leprog" where
  "lua_createAESData =
     bnd (luaL_checkstring 1) (\<lambda>p.
     bnd (luaL_checknumber 2) (\<lambda>n.
     bnd (new_struct (aes_nbytes n) 16) (\<lambda>h.
     bnd (malloc (size_t n)) (\<lambda>d.
     bnd (modify (aes_data_update (\<lambda>m. m(h \<mapsto> \<lparr>data = d, sz = size_t n\<rparr>)))) (\<lambda>_.
     bnd (strncpy d p (size_t n)) (\<lambda>_.
     ret 1))))))"

definition lua_getAESData :: "('z, int) leprog" where
  "lua_getAESData =
     bnd (to_userdata 1) (\<lambda>h.
     if h = 0 then ret 0 else
     bnd (deref aes_data h) (\<lambda>d.
     if data d = Null \<or> sz d = 0 then ret 0 else
     bnd (lua_pushstring (data d)) (\<lambda>_. ret 1)))"

definition lua_getAESData_len :: "('z, int) leprog" where
  "lua_getAESData_len =
     bnd (to_userdata 1) (\<lambda>h.
     if h = 0 then ret 0 else
     bnd (deref aes_data h) (\<lambda>d.
     if data d = Null \<or> sz d = 0 then ret 0 else
     bnd (push (LNum (int (sz d)))) (\<lambda>_. ret 1)))"

definition lua_freeAESData :: "('z, int) leprog" where
  "lua_freeAESData =
     bnd (to_userdata 1) (\<lambda>h.
     if h = 0 then luaL_error ''aesdata is broken'' else
     bnd (deref aes_data h) (\<lambda>d.
     if data d \<noteq> Null \<or> sz d \<noteq> 0 then
       bnd (free (data d)) (\<lambda>_.
       bnd (push (LBool True)) (\<lambda>_. ret 1))
     else bnd (push (LBool False)) (\<lambda>_. ret 1)))"

subsection \<open>Runs\<close>

lemma enc_fun_any: "enc_fun c = AES_any_encrypt (enc_cipher c)" "dec_fun c = AES_any_decrypt (enc_cipher c)"
  by (cases c; simp add: AES_256_cbc_encrypt_def AES_256_ecb_encrypt_def chacha20_poly1305_encrypt_def
      AES_256_cbc_decrypt_def AES_256_ecb_decrypt_def chacha20_poly1305_decrypt_def)+

lemma new_AESData_run:
  "0 < n \<Longrightarrow> n < 2 ^ 31 \<Longrightarrow> answer e (evs s) (Lua (lua_newuserdata (aes_nbytes n))) = RHandle h \<Longrightarrow>
   new_AESData n d e s = (Ok 1, (aes_data_update (\<lambda>m. m(h \<mapsto> \<lparr>data = d, sz = nat n\<rparr>)) s)\<lparr>evs := (Lua (lua_newuserdata (aes_nbytes n)), RHandle h) # evs s\<rparr>)"
  for s :: "'z le_state_scheme"
  by (simp add: new_AESData_def new_struct_def exec aes_nbytes_def)

lemma AESenc_run:
  fixes s :: "'z le_state_scheme"
  assumes s: "fresh s" "alloc_total e"
    and args: "\<And>l. answer e l (Lua (lua_arg_string 1)) = ROut a1 key"
      "\<And>l. answer e l (Lua (lua_arg_string 2)) = ROut a2 iv"
      "\<And>l. answer e l (Lua (lua_arg_string 3)) = ROut a3 msg"
      "\<And>l. answer e l (Lua (lua_arg_number 4)) = RInt ty"
    and lens: "length key = 32" "length iv = 16" "msg \<noteq> []" "length msg + 16 < 2 ^ 31"
    and nz: "NUL \<notin> set key" "NUL \<notin> set iv" "NUL \<notin> set msg"
    and ty: "enc_select ty = Some c"
    and enc: "\<And>l. answer e l (Ssl EVP_CIPHER_CTX_new) = RHandle h" "h \<noteq> 0"
      "\<And>l. answer e l (Ssl (EVP_EncryptInit_ex h (enc_cipher c) key iv)) = RInt 1"
      "\<And>l. answer e l (Ssl (EVP_EncryptUpdate h msg (int (length msg)))) = ROut 1 us"
      "\<And>l. answer e l (Ssl (EVP_EncryptFinal_ex h)) = ROut 1 fs"
    and out: "length us + length fs \<le> length msg + 16" "us @ fs \<noteq> []"
    and ud: "\<And>l. answer e l (Lua (lua_newuserdata (aes_nbytes (int (length us + length fs))))) = RHandle u"
  shows "\<exists>t. lua_AESenc e s =
    (if length us + length fs = length msg + 16 then Err OutOfBounds else Ok 1, t) \<and>
    (length us + length fs < length msg + 16 \<longrightarrow>
      (\<exists>rest. blocks t (Suc (Suc (Suc (nxt s)))) = Some (map Byte (us @ fs) @ Byte NUL # rest)) \<and>
      aes_data t = (aes_data s)(u \<mapsto> \<lparr>data = Addr (Suc (Suc (Suc (nxt s)))) 0, sz = length us + length fs\<rparr>)
      \<and> fresh t)"
proof -
  let ?N = "nxt s" and ?n = "length msg" and ?L = "length us + length fs"
  let ?C = "Suc (Suc (Suc ?N))"
  let ?cs = "\<lambda>bs. map Byte bs @ [Byte NUL]"
  obtain l0 where l0: "l0 = (Lua (lua_arg_number 4), RInt ty) # (Lua (lua_arg_string 3), ROut a3 msg) #
     (Lua (lua_arg_string 2), ROut a2 iv) # (Lua (lua_arg_string 1), ROut a1 key) # evs s"
    by simp
  define m0 where "m0 = (blocks s)(?N \<mapsto> ?cs key, Suc ?N \<mapsto> ?cs iv, Suc (Suc ?N) \<mapsto> ?cs msg)"
  define s1 where "s1 = s\<lparr>blocks := m0(?C \<mapsto> replicate (?n + 16) Undef), nxt := Suc ?C, evs := l0\<rparr>"
  define tail' where "tail' = (\<lambda>ciphertext. bnd (enc_fun c (Addr (Suc (Suc ?N)) 0) (int ?n) (Addr ?N 0) (Addr (Suc ?N) 0) ciphertext) (\<lambda>ciphertext_len.
     if ciphertext_len \<le> 0 then bnd (push LNil) (\<lambda>_. ret 1) else
     bnd (store_byte (padd ciphertext (nat ciphertext_len)) NUL) (\<lambda>_.
     new_AESData ciphertext_len ciphertext)) :: ('z, int) leprog)"
  have strs: "get_str m0 (Addr (Suc (Suc ?N)) 0) = Inr msg"
    using nz by (simp add: m0_def)
  have siz: "size_t (int ?n + 16) = ?n + 16" "c_int (int ?n) = int ?n" "c_int (int ?n) \<noteq> 0"
    using lens(3,4) by (simp_all add: nat_add_distrib)
  have run1: "lua_AESenc e s = tail' (Addr ?C 0) e s1"
    unfolding lua_AESenc_def tail'_def
    using s(2) lens(3) by (simp add: Let_def exec args strs [unfolded m0_def] siz ty s1_def l0 new_block_def m0_def del: replicate.simps)
  define m1 where "m1 = m0(?C \<mapsto> replicate (?n + 16) Undef)"
  have s1: "blocks s1 = m1" "nxt s1 = Suc ?C"
    by (simp_all add: s1_def m1_def)
  have rd: "get_str m1 (Addr (Suc ?N) 0) = Inr iv" "get_str m1 (Addr ?N 0) = Inr key"
      "get_str m1 (Addr (Suc (Suc ?N)) 0) = Inr msg"
    using nz by (simp_all add: m1_def m0_def)
  have inp: "get_bytes m1 (Addr (Suc (Suc ?N)) 0) (nat (int ?n)) = Inr msg"
    using get_bytes_str [OF rd(3), of ?n] by simp
  have old: "m1 ?C = Some (replicate (?n + 16) Undef)"
    by (simp add: m1_def)
  let ?m2 = "m1(?C \<mapsto> map Byte (us @ fs) @ drop ?L (replicate (?n + 16) Undef))"
  obtain l where enc': "enc_fun c (Addr (Suc (Suc ?N)) 0) (int ?n) (Addr ?N 0) (Addr (Suc ?N) 0) (Addr ?C 0) e s1 =
      (Ok (int ?L), s1\<lparr>blocks := ?m2, evs := l\<rparr>)"
    using encrypting.steps_run [of s1 _ iv _ key _ "int ?n" msg ?C, unfolded s1, OF rd(1,2) inp old _ enc(1) enc(2) enc(3) enc(4) enc(5)]
      encrypting.good_sizes [of s1, unfolded s1, OF rd(1,2) lens(2,1)] out(1)
    by (auto simp: enc_fun_any AES_any_encrypt_def)
  have L: "0 < int ?L"
    using out(2) by (cases us) auto
  have tl: "tail' (Addr ?C 0) e s1 = bnd (store_byte (Addr ?C ?L) NUL) (\<lambda>_. new_AESData (int ?L) (Addr ?C 0)) e (s1\<lparr>blocks := ?m2, evs := l\<rparr>)"
    using L by (simp add: tail'_def run_bnd enc' nat_add_distrib)
  show ?thesis
  proof (cases "?L = ?n + 16")
    case True
    then have "put_cells ?m2 (Addr ?C ?L) [Byte NUL] = Inl OutOfBounds"
      by simp
    then show ?thesis
      using True by (simp add: run1 tl exec)
  next
    case False
    then have lt: "?L < ?n + 16"
      using out(1) by simp
    then have "drop ?L (replicate (?n + 16) Undef) = Undef # replicate (?n + 15 - ?L) Undef"
      by (cases "?n + 16 - ?L") (auto simp: drop_replicate)
    then have put: "put_cells ?m2 (Addr ?C ?L) [Byte NUL] = Inr (m1(?C \<mapsto> map Byte (us @ fs) @ Byte NUL # replicate (?n + 15 - ?L) Undef))"
      by simp
    let ?m3 = "m1(?C \<mapsto> map Byte (us @ fs) @ Byte NUL # replicate (?n + 15 - ?L) Undef)"
    have sb: "put_cells m' p [Byte v] = Inr m3 \<Longrightarrow>
        store_byte p v e (s1\<lparr>blocks := m', evs := l\<rparr>) = (Ok (), s1\<lparr>blocks := m3, evs := l\<rparr>)" for m' m3 p v
      by (simp add: exec)
    have st: "store_byte (Addr ?C ?L) NUL e (s1\<lparr>blocks := ?m2, evs := l\<rparr>) = (Ok (), s1\<lparr>blocks := ?m3, evs := l\<rparr>)"
      by (rule sb [OF put])
    have bd: "int ?L < 2 ^ 31"
      using lt lens(4) by simp
    have run: "lua_AESenc e s = new_AESData (int ?L) (Addr ?C 0) e (s1\<lparr>blocks := ?m3, evs := l\<rparr>)"
      unfolding run1 tl run_bnd st cont.simps ..
    show ?thesis
      using False s(1) unfolding run new_AESData_run [OF L bd ud]
      by (auto simp: s1_def m1_def m0_def fresh_def nat_add_distrib)
  qed
qed


lemma AESdec_run:
  fixes s :: "'z le_state_scheme"
  assumes s: "fresh s" "alloc_total e"
    and args: "\<And>l. answer e l (Lua (lua_arg_string 1)) = ROut a1 key"
      "\<And>l. answer e l (Lua (lua_arg_string 2)) = ROut a2 iv"
      "\<And>l. answer e l (Lua (lua_touserdata 3)) = RHandle w" "w \<noteq> 0"
      "\<And>l. answer e l (Lua (lua_arg_number 4)) = RInt ty"
    and lens: "length key = 32" "length iv = 16" "ct \<noteq> []" "length ct < 2 ^ 31"
    and nz: "NUL \<notin> set key" "NUL \<notin> set iv"
    and obj: "aes_data s w = Some \<lparr>data = Addr b 0, sz = length ct\<rparr>" "blocks s b = Some (map Byte ct @ extra)"
    and ty: "enc_select ty = Some c"
    and decr: "\<And>l. answer e l (Ssl EVP_CIPHER_CTX_new) = RHandle h" "h \<noteq> 0"
      "\<And>l. answer e l (Ssl (EVP_DecryptInit_ex h (enc_cipher c) key iv)) = RInt 1"
      "\<And>l. answer e l (Ssl (EVP_DecryptUpdate h ct (int (length ct)))) = ROut 1 us"
      "\<And>l. answer e l (Ssl (EVP_DecryptFinal_ex h)) = ROut 1 fs"
    and out: "length us + length fs \<le> length ct" "us @ fs \<noteq> []"
    and ud: "\<And>l. answer e l (Lua (lua_newuserdata (aes_nbytes (int (length us + length fs))))) = RHandle u"
  shows "\<exists>t. lua_AESdec e s =
    (if length us + length fs = length ct then Err OutOfBounds else Ok 1, t) \<and>
    (length us + length fs < length ct \<longrightarrow>
      (\<exists>rest. blocks t (Suc (Suc (nxt s))) = Some (map Byte (us @ fs) @ Byte NUL # rest)) \<and>
      aes_data t = (aes_data s)(u \<mapsto> \<lparr>data = Addr (Suc (Suc (nxt s))) 0, sz = length us + length fs\<rparr>))"
proof -
  let ?N = "nxt s" and ?n = "length ct" and ?L = "length us + length fs"
  let ?C = "Suc (Suc ?N)"
  let ?cs = "\<lambda>bs. map Byte bs @ [Byte NUL]"
  have bN: "b < ?N"
    using s(1) obj(2) by (simp add: fresh_less)
  obtain l0 where l0: "l0 = (Lua (lua_arg_number 4), RInt ty) # (Lua (lua_touserdata 3), RHandle w) #
     (Lua (lua_arg_string 2), ROut a2 iv) # (Lua (lua_arg_string 1), ROut a1 key) # evs s"
    by simp
  define m1 where "m1 = (blocks s)(?N \<mapsto> ?cs key, Suc ?N \<mapsto> ?cs iv, ?C \<mapsto> replicate ?n Undef)"
  define s1 where "s1 = s\<lparr>blocks := m1, nxt := Suc ?C, evs := l0\<rparr>"
  define tail' where "tail' = (\<lambda>plaintext. bnd (dec_fun c (Addr b 0) (int ?n) (Addr ?N 0) (Addr (Suc ?N) 0) plaintext) (\<lambda>plaintext_len.
     if plaintext_len \<le> 0 then bnd (push LNil) (\<lambda>_. ret 1) else
     bnd (store_byte (padd plaintext (nat plaintext_len)) NUL) (\<lambda>_.
     new_AESData plaintext_len plaintext)) :: ('z, int) leprog)"
  have run1: "lua_AESdec e s = tail' (Addr ?C 0) e s1"
    unfolding lua_AESdec_def tail'_def
    using s(2) lens(3,4) args(4) by (simp add: exec args to_userdata_def obj(1) ty s1_def l0 new_block_def m1_def del: replicate.simps)
  have s1: "blocks s1 = m1" "nxt s1 = Suc ?C"
    by (simp_all add: s1_def)
  have rd: "get_str m1 (Addr (Suc ?N) 0) = Inr iv" "get_str m1 (Addr ?N 0) = Inr key"
    using nz by (simp_all add: m1_def)
  have inp: "get_bytes m1 (Addr b 0) (nat (int ?n)) = Inr ct"
    using bN obj(2) by (simp add: m1_def get_bytes_def get_cells_def cells_of_def)
  have old: "m1 ?C = Some (replicate ?n Undef)"
    by (simp add: m1_def)
  let ?m2 = "m1(?C \<mapsto> map Byte (us @ fs) @ drop ?L (replicate ?n Undef))"
  obtain l where dec': "dec_fun c (Addr b 0) (int ?n) (Addr ?N 0) (Addr (Suc ?N) 0) (Addr ?C 0) e s1 =
      (Ok (int ?L), s1\<lparr>blocks := ?m2, evs := l\<rparr>)"
    using decrypting.steps_run [of s1 _ iv _ key _ "int ?n" ct ?C, unfolded s1, OF rd(1,2) inp old _ decr(1) decr(2) decr(3) decr(4) decr(5)]
      decrypting.good_sizes [of s1, unfolded s1, OF rd(1,2) lens(2,1)] out(1)
    by (auto simp: enc_fun_any AES_any_decrypt_def)
  have L: "0 < int ?L"
    using out(2) by (cases us) auto
  have tl: "tail' (Addr ?C 0) e s1 = bnd (store_byte (Addr ?C ?L) NUL) (\<lambda>_. new_AESData (int ?L) (Addr ?C 0)) e (s1\<lparr>blocks := ?m2, evs := l\<rparr>)"
    using L by (simp add: tail'_def run_bnd dec' nat_add_distrib)
  show ?thesis
  proof (cases "?L = ?n")
    case True
    then have "put_cells ?m2 (Addr ?C ?L) [Byte NUL] = Inl OutOfBounds"
      by simp
    then show ?thesis
      using True by (simp add: run1 tl exec)
  next
    case False
    then have lt: "?L < ?n"
      using out(1) by simp
    then have "drop ?L (replicate ?n Undef) = Undef # replicate (?n - 1 - ?L) Undef"
      by (cases "?n - ?L") (auto simp: drop_replicate)
    then have put: "put_cells ?m2 (Addr ?C ?L) [Byte NUL] = Inr (m1(?C \<mapsto> map Byte (us @ fs) @ Byte NUL # replicate (?n - 1 - ?L) Undef))"
      by simp
    let ?m3 = "m1(?C \<mapsto> map Byte (us @ fs) @ Byte NUL # replicate (?n - 1 - ?L) Undef)"
    have sb: "put_cells m' p [Byte v] = Inr m3 \<Longrightarrow>
        store_byte p v e (s1\<lparr>blocks := m', evs := l\<rparr>) = (Ok (), s1\<lparr>blocks := m3, evs := l\<rparr>)" for m' m3 p v
      by (simp add: exec)
    have st: "store_byte (Addr ?C ?L) NUL e (s1\<lparr>blocks := ?m2, evs := l\<rparr>) = (Ok (), s1\<lparr>blocks := ?m3, evs := l\<rparr>)"
      by (rule sb [OF put])
    have bd: "int ?L < 2 ^ 31"
      using lt lens(4) by simp
    have run: "lua_AESdec e s = new_AESData (int ?L) (Addr ?C 0) e (s1\<lparr>blocks := ?m3, evs := l\<rparr>)"
      unfolding run1 tl run_bnd st cont.simps ..
    show ?thesis
      using False unfolding run new_AESData_run [OF L bd ud]
      by (auto simp: s1_def m1_def nat_add_distrib)
  qed
qed

lemma freeAESData_run:
  assumes "\<And>l. answer e l (Lua (lua_touserdata 1)) = RHandle h" "h \<noteq> 0"
    and "aes_data s h = Some \<lparr>data = Addr b 0, sz = n\<rparr>" "blocks s b = Some cs"
  shows "\<exists>l. lua_freeAESData e s = (Ok 1, drop_block b (s\<lparr>evs := l\<rparr>))"
  using assms(2-4)
  by (simp add: lua_freeAESData_def to_userdata_def exec assms(1) drop_block_def) (intro exI, rule refl)

lemma freed_AESData:
  assumes "\<And>l. answer e l (Lua (lua_touserdata 1)) = RHandle h" "h \<noteq> 0"
    and "aes_data s h = Some \<lparr>data = Addr b 0, sz = n\<rparr>" "blocks s b = None" "n \<noteq> 0"
  shows "fst (lua_freeAESData e s) = Err BadFree" "fst (lua_getAESData e s) = Err UseAfterFree"
    "fst (lua_getAESData_len e s) = Ok 1"
proof -
  have "get_str (blocks s) (Addr b 0) = Inl UseAfterFree"
    using assms(4) by (simp add: get_str_def cells_of_def)
  then show "fst (lua_getAESData e s) = Err UseAfterFree"
    using assms(2-5) by (simp add: lua_getAESData_def to_userdata_def exec assms(1) lua_pushstring_def)
qed (use assms(2-5) in \<open>simp_all add: lua_freeAESData_def lua_getAESData_len_def to_userdata_def exec assms(1)\<close>)

lemma createAESData_run:
  fixes s :: "'z le_state_scheme"
  assumes s: "fresh s" "alloc_total e"
    and args: "\<And>l. answer e l (Lua (lua_arg_string 1)) = ROut a bs" "\<And>l. answer e l (Lua (lua_arg_number 2)) = RInt (int n)"
      "\<And>l. answer e l (Lua (lua_newuserdata (aes_nbytes (int n)))) = RHandle h"
    and bs: "NUL \<notin> set bs" "0 < n" "n < 2 ^ 59"
  shows "\<exists>l. lua_createAESData e s = (Ok 1, (aes_data_update (\<lambda>m. m(h \<mapsto> \<lparr>data = Addr (Suc (nxt s)) 0, sz = n\<rparr>)) s)\<lparr>blocks := (blocks s)(nxt s \<mapsto> map Byte bs @ [Byte NUL],
      Suc (nxt s) \<mapsto> map Byte (take n bs @ replicate (n - length bs) NUL)), nxt := Suc (Suc (nxt s)), evs := l\<rparr>)"
proof -
  have nb: "\<not> aes_nbytes (int n) < 16" and sn: "size_t (int n) = n"
    using bs(2,3) by (simp_all add: aes_nbytes_def)
  have str: "get_str ((blocks s)(nxt s \<mapsto> map Byte bs @ [Byte NUL], Suc (nxt s) \<mapsto> replicate n Undef)) (Addr (nxt s) 0) = Inr bs"
    using bs(1) by simp
  show ?thesis
    using s(2) nb bs(2)
    by (simp add: lua_createAESData_def exec args new_struct_def sn new_block_def strncpy_def str min_def) (intro conjI impI exI; rule refl)
qed

lemma createAESData_get:
  fixes s :: "'z le_state_scheme"
  assumes s: "fresh s" "alloc_total e"
    and args: "\<And>l. answer e l (Lua (lua_arg_string 1)) = ROut a bs" "\<And>l. answer e l (Lua (lua_arg_number 2)) = RInt (int n)"
      "\<And>l. answer e l (Lua (lua_newuserdata (aes_nbytes (int n)))) = RHandle h" "h \<noteq> 0"
      "\<And>l. answer e l (Lua (lua_touserdata 1)) = RHandle h"
    and bs: "NUL \<notin> set bs" "0 < n" "n < 2 ^ 59"
  shows "\<exists>t. bnd lua_createAESData (\<lambda>_. lua_getAESData) e s = (if length bs < n then Ok 1 else Err OutOfBounds, t) \<and>
    (length bs < n \<longrightarrow> fst (hd (evs t)) = Lua (lua_push (LStr bs)))"
proof -
  obtain l where c: "lua_createAESData e s = (Ok 1, (aes_data_update (\<lambda>m. m(h \<mapsto> \<lparr>data = Addr (Suc (nxt s)) 0, sz = n\<rparr>)) s)\<lparr>blocks := (blocks s)(nxt s \<mapsto> map Byte bs @ [Byte NUL],
      Suc (nxt s) \<mapsto> map Byte (take n bs @ replicate (n - length bs) NUL)), nxt := Suc (Suc (nxt s)), evs := l\<rparr>)"
    using createAESData_run [OF s args(1-3) bs] by blast
  let ?m = "(blocks s)(nxt s \<mapsto> map Byte bs @ [Byte NUL], Suc (nxt s) \<mapsto> map Byte (take n bs @ replicate (n - length bs) NUL))"
  have g: "get_str ?m (Addr (Suc (nxt s)) 0) = (if length bs < n then Inr bs else Inl OutOfBounds)"
  proof (cases "length bs < n")
    case True
    then have "map Byte (take n bs @ replicate (n - length bs) NUL) = map Byte bs @ Byte NUL # map Byte (replicate (n - length bs - 1) NUL)"
      by (cases "n - length bs") simp_all
    then show ?thesis
      using True bs(1) by simp
  next
    case False
    have "NUL \<notin> set (take n bs)"
      using bs(1) by (meson in_set_takeD)
    then show ?thesis
      using False scan_map_Byte [of "take n bs"] by (simp add: get_str_def cells_of_def)
  qed
  show ?thesis
  proof (cases "length bs < n")
    case True
    then show ?thesis
      using g args(4) bs(2) by (simp add: run_bnd c lua_getAESData_def to_userdata_def exec args(5) lua_pushstring_def)
  next
    case False
    then show ?thesis
      using g args(4) bs(2) by (simp add: run_bnd c lua_getAESData_def to_userdata_def exec args(5) lua_pushstring_def)
  qed
qed

lemma genRandBytes_run:
  fixes s :: "'z le_state_scheme"
  assumes s: "fresh s" and arg: "\<And>l. answer e l (Lua (lua_arg_number 1)) = RInt len"
    and len: "0 < len" "len < 2 ^ 31 - 1"
  shows "\<exists>bs t. lua_genRandBytes e s = (Ok 1, t) \<and> blocks t = blocks s \<and>
    length bs = nat len \<and> NUL \<notin> set bs \<and> fst (hd (evs t)) = Lua (lua_push (LStr bs))"
proof -
  let ?n = "nat (len + 1)" and ?N = "nxt s"
  let ?s1 = "new_block (replicate ?n Undef) (s\<lparr>evs := (Lua (lua_arg_number 1), RInt len) # evs s\<rparr>)"
  have n: "0 < ?n" "?n \<le> length (replicate ?n Undef)" "?n \<le> 2 ^ 32" "?n - 1 = nat len" "?n \<noteq> 0"
    using len by (auto simp: nat_le_iff)
  have b: "blocks ?s1 ?N = Some (replicate ?n Undef)"
    by (simp add: new_block_def)
  obtain bs l where g: "generate_rand_bytes ?n (Addr ?N 0) e ?s1 =
      (Ok (), ?s1\<lparr>blocks := (blocks ?s1)(?N \<mapsto> map Byte bs @ drop (nat len) (replicate ?n Undef)), evs := l\<rparr>)"
    and bs: "length bs = nat len" "NUL \<notin> set bs"
    using generate_rand_bytes_run [OF b n(1,2,3), of e] unfolding n(4) by blast
  have dr: "drop (nat len) (replicate ?n Undef) = [Undef]"
    using len by (simp only: drop_replicate) (simp add: nat_add_distrib)
  let ?m = "(blocks ?s1)(?N \<mapsto> map Byte bs @ [Undef])"
  have p: "put_cells ?m (Addr ?N (nat len)) [Byte 48] = Inr ((blocks ?s1)(?N \<mapsto> map Byte bs @ [Byte 48]))"
    using bs(1) by simp
  have r: "get_bytes ((blocks ?s1)(?N \<mapsto> map Byte bs @ [Byte 48])) (Addr ?N 0) (nat len) = Inr bs"
    using bs(1) len(1) by (simp add: get_bytes_def get_cells_def cells_of_def)
  have g': "generate_rand_bytes ?n (Addr ?N 0) e ?s1 = (Ok (), ?s1\<lparr>blocks := ?m, evs := l\<rparr>)"
    using g unfolding dr .
  let ?body = "(\<lambda>bytes. bnd (generate_rand_bytes ?n bytes) (\<lambda>_.
     bnd (store_byte (padd bytes (nat len)) 48) (\<lambda>_. bnd (lua_pushlstring bytes (nat len)) (\<lambda>_. ret 1)))) :: ptr \<Rightarrow> ('z, int) leprog"
  obtain l' where body: "?body (Addr ?N 0) e ?s1 = (Ok 1, ?s1\<lparr>blocks := (blocks ?s1)(?N \<mapsto> map Byte bs @ [Byte 48]), evs := l'\<rparr>)"
    and l': "fst (hd l') = Lua (lua_push (LStr bs))"
    using p r by (simp add: run_bnd g' exec lua_pushlstring_def)
  have "lua_genRandBytes e s = local_arr ?n ?body e (s\<lparr>evs := (Lua (lua_arg_number 1), RInt len) # evs s\<rparr>)"
    using len(1) by (simp add: lua_genRandBytes_def exec arg)
  also have "\<dots> = (Ok 1, drop_block ?N (?s1\<lparr>blocks := (blocks ?s1)(?N \<mapsto> map Byte bs @ [Byte 48]), evs := l'\<rparr>))"
    using n(5) body by (simp add: local_arr_def)
  finally show ?thesis
    using bs l' s by (auto simp: drop_block_def new_block_def fun_eq_iff)
qed

end
