(* ===== verification/Lua_Keys.thy ===== *)
theory Lua_Keys
  imports Lua_Encdec
begin

text \<open>
  The X25519 and digest functions of \<open>libbacteria/lua/libencdec.c\<close>.
\<close>

subsection \<open>Key pairs\<close>

text \<open>
  A new userdata of \<open>sizeof (struct x25519_keysPair)\<close> and 48 further bytes, filled field by
  field: a field that the pair does not have cannot be copied.
\<close>

definition store_pair :: "handle \<Rightarrow> x25519_keysPair \<Rightarrow> ('z, int) leprog" where
  "store_pair h pair =
     bnd (field (privKey pair)) (\<lambda>_.
     bnd (field (pKeyCtx pair)) (\<lambda>_.
     bnd (modify (pairs_update (\<lambda>m. m(h \<mapsto> pair)))) (\<lambda>_.
     ret 1)))"

definition lua_getKeyPair :: "('z, int) leprog" where
  "lua_getKeyPair =
     bnd (new_struct 104 56) (\<lambda>h.
     bnd x25519_generateKeyPair (\<lambda>pair.
     bnd (field (pKeyCtx pair)) (\<lambda>c.
     if c = 0 then luaL_error ''Cant CTX init'' else
     store_pair h pair)))"

definition lua_initKeyPairFromFile :: "('z, int) leprog" where
  "lua_initKeyPairFromFile =
     bnd (luaL_checkstring 1) (\<lambda>p.
     bnd (read_str p) (\<lambda>filepath.
     bnd (x25519_initKeyPairFromFile filepath) (\<lambda>rt.
     bnd (field (privKey rt)) (\<lambda>k.
     if k = 0 then bnd (push LNil) (\<lambda>_. ret 1) else
     bnd (new_struct 104 56) (\<lambda>h.
     store_pair h rt)))))"

definition lua_createKeyPair :: "('z, int) leprog" where
  "lua_createKeyPair =
     bnd (luaL_checkstring 1) (\<lambda>pub.
     bnd (luaL_checkstring 2) (\<lambda>priv.
     bnd (x25519_createKeyPair priv pub) (\<lambda>pair.
     bnd (new_struct 104 56) (\<lambda>h.
     bnd (field (pKeyCtx pair)) (\<lambda>c.
     if c = 0 then luaL_error ''Cant CTX init'' else
     store_pair h pair)))))"

definition lua_saveKeyPairToFile :: "('z, int) leprog" where
  "lua_saveKeyPairToFile =
     bnd (to_userdata 1) (\<lambda>h.
     bnd (luaL_checkstring 2) (\<lambda>p.
     if h = 0 then luaL_error ''x25519_keysPair broken'' else
     bnd (read_str p) (\<lambda>filepath.
     bnd (deref pairs h) (\<lambda>pair.
     bnd (x25519_savePrivKey (Some filepath) pair) (\<lambda>r.
     bnd (push (if r = - 1 then LNil else LBool True)) (\<lambda>_.
     ret 1))))))"

definition lua_freeKeyPair :: "('z, int) leprog" where
  "lua_freeKeyPair =
     bnd (to_userdata 1) (\<lambda>h.
     if h = 0 then luaL_error ''x25519_keysPair broken'' else
     bnd (deref pairs h) (\<lambda>pair.
     bnd (x25519_freeKeyPair pair) (\<lambda>_.
     bnd (push (LBool True)) (\<lambda>_.
     ret 1))))"

definition lua_getPubKey :: "('z, int) leprog" where
  "lua_getPubKey =
     bnd (to_userdata 1) (\<lambda>h.
     if h = 0 then luaL_error ''x25519_keysPair broken'' else
     bnd (deref pairs h) (\<lambda>pair.
     local_cells (pubKey pair) (\<lambda>p.
     bnd (lua_pushlstring p X25519_LENKEY) (\<lambda>_.
     ret 1))))"

definition lua_getPrivKey :: "('z, int) leprog" where
  "lua_getPrivKey =
     bnd (to_userdata 1) (\<lambda>h.
     if h = 0 then luaL_error ''x25519_keysPair broken'' else
     local_arr (X25519_LENKEY + 1) (\<lambda>retStr.
     bnd (store_byte (padd retStr X25519_LENKEY) NUL) (\<lambda>_.
     bnd (deref pairs h) (\<lambda>pair.
     bnd (field (privKey pair)) (\<lambda>k.
     bnd (x25519_getRawPrivKey k retStr) (\<lambda>_.
     bnd (lua_pushlstring retStr X25519_LENKEY) (\<lambda>_.
     ret 1)))))))"

definition lua_getSharedKey :: "('z, int) leprog" where
  "lua_getSharedKey =
     bnd (to_userdata 1) (\<lambda>h.
     bnd (luaL_checkstring 2) (\<lambda>pub.
     if h = 0 then luaL_error ''x25519_keysPair broken'' else
     bnd (deref pairs h) (\<lambda>pair.
     bnd (x25519_getSharedKey pair pub) (\<lambda>(shared0, len).
     bnd (field len) (\<lambda>skeylen.
     bnd (lua_pushlstring shared0 skeylen) (\<lambda>_.
     bnd (push (LNum (int skeylen))) (\<lambda>_.
     bnd (free shared0) (\<lambda>_.
     ret 2))))))))"

subsection \<open>Digests\<close>

definition lua_toSHA512 :: "('z, int) leprog" where
  "lua_toSHA512 =
     bnd (luaL_checkstring 1) (\<lambda>p.
     local_arr 129 (\<lambda>outputstring.
     bnd (toSHA512 p outputstring) (\<lambda>_.
     bnd (lua_pushstring outputstring) (\<lambda>_.
     ret 1))))"

definition lua_toSHA256 :: "('z, int) leprog" where
  "lua_toSHA256 =
     bnd (luaL_checkstring 1) (\<lambda>p.
     local_arr 65 (\<lambda>outputstring.
     bnd (toSHA256 p outputstring) (\<lambda>_.
     bnd (lua_pushstring outputstring) (\<lambda>_.
     ret 1))))"

subsection \<open>Runs\<close>

lemma toSHA_overflow:
  assumes s: "fresh s" and arg: "\<And>l. answer e l (Lua (lua_arg_string 1)) = ROut a bs" "NUL \<notin> set bs"
    and d: "\<And>l. answer e l (Ssl (SHA_Final SHA256)) = ROut k d" "length d = 32"
      "\<And>l. answer e l (Ssl (SHA_Final SHA512)) = ROut k' d'" "length d' = 64"
  shows "fst (lua_toSHA256 e s) = Err OutOfBounds" "fst (lua_toSHA512 e s) = Err OutOfBounds"
proof -
  let ?N = "nxt s"
  let ?s1 = "new_block (map Byte bs @ [Byte NUL]) (s\<lparr>evs := (Lua (lua_arg_string 1), ROut a bs) # evs s\<rparr>)"
  let ?s2 = "\<lambda>n. new_block (replicate n Undef) ?s1"
  have f: "fresh (?s2 n)" for n
    using s by (auto simp: fresh_def new_block_def)
  have str: "get_str (blocks (?s2 n)) (Addr ?N 0) = Inr bs" for n
    using arg(2) by (simp add: new_block_def)
  have blk: "blocks (?s2 n) (Suc ?N) = Some (replicate n Undef)" for n
    by (simp add: new_block_def)
  have 256: "\<exists>t. toSHA256 (Addr ?N 0) (Addr (Suc ?N) 0) e (?s2 65) = (Err OutOfBounds, t)"
    using init_hash_func_overflow [OF f [of 65] str [of 65] blk [of 65] _ d(1)] d(2) by (auto simp: toSHA256_def)
  have 512: "\<exists>t. toSHA512 (Addr ?N 0) (Addr (Suc ?N) 0) e (?s2 129) = (Err OutOfBounds, t)"
    using init_hash_func_overflow [OF f [of 129] str [of 129] blk [of 129] _ d(3)] d(4) by (auto simp: toSHA512_def)
  show "fst (lua_toSHA256 e s) = Err OutOfBounds"
    using 256 by (auto simp: lua_toSHA256_def exec arg(1) local_arr_def new_block_def)
  show "fst (lua_toSHA512 e s) = Err OutOfBounds"
    using 512 by (auto simp: lua_toSHA512_def exec arg(1) local_arr_def new_block_def)
qed


lemma getSharedKey_rejected:
  fixes s :: "'z le_state_scheme"
  assumes k: "answer e (evs s) (Lua (lua_touserdata 1)) = RHandle h" "h \<noteq> 0" "pairs s h = Some pair"
    and arg: "\<And>l. answer e l (Lua (lua_arg_string 2)) = ROut a bs" "31 < length bs" "bit (bs ! 31) 7"
  shows "fst (lua_getSharedKey e s) = Err UninitRead"
proof -
  have "get_byte ((blocks s)(nxt s \<mapsto> map Byte bs @ [Byte NUL])) (Addr (nxt s) 31) = Inr (bs ! 31)"
    using arg(2) by (simp add: get_byte_block nth_append)
  then show ?thesis
    using k arg(3) by (simp add: lua_getSharedKey_def to_userdata_def exec arg(1) new_block_def x25519_getSharedKey_def)
qed

lemma getSharedKey_pushes:
  fixes s :: "'z le_state_scheme"
  assumes lib: "x25519_library e secret key_of" and s: "alloc_total e" "len_key s = 32" "fresh s"
    and k: "answer e (evs s) (Lua (lua_touserdata 1)) = RHandle h" "h \<noteq> 0" "pairs s h = Some pair"
      "pKeyCtx pair = Some c"
    and arg: "\<And>l. answer e l (Lua (lua_arg_string 2)) = ROut a bs" "length bs = 32" "\<not> bit (bs ! 31) 7"
  shows "\<exists>t r1 r2 l. lua_getSharedKey e s = (Ok 2, t) \<and>
    evs t = (Lua (lua_push (LNum 32)), r2) # (Lua (lua_push (LStr (secret c bs))), r1) # l \<and>
    blocks t = (blocks s)(nxt s \<mapsto> cstr bs)"
proof -
  let ?s1 = "new_block (cstr bs) (s\<lparr>evs := (Lua (lua_arg_string 2), ROut a bs) # (Lua (lua_touserdata 1), RHandle h) # evs s\<rparr>)"
  have pub: "get_bytes (blocks ?s1) (Addr (nxt s) 0) 32 = Inr bs"
    using arg(2) by (simp add: new_block_def get_bytes_def get_cells_def cells_of_def cstr_def)
  have lk: "len_key ?s1 = 32" "malloc_ok e (nxt ?s1) 32"
    using s by (simp_all add: new_block_def)
  obtain l where g: "x25519_getSharedKey pair (Addr (nxt s) 0) e ?s1 =
     (Ok (Addr (nxt ?s1) 0, Some 32), (new_block (map Byte (secret c bs)) ?s1)\<lparr>evs := l\<rparr>)"
    using getSharedKey_run [OF lib lk(2) k(4) lk(1) pub arg(3)] by blast
  have sec: "length (secret c bs) = 32"
    using lib by (rule x25519_libraryD)
  have rd: "get_bytes ((blocks s)(nxt s \<mapsto> cstr bs, Suc (nxt s) \<mapsto> map Byte (secret c bs))) (Addr (Suc (nxt s)) 0) 32 = Inr (secret c bs)"
    using sec by (simp add: get_bytes_def get_cells_def cells_of_def)
  have blk: "((blocks s)(nxt s \<mapsto> cstr bs, Suc (nxt s) := None)) = (blocks s)(nxt s \<mapsto> cstr bs)"
    using s(3) by (auto simp: fresh_above fun_eq_iff)
  show ?thesis
    using k(2,3) g
    by (simp add: lua_getSharedKey_def to_userdata_def exec k(1) arg(1) cstr_def [symmetric] lua_pushlstring_def)
      (simp add: new_block_def drop_block_def exec rd blk)
qed

text \<open>The functions that the library \<open>encdec\<close> registers, one of them twice.\<close>

definition encdeclib :: "(string \<times> ('z, int) leprog) list" where
  "encdeclib =
    [(''genRandBytes'', lua_genRandBytes), (''AESenc'', lua_AESenc), (''AESdec'', lua_AESdec),
     (''getKeyPair'', lua_getKeyPair), (''freeKeyPair'', lua_freeKeyPair),
     (''getSharedKey'', lua_getSharedKey), (''createKeyPair'', lua_createKeyPair),
     (''getSharedKey'', lua_getSharedKey), (''freeAESData'', lua_freeAESData),
     (''getAESData'', lua_getAESData), (''initKeyPairFromFile'', lua_initKeyPairFromFile),
     (''saveKeyPairToFile'', lua_saveKeyPairToFile), (''getAESData_len'', lua_getAESData_len),
     (''createAESData'', lua_createAESData), (''getPubKey'', lua_getPubKey),
     (''getPrivKey'', lua_getPrivKey), (''toSHA512'', lua_toSHA512), (''toSHA256'', lua_toSHA256)]"

end
