(* ===== verification/Signatures.thy ===== *)
theory Signatures
  imports Rsa_Ed25519
begin

text \<open>
  Signing and verification, the second half of
  \<open>libbacteria/encdec/verify/rsa_ed25519.c\<close>.
\<close>

definition ERRSIGN :: "handle \<Rightarrow> string \<Rightarrow> ('z, nat) prog" where
  "ERRSIGN md msg =
     bnd (ext (Md (EVP_MD_CTX_destroy md))) (\<lambda>_.
     bnd (ext (Libc (Fprintf_stderr msg))) (\<lambda>_. ret 0))"

definition sign_rsa :: "handle \<Rightarrow> ptr \<Rightarrow> nat \<Rightarrow> ptr \<Rightarrow> handle \<Rightarrow> hash option \<Rightarrow> ('z, nat) prog" where
  "sign_rsa md plaintext plaintext_size sigret key mdalgo =
     bnd (ext (Md (EVP_DigestSignInit md mdalgo key))) (\<lambda>i.
     if r_int i \<noteq> 1 then ERRSIGN md ''Error in EVP_DigestSignInit.'' else
     bnd (read_bytes plaintext plaintext_size) (\<lambda>txt.
     bnd (ext (Md (EVP_DigestSignUpdate md txt))) (\<lambda>u.
     if r_int u \<noteq> 1 then ERRSIGN md ''Error computing hash on document.'' else
     bnd (ext (Md (EVP_DigestSignFinal_size md))) (\<lambda>sz.
     if r_int sz \<noteq> 1 then ERRSIGN md ''Error determining maximum signature size.'' else
     bnd (ext (Md (EVP_DigestSignFinal md (r_len sz)))) (\<lambda>f.
     bnd (write_bytes sigret (r_bytes f)) (\<lambda>_.
     if r_int f \<noteq> 1 then ERRSIGN md ''Error in signing DigestSignFinal.'' else
     bnd (ext (Md (EVP_MD_CTX_destroy md))) (\<lambda>_.
     ret (r_len f))))))))"

definition sign_ed25519 :: "handle \<Rightarrow> ptr \<Rightarrow> nat \<Rightarrow> ptr \<Rightarrow> handle \<Rightarrow> ('z, nat) prog" where
  "sign_ed25519 md plaintext plaintext_size sigret key =
     bnd (ext (Md (EVP_DigestSignInit md None key))) (\<lambda>i.
     if r_int i \<noteq> 1 then ERRSIGN md ''Error in EVP_DigestSignInit.'' else
     local_arr 64 (\<lambda>sig.
     bnd (bzero sig 64) (\<lambda>_.
     bnd (read_bytes plaintext plaintext_size) (\<lambda>txt.
     bnd (ext (Md (EVP_DigestSign md 64 txt))) (\<lambda>r.
     bnd (write_bytes sig (r_bytes r)) (\<lambda>_.
     if r_int r \<noteq> 1 then ERRSIGN md ''Error in EVP_DigestSign.'' else
     bnd (memcpy sigret sig (r_len r)) (\<lambda>_.
     bnd (store_byte (padd sigret (r_len r)) NUL) (\<lambda>_.
     bnd (ext (Md (EVP_MD_CTX_destroy md))) (\<lambda>_.
     ret (r_len r))))))))))"

definition ed25519rsa_signIt ::
    "ptr \<Rightarrow> nat \<Rightarrow> ptr \<Rightarrow> handle \<Rightarrow> hash option \<Rightarrow> aTypes \<Rightarrow> ('z, nat) prog" where
  "ed25519rsa_signIt plaintext plaintext_size sigret key mdalgo ty =
     bnd (ext (Md EVP_MD_CTX_create)) (\<lambda>md.
     if r_handle md = 0 then
       bnd (ext (Libc (Fprintf_stderr ''Error MD CTX create''))) (\<lambda>_. ret 0)
     else
     if ty = aRSA then sign_rsa (r_handle md) plaintext plaintext_size sigret key mdalgo
     else sign_ed25519 (r_handle md) plaintext plaintext_size sigret key)"

text \<open>The key to verify with, and the BIO it was read from; \<open>None\<close> is the early return.\<close>

definition verify_key :: "ptr \<Rightarrow> nat \<Rightarrow> aTypes \<Rightarrow> ('z, (handle \<times> handle) option) prog" where
  "verify_key signingkey signingkey_size ty =
     (if ty \<noteq> aRSA then
        bnd (read_bytes signingkey signingkey_size) (\<lambda>kb.
        bnd (ext (Pkey (EVP_PKEY_new_raw_public_key NID_ED25519 kb))) (\<lambda>k.
        ret (Some (r_handle k, 0))))
      else
        bnd (ext (Pkey EVP_PKEY_new)) (\<lambda>k.
        bnd (read_str signingkey) (\<lambda>kb.
        bnd (ext (Ssl (BIO_new_mem_buf kb))) (\<lambda>bio.
        if r_handle bio = 0 then ret None else
        bnd (ext (Pem (PEM_read_bio_RSA_PUBKEY (r_handle bio)))) (\<lambda>rsa.
        bnd (ext (Pkey (EVP_PKEY_assign_RSA (r_handle k) (r_handle rsa)))) (\<lambda>_.
        ret (Some (r_handle k, r_handle bio))))))))"

definition verify_ed25519 :: "handle \<Rightarrow> ptr \<Rightarrow> ptr \<Rightarrow> nat \<Rightarrow> handle \<Rightarrow> ('z, int) prog" where
  "verify_ed25519 md signature plaintext plaintext_size pkey =
     bnd (ext (Md (EVP_DigestVerifyInit md None pkey))) (\<lambda>i.
     bnd (if r_int i = 1 then
            bnd (read_bytes signature 64) (\<lambda>sig.
            bnd (read_bytes plaintext plaintext_size) (\<lambda>txt.
            bnd (ext (Md (EVP_DigestVerify md sig txt))) (\<lambda>v. ret (r_int v))))
          else ret (- 1)) (\<lambda>rtv.
     bnd (if rtv = - 1 then
            bnd (ext (Libc (Fprintf_stderr ''Error in EVP_DigestVerifyInit.''))) (\<lambda>_. ret ())
          else ret ()) (\<lambda>_.
     ret rtv)))"

definition verify_rsa ::
    "handle \<Rightarrow> ptr \<Rightarrow> nat \<Rightarrow> ptr \<Rightarrow> nat \<Rightarrow> handle \<Rightarrow> hash option \<Rightarrow> ('z, int) prog" where
  "verify_rsa md signature signature_size plaintext plaintext_size pkey mdalgo =
     bnd (ext (Md (EVP_DigestVerifyInit md mdalgo pkey))) (\<lambda>i.
     if r_int i \<noteq> 1 then ret (- 1) else
     bnd (read_bytes plaintext plaintext_size) (\<lambda>txt.
     bnd (ext (Md (EVP_DigestVerifyUpdate md txt))) (\<lambda>u.
     if r_int u \<noteq> 1 then ret (- 1) else
     bnd (read_bytes signature signature_size) (\<lambda>sig.
     bnd (ext (Md (EVP_DigestVerifyFinal md sig))) (\<lambda>v.
     ret (r_int v))))))"

definition ed25519rsa_verifyIt ::
    "ptr \<Rightarrow> nat \<Rightarrow> ptr \<Rightarrow> nat \<Rightarrow> ptr \<Rightarrow> nat \<Rightarrow> hash option \<Rightarrow> aTypes \<Rightarrow> ('z, int) prog" where
  "ed25519rsa_verifyIt signature signature_size plaintext plaintext_size signingkey
       signingkey_size mdalgo ty =
     bnd (ext (Md EVP_MD_CTX_create)) (\<lambda>md.
     if r_handle md = 0 then
       bnd (ext (Libc (Fprintf_stderr ''Error MD CTX create''))) (\<lambda>_. ret 0)
     else
     bnd (verify_key signingkey signingkey_size ty) (\<lambda>ko.
     case ko of None \<Rightarrow> ret 0 | Some (pkey, keybio) \<Rightarrow>
     bnd (if ty \<noteq> aRSA then verify_ed25519 (r_handle md) signature plaintext plaintext_size pkey
          else verify_rsa (r_handle md) signature signature_size plaintext plaintext_size pkey mdalgo) (\<lambda>rtv.
     bnd (if rtv = - 1 then bnd (ext (Libc (Fprintf_stderr ''verify error''))) (\<lambda>_. ret ())
          else ret ()) (\<lambda>_.
     bnd (ext (Md (EVP_MD_CTX_destroy (r_handle md)))) (\<lambda>_.
     bnd (ext (Pkey (EVP_PKEY_free pkey))) (\<lambda>_.
     bnd (if keybio \<noteq> 0 then bnd (ext (Ssl (BIO_free_all keybio))) (\<lambda>_. ret ())
          else ret ()) (\<lambda>_.
     ret rtv)))))))"

subsection \<open>The life of the digest context\<close>

text \<open>The contexts that a log makes and the ones it destroys, in order.\<close>

definition md_made :: "event list \<Rightarrow> handle list" where
  "md_made l = concat (map (\<lambda>(c, r). case c of
     Md EVP_MD_CTX_create \<Rightarrow> if r_handle r = 0 then [] else [r_handle r] | _ \<Rightarrow> []) l)"

definition md_destroyed :: "event list \<Rightarrow> handle list" where
  "md_destroyed l = concat (map (\<lambda>(c, r). case c of
     Md (EVP_MD_CTX_destroy h) \<Rightarrow> [h] | _ \<Rightarrow> []) l)"

lemma md_simps [simp]:
  "md_made [] = []" "md_destroyed [] = []"
  "md_made (l @ l') = md_made l @ md_made l'"
  "md_destroyed (l @ l') = md_destroyed l @ md_destroyed l'"
  "md_made ((c, r) # l) = (case c of
     Md EVP_MD_CTX_create \<Rightarrow> if r_handle r = 0 then [] else [r_handle r] | _ \<Rightarrow> []) @ md_made l"
  "md_destroyed ((c, r) # l) = (case c of Md (EVP_MD_CTX_destroy h) \<Rightarrow> [h] | _ \<Rightarrow> []) @ md_destroyed l"
  by (simp_all add: md_made_def md_destroyed_def)

lemma sign_logs:
  "logs (\<lambda>a new. md_destroyed new = md_made new) (ed25519rsa_signIt p n q key alg ty)"
  unfolding ed25519rsa_signIt_def sign_rsa_def sign_ed25519_def ERRSIGN_def
  by (intro logs_rules) simp_all

lemma verify_logs:
  "logs (\<lambda>a new. md_destroyed new = md_made new \<or> a = 0 \<and> md_destroyed new = [] \<and> (\<exists>bs r. (Ssl (BIO_new_mem_buf bs), r) \<in> set new \<and> r_handle r = 0))
     (ed25519rsa_verifyIt p n q m k l alg ty)"
  unfolding ed25519rsa_verifyIt_def verify_key_def verify_ed25519_def verify_rsa_def
  apply (intro logs_rules) apply simp_all
  done

subsection \<open>Ed25519 runs\<close>

lemma sign_ed25519_run:
  assumes s: "fresh s" and tx: "get_bytes (blocks s) p n = Inr txt"
    and q: "blocks s q = Some cs" "64 \<le> length cs" and sig: "length sig = 64"
    and md: "\<And>l. answer e l (Md EVP_MD_CTX_create) = RHandle md" "md \<noteq> 0"
    and init: "\<And>l. answer e l (Md (EVP_DigestSignInit md None key)) = RInt 1"
    and sign: "\<And>l. answer e l (Md (EVP_DigestSign md 64 txt)) = RLen 1 64 sig"
  shows "\<exists>l. ed25519rsa_signIt p n (Addr q 0) key alg ed25519 e s =
    (if length cs = 64
     then (Err OutOfBounds, s\<lparr>blocks := (blocks s)(q \<mapsto> map Byte sig), nxt := Suc (nxt s), evs := l\<rparr>)
     else (Ok 64, s\<lparr>blocks := (blocks s)(q \<mapsto> map Byte (sig @ [NUL]) @ drop 65 cs), nxt := Suc (nxt s), evs := l\<rparr>))"
proof -
  let ?N = "nxt s"
  have q': "q \<noteq> ?N" "blocks s ?N = None"
    using s q(1) by (auto simp: fresh_def)
  then have upd: "(blocks s)(?N := a, q \<mapsto> y, ?N := None) = (blocks s)(q \<mapsto> y)" for a y
    by auto
  have tx': "get_bytes ((blocks s)(?N := x)) p n = Inr txt" for x
    using tx q'(2) by simp
  have g: "get_cells ((blocks s)(?N \<mapsto> map Byte sig)) (Addr ?N 0) 64 = Inr (map Byte sig)"
    using sig by (simp add: get_cells_def cells_of_def)
  have p1: "put_cells ((blocks s)(?N \<mapsto> map Byte sig)) (Addr q 0) (map Byte sig) =
      Inr ((blocks s)(?N \<mapsto> map Byte sig, q \<mapsto> map Byte sig @ drop 64 cs))"
    using sig q q' by simp
  show ?thesis
  proof (cases "length cs = 64")
    case True
    then show ?thesis
      using q q' sig md(2)
      by (simp add: ed25519rsa_signIt_def sign_ed25519_def exec md(1) init sign tx' g p1 local_arr_def
          new_block_def drop_block_def upd) (intro exI, rule refl)
  next
    case False
    then have "65 \<le> length cs"
      using q(2) by simp
    then show ?thesis
      using q q' sig md(2)
      by (simp add: ed25519rsa_signIt_def sign_ed25519_def exec md(1) init sign tx' g p1 local_arr_def
          new_block_def drop_block_def upd) (intro exI, rule refl)
  qed
qed

lemma verify_ed25519_run:
  assumes "get_bytes (blocks s) p n = Inr txt" "get_bytes (blocks s) k m = Inr kbs"
    and "get_bytes (blocks s) q 64 = Inr sig"
    and "\<And>l. answer e l (Md EVP_MD_CTX_create) = RHandle md" "md \<noteq> 0"
    and "\<And>l. answer e l (Pkey (EVP_PKEY_new_raw_public_key NID_ED25519 kbs)) = RHandle pk"
    and "\<And>l. answer e l (Md (EVP_DigestVerifyInit md None pk)) = RInt 1"
    and "\<And>l. answer e l (Md (EVP_DigestVerify md sig txt)) = RInt v" "v \<noteq> - 1"
  shows "fst (ed25519rsa_verifyIt q len p n k m alg ed25519 e s) = Ok v"
  using assms(5,9)
  by (simp add: ed25519rsa_verifyIt_def verify_key_def verify_ed25519_def exec assms(1-4,6-8))

lemma verify_short_signature:
  assumes "get_bytes (blocks s) k m = Inr kbs"
    and "blocks s q = Some cs" "length cs < 64"
    and "\<And>l. answer e l (Md EVP_MD_CTX_create) = RHandle md" "md \<noteq> 0"
    and "\<And>l. answer e l (Md (EVP_DigestVerifyInit md None h)) = RInt 1"
    and "\<And>l. r_handle (answer e l (Pkey (EVP_PKEY_new_raw_public_key NID_ED25519 kbs))) = h"
  shows "fst (ed25519rsa_verifyIt (Addr q 0) len p n k m alg ed25519 e s) = Err OutOfBounds"
proof -
  have "get_bytes (blocks s) (Addr q 0) 64 = Inl OutOfBounds"
    using assms(2,3) by (simp add: get_bytes_def get_cells_def cells_of_def)
  then show ?thesis
    using assms(5)
    by (simp add: ed25519rsa_verifyIt_def verify_key_def verify_ed25519_def exec assms(1,4,6,7))
qed

end
