(* ===== verification/Lua_Sign.thy ===== *)
theory Lua_Sign
  imports Signatures Lua_Api
begin

text \<open>
  \<open>libbacteria/lua/libed25519rsa.c\<close>: key generation, signing and verification for scripts.
  The key pairs that were stored in userdata are a map of the state.
\<close>

record ls_state = cstate +
  a_pairs :: "handle \<Rightarrow> aKeyPair option"

type_synonym ('z, 'a) lsprog = "('z ls_state_ext, 'a) prog"

text \<open>
  \<open>GETRET\<close>: a userdata whose size depends on the lengths of the two keys receives the
  structure of 48 bytes; every field is read.
\<close>

definition key_nbytes :: "nat \<Rightarrow> nat \<Rightarrow> nat" where
  "key_nbytes pubLen privLen =
     size_t (8 * 2 + 8 * (int pubLen - 1) + 8 * (int privLen - 1) + 8 + 4)"

definition GETRET :: "aKeyPair \<Rightarrow> aTypes \<Rightarrow> ('z, int) lsprog" where
  "GETRET rt Rtype =
     bnd (field (pubKeyLen rt)) (\<lambda>n.
     bnd (field (privKeyLen rt)) (\<lambda>m.
     bnd (new_struct (key_nbytes n m) 48) (\<lambda>h.
     bnd (field (a_pubKey rt)) (\<lambda>_.
     bnd (field (a_privKey rt)) (\<lambda>_.
     bnd (field (a_pkey rt)) (\<lambda>_.
     bnd (modify (a_pairs_update (\<lambda>mp. mp(h \<mapsto> rt\<lparr>a_type := Rtype\<rparr>)))) (\<lambda>_.
     ret 1)))))))"

definition open_exit_file :: "('z, handle) prog" where
  "open_exit_file =
     bnd (lua_test (lua_isstring 1)) (\<lambda>b.
     if b then
       bnd (luaL_checkstring 1) (\<lambda>p.
       bnd (read_str p) (\<lambda>path.
       bnd (ext (Libc (Fopen path ''wb''))) (\<lambda>f. ret (r_handle f))))
     else ret 0)"

definition close_exit_file :: "handle \<Rightarrow> ('z, unit) prog" where
  "close_exit_file f =
     (if f \<noteq> 0 then bnd (ext (Libc (Fclose f))) (\<lambda>_. ret ()) else ret ())"

definition lua_generateKeysEd25519 :: "('z, int) lsprog" where
  "lua_generateKeysEd25519 =
     bnd open_exit_file (\<lambda>f.
     bnd (generateKeysEd25519 f) (\<lambda>rt.
     bnd (close_exit_file f) (\<lambda>_.
     GETRET rt ed25519)))"

text \<open>The file is opened after the two numbers are read, the path before.\<close>

definition lua_generateKeysRSA :: "('z, int) lsprog" where
  "lua_generateKeysRSA =
     bnd (bnd (lua_test (lua_isstring 1)) (\<lambda>b. if b then luaL_checkstring 1 else ret Null)) (\<lambda>path.
     bnd (bnd (lua_test (lua_isnumber 2)) (\<lambda>b. if b then lua_tonumber 2 else ret 8192)) (\<lambda>kBits.
     bnd (bnd (lua_test (lua_isnumber 3)) (\<lambda>b. if b then lua_tonumber 3 else ret 4)) (\<lambda>primes.
     bnd (if path \<noteq> Null then bnd (read_str path) (\<lambda>p.
            bnd (ext (Libc (Fopen p ''wb''))) (\<lambda>f. ret (r_handle f))) else ret 0) (\<lambda>f.
     bnd (generateKeysRSA (c_uint kBits) (c_uint primes) f) (\<lambda>rt.
     bnd (close_exit_file f) (\<lambda>_.
     GETRET rt aRSA))))))"

definition lua_initPrivKey :: "('z, int) lsprog" where
  "lua_initPrivKey =
     bnd (luaL_checkstring 1) (\<lambda>p.
     bnd (lua_test (lua_toboolean 2)) (\<lambda>isEd25519.
     bnd (read_str p) (\<lambda>filepath.
     bnd (ed25519rsa_initPrivKey filepath (if isEd25519 then ed25519 else aRSA)) (\<lambda>rt.
     bnd (field (a_pkey rt)) (\<lambda>k.
     if k = 0 then luaL_error ''Cant open privkey file'' else
     GETRET rt (if isEd25519 then ed25519 else aRSA))))))"

definition INITKEYPAIR :: "int \<Rightarrow> ('z, aKeyPair) lsprog" where
  "INITKEYPAIR n =
     bnd (to_userdata n) (\<lambda>h.
     if h = 0 then luaL_error ''Bad aKeyPair'' else deref a_pairs h)"

abbreviation MAXRETBUF :: nat where "MAXRETBUF \<equiv> 65"

definition lua_signIt :: "('z, int) lsprog" where
  "lua_signIt =
     bnd (INITKEYPAIR 1) (\<lambda>k.
     bnd (luaL_checkstring 2) (\<lambda>textToSign.
     local_arr MAXRETBUF (\<lambda>retbuf.
     bnd (bzero retbuf MAXRETBUF) (\<lambda>_.
     bnd (strlen textToSign) (\<lambda>n.
     bnd (field (a_pkey k)) (\<lambda>key.
     bnd (ed25519rsa_signIt textToSign n retbuf key (Some SHA512) (a_type k)) (\<lambda>sizeSign.
     bnd (store_byte (padd retbuf sizeSign) NUL) (\<lambda>_.
     bnd (lua_pushlstring retbuf sizeSign) (\<lambda>_.
     bnd (push (LNum (int sizeSign))) (\<lambda>_.
     ret 2))))))))))"

definition lua_verifyIt :: "('z, int) lsprog" where
  "lua_verifyIt =
     bnd gettop (\<lambda>stackSize.
     bnd (lua_do (lua_pop (int stackSize - 6))) (\<lambda>_.
     bnd (luaL_checkstring 1) (\<lambda>sign.
     bnd (luaL_checknumber 2) (\<lambda>sSize.
     bnd (luaL_checkstring 3) (\<lambda>textToVerify.
     bnd (luaL_checkstring 4) (\<lambda>pubKey.
     bnd (luaL_checknumber 5) (\<lambda>pubLen.
     bnd (lua_test (lua_toboolean 6)) (\<lambda>isEd25519.
     bnd (strlen textToVerify) (\<lambda>n.
     bnd (ed25519rsa_verifyIt sign (size_t sSize) textToVerify n pubKey (size_t pubLen)
       (Some SHA512) (if isEd25519 then ed25519 else aRSA)) (\<lambda>r.
     if r < 0 then ret 0 else
     bnd (push (LBool (r \<noteq> 0))) (\<lambda>_.
     ret 1)))))))))))"

definition lua_getaPubKey :: "('z, int) lsprog" where
  "lua_getaPubKey =
     bnd (INITKEYPAIR 1) (\<lambda>k.
     bnd (field (a_pubKey k)) (\<lambda>p.
     bnd (field (pubKeyLen k)) (\<lambda>n.
     bnd (lua_pushlstring p n) (\<lambda>_.
     bnd (push (LNum (int n))) (\<lambda>_.
     ret 2)))))"

definition lua_getaPrivKey :: "('z, int) lsprog" where
  "lua_getaPrivKey =
     bnd (INITKEYPAIR 1) (\<lambda>k.
     bnd (field (a_privKey k)) (\<lambda>p.
     bnd (field (privKeyLen k)) (\<lambda>n.
     bnd (lua_pushlstring p n) (\<lambda>_.
     bnd (push (LNum (int n))) (\<lambda>_.
     ret 2)))))"

text \<open>The function ends without a \<open>return\<close>: Lua uses a count that was never given.\<close>

definition lua_freeaKey :: "('z, int) lsprog" where
  "lua_freeaKey =
     bnd (INITKEYPAIR 1) (\<lambda>k.
     bnd (field (a_pkey k)) (\<lambda>key.
     bnd (ext (Pkey (EVP_PKEY_free key))) (\<lambda>_.
     bnd (field (a_privKey k)) (\<lambda>priv.
     bnd (free priv) (\<lambda>_.
     bnd (field (a_pubKey k)) (\<lambda>pub.
     bnd (free pub) (\<lambda>_.
     fail NoReturnValue)))))))"

subsection \<open>Signing with an RSA key\<close>

lemma signIt_rsa_overflow:
  fixes s :: "'z ls_state_scheme"
  assumes s: "fresh s" and k: "answer e (evs s) (Lua (lua_touserdata 1)) = RHandle h" "h \<noteq> 0"
      "a_pairs s h = Some kp" "a_pkey kp = Some key" "a_type kp = aRSA"
    and arg: "\<And>l. answer e l (Lua (lua_arg_string 2)) = ROut a bs" "NUL \<notin> set bs"
    and md: "\<And>l. answer e l (Md EVP_MD_CTX_create) = RHandle md" "md \<noteq> 0"
      "\<And>l. answer e l (Md (EVP_DigestSignInit md (Some SHA512) key)) = RInt 1"
      "\<And>l. answer e l (Md (EVP_DigestSignUpdate md bs)) = RInt 1"
      "\<And>l. answer e l (Md (EVP_DigestSignFinal_size md)) = RLen 1 n []"
      "\<And>l. answer e l (Md (EVP_DigestSignFinal md n)) = RLen 1 n sig"
    and big: "65 < length sig"
  shows "fst (lua_signIt e s) = Err OutOfBounds"
proof -
  have rd: "get_bytes ((blocks s)(nxt s \<mapsto> map Byte bs @ [Byte NUL], Suc (nxt s) \<mapsto> x)) (Addr (nxt s) 0) (length bs) = Inr bs"
    "get_str ((blocks s)(nxt s \<mapsto> map Byte bs @ [Byte NUL], Suc (nxt s) \<mapsto> x)) (Addr (nxt s) 0) = Inr bs" for x
    using arg(2) by (simp_all add: get_bytes_def get_cells_def cells_of_def)
  have sig: "sig \<noteq> []"
    using big by auto
  show ?thesis
    using k(2-5) md(2) big sig
    by (simp add: lua_signIt_def INITKEYPAIR_def to_userdata_def exec k(1) arg(1) local_arr_def new_block_def
        rd ed25519rsa_signIt_def sign_rsa_def md split: prod.split)
qed

text \<open>The functions that the library \<open>ed25519rsa\<close> registers.\<close>

definition libed25519rsa :: "(string \<times> ('z, int) lsprog) list" where
  "libed25519rsa =
    [(''generateKeysEd25519'', lua_generateKeysEd25519), (''generateKeysRSA'', lua_generateKeysRSA),
     (''initPrivKey'', lua_initPrivKey), (''signIt'', lua_signIt), (''verifyIt'', lua_verifyIt),
     (''freeaKey'', lua_freeaKey), (''getaPubKey'', lua_getaPubKey),
     (''getaPrivKey'', lua_getaPrivKey)]"

end
