(* ===== verification/Keys_Props.thy ===== *)
theory Keys_Props
  imports X25519 Signatures
begin

text \<open>
  The properties of the public-key components: key agreement (\<open>X25519\<close>), PEM texts and
  key generation (\<open>Rsa_Ed25519\<close>), signatures (\<open>Signatures\<close>).
\<close>

subsection \<open>Key agreement\<close>

text \<open>Claim C5: if the library's secrets commute (the Diffie-Hellman law), then two key
  pairs that derive a shared key from each other's public keys, one after the other, get
  two different blocks of 32 bytes with the same contents, and no block of the caller
  changes.\<close>

theorem x25519_agreement:
  assumes "x25519_library e secret key_of" "alloc_total e" "fresh s" "len_key s = 32"
    and "pKeyCtx alice = Some a" "pKeyCtx bob = Some b"
    and "get_bytes (blocks s) p 32 = Inr A" "\<not> bit (A ! 31) 7"
    and "get_bytes (blocks s) q 32 = Inr B" "\<not> bit (B ! 31) 7"
    and "secret a B = secret b A"
  shows "\<exists>x y t. bnd (x25519_getSharedKey alice q) (\<lambda>k. bnd (x25519_getSharedKey bob p) (\<lambda>k'. ret (k, k'))) e s =
      (Ok ((x, Some 32), (y, Some 32)), t) \<and> x \<noteq> y \<and>
    get_bytes (blocks t) x 32 = Inr (secret a B) \<and> get_bytes (blocks t) y 32 = Inr (secret a B) \<and>
    blocks s \<subseteq>\<^sub>m blocks t"
  using assms by (rule agreement)

text \<open>A library for the instance: the context is the private key, a public key starts with
  the private key, and the secret is their product.\<close>

definition toy_secret :: "handle \<Rightarrow> byte list \<Rightarrow> byte list" where
  "toy_secret c bs = replicate 32 (of_nat (c * unat (hd bs)))"

definition toy_library :: env where
  "toy_library = \<lparr>malloc_ok = (\<lambda>_ _. True), answer = (\<lambda>l c. case c of
     Pkey (EVP_PKEY_new_raw_public_key k bs) \<Rightarrow> RHandle (unat (hd bs))
   | Pkey (EVP_PKEY_derive_size c) \<Rightarrow> RLen 1 32 []
   | Pkey (EVP_PKEY_derive c n) \<Rightarrow> (case peer_of c l of
        Some k \<Rightarrow> RLen 1 32 (replicate 32 (of_nat (c * k))) | None \<Rightarrow> RInt 0)
   | _ \<Rightarrow> RInt 1)\<rparr>"

lemma toy_library_ok: "x25519_library toy_library toy_secret (\<lambda>bs. unat (hd bs))"
  by (simp add: x25519_library_def toy_library_def toy_secret_def)

definition toy_pair :: "handle \<Rightarrow> x25519_keysPair" where
  "toy_pair c = \<lparr>privKey = Some c, pubKey = [], pKeyCtx = Some c\<rparr>"

definition x_state_of :: "cell list list \<Rightarrow> x_state" where
  "x_state_of cs = cstate.extend (state_of cs) \<lparr>len_key = 32\<rparr>"

lemma x_state_of_simps [simp]:
  "blocks (x_state_of cs) b = (if b < length cs then Some (cs ! b) else None)"
  "nxt (x_state_of cs) = length cs" "evs (x_state_of cs) = []" "fresh (x_state_of cs)"
  "len_key (x_state_of cs) = 32"
  by (simp_all add: x_state_of_def state_of_def cstate.defs fresh_def)

theorem x25519_agreement_witness:
  fixes s defines "s \<equiv> x_state_of [map Byte (replicate 32 2), map Byte (replicate 32 3)]"
  shows "\<exists>x y t. bnd (x25519_getSharedKey (toy_pair 2) (Addr 1 0)) (\<lambda>k. bnd (x25519_getSharedKey (toy_pair 3) (Addr 0 0)) (\<lambda>k'. ret (k, k'))) toy_library s =
      (Ok ((x, Some 32), (y, Some 32)), t) \<and> x \<noteq> y \<and>
    get_bytes (blocks t) x 32 = Inr (toy_secret 2 (replicate 32 3)) \<and>
    get_bytes (blocks t) y 32 = Inr (toy_secret 2 (replicate 32 3)) \<and>
    blocks s \<subseteq>\<^sub>m blocks t"
proof (rule x25519_agreement [OF toy_library_ok])
  show "get_bytes (blocks s) (Addr 0 0) 32 = Inr (replicate 32 2)"
    using get_bytes_map [of "blocks s" 0 "replicate 32 2" 32] by (simp add: s_def)
  show "get_bytes (blocks s) (Addr 1 0) 32 = Inr (replicate 32 3)"
    using get_bytes_map [of "blocks s" 1 "replicate 32 3" 32] by (simp add: s_def)
  show "toy_secret 2 (replicate 32 3) = toy_secret 3 (replicate 32 2)"
    by (simp add: toy_secret_def del: of_nat_mult)
qed (simp_all add: s_def toy_library_def toy_pair_def alloc_total_def)

text \<open>Whatever OpenSSL answers and on whichever of its ten paths it returns,
  \<open>x25519_getSharedKey\<close> frees exactly the peer key that it made, once, and no other key.\<close>

theorem getSharedKey_releases_peer:
  assumes "x25519_getSharedKey pair pub e s = (Ok r, t)"
  shows "\<exists>new. events t = events s @ new \<and> peers_freed new = peers_made new"
  using logsD [OF getSharedKey_logs assms] by blast

theorem getSharedKey_releases_peer_witness:
  fixes s defines "s \<equiv> x_state_of [map Byte (replicate 32 2)]"
  shows "\<exists>new. events (snd (x25519_getSharedKey (toy_pair 2) (Addr 0 0) toy_library s)) = events s @ new \<and>
    peers_freed new = peers_made new"
proof -
  have pub: "get_bytes (blocks s) (Addr 0 0) 32 = Inr (replicate 32 2)"
    using get_bytes_map [of "blocks s" 0 "replicate 32 2" 32] by (simp add: s_def)
  obtain l where run: "x25519_getSharedKey (toy_pair 2) (Addr 0 0) toy_library s =
      (Ok (Addr (nxt s) 0, Some 32), (new_block (map Byte (toy_secret 2 (replicate 32 2))) s)\<lparr>evs := l\<rparr>)"
    using getSharedKey_run [OF toy_library_ok, of s "toy_pair 2" 2 "Addr 0 0" "replicate 32 2"] pub
    by (auto simp: s_def toy_library_def toy_pair_def)
  show ?thesis
    using getSharedKey_releases_peer [OF run] by (simp add: run)
qed

text \<open>\<open>x25519_freeSharedKeys\<close> never does what its name says. Given a live shared
  key it either returns without freeing anything, when the first byte of the key is
  zero, or frees the first key and then reads it again, a use after free; the further
  keys are not looked at.\<close>

theorem freeSharedKeys_frees_nothing_safely:
  assumes "blocks s b = Some (Byte v # cs)"
  shows "x25519_freeSharedKeys (Addr b 0) ap e s =
    (if v = NUL then (Ok (), s) else (Err UseAfterFree, drop_block b s))"
  using assms by (rule freeSharedKeys_first_byte)

theorem freeSharedKeys_frees_nothing_safely_witness:
  "x25519_freeSharedKeys (Addr 0 0) [Addr 1 0, Null] (const_env RUnit) (x_state_of [[Byte 5], [Byte 6]]) =
    (if (5 :: byte) = NUL then (Ok (), x_state_of [[Byte 5], [Byte 6]])
     else (Err UseAfterFree, drop_block 0 (x_state_of [[Byte 5], [Byte 6]])))"
  by (rule freeSharedKeys_frees_nothing_safely) simp

text \<open>A key file of less than 256 bytes, as every PEM file of an X25519 key is,
  makes \<open>x25519_initKeyPairFromFile\<close> search a string in an array that the file did not
  fill: it reads uninitialised memory, unless the file holds a zero byte.\<close>

theorem initKeyPairFromFile_short_file:
  assumes "answer e (evs s) (Libc (Fopen path ''rb'')) = RHandle f" "f \<noteq> 0"
    and "\<And>l. answer e l (Libc (Ftell f)) = RInt pos" "0 < pos" "pos < 2 ^ 63"
    and "\<And>l. answer e l (Libc (Fread f 256)) = ROut n bs" "length bs < 256" "NUL \<notin> set bs"
  shows "fst (x25519_initKeyPairFromFile path e s) = Err UninitRead"
proof -
  have pos: "size_t pos \<noteq> 0"
    using assms(4,5) by simp
  have "replicate (256 - length bs) Undef = Undef # replicate (255 - length bs) Undef"
    using assms(7) by (cases "256 - length bs") auto
  then have scan: "scan (map Byte bs @ replicate (256 - length bs) Undef) = Inl UninitRead"
    using scan_uninit [OF assms(8), of "replicate (255 - length bs) Undef"] by simp
  show ?thesis
    using assms(2,7) pos
    by (simp add: x25519_initKeyPairFromFile_def file_call_def exec assms(1,3,6) local_arr_def
        new_block_def get_str_def cells_of_def scan split: prod.split)
qed

theorem initKeyPairFromFile_short_file_witness:
  "fst (x25519_initKeyPairFromFile [107]
     \<lparr>malloc_ok = (\<lambda>_ _. True), answer = (\<lambda>l c. case c of
        Libc (Fopen p m) \<Rightarrow> RHandle 1 | Libc (Ftell h) \<Rightarrow> RInt 2 | _ \<Rightarrow> ROut 3 [45, 45, 45])\<rparr>
     (x_state_of [])) = Err UninitRead"
  by (rule initKeyPairFromFile_short_file [where f = 1 and pos = 2 and bs = "[45, 45, 45]"]) simp_all


subsection \<open>PEM texts\<close>

text \<open>Claim C31: \<open>GetStrFromLineToLine\<close> without decoding returns a new terminated block that
  holds the text from the first occurrence of the start line up to the end of the line of
  the first occurrence of the end line, and its length; it changes nothing else and calls
  no library.\<close>

theorem GetStrFromLineToLine_section:
  assumes "fresh s" "alloc_total e" "get_str (blocks s) (Addr b off) = Inr xs"
    and "find_sub startS xs = Some i" "find_sub endS xs = Some j" "i \<le> j"
    and "find_sub [LF] (drop j xs) = Some k" "length xs < 2 ^ 32"
  shows "\<exists>t. GetStrFromLineToLine (Addr b off) startS endS True False e s =
      (Ok (Addr (Suc (nxt s)) 0, j + k - i), t) \<and>
    blocks t = (blocks s)(Suc (nxt s) \<mapsto> cstr (take (j + k - i) (drop i xs))) \<and> evs t = evs s"
  using assms by (rule GetStr_run)

theorem GetStrFromLineToLine_section_witness:
  "\<exists>t. GetStrFromLineToLine (Addr 0 0) [66] [69] True False (const_env RUnit) (state_of [cstr [65, 66, 67, 69, 10, 70]]) =
      (Ok (Addr (Suc (nxt (state_of [cstr [65, 66, 67, 69, 10, 70]]))) 0, 3 + 1 - 1), t) \<and>
    blocks t = (blocks (state_of [cstr [65, 66, 67, 69, 10, 70]]))
      (Suc (nxt (state_of [cstr [65, 66, 67, 69, 10, 70]])) \<mapsto> cstr (take (3 + 1 - 1) (drop 1 [65, 66, 67, 69, 10, 70]))) \<and>
    evs t = evs (state_of [cstr [65, 66, 67, 69, 10, 70]])"
  by (rule GetStrFromLineToLine_section) simp_all

subsection \<open>Signatures\<close>

text \<open>Claim C12: if the library verifies the 64 bytes it signed with, then signing a text
  with an Ed25519 key into a buffer of at least 65 bytes and verifying what is there under
  the public key gives 1: both functions hand the library the same text and the same
  bytes. In a buffer of exactly 64 bytes the signature function writes one byte too far.\<close>

theorem ed25519_sign_then_verify:
  assumes "fresh s" "get_bytes (blocks s) (Addr pb po) n = Inr msg"
    and "get_bytes (blocks s) (Addr kb ko) m = Inr kbs" "pb \<noteq> q" "kb \<noteq> q"
    and "blocks s q = Some cs" "64 \<le> length cs" "length sig = 64"
    and "\<And>l. answer e l (Md EVP_MD_CTX_create) = RHandle md" "md \<noteq> 0"
    and "\<And>l. answer e l (Md (EVP_DigestSignInit md None key)) = RInt 1"
    and "\<And>l. answer e l (Md (EVP_DigestSign md 64 msg)) = RLen 1 64 sig"
    and "\<And>l. answer e l (Pkey (EVP_PKEY_new_raw_public_key NID_ED25519 kbs)) = RHandle pk"
    and "\<And>l. answer e l (Md (EVP_DigestVerifyInit md None pk)) = RInt 1"
    and "\<And>l. answer e l (Md (EVP_DigestVerify md sig msg)) = RInt 1"
  shows "fst (bnd (ed25519rsa_signIt (Addr pb po) n (Addr q 0) key alg ed25519) (\<lambda>len.
      ed25519rsa_verifyIt (Addr q 0) len (Addr pb po) n (Addr kb ko) m alg ed25519) e s) =
    (if length cs = 64 then Err OutOfBounds else Ok 1)"
proof -
  obtain l where 1: "ed25519rsa_signIt (Addr pb po) n (Addr q 0) key alg ed25519 e s =
    (if length cs = 64
     then (Err OutOfBounds, s\<lparr>blocks := (blocks s)(q \<mapsto> map Byte sig), nxt := Suc (nxt s), evs := l\<rparr>)
     else (Ok 64, s\<lparr>blocks := (blocks s)(q \<mapsto> map Byte (sig @ [NUL]) @ drop 65 cs), nxt := Suc (nxt s), evs := l\<rparr>))"
    using sign_ed25519_run [OF assms(1,2,6-8,9-12)] by blast
  let ?s = "s\<lparr>blocks := (blocks s)(q \<mapsto> map Byte (sig @ [NUL]) @ drop 65 cs), nxt := Suc (nxt s), evs := l\<rparr>"
  have "get_bytes (blocks ?s) (Addr pb po) n = Inr msg" "get_bytes (blocks ?s) (Addr kb ko) m = Inr kbs"
    using assms(2-5) by simp_all
  moreover have "get_bytes (blocks ?s) (Addr q 0) 64 = Inr sig"
    using assms(8) by (simp add: get_bytes_def get_cells_def cells_of_def)
  ultimately have "fst (ed25519rsa_verifyIt (Addr q 0) 64 (Addr pb po) n (Addr kb ko) m alg ed25519 e ?s) = Ok 1"
    by (rule verify_ed25519_run [OF _ _ _ assms(9,10,13-15)]) simp
  then show ?thesis
    using 1 by (simp add: run_bnd)
qed

text \<open>A library that signs every text with 64 sevens.\<close>

definition toy_signer :: env where
  "toy_signer = \<lparr>malloc_ok = (\<lambda>_ _. True), answer = (\<lambda>l c. case c of
     Md EVP_MD_CTX_create \<Rightarrow> RHandle 1
   | Md (EVP_DigestSign h n bs) \<Rightarrow> RLen 1 64 (replicate 64 7)
   | Md (EVP_DigestSignInit h a k) \<Rightarrow> RInt 1
   | Md (EVP_DigestVerifyInit h a k) \<Rightarrow> RInt 1
   | Md (EVP_DigestVerify h sig bs) \<Rightarrow> RInt (if sig = replicate 64 7 then 1 else 0)
   | Pkey (EVP_PKEY_new_raw_public_key k bs) \<Rightarrow> RHandle 2
   | _ \<Rightarrow> RUnit)\<rparr>"

theorem ed25519_sign_then_verify_witness:
  fixes s defines "s \<equiv> state_of [[Byte 97], [Byte 1], replicate 65 Undef]"
  shows "fst (bnd (ed25519rsa_signIt (Addr 0 0) 1 (Addr 2 0) 3 None ed25519) (\<lambda>len.
      ed25519rsa_verifyIt (Addr 2 0) len (Addr 0 0) 1 (Addr 1 0) 1 None ed25519) toy_signer s) =
    (if length (replicate 65 Undef) = 64 then Err OutOfBounds else Ok 1)"
  by (rule ed25519_sign_then_verify [where msg = "[97]" and kbs = "[1]" and sig = "replicate 64 7" and md = 1 and pk = 2])
    (simp_all add: s_def toy_signer_def get_bytes_def get_cells_def cells_of_def)

text \<open>For an Ed25519 signature \<open>verifyIt\<close> ignores the signature size it is given
  and reads 64 bytes: a signature in a shorter block is read past its end.\<close>

theorem verify_reads_past_short_signature:
  assumes "get_bytes (blocks s) k m = Inr kbs"
    and "blocks s q = Some cs" "length cs < 64"
    and "\<And>l. answer e l (Md EVP_MD_CTX_create) = RHandle md" "md \<noteq> 0"
    and "\<And>l. answer e l (Md (EVP_DigestVerifyInit md None h)) = RInt 1"
    and "\<And>l. r_handle (answer e l (Pkey (EVP_PKEY_new_raw_public_key NID_ED25519 kbs))) = h"
  shows "fst (ed25519rsa_verifyIt (Addr q 0) len p n k m alg ed25519 e s) = Err OutOfBounds"
  using assms by (rule verify_short_signature)

theorem verify_reads_past_short_signature_witness:
  "fst (ed25519rsa_verifyIt (Addr 0 0) 3 Null 0 (Addr 1 0) 1 None ed25519 toy_signer
     (state_of [map Byte [1, 2, 3], [Byte 1]])) = Err OutOfBounds"
  by (rule verify_reads_past_short_signature [where kbs = "[1]" and md = 1 and h = 2 and cs = "map Byte [1, 2, 3]"])
    (simp_all add: toy_signer_def get_bytes_def get_cells_def cells_of_def)

text \<open>Claim C25: \<open>signIt\<close> destroys every digest context it makes, once, on all its paths;
  \<open>verifyIt\<close> does so too except when the memory BIO for an RSA key cannot be made: then it
  returns 0 and leaks the context.\<close>

theorem digest_contexts_destroyed:
  assumes "ed25519rsa_signIt p n q key alg ty e s = (Ok r, t)"
    and "ed25519rsa_verifyIt p' n' q' m' k' l' alg' ty' e' s' = (Ok r', t')"
  shows "\<exists>new new'. events t = events s @ new \<and> md_destroyed new = md_made new \<and>
    events t' = events s' @ new' \<and> (md_destroyed new' = md_made new' \<or> r' = 0 \<and> md_destroyed new' = [] \<and>
      (\<exists>bs a. (Ssl (BIO_new_mem_buf bs), a) \<in> set new' \<and> r_handle a = 0))"
  using logsD [OF sign_logs assms(1)] logsD [OF verify_logs assms(2)] by blast


theorem digest_contexts_destroyed_witness:
  fixes s defines "s \<equiv> state_of []"
  shows "\<exists>new new'. events (snd (ed25519rsa_signIt Null 0 Null 0 None aRSA (const_env (RHandle 1)) s)) = events s @ new \<and>
    md_destroyed new = md_made new \<and>
    events (snd (ed25519rsa_verifyIt Null 0 Null 0 Null 0 None ed25519 (const_env (RHandle 1)) s)) = events s @ new' \<and>
    (md_destroyed new' = md_made new' \<or> (- 1 :: int) = 0 \<and> md_destroyed new' = [] \<and>
      (\<exists>bs a. (Ssl (BIO_new_mem_buf bs), a) \<in> set new' \<and> r_handle a = 0))"
proof -
  have 1: "ed25519rsa_signIt Null 0 Null 0 None aRSA (const_env (RHandle 1)) s =
      (Ok 0, snd (ed25519rsa_signIt Null 0 Null 0 None aRSA (const_env (RHandle 1)) s))"
    by (simp add: ed25519rsa_signIt_def sign_rsa_def ERRSIGN_def exec s_def)
  have 2: "ed25519rsa_verifyIt Null 0 Null 0 Null 0 None ed25519 (const_env (RHandle 1)) s =
      (Ok (- 1), snd (ed25519rsa_verifyIt Null 0 Null 0 Null 0 None ed25519 (const_env (RHandle 1)) s))"
    by (simp add: ed25519rsa_verifyIt_def verify_key_def verify_ed25519_def exec s_def)
  show ?thesis
    by (rule digest_contexts_destroyed [OF 1 2])
qed

subsection \<open>Key generation\<close>

text \<open>\<open>generateKeysRSA\<close> frees its key context twice whenever the generation
  itself fails, because the error branch frees it and goes on, and once when it succeeds.\<close>

theorem generateKeysRSA_frees_context:
  assumes "generateKeysRSA bits primes f e s = (Ok rt, t)"
  shows "\<exists>new. events t = events s @ new \<and>
    list_all (\<lambda>(c, i). ctx_freed new = (if i \<le> 0 then [c, c] else [c])) (keygens new)"
  using logsD [OF RSA_logs assms] by blast

text \<open>A library whose key generation fails and whose BIOs stay empty.\<close>

definition no_keygen :: env where
  "no_keygen = \<lparr>malloc_ok = (\<lambda>_ _. True), answer = (\<lambda>l c. case c of
     Pkey (EVP_PKEY_keygen h) \<Rightarrow> RNew 0 0
   | Pem (BIO_pending h) \<Rightarrow> RInt 0
   | _ \<Rightarrow> RNew 1 1)\<rparr>"

theorem generateKeysRSA_frees_context_witness:
  "\<exists>new. events (snd (generateKeysRSA 2048 3 0 no_keygen (state_of []))) = events (state_of []) @ new \<and>
    list_all (\<lambda>(c, i). ctx_freed new = (if i \<le> 0 then [c, c] else [c])) (keygens new)"
proof -
  have "\<exists>rt. fst (generateKeysRSA 2048 3 0 no_keygen (state_of [])) = Ok rt"
    by (simp add: generateKeysRSA_def bio_keys_def INITBIO_def BIOTOFILE_def BIOTORT_def FREEBIO_def
        INITKEYS_def keys_end_def no_keygen_def exec new_block_def)
  then obtain rt where run: "generateKeysRSA 2048 3 0 no_keygen (state_of []) =
      (Ok rt, snd (generateKeysRSA 2048 3 0 no_keygen (state_of [])))"
    by (metis prod.collapse)
  show ?thesis
    by (rule generateKeysRSA_frees_context [OF run])
qed

end
