(* ===== verification/Lua_Props.thy ===== *)
theory Lua_Props
  imports Lua_Keys Lua_Sign Keys_Props
begin

text \<open>
  The properties of the functions that scripts call for ciphers, keys and signatures
  (\<open>Lua_Encdec\<close>, \<open>Lua_Keys\<close>, \<open>Lua_Sign\<close>).
\<close>

subsection \<open>Ciphers\<close>

text \<open>Claim C6: a script that encrypts a text, decrypts the result and asks for the data gets
  the text back, for every cipher of the three whose output is longer than the text and
  leaves one byte of the 16 that \<open>AESenc\<close> adds, if the library decrypts what it encrypted.\<close>

theorem lua_AES_roundtrip:
  fixes s :: "'z le_state_scheme"
  assumes "fresh s" "alloc_total e"
    and "\<And>l. answer e l (Lua (lua_arg_string 1)) = ROut a1 key"
    and "\<And>l. answer e l (Lua (lua_arg_string 2)) = ROut a2 iv"
    and "\<And>l. answer e l (Lua (lua_arg_string 3)) = ROut a3 msg"
    and "\<And>l. answer e l (Lua (lua_arg_number 4)) = RInt ty"
    and "length key = 32" "length iv = 16" "msg \<noteq> []" "length msg + 16 < 2 ^ 31"
    and "NUL \<notin> set key" "NUL \<notin> set iv" "NUL \<notin> set msg" "enc_select ty = Some c"
    and "\<And>l. answer e l (Ssl EVP_CIPHER_CTX_new) = RHandle h" "h \<noteq> 0"
    and "\<And>l. answer e l (Ssl (EVP_EncryptInit_ex h (enc_cipher c) key iv)) = RInt 1"
    and "\<And>l. answer e l (Ssl (EVP_EncryptUpdate h msg (int (length msg)))) = ROut 1 us"
    and "\<And>l. answer e l (Ssl (EVP_EncryptFinal_ex h)) = ROut 1 fs"
    and "length msg < length us + length fs" "length us + length fs < length msg + 16"
    and "\<And>l. answer e l (Lua (lua_newuserdata (aes_nbytes (int (length us + length fs))))) = RHandle u"
    and "\<And>l. answer e l (Lua (lua_touserdata 3)) = RHandle u" "u \<noteq> 0"
    and "\<And>l. answer e l (Ssl (EVP_DecryptInit_ex h (enc_cipher c) key iv)) = RInt 1"
    and "\<And>l. answer e l (Ssl (EVP_DecryptUpdate h (us @ fs) (int (length (us @ fs))))) = ROut 1 us'"
    and "\<And>l. answer e l (Ssl (EVP_DecryptFinal_ex h)) = ROut 1 fs'" "us' @ fs' = msg"
    and "\<And>l. answer e l (Lua (lua_newuserdata (aes_nbytes (int (length msg))))) = RHandle v"
    and "\<And>l. answer e l (Lua (lua_touserdata 1)) = RHandle v" "v \<noteq> 0"
  shows "\<exists>t. bnd lua_AESenc (\<lambda>_. bnd lua_AESdec (\<lambda>_. lua_getAESData)) e s = (Ok 1, t) \<and>
    fst (hd (evs t)) = Lua (lua_push (LStr msg))"
proof -
  have ne: "us @ fs \<noteq> []" "us' @ fs' \<noteq> []" and le: "length us + length fs \<le> length msg + 16"
    using assms(9,20,21,28) by auto
  obtain t rest where 1: "lua_AESenc e s = (Ok 1, t)" "fresh t"
    and t: "blocks t (Suc (Suc (Suc (nxt s)))) = Some (map Byte (us @ fs) @ Byte NUL # rest)"
      "aes_data t u = Some \<lparr>data = Addr (Suc (Suc (Suc (nxt s)))) 0, sz = length (us @ fs)\<rparr>"
  proof -
    obtain t where t: "lua_AESenc e s = (Ok 1, t)" "fresh t"
      "\<exists>rest. blocks t (Suc (Suc (Suc (nxt s)))) = Some (map Byte (us @ fs) @ Byte NUL # rest)"
      "aes_data t = (aes_data s)(u \<mapsto> \<lparr>data = Addr (Suc (Suc (Suc (nxt s)))) 0, sz = length us + length fs\<rparr>)"
      using AESenc_run [OF assms(1-19) le ne(1) assms(22)] less_imp_neq [OF assms(21)] assms(21) by (simp only: if_False) blast
    then show thesis
      using that by auto
  qed
  have ct: "length (us @ fs) < 2 ^ 31"
    using assms(10,21) by simp
  have len': "length us' + length fs' = length msg"
    using assms(28) by auto
  have le': "length us' + length fs' \<le> length (us @ fs)"
    using len' assms(20) by simp
  have ud: "\<And>l. answer e l (Lua (lua_newuserdata (aes_nbytes (int (length us' + length fs'))))) = RHandle v"
    unfolding len' by (rule assms(29))
  obtain t' rest' where 2: "lua_AESdec e t = (Ok 1, t')"
    and t': "blocks t' (Suc (Suc (nxt t))) = Some (map Byte msg @ Byte NUL # rest')"
      "aes_data t' v = Some \<lparr>data = Addr (Suc (Suc (nxt t))) 0, sz = length msg\<rparr>"
  proof -
    have lt: "length us' + length fs' < length (us @ fs)"
      using len' assms(20) by simp
    obtain t' where run: "lua_AESdec e t =
        (if length us' + length fs' = length (us @ fs) then Err OutOfBounds else Ok 1, t') \<and>
      (length us' + length fs' < length (us @ fs) \<longrightarrow>
        (\<exists>rest. blocks t' (Suc (Suc (nxt t))) = Some (map Byte (us' @ fs') @ Byte NUL # rest)) \<and>
        aes_data t' = (aes_data t)(v \<mapsto> \<lparr>data = Addr (Suc (Suc (nxt t))) 0, sz = length us' + length fs'\<rparr>))"
      using AESdec_run [OF 1(2) assms(2-4,23,24,6-8) ne(1) ct assms(11,12) t(2,1) assms(14-16,25-27) le' ne(2) ud]
      by (rule exE)
    have "lua_AESdec e t = (Ok 1, t')"
      using conjunct1 [OF run] less_imp_neq [OF lt] by (simp only: if_False)
    moreover obtain rest where "blocks t' (Suc (Suc (nxt t))) = Some (map Byte msg @ Byte NUL # rest)"
      using mp [OF conjunct2 [OF run] lt] assms(28) by blast
    moreover have "aes_data t' v = Some \<lparr>data = Addr (Suc (Suc (nxt t))) 0, sz = length msg\<rparr>"
      using mp [OF conjunct2 [OF run] lt] len' by simp
    ultimately show thesis
      by (rule that)
  qed
  have "get_str (blocks t') (Addr (Suc (Suc (nxt t))) 0) = Inr msg"
    using t'(1) assms(13) by simp
  then show ?thesis
    using assms(9,31) by (simp add: run_bnd 1 2 lua_getAESData_def to_userdata_def exec assms(30) t'(2) lua_pushstring_def)
qed

text \<open>A cipher that appends one byte, for the instance.\<close>

definition toy_script :: env where
  "toy_script = \<lparr>malloc_ok = (\<lambda>_ _. True), answer = (\<lambda>l c. case c of
     Lua (lua_arg_string i) \<Rightarrow>
       (if i = 1 then ROut 0 (replicate 32 75) else if i = 2 then ROut 0 (replicate 16 86) else ROut 0 [97])
   | Lua (lua_arg_number i) \<Rightarrow> RInt 2
   | Lua (lua_newuserdata n) \<Rightarrow> RHandle (if n = aes_nbytes 2 then 7 else 8)
   | Lua (lua_touserdata i) \<Rightarrow> RHandle (if i = 3 then 7 else 8)
   | Ssl EVP_CIPHER_CTX_new \<Rightarrow> RHandle 1
   | Ssl (EVP_EncryptUpdate h bs n) \<Rightarrow> ROut 1 [9]
   | Ssl (EVP_EncryptFinal_ex h) \<Rightarrow> ROut 1 [8]
   | Ssl (EVP_DecryptUpdate h bs n) \<Rightarrow> ROut 1 [97]
   | Ssl (EVP_DecryptFinal_ex h) \<Rightarrow> ROut 1 []
   | _ \<Rightarrow> RInt 1)\<rparr>"

lemma toy_script_simps [simp]:
  "answer toy_script l (Lua (lua_arg_string 1)) = ROut 0 (replicate 32 75)"
  "answer toy_script l (Lua (lua_arg_string 2)) = ROut 0 (replicate 16 86)"
  "answer toy_script l (Lua (lua_arg_string 3)) = ROut 0 [97]"
  "answer toy_script l (Lua (lua_arg_number i)) = RInt 2"
  "answer toy_script l (Lua (lua_newuserdata n)) = RHandle (if n = aes_nbytes 2 then 7 else 8)"
  "answer toy_script l (Lua (lua_touserdata i)) = RHandle (if i = 3 then 7 else 8)"
  "answer toy_script l (Ssl EVP_CIPHER_CTX_new) = RHandle 1"
  "answer toy_script l (Ssl (EVP_EncryptInit_ex h ci ke v)) = RInt 1"
  "answer toy_script l (Ssl (EVP_DecryptInit_ex h ci ke v)) = RInt 1"
  "answer toy_script l (Ssl (EVP_EncryptUpdate h bs m)) = ROut 1 [9]"
  "answer toy_script l (Ssl (EVP_EncryptFinal_ex h)) = ROut 1 [8]"
  "answer toy_script l (Ssl (EVP_DecryptUpdate h bs m)) = ROut 1 [97]"
  "answer toy_script l (Ssl (EVP_DecryptFinal_ex h)) = ROut 1 []"
  "alloc_total toy_script"
  by (simp_all add: toy_script_def alloc_total_def)

lemma select_cbc [simp]: "enc_select 2 = Some t_cbc"
  by (simp add: enc_select_def)

definition le_state_of :: "cell list list \<Rightarrow> (handle \<Rightarrow> lua_AESData option) \<Rightarrow>
    (handle \<Rightarrow> x25519_keysPair option) \<Rightarrow> le_state" where
  "le_state_of cs a p = x_state.extend (x_state_of cs) \<lparr>aes_data = a, pairs = p\<rparr>"

lemma le_state_of_simps [simp]:
  "blocks (le_state_of cs a p) b = (if b < length cs then Some (cs ! b) else None)"
  "nxt (le_state_of cs a p) = length cs" "evs (le_state_of cs a p) = []" "fresh (le_state_of cs a p)"
  "len_key (le_state_of cs a p) = 32" "aes_data (le_state_of cs a p) = a" "pairs (le_state_of cs a p) = p"
  by (simp_all add: le_state_of_def x_state_of_def state_of_def x_state.defs cstate.defs fresh_def)

lemma aes_nbytes_small: "aes_nbytes 1 = 24" "aes_nbytes 2 = 32"
  by (simp_all add: aes_nbytes_def)

theorem lua_AES_roundtrip_witness:
  "\<exists>t. bnd lua_AESenc (\<lambda>_. bnd lua_AESdec (\<lambda>_. lua_getAESData)) toy_script (le_state_of [] Map.empty Map.empty) = (Ok 1, t) \<and>
    fst (hd (evs t)) = Lua (lua_push (LStr [97]))"
  by (rule lua_AES_roundtrip [where key = "replicate 32 75" and iv = "replicate 16 86" and us = "[9]" and fs = "[8]" and
        us' = "[97]" and fs' = "[]" and h = 1 and u = 7 and v = 8 and ty = 2 and c = t_cbc])
    (simp_all add: aes_nbytes_small)

text \<open>\<open>AESenc\<close> allocates the text length plus 16 and then stores a zero behind the
  ciphertext: when the cipher fills the buffer, as CBC and ECB do for every text whose
  length is a multiple of 16, that store is out of bounds; when it leaves a byte, the
  call succeeds and the userdata holds the ciphertext and its length.\<close>

theorem lua_AESenc_terminator:
  fixes s :: "'z le_state_scheme"
  assumes "fresh s" "alloc_total e"
    and "\<And>l. answer e l (Lua (lua_arg_string 1)) = ROut a1 key"
    and "\<And>l. answer e l (Lua (lua_arg_string 2)) = ROut a2 iv"
    and "\<And>l. answer e l (Lua (lua_arg_string 3)) = ROut a3 msg"
    and "\<And>l. answer e l (Lua (lua_arg_number 4)) = RInt ty"
    and "length key = 32" "length iv = 16" "msg \<noteq> []" "length msg + 16 < 2 ^ 31"
    and "NUL \<notin> set key" "NUL \<notin> set iv" "NUL \<notin> set msg" "enc_select ty = Some c"
    and "\<And>l. answer e l (Ssl EVP_CIPHER_CTX_new) = RHandle h" "h \<noteq> 0"
    and "\<And>l. answer e l (Ssl (EVP_EncryptInit_ex h (enc_cipher c) key iv)) = RInt 1"
    and "\<And>l. answer e l (Ssl (EVP_EncryptUpdate h msg (int (length msg)))) = ROut 1 us"
    and "\<And>l. answer e l (Ssl (EVP_EncryptFinal_ex h)) = ROut 1 fs"
    and "length us + length fs \<le> length msg + 16" "us @ fs \<noteq> []"
    and "\<And>l. answer e l (Lua (lua_newuserdata (aes_nbytes (int (length us + length fs))))) = RHandle u"
  shows "\<exists>t. lua_AESenc e s =
    (if length us + length fs = length msg + 16 then Err OutOfBounds else Ok 1, t) \<and>
    (length us + length fs < length msg + 16 \<longrightarrow>
      aes_data t u = Some \<lparr>data = Addr (Suc (Suc (Suc (nxt s)))) 0, sz = length us + length fs\<rparr> \<and>
      get_bytes (blocks t) (Addr (Suc (Suc (Suc (nxt s)))) 0) (length us + length fs) = Inr (us @ fs))"
proof -
  obtain t where t: "lua_AESenc e s =
    (if length us + length fs = length msg + 16 then Err OutOfBounds else Ok 1, t)"
    and st: "length us + length fs < length msg + 16 \<longrightarrow>
      (\<exists>rest. blocks t (Suc (Suc (Suc (nxt s)))) = Some (map Byte (us @ fs) @ Byte NUL # rest)) \<and>
      aes_data t = (aes_data s)(u \<mapsto> \<lparr>data = Addr (Suc (Suc (Suc (nxt s)))) 0, sz = length us + length fs\<rparr>)"
    using AESenc_run [OF assms] by blast
  have g: "get_bytes m (Addr b 0) (length us + length fs) = Inr (us @ fs)"
    if "m b = Some (map Byte (us @ fs) @ Byte NUL # rest)" for m b rest
  proof -
    have "take (length us + length fs) (map Byte (us @ fs) @ Byte NUL # rest) = map Byte (us @ fs)"
      by simp
    then show ?thesis
      using that by (simp only: get_bytes_def get_cells_def cells_of_def) (simp flip: map_append)
  qed
  show ?thesis
    using st g by (intro exI [of _ t] conjI t) fastforce
qed

theorem lua_AESenc_terminator_witness:
  "\<exists>t. lua_AESenc toy_script (le_state_of [] Map.empty Map.empty) =
    (if length [9 :: byte] + length [8 :: byte] = length [97 :: byte] + 16 then Err OutOfBounds else Ok 1, t) \<and>
    (length [9 :: byte] + length [8 :: byte] < length [97 :: byte] + 16 \<longrightarrow>
      aes_data t 7 = Some \<lparr>data = Addr (Suc (Suc (Suc (nxt (le_state_of [] Map.empty Map.empty))))) 0, sz = length [9 :: byte] + length [8 :: byte]\<rparr> \<and>
      get_bytes (blocks t) (Addr (Suc (Suc (Suc (nxt (le_state_of [] Map.empty Map.empty))))) 0) (length [9 :: byte] + length [8 :: byte]) = Inr ([9] @ [8]))"
  by (rule lua_AESenc_terminator [where key = "replicate 32 75" and iv = "replicate 16 86" and h = 1 and ty = 2 and c = t_cbc])
    (simp_all add: aes_nbytes_small)

text \<open>\<open>AESdec\<close> allocates as many bytes as the ciphertext has and stores a zero behind
  the plaintext: a cipher that does not pad, as ChaCha20, decrypts to the same length, and
  then the store is out of bounds, whatever the message is.\<close>

theorem lua_AESdec_needs_padding:
  fixes s :: "'z le_state_scheme"
  assumes "fresh s" "alloc_total e"
    and "\<And>l. answer e l (Lua (lua_arg_string 1)) = ROut a1 key"
    and "\<And>l. answer e l (Lua (lua_arg_string 2)) = ROut a2 iv"
    and "\<And>l. answer e l (Lua (lua_touserdata 3)) = RHandle w" "w \<noteq> 0"
    and "\<And>l. answer e l (Lua (lua_arg_number 4)) = RInt ty"
    and "length key = 32" "length iv = 16" "ct \<noteq> []" "length ct < 2 ^ 31"
    and "NUL \<notin> set key" "NUL \<notin> set iv"
    and "aes_data s w = Some \<lparr>data = Addr b 0, sz = length ct\<rparr>" "blocks s b = Some (map Byte ct @ extra)"
    and "enc_select ty = Some c"
    and "\<And>l. answer e l (Ssl EVP_CIPHER_CTX_new) = RHandle h" "h \<noteq> 0"
    and "\<And>l. answer e l (Ssl (EVP_DecryptInit_ex h (enc_cipher c) key iv)) = RInt 1"
    and "\<And>l. answer e l (Ssl (EVP_DecryptUpdate h ct (int (length ct)))) = ROut 1 us"
    and "\<And>l. answer e l (Ssl (EVP_DecryptFinal_ex h)) = ROut 1 fs"
    and "length us + length fs \<le> length ct" "us @ fs \<noteq> []"
    and "\<And>l. answer e l (Lua (lua_newuserdata (aes_nbytes (int (length us + length fs))))) = RHandle u"
  shows "fst (lua_AESdec e s) = (if length us + length fs = length ct then Err OutOfBounds else Ok 1)"
  using AESdec_run [OF assms] by (elim exE conjE) (simp only: fst_conv)

theorem lua_AESdec_needs_padding_witness:
  "fst (lua_AESdec toy_script
     (le_state_of [[Byte 9]] [7 \<mapsto> \<lparr>data = Addr 0 0, sz = length [9 :: byte]\<rparr>] Map.empty)) =
    (if length [97 :: byte] + length ([] :: byte list) = length [9 :: byte] then Err OutOfBounds else Ok 1)"
  by (rule lua_AESdec_needs_padding [where key = "replicate 32 75" and iv = "replicate 16 86" and h = 1 and ty = 2 and c = t_cbc and ct = "[9]" and w = 7 and b = 0 and u = 8])
    (simp_all add: aes_nbytes_small)


subsection \<open>Data in userdata\<close>

text \<open>\<open>createAESData\<close> followed by \<open>getAESData\<close> gives a script its string back
  exactly when the size it passes is larger than the string: with the string's own length
  the copy has no terminator and reading it leaves the block.\<close>

theorem lua_createAESData_roundtrip:
  fixes s :: "'z le_state_scheme"
  assumes "fresh s" "alloc_total e"
    and "\<And>l. answer e l (Lua (lua_arg_string 1)) = ROut a bs"
    and "\<And>l. answer e l (Lua (lua_arg_number 2)) = RInt (int n)"
    and "\<And>l. answer e l (Lua (lua_newuserdata (aes_nbytes (int n)))) = RHandle h" "h \<noteq> 0"
    and "\<And>l. answer e l (Lua (lua_touserdata 1)) = RHandle h"
    and "NUL \<notin> set bs" "0 < n" "n < 2 ^ 59"
  shows "\<exists>t. bnd lua_createAESData (\<lambda>_. lua_getAESData) e s =
      (if length bs < n then Ok 1 else Err OutOfBounds, t) \<and>
    (length bs < n \<longrightarrow> fst (hd (evs t)) = Lua (lua_push (LStr bs)))"
  using assms by (rule createAESData_get)

theorem lua_createAESData_roundtrip_witness:
  "\<exists>t. bnd lua_createAESData (\<lambda>_. lua_getAESData)
      \<lparr>malloc_ok = (\<lambda>_ _. True), answer = (\<lambda>l c. case c of
         Lua (lua_arg_string i) \<Rightarrow> ROut 0 [97, 98] | Lua (lua_arg_number i) \<Rightarrow> RInt 3 | _ \<Rightarrow> RHandle 5)\<rparr>
      (le_state_of [] Map.empty Map.empty) =
      (if length [97, 98 :: byte] < 3 then Ok 1 else Err OutOfBounds, t) \<and>
    (length [97, 98 :: byte] < 3 \<longrightarrow> fst (hd (evs t)) = Lua (lua_push (LStr [97, 98])))"
  by (rule lua_createAESData_roundtrip [where h = 5]) (simp_all add: alloc_total_def)

text \<open>A userdata keeps its pointer after \<open>freeAESData\<close>: a second call frees the
  same block again, \<open>getAESData\<close> reads freed memory, and only \<open>getAESData_len\<close> still
  answers.\<close>

theorem lua_freeAESData_leaves_dangling:
  fixes s :: "'z le_state_scheme"
  assumes "\<And>l. answer e l (Lua (lua_touserdata 1)) = RHandle h" "h \<noteq> 0"
    and "aes_data s h = Some \<lparr>data = Addr b 0, sz = n\<rparr>" "blocks s b = Some cs" "n \<noteq> 0"
  shows "fst (bnd lua_freeAESData (\<lambda>_. lua_freeAESData) e s) = Err BadFree \<and>
    fst (bnd lua_freeAESData (\<lambda>_. lua_getAESData) e s) = Err UseAfterFree \<and>
    fst (bnd lua_freeAESData (\<lambda>_. lua_getAESData_len) e s) = Ok 1"
proof -
  obtain l where f: "lua_freeAESData e s = (Ok 1, drop_block b (s\<lparr>evs := l\<rparr>))"
    using freeAESData_run [OF assms(1-4)] by blast
  let ?t = "drop_block b (s\<lparr>evs := l\<rparr>)"
  have t: "aes_data ?t h = Some \<lparr>data = Addr b 0, sz = n\<rparr>" "blocks ?t b = None"
    using assms(3) by (simp_all add: drop_block_def)
  note freed = freed_AESData [OF assms(1,2) t assms(5)]
  show ?thesis
    using freed by (simp_all add: run_bnd f)
qed

theorem lua_freeAESData_leaves_dangling_witness:
  fixes s defines "s \<equiv> le_state_of [[Byte 9]] [7 \<mapsto> \<lparr>data = Addr 0 0, sz = 1\<rparr>] Map.empty"
  shows "fst (bnd lua_freeAESData (\<lambda>_. lua_freeAESData) (const_env (RHandle 7)) s) = Err BadFree \<and>
    fst (bnd lua_freeAESData (\<lambda>_. lua_getAESData) (const_env (RHandle 7)) s) = Err UseAfterFree \<and>
    fst (bnd lua_freeAESData (\<lambda>_. lua_getAESData_len) (const_env (RHandle 7)) s) = Ok 1"
  by (rule lua_freeAESData_leaves_dangling [where h = 7 and b = 0 and n = 1 and cs = "[Byte 9]"])
    (simp_all add: s_def)

subsection \<open>Random bytes, digests, keys\<close>

text \<open>\<open>genRandBytes\<close> asks \<open>generate_rand_bytes\<close> for one byte more than the script
  wants, which makes up for the byte that is never written: the script gets exactly the
  number of bytes it asked for, none of them zero, and no memory is left behind.\<close>

theorem lua_genRandBytes_all_written:
  fixes s :: "'z le_state_scheme"
  assumes "fresh s" "\<And>l. answer e l (Lua (lua_arg_number 1)) = RInt len" "0 < len" "len < 2 ^ 31 - 1"
  shows "\<exists>bs t. lua_genRandBytes e s = (Ok 1, t) \<and> blocks t = blocks s \<and>
    length bs = nat len \<and> NUL \<notin> set bs \<and> fst (hd (evs t)) = Lua (lua_push (LStr bs))"
  using assms by (rule genRandBytes_run)

theorem lua_genRandBytes_all_written_witness:
  "\<exists>bs t. lua_genRandBytes (const_env (RInt 2)) (le_state_of [] Map.empty Map.empty) = (Ok 1, t) \<and>
    blocks t = blocks (le_state_of [] Map.empty Map.empty) \<and>
    length bs = nat 2 \<and> NUL \<notin> set bs \<and> fst (hd (evs t)) = Lua (lua_push (LStr bs))"
  by (rule lua_genRandBytes_all_written) simp_all

text \<open>The digest functions of scripts declare arrays of 65 and 129 characters for
  functions that need one more, so every call writes out of bounds.\<close>

theorem lua_digests_overflow:
  fixes s :: "'z le_state_scheme"
  assumes "fresh s" "\<And>l. answer e l (Lua (lua_arg_string 1)) = ROut a bs" "NUL \<notin> set bs"
    and "\<And>l. answer e l (Ssl (SHA_Final SHA256)) = ROut k d" "length d = 32"
    and "\<And>l. answer e l (Ssl (SHA_Final SHA512)) = ROut k' d'" "length d' = 64"
  shows "fst (lua_toSHA256 e s) = Err OutOfBounds \<and> fst (lua_toSHA512 e s) = Err OutOfBounds"
  using toSHA_overflow [OF assms] by simp

theorem lua_digests_overflow_witness:
  fixes e s defines "e \<equiv> \<lparr>malloc_ok = (\<lambda>_ _. True), answer = (\<lambda>l c. case c of
         Ssl (SHA_Final h) \<Rightarrow> ROut 1 (replicate (SHA_DIGEST_LENGTH h) 5) | _ \<Rightarrow> ROut 0 [97])\<rparr>"
    and "s \<equiv> le_state_of [] Map.empty Map.empty"
  shows "fst (lua_toSHA256 e s) = Err OutOfBounds \<and> fst (lua_toSHA512 e s) = Err OutOfBounds"
  by (rule lua_digests_overflow [where bs = "[97]" and d = "replicate 32 5" and d' = "replicate 64 5"])
    (simp_all add: e_def s_def)

text \<open>\<open>getSharedKey\<close> of a good peer key pushes the 32 bytes of the derived secret
  and then their number, and frees the block that held them; a peer key whose last bit is
  set is rejected by \<open>x25519_getSharedKey\<close>, and then the script function reads the length
  that was never written.\<close>

theorem lua_getSharedKey_pushes_secret:
  fixes s :: "'z le_state_scheme"
  assumes "x25519_library e secret key_of" "alloc_total e" "len_key s = 32" "fresh s"
    and "answer e (evs s) (Lua (lua_touserdata 1)) = RHandle h" "h \<noteq> 0" "pairs s h = Some pair"
    and "pKeyCtx pair = Some c"
    and "\<And>l. answer e l (Lua (lua_arg_string 2)) = ROut a bs" "length bs = 32"
  shows "if bit (bs ! 31) 7 then fst (lua_getSharedKey e s) = Err UninitRead
    else \<exists>t r1 r2 l. lua_getSharedKey e s = (Ok 2, t) \<and>
      evs t = (Lua (lua_push (LNum 32)), r2) # (Lua (lua_push (LStr (secret c bs))), r1) # l \<and>
      blocks t = (blocks s)(nxt s \<mapsto> cstr bs)"
  using getSharedKey_rejected [OF assms(5-7,9)] getSharedKey_pushes [OF assms(1-9)] assms(10) by simp

theorem lua_getSharedKey_pushes_secret_witness:
  fixes e s defines "e \<equiv> toy_library\<lparr>answer := (\<lambda>l c. case c of
      Lua (lua_touserdata i) \<Rightarrow> RHandle 1
    | Lua (lua_arg_string i) \<Rightarrow> ROut 0 (replicate 32 3)
    | _ \<Rightarrow> answer toy_library l c)\<rparr>"
    and "s \<equiv> le_state_of [] Map.empty [1 \<mapsto> toy_pair 2]"
  shows "if bit (replicate 32 (3 :: byte) ! 31) 7 then fst (lua_getSharedKey e s) = Err UninitRead
    else \<exists>t r1 r2 l. lua_getSharedKey e s = (Ok 2, t) \<and>
      evs t = (Lua (lua_push (LNum 32)), r2) # (Lua (lua_push (LStr (toy_secret 2 (replicate 32 3)))), r1) # l \<and>
      blocks t = (blocks s)(nxt s \<mapsto> cstr (replicate 32 3))"
proof (rule lua_getSharedKey_pushes_secret [where h = 1 and pair = "toy_pair 2"])
  have "answer e l (Pkey c) = answer toy_library l (Pkey c)" for l c
    by (simp add: e_def)
  then show "x25519_library e toy_secret (\<lambda>bs. unat (hd bs))"
    using toy_library_ok by (simp add: x25519_library_def)
qed (simp_all add: e_def s_def toy_library_def alloc_total_def toy_pair_def)

text \<open>\<open>signIt\<close> signs into an array of 65 bytes, enough for Ed25519: with an RSA key
  every signature of more than 65 bytes, that is every key of more than 520 bits, is
  written past the array.\<close>

theorem lua_signIt_rsa_overflows:
  fixes s :: "'z ls_state_scheme"
  assumes "fresh s" "answer e (evs s) (Lua (lua_touserdata 1)) = RHandle h" "h \<noteq> 0"
    and "a_pairs s h = Some kp" "a_pkey kp = Some key" "a_type kp = aRSA"
    and "\<And>l. answer e l (Lua (lua_arg_string 2)) = ROut a bs" "NUL \<notin> set bs"
    and "\<And>l. answer e l (Md EVP_MD_CTX_create) = RHandle md" "md \<noteq> 0"
    and "\<And>l. answer e l (Md (EVP_DigestSignInit md (Some SHA512) key)) = RInt 1"
    and "\<And>l. answer e l (Md (EVP_DigestSignUpdate md bs)) = RInt 1"
    and "\<And>l. answer e l (Md (EVP_DigestSignFinal_size md)) = RLen 1 n []"
    and "\<And>l. answer e l (Md (EVP_DigestSignFinal md n)) = RLen 1 n sig" "65 < length sig"
  shows "fst (lua_signIt e s) = Err OutOfBounds"
  using assms by (rule signIt_rsa_overflow)

definition ls_state_of :: "(handle \<Rightarrow> aKeyPair option) \<Rightarrow> ls_state" where
  "ls_state_of m = cstate.extend (state_of []) \<lparr>a_pairs = m\<rparr>"

lemma ls_state_of_simps [simp]: "fresh (ls_state_of m)" "a_pairs (ls_state_of m) = m"
  by (simp_all add: ls_state_of_def state_of_def cstate.defs fresh_def)

theorem lua_signIt_rsa_overflows_witness:
  "fst (lua_signIt \<lparr>malloc_ok = (\<lambda>_ _. True), answer = (\<lambda>l c. case c of
       Lua (lua_arg_string i) \<Rightarrow> ROut 0 [97]
     | Md (EVP_DigestSignInit m a k) \<Rightarrow> RInt 1
     | Md (EVP_DigestSignUpdate m a) \<Rightarrow> RInt 1
     | Md (EVP_DigestSignFinal_size m) \<Rightarrow> RLen 1 66 []
     | Md (EVP_DigestSignFinal m k) \<Rightarrow> RLen 1 66 (replicate 66 1)
     | _ \<Rightarrow> RHandle 1)\<rparr>
    (ls_state_of [1 \<mapsto> (aKeyPair_new aRSA)\<lparr>a_pkey := Some 3\<rparr>])) = Err OutOfBounds"
  by (rule lua_signIt_rsa_overflows [where h = 1 and md = 1 and bs = "[97]" and sig = "replicate 66 1" and n = 66 and key = 3 and kp = "(aKeyPair_new aRSA)\<lparr>a_pkey := Some 3\<rparr>"])
    (simp_all add: aKeyPair_new_def)

end
