(* ===== verification/Lua_Net.thy ===== *)
theory Lua_Net
  imports Net_Pack Net_Unpack Net_Join Base64 Lua_Api
begin

text \<open>
  \<open>libbacteria/lua/libnet.c\<close>: sockets and message helpers for scripts. A
  \<open>struct sockaddr_in\<close> in userdata is an entry of the map \<open>addrs\<close>. A variable that the
  source reads on a path on which it was not assigned is an option, \<open>None\<close> if unassigned.
\<close>

record sockaddr_in =
  sin_family :: nat
  sin_port :: nat
  s_addr :: nat

record ln_state = cstate +
  addrs :: "handle \<Rightarrow> sockaddr_in option"

type_synonym ('z, 'a) lnprog = "('z ln_state_ext, 'a) prog"

definition htons :: "nat \<Rightarrow> nat" where
  "htons n = (n mod 256) * 256 + (n div 256) mod 256"

subsection \<open>Sockets\<close>

definition lua_set_timeout :: "('z, int) lnprog" where
  "lua_set_timeout =
     bnd (lua_tonumber 1) (\<lambda>sock.
     bnd (lua_tonumber 2) (\<lambda>tSec.
     bnd (lua_tonumber 3) (\<lambda>tUsec.
     bnd (set_timeout sock (c_uint tSec) (c_uint tUsec)) (\<lambda>_.
     bnd (push LNil) (\<lambda>_.
     ret 1)))))"

text \<open>The optional address argument: \<open>dadr\<close> is assigned if there are three arguments.\<close>

definition opt_dadr :: "nat \<Rightarrow> ('z, handle option) lnprog" where
  "opt_dadr cTop = (if 3 \<le> cTop then bnd (to_userdata 3) (\<lambda>h. ret (Some h)) else ret None)"

definition lua_send :: "('z, int) lnprog" where
  "lua_send =
     bnd gettop (\<lambda>cTop.
     bnd (lua_tonumber 1) (\<lambda>sock.
     bnd (lua_tostring 2) (\<lambda>msg.
     if sock \<le> 0 then luaL_error ''Socket is bad'' else
     bnd (opt_dadr cTop) (\<lambda>dadr.
     bnd (if 4 \<le> cTop then lua_tonumber 4 else ret 16) (\<lambda>addrlen.
     bnd (strlen msg) (\<lambda>smsg.
     bnd (field dadr) (\<lambda>d.
     bnd (read_bytes msg smsg) (\<lambda>bs.
     bnd (ext (Sys (if d = 0 then Send sock bs else Sendto sock bs d (c_uint addrlen)))) (\<lambda>r.
     bnd (push (if r_int r \<le> 0 then LNil else LBool True)) (\<lambda>_.
     ret 1))))))))))"

text \<open>
  The result of \<open>recv\<close> is stored in a \<open>size_t\<close>, so the test \<open>r <= 0\<close> holds for 0 only.
  \<open>recvfrom\<close> writes the length of the address.
\<close>

definition lua_recv :: "('z, int) lnprog" where
  "lua_recv =
     bnd gettop (\<lambda>cTop.
     bnd (lua_tonumber 1) (\<lambda>sock.
     bnd (lua_tonumber 2) (\<lambda>n.
     let recv_count = size_t n in
     if sock \<le> 0 then luaL_error ''Socket is bad'' else
     bnd (opt_dadr cTop) (\<lambda>dadr.
     local_arr (size_t (int recv_count + 1)) (\<lambda>buf.
     bnd (bzero buf (size_t (int recv_count + 1))) (\<lambda>_.
     bnd (field dadr) (\<lambda>d.
     bnd (ext (Sys (if d = 0 then Recv sock recv_count else Recvfrom sock recv_count d))) (\<lambda>rr.
     bnd (write_bytes buf (r_bytes rr)) (\<lambda>_.
     let r = size_t (r_int rr); addrlen = (if d = 0 then None else Some (r_len rr)) in
     if r \<le> 0 then bnd (push LNil) (\<lambda>_. ret 1) else
     bnd (store_byte (padd buf r) NUL) (\<lambda>_.
     bnd (field addrlen) (\<lambda>al.
     bnd (push (LNum (int al))) (\<lambda>_.
     bnd (push (LNum (int r))) (\<lambda>_.
     bnd (lua_pushstring buf) (\<lambda>_.
     ret 3))))))))))))))"

text \<open>
  The size of the userdata for an address is computed from the address, with the family
  as an \<open>int\<close> before it is stored as an \<open>unsigned short\<close>: \<open>s_addr - 1\<close> is an \<open>unsigned int\<close>, the other two differences are an \<open>int\<close>.
\<close>

definition addr_nbytes :: "int \<Rightarrow> nat \<Rightarrow> nat \<Rightarrow> nat" where
  "addr_nbytes family port ip =
     size_t (16 + 4 * (family - 1) + 2 * (int port - 1) + 4 * int (c_uint (int ip - 1)))"

definition new_addr :: "int \<Rightarrow> sockaddr_in \<Rightarrow> ('z, unit) lnprog" where
  "new_addr family a =
     bnd (new_struct (addr_nbytes family (sin_port a) (s_addr a)) 8) (\<lambda>h.
     modify (addrs_update (\<lambda>m. m(h \<mapsto> a))))"

abbreviation (input) AF_INET :: nat where "AF_INET \<equiv> 2"

definition lua_getsockaddr :: "('z, int) lnprog" where
  "lua_getsockaddr =
     bnd (lua_tonumber 2) (\<lambda>p.
     bnd (lua_tostring 1) (\<lambda>host.
     bnd (read_str host) (\<lambda>hs.
     bnd (ext (Sys (Inet_addr hs))) (\<lambda>ia.
     bnd gettop (\<lambda>top.
     bnd (if top = 3 then lua_tonumber 3 else ret (int AF_INET)) (\<lambda>fam.
     bnd (new_addr (c_int fam) \<lparr>sin_family = nat (fam mod 2 ^ 16), sin_port = htons (nat (p mod 2 ^ 16)),
        s_addr = c_uint (r_int ia)\<rparr>) (\<lambda>_.
     ret 1)))))))"

text \<open>A \<open>struct sockaddr_in\<close> as \<open>accept\<close> fills it in, on a little-endian machine.\<close>

definition byte_at :: "byte list \<Rightarrow> nat \<Rightarrow> nat" where
  "byte_at bs i = (if i < length bs then unat (bs ! i) else 0)"

definition sockaddr_of :: "byte list \<Rightarrow> sockaddr_in" where
  "sockaddr_of bs = \<lparr>sin_family = byte_at bs 0 + 256 * byte_at bs 1,
     sin_port = byte_at bs 2 + 256 * byte_at bs 3,
     s_addr = byte_at bs 4 + 256 * byte_at bs 5 + 65536 * byte_at bs 6 + 16777216 * byte_at bs 7\<rparr>"

definition lua_accept :: "('z, int) lnprog" where
  "lua_accept =
     bnd (lua_tonumber 1) (\<lambda>sock.
     if sock \<le> 0 then luaL_error ''Bad sock descriptor for accept'' else
     bnd (ext (Sys (Accept sock))) (\<lambda>r.
     if r_int r \<le> 0 then bnd (push LNil) (\<lambda>_. ret 1) else
     let a = sockaddr_of (r_bytes r) in
     bnd (new_addr (int (sin_family a)) a) (\<lambda>_.
     bnd (push (LNum (r_int r))) (\<lambda>_.
     ret 2))))"

text \<open>The macro \<open>LUABINDADRERR\<close>: a message with the address, then \<open>luaL_error\<close>.\<close>

definition LUABINDADRERR :: "handle \<Rightarrow> string \<Rightarrow> ('z, 'a) lnprog" where
  "LUABINDADRERR adr TCPUDP =
     bnd (deref addrs adr) (\<lambda>a.
     bnd (ext (Sys (Inet_ntoa (s_addr a)))) (\<lambda>_.
     luaL_error TCPUDP))"

definition bind_one :: "string \<Rightarrow> string \<Rightarrow> handle \<Rightarrow> nat \<Rightarrow> ('z, int) lnprog" where
  "bind_one kind msg adr socklen =
     bnd (ext (Sys (Socket kind))) (\<lambda>s.
     bnd (ext (Sys (Bind (r_int s) adr socklen))) (\<lambda>rsock.
     if r_int rsock \<le> 0 then LUABINDADRERR adr msg else ret (r_int s)))"

definition lua_bind :: "('z, int) lnprog" where
  "lua_bind =
     bnd gettop (\<lambda>cArgs.
     bnd (to_userdata 1) (\<lambda>adr.
     if adr = 0 then luaL_error ''bad bind addr'' else
     bnd (if 2 \<le> cArgs then lua_test (lua_toboolean 2) else ret True) (\<lambda>useTCP.
     bnd (if 3 \<le> cArgs then lua_test (lua_toboolean 3) else ret False) (\<lambda>useUDP.
     bnd (if 4 \<le> cArgs then lua_tonumber 4 else ret 100) (\<lambda>listen_count.
     bnd (if 5 \<le> cArgs then lua_tonumber 5 else ret 16) (\<lambda>socklen.
     bnd (if useTCP then
            bnd (bind_one ''SOCK_STREAM'' ''Cant bind (TCP)'' adr (c_uint socklen)) (\<lambda>s.
            bnd (ext (Sys (Listen s listen_count))) (\<lambda>_. ret s))
          else ret 0) (\<lambda>sock_tcp.
     bnd (if useUDP then bind_one ''SOCK_DGRAM'' ''Cant bind (UDP)'' adr (c_uint socklen)
          else ret 0) (\<lambda>sock_udp.
     bnd (if useUDP then push (LNum sock_udp) else ret ()) (\<lambda>_.
     bnd (if useTCP then push (LNum sock_tcp) else ret ()) (\<lambda>_.
     ret (if useUDP \<and> useTCP then 2 else 1)))))))))))"

definition lua_close_sock :: "('z, int) lnprog" where
  "lua_close_sock =
     bnd (lua_tonumber 1) (\<lambda>sock.
     if sock \<le> 0 then luaL_error ''Bad socket for close'' else
     bnd (ext (Sys (Close sock))) (\<lambda>_.
     bnd (push (LBool True)) (\<lambda>_.
     ret 1)))"

subsection \<open>Addresses and Base64\<close>

text \<open>The loop joins the arguments from the first to the last: \<open>c\<close> is the next one.\<close>

primrec lua_join_loop :: "nat \<Rightarrow> int \<Rightarrow> ptr \<Rightarrow> ('z, ptr) prog" where
  "lua_join_loop 0 c pAddr = ret pAddr"
| "lua_join_loop (Suc i) c pAddr =
     bnd (lua_tostring c) (\<lambda>argument.
     if pAddr = Null then
       bnd (join_addresses argument [Null]) (\<lambda>addr.
       lua_join_loop i (c + 1) addr)
     else
       bnd (join_addresses pAddr [argument, Null]) (\<lambda>addr.
       bnd (free pAddr) (\<lambda>_.
       lua_join_loop i (c + 1) addr)))"

definition lua_join_addresses :: "('z, int) prog" where
  "lua_join_addresses =
     bnd gettop (\<lambda>cAddresses.
     bnd (lua_join_loop cAddresses 1 Null) (\<lambda>pAddr.
     bnd (lua_pushstring pAddr) (\<lambda>_.
     bnd (free pAddr) (\<lambda>_.
     ret 1))))"

definition lua_join_data :: "('z, int) prog" where
  "lua_join_data =
     bnd (lua_tostring 1) (\<lambda>a.
     bnd (lua_tostring 2) (\<lambda>b.
     bnd gettop (\<lambda>top.
     bnd (if 2 < top then bnd (lua_tostring 3) load_byte else ret SPLITADDRCHAR) (\<lambda>splitter.
     bnd (join_data a b splitter) (\<lambda>r.
     bnd (lua_pushstring r) (\<lambda>_.
     bnd (free r) (\<lambda>_.
     ret 1)))))))"

definition lua_toBase64 :: "('z, int) prog" where
  "lua_toBase64 =
     bnd (lua_tostring 1) (\<lambda>d.
     bnd (strlen d) (\<lambda>n.
     bnd (Base64Encode d n) (\<lambda>base64str.
     bnd (lua_pushstring base64str) (\<lambda>_.
     bnd (free base64str) (\<lambda>_.
     ret 1)))))"

definition lua_decBase64 :: "('z, int) prog" where
  "lua_decBase64 =
     bnd (lua_tostring 1) (\<lambda>d.
     bnd (Base64Decode d) (\<lambda>(out, n).
     bnd (lua_pushlstring out n) (\<lambda>_.
     bnd (free out) (\<lambda>_.
     ret 1))))"

subsection \<open>Packed data\<close>

text \<open>
  The pairs are pushed from the array, two pointers at a time. \<open>rt_size\<close> is not assigned
  before \<open>unpackData\<close> reads it: its value is an indeterminate one.
\<close>

primrec push_pairs :: "nat \<Rightarrow> ptr \<Rightarrow> nat \<Rightarrow> ('z, unit) prog" where
  "push_pairs 0 rv i = ret ()"
| "push_pairs (Suc k) rv i =
     bnd (load_ptr (padd rv i)) (\<lambda>a.
     bnd (strlen a) (\<lambda>n.
     bnd (lua_pushlstring a n) (\<lambda>_.
     bnd (load_ptr (padd rv (i + 1))) (\<lambda>b.
     bnd (strlen b) (\<lambda>m.
     bnd (lua_pushlstring b m) (\<lambda>_.
     bnd (lua_do (lua_settable (- 3))) (\<lambda>_.
     push_pairs k rv (i + 2))))))))"

definition lua_unpackData :: "('z, int) prog" where
  "lua_unpackData =
     bnd (lua_tostring 1) (\<lambda>packedData.
     bnd gettop (\<lambda>cArgs.
     bnd (if 2 \<le> cArgs then bnd (lua_tostring 2) load_byte else ret FSPLITTERCHAR) (\<lambda>fsplitter.
     bnd (if 3 \<le> cArgs then bnd (lua_tostring 3) load_byte else ret SPLITADDRCHAR) (\<lambda>ssplitter.
     bnd (ext (Indeterminate ''rt_size'')) (\<lambda>garbage.
     bnd (unpackData packedData (size_t (r_int garbage)) fsplitter ssplitter) (\<lambda>(rv, rt_size).
     if rv = Null then luaL_error ''bad packed data'' else
     bnd (lua_do lua_newtable) (\<lambda>_.
     bnd (push_pairs ((rt_size + 1) div 2) rv 0) (\<lambda>_.
     bnd (free_splitted rv rt_size) (\<lambda>_.
     ret 1)))))))))"

text \<open>
  The two arrays of \<open>packData\<close> are allocated with \<open>sizeof(char *) * sTable + 1\<close> bytes:
  room for \<open>sTable\<close> pointers. A number is printed with \<open>%f%c\<close>, which writes the zero byte
  twice.
\<close>

definition copy_string :: "ptr \<Rightarrow> nat \<Rightarrow> ptr \<Rightarrow> ('z, unit) prog" where
  "copy_string arr i src =
     bnd (strlen src) (\<lambda>n.
     bnd (malloc (n + 1)) (\<lambda>p.
     bnd (store_ptr (padd arr i) p) (\<lambda>_.
     strcpy p src)))"

definition grow_arrays :: "nat \<Rightarrow> nat \<Rightarrow> ptr \<Rightarrow> ptr \<Rightarrow> ('z, nat \<times> ptr \<times> ptr) prog" where
  "grow_arrays i sTable dataKeys dataValues =
     (if sTable < i then
        bnd (realloc_ptrs dataKeys (8 * (sTable + 2) + 1)) (\<lambda>ks.
        bnd (realloc_ptrs dataValues (8 * (sTable + 2) + 1)) (\<lambda>vs.
        if ks = Null \<or> vs = Null then luaL_error ''Memory out'' else ret (sTable + 2, ks, vs)))
      else ret (sTable, dataKeys, dataValues))"

definition table_entry :: "nat \<times> nat \<times> ptr \<times> ptr \<Rightarrow> ('z, nat \<times> nat \<times> ptr \<times> ptr) prog" where
  "table_entry = (\<lambda>(i, sTable, dataKeys, dataValues).
     bnd (grow_arrays i sTable dataKeys dataValues) (\<lambda>(sT, ks, vs).
     bnd (lua_test (lua_isstring (- 1))) (\<lambda>str.
     bnd (if str then
            bnd (lua_tostring (- 2)) (\<lambda>key.
            bnd (lua_tostring (- 1)) (\<lambda>val.
            bnd (copy_string ks i key) (\<lambda>_.
            bnd (copy_string vs i val) (\<lambda>_.
            ret (i + 1)))))
          else
            bnd (lua_test (lua_isnumber (- 1))) (\<lambda>num.
            if num then
              bnd (lua_tostring (- 2)) (\<lambda>key.
              bnd (lua_tonumber (- 1)) (\<lambda>val.
              bnd (copy_string ks i key) (\<lambda>_.
              local_arr 256 (\<lambda>numstr.
              bnd (ext (Libc (Format_num ''%f%c'' val))) (\<lambda>r.
              bnd (write_bytes numstr (r_bytes r @ [NUL, NUL])) (\<lambda>_.
              bnd (copy_string vs i numstr) (\<lambda>_.
              ret (i + 1))))))))
            else
              bnd (lua_test (lua_istable (- 1))) (\<lambda>tab.
              bnd (if tab then push LNil else ret ()) (\<lambda>_.
              ret i)))) (\<lambda>i'.
     bnd (lua_do (lua_pop 1)) (\<lambda>_.
     ret (i', sT, ks, vs))))))"

primrec free_pairs :: "nat \<Rightarrow> ptr \<Rightarrow> ptr \<Rightarrow> ('z, unit) prog" where
  "free_pairs 0 ks vs = ret ()"
| "free_pairs (Suc z) ks vs =
     bnd (load_ptr (padd ks z)) (\<lambda>k.
     bnd (free k) (\<lambda>_.
     bnd (load_ptr (padd vs z)) (\<lambda>v.
     bnd (free v) (\<lambda>_.
     free_pairs z ks vs))))"

definition pack_and_free :: "nat \<times> nat \<times> ptr \<times> ptr \<Rightarrow> ('z, int) prog" where
  "pack_and_free = (\<lambda>(i, sTable, dataKeys, dataValues).
     bnd (store_ptr (padd dataKeys i) Null) (\<lambda>_.
     bnd (store_ptr (padd dataValues i) Null) (\<lambda>_.
     bnd (packData dataKeys dataValues FSPLITTERCHAR SPLITADDRCHAR) (\<lambda>data.
     bnd (lua_pushstring data) (\<lambda>_.
     bnd (free data) (\<lambda>_.
     bnd (free_pairs (c_uint (int sTable + 1)) dataKeys dataValues) (\<lambda>_.
     bnd (free dataKeys) (\<lambda>_.
     bnd (free dataValues) (\<lambda>_.
     ret 1)))))))))"

definition lua_packData :: "('z, int) prog" where
  "lua_packData =
     bnd (lua_test (luaL_checktable 1)) (\<lambda>ok.
     if \<not> ok then luaL_error ''table expected'' else
     bnd (malloc_ptrs (8 * 1 + 1)) (\<lambda>ks.
     bnd (malloc_ptrs (8 * 1 + 1)) (\<lambda>vs.
     if ks = Null \<or> vs = Null then luaL_error ''Memory out'' else
     bnd (push LNil) (\<lambda>_.
     bnd (c_loop (\<lambda>_. lua_test (lua_next (- 2))) table_entry (0, 1, ks, vs)) pack_and_free))))"

text \<open>The functions that the library \<open>lnet\<close> registers.\<close>

definition lnet :: "(string \<times> ('z, int) lnprog) list" where
  "lnet =
    [(''send'', lua_send), (''recv'', lua_recv), (''set_timeout'', lua_set_timeout),
     (''bind'', lua_bind), (''accept'', lua_accept), (''close_sock'', lua_close_sock),
     (''getsockaddr'', lua_getsockaddr), (''join_addresses'', lua_join_addresses),
     (''join_data'', lua_join_data), (''toBase64'', lua_toBase64), (''decBase64'', lua_decBase64),
     (''unpackData'', lua_unpackData), (''packData'', lua_packData)]"

end
