(* ===== verification/Lua_Net_Props.thy ===== *)
theory Lua_Net_Props
  imports Lua_Net Net_Props
begin

text \<open>The properties of the functions that scripts call for sockets and messages (\<open>Lua_Net\<close>).\<close>

subsection \<open>Packing a table\<close>

text \<open>A block of at most so many cells, if it is still there.\<close>

definition cells_le :: "nat \<Rightarrow> nat \<Rightarrow> 'z cstate_scheme \<Rightarrow> bool" where
  "cells_le b n s \<longleftrightarrow> b < nxt s \<and> (\<forall>cs. blocks s b = Some cs \<longrightarrow> length cs \<le> n)"

interpretation cl: step_guard caller_blocks "cells_le b n" for b n
proof
  fix s t :: "'z cstate_scheme"
  assume "cells_le b n s" "caller_blocks s t"
  then show "cells_le b n t"
    unfolding cells_le_def caller_blocks_def by (metis order_less_le_trans)
qed

lemma cells_le_store:
  "ensures (cells_le b n) (store_ptr (Addr b i) p) (\<lambda>_ _. i < n)"
  by (auto simp: ensures_def store_ptr_def write_mem_def put_cells_def cells_le_def
      split: sum.splits if_splits option.splits)

lemma cells_le_load: "n \<le> i \<Longrightarrow> ensures (cells_le b n) (load_ptr (Addr b i)) (\<lambda>_ _. False)"
  by (auto simp: ensures_def load_ptr_def read_mem_def get_ptr_def get_cells_def cells_of_def cells_le_def
      split: sum.splits if_splits option.splits)

lemma keeps_packData: "keeps caller_blocks (packData keys vals f sp)"
proof -
  have "keeps caller_blocks (pack_loop k keys vals f sp i r l)" for k i r l
    by (induction k arbitrary: i r l) auto
  then show ?thesis
    by (auto simp: packData_def pack_finish_def split: prod.split)
qed

lemma keeps_copy_string [intro!]: "keeps caller_blocks (copy_string arr i src)"
  by (auto simp: copy_string_def)


lemma copy_string_index: "ensures (cells_le b n) (copy_string (Addr b 0) i src) (\<lambda>_ _. i < n)"
  unfolding copy_string_def padd.simps add_0
  by (rule cl.ensures_keep_bnd [OF cb.keeps_string(1)], rule cl.ensures_keep_bnd [OF cb.keeps_malloc(1)],
      rule cl.ensures_bnd_pure [OF cb.keeps_access(4) cells_le_store]) (simp add: ensures_def)

definition arr_inv :: "nat \<times> nat \<times> ptr \<times> ptr \<Rightarrow> 'z cstate_scheme \<Rightarrow> bool" where
  "arr_inv = (\<lambda>(i, sTable, ks, vs) s. \<exists>b. cells_le b 1 s \<and> i \<le> 1 \<and> sTable = 1 \<and> ks = Addr b 0)"

lemma table_entry_first:
  assumes i: "i \<le> 1"
  shows "ensures (cells_le b 1) (table_entry (i, 1, Addr b 0, vs) :: ('z, _) prog) arr_inv"
proof -
  have grow: "grow_arrays i 1 (Addr b 0) vs = ret (1, Addr b 0, vs)"
    using i by (simp add: grow_arrays_def)
  show ?thesis
    unfolding table_entry_def prod.case grow bnd_ret_left
  proof (rule cl.ensures_keep_bnd [OF cb.keeps_lua(2)], rule cl.ensures_bnd_pure [where S = "\<lambda>j. j \<le> 1"])
    show "ensures (cells_le b 1) (bnd (lua_do (lua_pop 1)) (\<lambda>_. ret (j, 1, Addr b 0, vs)) :: ('z, _) prog) arr_inv"
      if "j \<le> 1" for j
      by (rule cl.ensures_keep_bnd [OF cb.keeps_lua(4)], rule ensures_ret) (use that in \<open>auto simp: arr_inv_def\<close>)
  qed ((rule ensures_if ensures_ret cl.ensures_bnd_pure [OF keeps_copy_string copy_string_index]
      cl.ensures_keep_bnd cl.ensures_local_arr | auto simp: i [simplified] bnd_ret_left)+)
qed

lemma free_pairs_past_end:
  "ensures (cells_le b 1) (free_pairs (c_uint (int 1 + 1)) (Addr b 0) vs) (\<lambda>_ _. False)"
  by (simp add: numeral_2_eq_2) (rule ensures_bnd [OF cells_le_load], auto simp: ensures_def)

lemma ensures_arr_inv:
  assumes "\<And>i b vs. i \<le> 1 \<Longrightarrow> ensures (cells_le b 1) (m (i, 1, Addr b 0, vs)) Q"
  shows "ensures (arr_inv x) (m x) Q"
  unfolding ensures_def
proof (intro allI impI)
  fix e s a t
  assume "arr_inv x s" and run: "m x e s = (Ok a, t)"
  then obtain i b vs where x: "x = (i, 1, Addr b 0, vs)" "i \<le> 1" "cells_le b 1 s"
    by (auto simp: arr_inv_def)
  show "Q a t"
    using ensuresD [OF assms x(3)] run x by blast
qed

lemma malloc_one: "ensures (\<lambda>_. True) (malloc_ptrs 9) (\<lambda>p s. p = Null \<or> (\<exists>b. p = Addr b 0 \<and> cells_le b 1 s))"
  by (auto simp: ensures_def malloc_ptrs_def alloc_def cells_le_def new_block_def split: if_splits)

text \<open>The loop over the table, and what follows it.\<close>

lemma table_loop:
  "ensures (arr_inv x) (c_loop (\<lambda>_. lua_test c) table_entry x :: ('z, _) prog) arr_inv"
proof (rule ensures_loop, rule_tac [2] ensures_arr_inv)
  show "ensures (arr_inv y) (lua_test c) (\<lambda>_. arr_inv y)" for y
    unfolding ensures_def arr_inv_def
    by (auto dest: ensuresD [OF cl.ensures_keep [OF cb.keeps_lua(2)]])
qed (rule table_entry_first)

lemma pack_and_free_never: "ensures (arr_inv x) (pack_and_free x :: ('z, _) prog) (\<lambda>_ _. False)"
  by (rule ensures_arr_inv, unfold pack_and_free_def prod.case)
    (rule cl.ensures_keep_bnd [OF cb.keeps_access(4)] cl.ensures_keep_bnd [OF keeps_packData]
      cl.ensures_keep_bnd [OF cb.keeps_lua(6)] cl.ensures_keep_bnd [OF cb.keeps_free]
      ensures_bnd [OF free_pairs_past_end] | simp add: ensures_def)+

lemma pack_table_never:
  "ensures (\<lambda>s. ks = Null \<or> (\<exists>b. ks = Addr b 0 \<and> cells_le b 1 s))
    (bnd (malloc_ptrs 9) (\<lambda>vs. if ks = Null \<or> vs = Null then luaL_error msg
      else bnd (push LNil) (\<lambda>_. bnd (c_loop (\<lambda>_. lua_test c) table_entry (0, 1, ks, vs)) pack_and_free)) :: ('z, int) prog)
    (\<lambda>_ _. False)"
proof (cases ks)
  case Null
  then show ?thesis
    by (intro ensures_bnd [where R = "\<lambda>_ _. True"]) (simp_all add: ensures_def luaL_error_def exec)
next
  case (Addr b j)
  have "ensures (cells_le b 1) (bnd (push LNil) (\<lambda>_. bnd (c_loop (\<lambda>_. lua_test c) table_entry (0, 1, Addr b 0, vs))
      pack_and_free) :: ('z, int) prog) (\<lambda>_ _. False)" for vs
    by (rule cl.ensures_keep_bnd [OF cb.keeps_lua(5)],
        rule ensures_bnd [OF ensures_weaken [OF table_loop] pack_and_free_never])
      (auto simp: arr_inv_def)
  then have "ensures (cells_le b 1) (bnd (malloc_ptrs 9) (\<lambda>vs. if Addr b 0 = Null \<or> vs = Null then luaL_error msg
      else bnd (push LNil) (\<lambda>_. bnd (c_loop (\<lambda>_. lua_test c) table_entry (0, 1, Addr b 0, vs)) pack_and_free)) :: ('z, int) prog)
      (\<lambda>_ _. False)"
    by (intro cl.ensures_keep_bnd [OF cb.keeps_malloc(2)] ensures_if) (simp_all only: luaL_error_def ensures_fail)
  then show ?thesis
    unfolding Addr ensures_def by auto
qed

text \<open>The script function \<open>packData\<close> never returns to the script, whatever the table
  holds, whatever Lua answers and whichever allocations fail: the arrays have room for one
  pointer, the loop stores the second one past them, and after one entry or none the loop
  that frees the copies starts one cell past the end. Every call ends in a Lua error or
  in an invalid access.\<close>

theorem lua_packData_never_returns: "fst (lua_packData e s) \<noteq> Ok n"
proof -
  have nine: "8 * 1 + 1 = (9 :: nat)"
    by simp
  have "ensures (\<lambda>_. True) lua_packData (\<lambda>_ _. False)"
    unfolding lua_packData_def nine
    by (rule ensures_bnd [where R = "\<lambda>_ _. True"], simp add: ensures_def, rule ensures_if)
      (simp add: luaL_error_def ensures_fail, rule ensures_bnd [OF malloc_one pack_table_never])
  then show ?thesis
    by (rule ensures_never) simp
qed

subsection \<open>Sockets\<close>

text \<open>A script with socket 3, one system call that fails, and a text of two bytes.\<close>

definition toy_net :: env where
  "toy_net = \<lparr>malloc_ok = (\<lambda>_ _. True), answer = (\<lambda>l c. case c of
     Lua lua_gettop \<Rightarrow> RInt 3
   | Lua (lua_arg_number i) \<Rightarrow> RInt 3
   | Lua (lua_arg_string i) \<Rightarrow> ROut 0 (b64_encode [77, 97])
   | Lua (lua_touserdata i) \<Rightarrow> RHandle 9
   | Ssl (BIO_read h n) \<Rightarrow> ROut 2 [77, 97]
   | Ssl (BIO_get_mem_data h) \<Rightarrow> ROut 4 (b64_encode [77, 97])
   | Sys (Bind s a n) \<Rightarrow> RInt 1
   | _ \<Rightarrow> RInt (- 1))\<rparr>"

lemma toy_net_simps [simp]:
  "answer toy_net l (Lua lua_gettop) = RInt 3"
  "answer toy_net l (Lua (lua_arg_number i)) = RInt 3"
  "answer toy_net l (Lua (lua_arg_string i)) = ROut 0 (b64_encode [77, 97])"
  "answer toy_net l (Lua (lua_touserdata i)) = RHandle 9"
  "answer toy_net l (Ssl (BIO_read h n)) = ROut 2 [77, 97]"
  "answer toy_net l (Ssl (BIO_get_mem_data h)) = ROut 4 (b64_encode [77, 97])"
  "answer toy_net l (Sys (Bind k a n)) = RInt 1"
  "answer toy_net l (Lua (lua_toboolean i)) = RInt (- 1)"
  "answer toy_net l (Sys (Recv k n)) = RInt (- 1)"
  "answer toy_net l (Sys (Recvfrom k n a)) = RInt (- 1)"
  "alloc_total toy_net"
  by (simp_all add: toy_net_def alloc_total_def)

definition ln_empty :: ln_state where
  "ln_empty = \<lparr>blocks = Map.empty, nxt = 0, evs = [], addrs = Map.empty\<rparr>"

definition bind_ok :: "event \<Rightarrow> bool" where
  "bind_ok ev = (case ev of (Sys (Bind s a n), r) \<Rightarrow> 0 < r_int r | _ \<Rightarrow> True)"

lemma bind_ok_simps [simp]:
  "bind_ok (Sys (Bind s a n), r) = (0 < r_int r)" "bind_ok (Lua c, r)" "bind_ok (Sys (Socket k), r)"
  "bind_ok (Sys (Listen f l), r)"
  by (simp_all add: bind_ok_def)

lemma logs_bind_error:
  "logs Q (LUABINDADRERR a m :: ('z, int) lnprog)" "logs Q (bnd (LUABINDADRERR a m :: ('z, int) lnprog) f)"
  by (auto simp: logs_def LUABINDADRERR_def luaL_error_def run_bnd run_fail cont_eq_Ok)

text \<open>If \<open>bind\<close> returns to the script, every call of the system's \<open>bind\<close> has
  answered with a positive number. The system answers 0 or -1, so a script that asks for a
  socket always gets an error, also when the address was bound.\<close>

theorem lua_bind_needs_positive_answer:
  assumes "lua_bind e s = (Ok n, t)"
  shows "\<exists>new. events t = events s @ new \<and> (\<forall>ev \<in> set new. bind_ok ev)"
proof -
  have "logs (\<lambda>_ new. \<forall>ev \<in> set new. bind_ok ev) lua_bind"
    unfolding lua_bind_def bind_one_def gettop_def to_userdata_def lua_test_def lua_tonumber_def push_def lua_do_def
      luaL_error_def
    by (intro logs_rules logs_bind_error) simp_all
  then show ?thesis
    using assms by (rule logsD)
qed

theorem lua_bind_needs_positive_answer_witness:
  "\<exists>new. events (snd (lua_bind toy_net (ln_empty :: ln_state))) = events ln_empty @ new \<and> (\<forall>ev \<in> set new. bind_ok ev)"
proof (rule lua_bind_needs_positive_answer)
  show "lua_bind toy_net ln_empty = (Ok 2, snd (lua_bind toy_net (ln_empty :: ln_state)))"
    by (simp add: lua_bind_def bind_one_def gettop_def to_userdata_def lua_test_def exec)
qed

text \<open>\<open>recv\<close> called with two arguments reads its address argument, which it never
  assigned; called with an address, it takes a failed \<open>recvfrom\<close> (-1, converted to an unsigned
  size) for a message and writes the terminator far outside its buffer.\<close>

theorem lua_recv_faults:
  assumes "\<And>l. answer e l (Lua lua_gettop) = RInt args"
    and "\<And>l. answer e l (Lua (lua_arg_number 1)) = RInt sock" "0 < sock"
    and "\<And>l. answer e l (Lua (lua_arg_number 2)) = RInt n" "0 \<le> n" "n < 2 ^ 47"
    and "\<And>l. answer e l (Lua (lua_touserdata 3)) = RHandle h"
    and "\<And>l c. answer e l (Sys (Recv sock c)) = RInt (- 1)"
    and "\<And>l c. answer e l (Sys (Recvfrom sock c h)) = RInt (- 1)"
  shows "fst (lua_recv e s) = Err (if args < 3 then UninitRead else OutOfBounds)"
proof -
  have big: "size_t (- 1) = 2 ^ 64 - 1"
    by (simp add: size_t_def)
  have past: "put_cells m (Addr b (2 ^ 64 - 1)) [Byte NUL] = Inl OutOfBounds"
    if "m b = Some (replicate (nat (n + 1)) x)" for m b x
    using that assms(6) by (simp add: put_cells_def)
  show ?thesis
    using assms(3,5,6)
    by (auto simp: lua_recv_def gettop_def opt_dadr_def to_userdata_def local_arr_def exec Let_def
        assms(1,2,4,7-) big past)
qed

theorem lua_recv_faults_witness:
  "fst (lua_recv toy_net ln_empty) = Err (if (3 :: int) < 3 then UninitRead else OutOfBounds)"
  by (rule lua_recv_faults [where sock = 3 and n = 3 and h = 9]) simp_all

subsection \<open>Base64\<close>

text \<open>\<open>toBase64\<close> passes Lua the memory of the encoder as a string: unless the encoder
  itself wrote a zero byte, the read runs past its end.\<close>

theorem lua_toBase64_unterminated:
  assumes "\<And>l. answer e l (Lua (lua_arg_string 1)) = ROut a txt'" "NUL \<notin> set txt'"
    and "\<And>l h. answer e l (Ssl (BIO_get_mem_data h)) = ROut k out" "NUL \<notin> set out"
  shows "fst (lua_toBase64 e s) = Err OutOfBounds"
proof -
  have past: "get_str (m(b \<mapsto> map Byte out)) (Addr b 0) = Inl OutOfBounds" for m b
    using assms(4) by (simp add: get_str_def cells_of_def scan_map_Byte)
  let ?s = "new_block (map Byte txt' @ [Byte NUL]) (s\<lparr>evs := (Lua (lua_arg_string 1), ROut a txt') # evs s\<rparr>)"
  have "get_bytes (blocks ?s) (Addr (nxt s) 0) (length txt') = Inr txt'"
    by (simp add: get_bytes_def get_cells_def cells_of_def)
  then obtain l where "Base64Encode (Addr (nxt s) 0) (length txt') e ?s =
      (Ok (Addr (nxt ?s) 0), (new_block (map Byte out) ?s)\<lparr>evs := l\<rparr>)"
    using Base64Encode_run assms(3) by blast
  then show ?thesis
    using assms past by (simp add: lua_toBase64_def exec lua_pushstring_def)
qed

theorem lua_toBase64_unterminated_witness: "fst (lua_toBase64 toy_net (state_of [])) = Err OutOfBounds"
  by (rule lua_toBase64_unterminated [where a = 0 and txt' = "b64_encode [77, 97]" and k = 4 and out = "b64_encode [77, 97]"])
    (simp_all add: b64_no_NUL)

text \<open>\<open>decBase64\<close> called with the encoding of a non-empty string pushes the string, if
  the decoder of the library decodes it.\<close>

theorem lua_decBase64_pushes:
  assumes "fresh s" "alloc_total e" "xs \<noteq> []" "length xs < 2 ^ 30"
    and "\<And>l. answer e l (Lua (lua_arg_string 1)) = ROut a (b64_encode xs)"
    and "\<And>l h. answer e l (Ssl (BIO_read h (length (b64_encode xs)))) = ROut (int (length xs)) xs"
  shows "\<exists>t. lua_decBase64 e s = (Ok 1, t) \<and> fst (hd (evs t)) = Lua (lua_push (LStr xs))"
proof -
  let ?s = "new_block (map Byte (b64_encode xs) @ [Byte NUL]) (s\<lparr>evs := (Lua (lua_arg_string 1), ROut a (b64_encode xs)) # evs s\<rparr>)"
  have out: "get_bytes (m(b \<mapsto> map Byte xs @ [Byte NUL])) (Addr b 0) (length xs) = Inr xs" for m b
    by (simp add: get_bytes_def get_cells_def cells_of_def)
  have "fresh ?s" "get_str (blocks ?s) (Addr (nxt s) 0) = Inr (b64_encode xs)"
    using assms(1) b64_no_NUL by (simp_all add: fresh_def less_Suc_eq)
  then obtain l where "Base64Decode (Addr (nxt s) 0) e ?s =
      (Ok (Addr (nxt ?s) 0, length xs), (new_block (cstr xs) ?s)\<lparr>evs := l\<rparr>)"
    using Base64Decode_run assms(2-4,6) by blast
  then show ?thesis
    using assms(5) out by (simp add: lua_decBase64_def exec lua_pushlstring_def cstr_def)
qed

theorem lua_decBase64_pushes_witness:
  "\<exists>t. lua_decBase64 toy_net (state_of []) = (Ok 1, t) \<and> fst (hd (evs t)) = Lua (lua_push (LStr [77, 97]))"
  by (rule lua_decBase64_pushes [where a = 0]) simp_all


subsection \<open>Joining addresses\<close>

text \<open>The arguments of \<open>join_addresses\<close> end at the \<open>NULL\<close> behind them.\<close>

lemma join_addresses_NULL:
  "join_addresses p (ps @ [Null]) = (join_addresses p ps :: ('z, ptr) prog)"
proof -
  have "join_addresses_loop (ps @ [Null]) q n = (join_addresses_loop ps q n :: ('z, ptr \<times> nat) prog)" for q n
    by (induction ps arbitrary: q n) simp_all
  then show ?thesis
    by (simp add: join_addresses_def)
qed

text \<open>The strings on Lua's stack, from the given index on.\<close>

definition args_are :: "env \<Rightarrow> int \<Rightarrow> byte list list \<Rightarrow> bool" where
  "args_are e c xs \<longleftrightarrow> (\<forall>i<length xs. \<forall>l. \<exists>n. answer e l (Lua (lua_arg_string (c + int i))) = ROut n (xs ! i))"

lemma args_are_Cons:
  assumes "args_are e c (x # xs)"
  shows "\<exists>n. answer e l (Lua (lua_arg_string c)) = ROut n x" "args_are e (c + 1) xs"
proof -
  show "\<exists>n. answer e l (Lua (lua_arg_string c)) = ROut n x"
    using assms [unfolded args_are_def, rule_format, of 0] by simp
  show "args_are e (c + 1) xs"
    unfolding args_are_def
    using assms [unfolded args_are_def, rule_format, of "Suc i" for i] by (simp add: algebra_simps)
qed

text \<open>One turn from a joined prefix: the block of the prefix is gone, the new one holds the
  prefix with one more address.\<close>

lemma lua_join_step:
  fixes s :: "'z cstate_scheme"
  assumes al: "alloc_total e" and fr: "fresh s"
    and b: "blocks s b = Some (cstr cur)" "NUL \<notin> set cur" and y: "NUL \<notin> set y"
    and arg: "answer e (evs s) (Lua (lua_arg_string c)) = ROut n y"
  shows "\<exists>b' s'. lua_join_loop (Suc i) c (Addr b 0) e s = lua_join_loop i (c + 1) (Addr b' 0) e s' \<and>
    fresh s' \<and> blocks s' b' = Some (cstr (cur @ SPLITADDRCHAR # y)) \<and> evs s' = (Lua (lua_arg_string c), ROut n y) # evs s"
proof -
  let ?s = "new_block (cstr y) (s\<lparr>evs := (Lua (lua_arg_string c), ROut n y) # evs s\<rparr>)"
  have fr': "fresh ?s"
    using fr by (simp add: fresh_def less_Suc_eq)
  have bn: "b < nxt s"
    using fresh_less [OF fr b(1)] .
  have A: "get_str (blocks ?s) (Addr b 0) = Inr cur"
    using b bn by simp
  have B: "list_all2 (\<lambda>p y. get_str (blocks ?s) p = Inr y) [Addr (nxt s) 0] [y]"
    using y by simp
  let ?t = "?s\<lparr>blocks := (blocks ?s)(nxt ?s + 2 \<mapsto> cstr (cur @ SPLITADDRCHAR # y)), nxt := Suc (Suc (Suc (nxt ?s)))\<rparr>"
  have j: "join_addresses (Addr b 0) [Addr (nxt s) 0, Null] e ?s = (Ok (Addr (nxt ?s + 2) 0), ?t)"
    using join_addresses_run [OF al fr' A B] by (simp add: cstr_def join_addresses_NULL [of _ "[Addr (nxt s) 0]", simplified])
  show ?thesis
    using b(1) bn fr
    by (intro exI [of _ "nxt ?s + 2"] exI [of _ "drop_block b ?t"])
      (simp add: exec arg cstr_def [symmetric] j, auto simp: fresh_def less_Suc_eq)
qed

lemma lua_join_loop_run:
  assumes "alloc_total e" "fresh s" "blocks s b = Some (cstr cur)" "NUL \<notin> set cur"
    and "\<forall>y\<in>set ys. NUL \<notin> set y" "args_are e c ys"
  shows "\<exists>b' s'. lua_join_loop (length ys) c (Addr b 0) e s = (Ok (Addr b' 0), s') \<and>
    blocks s' b' = Some (cstr (join_spec cur ys)) \<and> NUL \<notin> set (join_spec cur ys)"
  using assms(2-)
proof (induction ys arbitrary: s b cur c)
  case Nil
  then show ?case
    by (simp add: exec)
next
  case (Cons y ys)
  obtain n where n: "answer e (evs s) (Lua (lua_arg_string c)) = ROut n y"
    using args_are_Cons(1) [OF Cons.prems(5)] by blast
  have y: "NUL \<notin> set y" "NUL \<notin> set (cur @ SPLITADDRCHAR # y)"
    using Cons.prems(3,4) by auto
  obtain b' s' where s': "lua_join_loop (Suc (length ys)) c (Addr b 0) e s = lua_join_loop (length ys) (c + 1) (Addr b' 0) e s'"
    "fresh s'" "blocks s' b' = Some (cstr (cur @ SPLITADDRCHAR # y))"
    using lua_join_step [OF assms(1) Cons.prems(1-3) y(1) n] by blast
  then show ?case
    using Cons.IH [OF s'(2,3) y(2) _ args_are_Cons(2) [OF Cons.prems(5)]] Cons.prems(4) by simp
qed

text \<open>\<open>join_addresses\<close> called by a script with any number of strings, at least one,
  pushes them joined by \<open>;\<close>, in the order of the arguments.\<close>

theorem lua_join_addresses_joins:
  assumes "alloc_total e" "fresh s"
    and "\<And>l. answer e l (Lua lua_gettop) = RInt (int (length (x # ys)))"
    and "args_are e 1 (x # ys)" "\<forall>y\<in>set (x # ys). NUL \<notin> set y"
  shows "\<exists>t. lua_join_addresses e s = (Ok 1, t) \<and> fst (hd (evs t)) = Lua (lua_push (LStr (join_spec x ys)))"
proof -
  let ?s = "s\<lparr>evs := (Lua lua_gettop, RInt (int (length (x # ys)))) # evs s\<rparr>"
  obtain n where n: "answer e (evs ?s) (Lua (lua_arg_string 1)) = ROut n x"
    using args_are_Cons(1) [OF assms(4)] by blast
  let ?t = "new_block (cstr x) (?s\<lparr>evs := (Lua (lua_arg_string 1), ROut n x) # evs ?s\<rparr>)"
  let ?u = "?t\<lparr>blocks := (blocks ?t)(nxt ?t + 1 \<mapsto> cstr x), nxt := nxt ?t + 2\<rparr>"
  have t: "fresh ?t" "fresh ?u"
    using assms(2) by (auto simp: fresh_def less_Suc_eq)
  have "get_str (blocks ?t) (Addr (nxt s) 0) = Inr x"
    using assms(5) by simp
  then have "join_addresses (Addr (nxt s) 0) [Null] e ?t = (Ok (Addr (nxt ?t + 1) 0), ?u)"
    using join_addresses_run [OF assms(1) t(1), of _ x "[]" "[]"] by (simp add: cstr_def join_addresses_NULL [of _ "[]", simplified])
  then have run: "lua_join_loop (Suc (length ys)) 1 Null e ?s = lua_join_loop (length ys) 2 (Addr (nxt ?t + 1) 0) e ?u"
    using n by (simp add: exec cstr_def [symmetric])
  have "args_are e 2 ys"
    using args_are_Cons(2) [OF assms(4)] by simp
  then obtain b' s' where s': "lua_join_loop (length ys) 2 (Addr (nxt ?t + 1) 0) e ?u = (Ok (Addr b' 0), s')"
    "blocks s' b' = Some (cstr (join_spec x ys))" "NUL \<notin> set (join_spec x ys)"
    using lua_join_loop_run [OF assms(1) t(2), of "nxt ?t + 1" x ys 2] assms(5) by auto
  have str: "get_str (blocks s') (Addr b' 0) = Inr (join_spec x ys)"
    using s'(2,3) by simp
  have count: "nat (1 + int (length ys)) = Suc (length ys)"
    by simp
  have "lua_join_addresses e s = (Ok 1, drop_block b' (s'\<lparr>evs := (Lua (lua_push (LStr (join_spec x ys))),
      answer e (evs s') (Lua (lua_push (LStr (join_spec x ys))))) # evs s'\<rparr>))"
    using run s' str by (simp add: lua_join_addresses_def gettop_def exec assms(3) count lua_pushstring_def del: lua_join_loop.simps)
  then show ?thesis
    by simp
qed

theorem lua_join_addresses_joins_witness:
  fixes x defines "x \<equiv> b64_encode [77, 97]"
  shows "\<exists>t. lua_join_addresses toy_net (state_of []) = (Ok 1, t) \<and>
    fst (hd (evs t)) = Lua (lua_push (LStr (join_spec x [x, x])))"
  by (rule lua_join_addresses_joins) (auto simp: args_are_def x_def b64_no_NUL less_Suc_eq nth_Cons')

end
