(* ===== verification/Lua_Images.thy ===== *)
theory Lua_Images
  imports Images_Colors Images_Random Lua_Api
begin

text \<open>
  \<open>libbacteria/lua/libimages.c\<close>: images, colours and random strings for scripts. The
  structures in userdata are maps of the state: \<open>imgs\<close> holds a \<open>struct image\<close>, \<open>img_data\<close> the
  pointer and the size of a \<open>struct ImageData\<close>.
\<close>

record li_state = img_state +
  imgs :: "handle \<Rightarrow> image option"
  img_data :: "handle \<Rightarrow> (ptr \<times> int) option"

type_synonym ('z, 'a) liprog = "('z li_state_ext img_state_ext, 'a) prog"

text \<open>\<open>GETLUANUM\<close>: a field of the table on top of the stack, as an \<open>int\<close>.\<close>

definition GETLUANUM :: "string \<Rightarrow> ('z, int) prog" where
  "GETLUANUM what =
     bnd (push (LStr (bytes_of what))) (\<lambda>_.
     bnd (lua_do (lua_gettable (- 2))) (\<lambda>_.
     bnd (lua_test (lua_isnumber (- 1))) (\<lambda>num.
     if \<not> num then luaL_error (''invalid '' @ what) else
     bnd (lua_tonumber (- 1)) (\<lambda>n.
     bnd (lua_do (lua_pop 1)) (\<lambda>_.
     ret n)))))"

definition get_color :: "('z, RGBa) prog" where
  "get_color =
     bnd (GETLUANUM ''red'') (\<lambda>r.
     bnd (GETLUANUM ''green'') (\<lambda>g.
     bnd (GETLUANUM ''blue'') (\<lambda>b.
     bnd (GETLUANUM ''alpha'') (\<lambda>a.
     ret \<lparr>red = c_uint r, green = c_uint g, blue = c_uint b, alpha = c_uint a\<rparr>))))"

subsection \<open>Making and freeing images\<close>

definition image_nbytes :: "int \<Rightarrow> int \<Rightarrow> nat" where
  "image_nbytes w h = size_t (24 + 8 + 4 * c_int (w - 1) + 4 * c_int (h - 1) + 8)"

text \<open>The fields of the structure are written behind the pointer that Lua returned.\<close>

definition store_image :: "nat \<Rightarrow> handle \<Rightarrow> image \<Rightarrow> ('z, unit) liprog" where
  "store_image nbytes h d =
     (if nbytes < 24 then fail OutOfBounds
      else modify (imgs_update (\<lambda>m. m(h \<mapsto> d\<lparr>textOnImage := Some Null\<rparr>))))"

text \<open>The colour of the background has no fourth initialiser: its alpha is 0.\<close>

definition lua_gdInitImage :: "('z, int) liprog" where
  "lua_gdInitImage =
     bnd (luaL_checknumber 1) (\<lambda>w.
     bnd (luaL_checknumber 2) (\<lambda>h.
     bnd get_color (\<lambda>c.
     bnd (ext (Lua (lua_newuserdata (image_nbytes w h)))) (\<lambda>u.
     bnd (gdInitImage (c_uint w) (c_uint h) (c\<lparr>alpha := 0\<rparr>)) (\<lambda>d.
     bnd (store_image (image_nbytes w h) (r_handle u) d) (\<lambda>_.
     ret 1))))))"

definition lua_gdInitImageFromFile :: "('z, int) liprog" where
  "lua_gdInitImageFromFile =
     bnd (luaL_checkstring 1) (\<lambda>filepath.
     bnd (luaL_checknumber 2) (\<lambda>w.
     bnd (luaL_checknumber 3) (\<lambda>h.
     bnd (gdInitImageFromFile filepath (c_uint w) (c_uint h)) (\<lambda>d.
     bnd (ext (Lua (lua_newuserdata (image_nbytes w h)))) (\<lambda>u.
     bnd (store_image (image_nbytes w h) (r_handle u) d) (\<lambda>_.
     ret 1))))))"

definition GETIMAGE :: "('z, handle) prog" where
  "GETIMAGE = bnd (to_userdata 1) (\<lambda>h.
     if h = 0 then luaL_error ''imagestruct is broken'' else ret h)"

definition GETIMAGEDATA :: "('z, handle) prog" where
  "GETIMAGEDATA = bnd (to_userdata 1) (\<lambda>h.
     if h = 0 then luaL_error ''imagedata is broken'' else ret h)"

definition lua_gdFree :: "('z, int) liprog" where
  "lua_gdFree =
     bnd GETIMAGE (\<lambda>h.
     bnd (deref imgs h) (\<lambda>i.
     bnd (ext (Gd (gdImageDestroy (im i)))) (\<lambda>_.
     bnd (field (textOnImage i)) (\<lambda>t.
     bnd (if t \<noteq> Null then free t else ret ()) (\<lambda>_.
     bnd (modify (imgs_update (\<lambda>m. m(h \<mapsto> i\<lparr>width := 0, height := 0\<rparr>)))) (\<lambda>_.
     bnd (push (LBool True)) (\<lambda>_.
     ret 1)))))))"

subsection \<open>Drawing\<close>

definition with_image :: "(image \<Rightarrow> ('z, int) liprog) \<Rightarrow> ('z, int) liprog" where
  "with_image f = bnd GETIMAGE (\<lambda>h. bnd (deref imgs h) f)"

definition GETXY :: "int \<Rightarrow> int \<Rightarrow> ('z, nat \<times> nat) prog" where
  "GETXY a b =
     bnd (luaL_checknumber a) (\<lambda>x.
     bnd (luaL_checknumber b) (\<lambda>y.
     ret (c_uint x, c_uint y)))"

definition lua_gdSetPixel :: "('z, int) liprog" where
  "lua_gdSetPixel =
     with_image (\<lambda>i.
     bnd (GETXY 2 3) (\<lambda>(x, y).
     bnd (luaL_checknumber 4) (\<lambda>c.
     bnd (gdSetPixel i x y c) (\<lambda>_.
     ret 0))))"

definition lua_gdDrawRandomPixels :: "('z, int) liprog" where
  "lua_gdDrawRandomPixels =
     with_image (\<lambda>i.
     bnd (luaL_checknumber 2) (\<lambda>mn.
     bnd (luaL_checknumber 3) (\<lambda>mx.
     bnd (gdDrawRandomPixels i (c_uint mn) (c_uint mx)) (\<lambda>_.
     ret 0))))"

definition lua_gdDrawRandomLines :: "('z, int) liprog" where
  "lua_gdDrawRandomLines =
     with_image (\<lambda>i.
     bnd (luaL_checknumber 2) (\<lambda>count.
     bnd (gdDrawRandomLines (c_uint count) i) (\<lambda>_.
     ret 0)))"

definition lua_gdDrawRect :: "('z, int) liprog" where
  "lua_gdDrawRect =
     with_image (\<lambda>i.
     bnd (GETXY 2 3) (\<lambda>(x, y).
     bnd (GETXY 4 5) (\<lambda>(x1, y1).
     bnd (luaL_checknumber 6) (\<lambda>c.
     bnd (gdDrawRect i x y x1 y1 c) (\<lambda>_.
     ret 0)))))"

definition lua_gdDrawLine :: "('z, int) liprog" where
  "lua_gdDrawLine =
     with_image (\<lambda>i.
     bnd (GETXY 2 3) (\<lambda>(x, y).
     bnd (GETXY 4 5) (\<lambda>(x1, y1).
     bnd (luaL_checknumber 6) (\<lambda>c.
     bnd (gdDrawLine i x y x1 y1 c) (\<lambda>_.
     ret 0)))))"

definition lua_gdWriteText :: "('z, int) liprog" where
  "lua_gdWriteText =
     with_image (\<lambda>i.
     bnd (luaL_checknumber 2) (\<lambda>x.
     bnd (luaL_checknumber 3) (\<lambda>y.
     bnd (luaL_checkstring 4) (\<lambda>font.
     bnd (luaL_checknumber 5) (\<lambda>ptSize.
     bnd (luaL_checknumber 6) (\<lambda>angle.
     bnd (luaL_checknumber 7) (\<lambda>c.
     bnd (luaL_checkstring 8) (\<lambda>msg.
     bnd (read_str font) (\<lambda>fs.
     bnd (read_str msg) (\<lambda>ms.
     bnd (ext (Gd (gdImageStringTTF (im i) c fs (of_int ptSize) (of_int angle) x y ms))) (\<lambda>_.
     ret 0)))))))))))"

subsection \<open>Encoded images\<close>

definition lua_getImageData :: "('z, int) liprog" where
  "lua_getImageData =
     with_image (\<lambda>i.
     bnd (luaL_checknumber 2) (\<lambda>quality.
     bnd (getImageData i (c_uint quality)) (\<lambda>(p, size0).
     bnd (field size0) (\<lambda>n.
     bnd (new_struct (size_t (8 + 4 * (n - 1))) 16) (\<lambda>h.
     bnd (modify (img_data_update (\<lambda>m. m(h \<mapsto> (p, n))))) (\<lambda>_.
     ret 1))))))"

definition lua_getImageDataSize :: "('z, int) liprog" where
  "lua_getImageDataSize =
     bnd GETIMAGEDATA (\<lambda>h.
     bnd (deref img_data h) (\<lambda>(p, n).
     bnd (push (LNum n)) (\<lambda>_.
     ret 1)))"

definition lua_getImageDataRaw :: "('z, int) liprog" where
  "lua_getImageDataRaw =
     bnd GETIMAGEDATA (\<lambda>h.
     bnd (deref img_data h) (\<lambda>(p, n).
     bnd (lua_pushlstring p (size_t n)) (\<lambda>_.
     ret 1)))"

definition lua_writeToFile :: "('z, int) liprog" where
  "lua_writeToFile =
     with_image (\<lambda>i.
     bnd (luaL_checkstring 2) (\<lambda>filepath.
     bnd (luaL_checknumber 3) (\<lambda>quality.
     bnd (writeToFile ''gdImageJpeg'' filepath i (c_uint quality)) (\<lambda>_.
     ret 0))))"

subsection \<open>Colours\<close>

definition lua_gdInitColor :: "('z, int) liprog" where
  "lua_gdInitColor =
     with_image (\<lambda>i.
     bnd get_color (\<lambda>c.
     bnd (gdInitColor i c) (\<lambda>n.
     bnd (push (LNum n)) (\<lambda>_.
     ret 1))))"

definition lua_gdSetColor :: "('z, int) liprog" where
  "lua_gdSetColor =
     with_image (\<lambda>i.
     bnd (luaL_checkstring 2) (\<lambda>nameColor.
     bnd (luaL_checknumber 3) (\<lambda>n.
     bnd get_color (\<lambda>c.
     bnd (gdSetColor i n nameColor c) (\<lambda>_.
     ret 0)))))"

definition lua_gdAddColor :: "('z, int) liprog" where
  "lua_gdAddColor =
     with_image (\<lambda>i.
     bnd (luaL_checkstring 2) (\<lambda>nameColor.
     bnd get_color (\<lambda>c.
     bnd (gdAddColor i nameColor c) (\<lambda>_.
     ret 0))))"

definition lua_gdFoundColor :: "('z, int) liprog" where
  "lua_gdFoundColor =
     bnd GETIMAGE (\<lambda>_.
     bnd (luaL_checkstring 2) (\<lambda>nameColor.
     bnd (gdFoundColor nameColor) (\<lambda>n.
     bnd (push (LNum n)) (\<lambda>_.
     ret 1))))"

definition LUA_PUSHTABLENUMBER :: "string \<Rightarrow> int \<Rightarrow> ('z, unit) prog" where
  "LUA_PUSHTABLENUMBER key n =
     bnd (push (LStr (bytes_of key))) (\<lambda>_.
     bnd (push (LNum n)) (\<lambda>_.
     lua_do (lua_settable (- 3))))"

definition lua_gdRandColor :: "('z, int) liprog" where
  "lua_gdRandColor =
     bnd (lua_do lua_newtable) (\<lambda>_.
     bnd gdRandColor (\<lambda>rt.
     bnd (LUA_PUSHTABLENUMBER ''red'' (int (red rt))) (\<lambda>_.
     bnd (LUA_PUSHTABLENUMBER ''green'' (int (green rt))) (\<lambda>_.
     bnd (LUA_PUSHTABLENUMBER ''blue'' (int (blue rt))) (\<lambda>_.
     bnd (LUA_PUSHTABLENUMBER ''alpha'' (int (alpha rt))) (\<lambda>_.
     ret 1))))))"

definition lua_gdGetRandStr :: "('z, int) liprog" where
  "lua_gdGetRandStr =
     bnd (luaL_checknumber 1) (\<lambda>n.
     local_arr (nat (n + 1)) (\<lambda>randStr.
     bnd (gdGetRandStr randStr (size_t (n - 1))) (\<lambda>_.
     bnd (store_byte (padd randStr (nat n)) NUL) (\<lambda>_.
     bnd (lua_pushstring randStr) (\<lambda>_.
     ret 1)))))"

text \<open>The functions that the library \<open>images\<close> registers, by name.\<close>

definition imagesLib :: "(string \<times> ('z, int) liprog) list" where
  "imagesLib =
    [(''gdInitImage'', lua_gdInitImage), (''gdInitImageFromFile'', lua_gdInitImageFromFile),
     (''gdSetPixel'', lua_gdSetPixel), (''gdDrawRandomPixels'', lua_gdDrawRandomPixels),
     (''gdDrawRandomLines'', lua_gdDrawRandomLines), (''getImageData'', lua_getImageData),
     (''getImageDataSize'', lua_getImageDataSize), (''writeToFile'', lua_writeToFile),
     (''gdInitColor'', lua_gdInitColor), (''gdSetColor'', lua_gdSetColor),
     (''gdAddColor'', lua_gdAddColor), (''gdFoundColor'', lua_gdFoundColor),
     (''gdRandColor'', lua_gdRandColor), (''gdGetRandStr'', lua_gdGetRandStr),
     (''gdDrawRect'', lua_gdDrawRect), (''gdDrawLine'', lua_gdDrawLine), (''gdFree'', lua_gdFree),
     (''getImageDataRaw'', lua_getImageDataRaw), (''gdWriteText'', lua_gdWriteText)]"

end
