(* ===== verification/Lua_Images_Props.thy ===== *)
theory Lua_Images_Props
  imports Lua_Images
begin

text \<open>The properties of the script functions of the library \<open>images\<close>, each with an instance.\<close>

definition li_start :: "image \<Rightarrow> li_state" where
  "li_start i = \<lparr>blocks = Map.empty, nxt = 0, evs = [],
     colors = replicate MAXCOLORS \<lparr>cname = replicate MAXNAMECOLOR NUL, color = 0\<rparr>, cColors = 0,
     imgs = [4 \<mapsto> i], img_data = Map.empty\<rparr>"

text \<open>A script that works on the image behind handle 4.\<close>

definition toy_image :: image where
  "toy_image = \<lparr>im = 1, width = 10, height = 10, textOnImage = Some Null\<rparr>"

definition toy_gd :: "int \<Rightarrow> env" where
  "toy_gd k = \<lparr>malloc_ok = (\<lambda>_ _. True), answer = (\<lambda>l c. case c of
     Lua (lua_touserdata i) \<Rightarrow> RHandle (if l = [] \<or> k \<noteq> 5 then 4 else 8)
   | Lua (lua_newuserdata n) \<Rightarrow> RHandle 8
   | Gd (gdImageJpegPtr h q) \<Rightarrow> ROut 3 [255, 216, 255]
   | Libc Rand \<Rightarrow> RInt 65
   | _ \<Rightarrow> RInt k)\<rparr>"

lemma toy_gd_simps [simp]:
  "answer (toy_gd k) l (Lua (lua_touserdata i)) = RHandle (if l = [] \<or> k \<noteq> 5 then 4 else 8)"
  "answer (toy_gd k) l (Lua (lua_arg_number i)) = RInt k"
  "answer (toy_gd k) l (Lua (lua_newuserdata n)) = RHandle 8"
  "answer (toy_gd k) l (Gd (gdImageJpegPtr h q)) = ROut 3 [255, 216, 255]"
  "answer (toy_gd k) l (Libc Rand) = RInt 65"
  by (simp_all add: toy_gd_def)

lemma li_start_simps [simp]: "imgs (li_start i) 4 = Some i" "evs (li_start i) = []" "fresh (li_start i)"
  by (simp_all add: li_start_def fresh_def)

text \<open>Claim C11: the data of an encoded image come back to the script byte by byte. After \<open>getImageData\<close>,
  \<open>getImageDataRaw\<close> pushes exactly what gd produced, if gd reports the number of bytes it wrote and that number is at
  least three; the userdata of a shorter one is smaller than the structure that is written into it.\<close>

theorem lua_getImageData_roundtrip:
  assumes "\<And>l. answer e l (Lua (lua_touserdata 1)) = RHandle (if l = evs s then h else d)" "h \<noteq> 0" "d \<noteq> 0"
    and "imgs s h = Some i"
    and "\<And>l. answer e l (Lua (lua_arg_number 2)) = RInt q"
    and "\<And>l. answer e l (Gd (gdImageJpegPtr (im i) (c_int (int (c_uint q))))) = ROut (int (length bs)) bs"
    and "\<And>l n. answer e l (Lua (lua_newuserdata n)) = RHandle d"
    and "length bs < 2 ^ 31"
  shows "if 3 \<le> length bs
    then \<exists>t. bnd lua_getImageData (\<lambda>_. lua_getImageDataRaw) e s = (Ok 1, t) \<and>
      blocks t = (blocks s)(nxt s \<mapsto> map Byte bs) \<and> fst (hd (evs t)) = Lua (lua_push (LStr bs))
    else fst (bnd lua_getImageData (\<lambda>_. lua_getImageDataRaw) e s) = Err OutOfBounds"
proof -
  have small: "size_t (8 + 4 * (int (length bs) - 1)) < 16 \<longleftrightarrow> length bs < 3"
    using assms(8) by (auto simp: size_t_def nat_less_iff)
  show ?thesis
    using assms(2,3,8) small
    by (simp add: lua_getImageData_def with_image_def GETIMAGE_def to_userdata_def exec assms(1,4-7) getImageData_def
      new_struct_def lua_getImageDataRaw_def GETIMAGEDATA_def lua_pushlstring_def lib_block_def)
qed

theorem lua_getImageData_roundtrip_witness:
  "\<exists>t. bnd lua_getImageData (\<lambda>_. lua_getImageDataRaw) (toy_gd 5) (li_start toy_image) = (Ok 1, t) \<and>
    fst (hd (evs t)) = Lua (lua_push (LStr [255, 216, 255]))"
  using lua_getImageData_roundtrip [where h = 4 and d = 8 and q = 5 and i = toy_image and bs = "[255, 216, 255]"
      and e = "toy_gd 5" and s = "li_start toy_image"] by auto

text \<open>After \<open>gdFree\<close> the structure still holds the destroyed image: a second \<open>gdFree\<close>
  destroys it again, and drawing at (0, 0) passes the bounds check and draws on it.\<close>

theorem lua_gdFree_leaves_image:
  assumes "\<And>l. answer e l (Lua (lua_touserdata 1)) = RHandle h" "h \<noteq> 0"
    and "imgs s h = Some i" "textOnImage i = Some Null"
    and "\<And>l k. answer e l (Lua (lua_arg_number k)) = RInt 0"
  shows "\<exists>t t'. bnd lua_gdFree (\<lambda>_. lua_gdFree) e s = (Ok 1, t) \<and>
    length (filter (\<lambda>ev. fst ev = Gd (gdImageDestroy (im i))) (evs t)) =
      2 + length (filter (\<lambda>ev. fst ev = Gd (gdImageDestroy (im i))) (evs s)) \<and>
    bnd lua_gdFree (\<lambda>_. lua_gdSetPixel) e s = (Ok 0, t') \<and>
    fst (hd (evs t')) = Gd (gdImageSetPixel (im i) 0 0 0)"
  using assms(2,4)
  by (simp add: lua_gdFree_def lua_gdSetPixel_def with_image_def GETIMAGE_def to_userdata_def exec assms
      GETXY_def gdSetPixel_def MAXSIZEYX_def)

theorem lua_gdFree_leaves_image_witness:
  "\<exists>t t'. bnd lua_gdFree (\<lambda>_. lua_gdFree) (toy_gd 0) (li_start toy_image) = (Ok 1, t) \<and>
    length (filter (\<lambda>ev. fst ev = Gd (gdImageDestroy (im toy_image))) (evs t)) =
      2 + length (filter (\<lambda>ev. fst ev = Gd (gdImageDestroy (im toy_image))) (evs (li_start toy_image))) \<and>
    bnd lua_gdFree (\<lambda>_. lua_gdSetPixel) (toy_gd 0) (li_start toy_image) = (Ok 0, t') \<and>
    fst (hd (evs t')) = Gd (gdImageSetPixel (im toy_image) 0 0 0)"
  by (rule lua_gdFree_leaves_image [where h = 4]) (simp_all add: toy_image_def)

text \<open>\<open>gdGetRandStr\<close> of a script pushes letters and digits, one fewer than it was
  asked for.\<close>

theorem lua_gdGetRandStr_one_short:
  assumes "lua_gdGetRandStr e s = (Ok r, t)" "fresh s"
    and "\<And>l. answer e l (Lua (lua_arg_number 1)) = RInt n" "0 < n" "n < 2 ^ 31"
  shows "\<exists>bs. fst (hd (evs t)) = Lua (lua_push (LStr bs)) \<and> length bs = nat n - 1 \<and> list_all alnum_byte bs"
proof -
  let ?s = "s\<lparr>evs := (Lua (lua_arg_number 1), RInt n) # evs s\<rparr>"
  let ?cs = "replicate (nat (n + 1)) Undef" and ?p = "Addr (nxt s) 0"
  have n: "size_t (n - 1) = nat n - 1" "nat (n + 1) = Suc (Suc (nat n - 1))" "nat n = Suc (nat n - 1)"
    using assms(4,5) by auto
  have "nat (n + 1) \<noteq> 0"
    using assms(4) by simp
  then obtain t' where t': "bnd (gdGetRandStr ?p (nat n - 1)) (\<lambda>_. bnd (store_byte (padd ?p (nat n)) NUL) (\<lambda>_.
      bnd (lua_pushstring ?p) (\<lambda>_. ret 1))) e (new_block ?cs ?s) = (Ok r, t')" "t = drop_block (nxt s) t'"
    using assms(1,3) n(1)
    by (auto simp: lua_gdGetRandStr_def exec local_arr_def split: prod.splits cong del: cont_cong)
  then obtain u where u: "gdGetRandStr ?p (nat n - 1) e (new_block ?cs ?s) = (Ok (), u)"
    and rest: "bnd (store_byte (padd ?p (nat n)) NUL) (\<lambda>_. bnd (lua_pushstring ?p) (\<lambda>_. ret 1)) e u = (Ok r, t')"
    by (auto simp: run_bnd cont_eq_Ok)
  have blk: "blocks (new_block ?cs ?s) (nxt s) = Some ?cs"
    by simp
  have lt: "nat n - 1 < length ?cs"
    using assms(4) by simp
  obtain bs where bs: "blocks u = (blocks (new_block ?cs ?s))(nxt s \<mapsto> map Byte bs @ Byte NUL # drop (Suc (nat n - 1)) ?cs)"
    "length bs = nat n - 1" "list_all alnum_byte bs"
    using gdGetRandStr_Ok [OF u blk lt] by blast
  have "NUL \<notin> set bs"
    using bs(3) by (auto simp: list_all_iff alnum_byte_def alnum_def)
  then have str: "get_str (blocks u) ?p = Inr bs" "get_str ((blocks u)(nxt s \<mapsto> map Byte bs @ [Byte NUL, Byte NUL])) ?p = Inr bs"
    by (simp_all add: bs(1) get_str_def cells_of_def scan_string)
  have "put_cells (blocks u) (padd ?p (nat n)) [Byte NUL] = Inr ((blocks u)(nxt s \<mapsto> map Byte bs @ [Byte NUL, Byte NUL]))"
    using n bs(2) by (simp add: bs(1) put_cells_def)
  then have "fst (hd (evs t')) = Lua (lua_push (LStr bs))"
    using rest str by (auto simp: exec lua_pushstring_def)
  then show ?thesis
    using bs t'(2) by auto
qed

lemma toy_draw: "draw_alnum (toy_gd k) s = (Ok 65, s\<lparr>evs := (Libc Rand, RInt 65) # evs s\<rparr>)"
  unfolding draw_alnum_def
  by (rule c_while_next [of "\<lambda>b. \<not> alnum b" 0 _ "toy_gd k" s 65]) (simp_all add: alnum_def rand_def exec)

theorem lua_gdGetRandStr_one_short_witness:
  "\<exists>bs. fst (hd (evs (snd (lua_gdGetRandStr (toy_gd 2) (li_start toy_image))))) = Lua (lua_push (LStr bs)) \<and>
    length bs = nat 2 - 1 \<and> list_all alnum_byte bs"
proof (rule lua_gdGetRandStr_one_short)
  show "lua_gdGetRandStr (toy_gd 2) (li_start toy_image) = (Ok 1, snd (lua_gdGetRandStr (toy_gd 2) (li_start toy_image)))"
    by (simp add: lua_gdGetRandStr_def exec local_arr_def gdGetRandStr_def lua_pushstring_def toy_draw
        get_str_def cells_of_def)
qed simp_all

definition pixel_event :: "image \<Rightarrow> int \<Rightarrow> int \<Rightarrow> int \<Rightarrow> call" where
  "pixel_event i x y c = Gd (gdImageSetPixel (im i) x y c)"

text \<open>A script's \<open>gdSetPixel\<close> reaches gd exactly if both coordinates are between 0 and
  the size of the image, the size itself included; any other call leaves the image alone.\<close>

theorem lua_gdSetPixel_bounds:
  assumes "\<And>l. answer e l (Lua (lua_touserdata 1)) = RHandle h" "h \<noteq> 0"
    and "imgs s h = Some i" "width i < 2 ^ 31" "height i < 2 ^ 31"
    and "\<And>l. answer e l (Lua (lua_arg_number 2)) = RInt x" "\<bar>x\<bar> < 2 ^ 31"
    and "\<And>l. answer e l (Lua (lua_arg_number 3)) = RInt y" "\<bar>y\<bar> < 2 ^ 31"
    and "\<And>l. answer e l (Lua (lua_arg_number 4)) = RInt c"
  shows "\<exists>t. lua_gdSetPixel e s = (Ok 0, t) \<and> blocks t = blocks s \<and>
    (fst (hd (evs t)) = pixel_event i x y c \<longleftrightarrow> 0 \<le> x \<and> x \<le> int (width i) \<and> 0 \<le> y \<and> y \<le> int (height i)) \<and>
    length (evs t) \<le> length (evs s) + 5"
proof -
  have le: "c_uint z \<le> w \<longleftrightarrow> 0 \<le> z \<and> z \<le> int w" "0 \<le> z \<Longrightarrow> c_int (int (c_uint z)) = z"
    if "\<bar>z\<bar> < 2 ^ 31" "w < 2 ^ 31" for z :: int and w :: nat
  proof (cases "0 \<le> z")
    case False
    have "z mod 2 ^ 32 = (z + 2 ^ 32) mod 2 ^ 32"
      by simp
    also have "\<dots> = z + 2 ^ 32"
      using that False by (intro mod_pos_pos_trivial) auto
    finally show "c_uint z \<le> w \<longleftrightarrow> 0 \<le> z \<and> z \<le> int w"
      using that False by (simp add: c_uint_def nat_le_iff)
  qed (use that in \<open>auto simp: nat_le_iff\<close>)
  show ?thesis
    using assms(2,4,5,7,9) le [of x "width i"] le [of y "height i"]
    by (auto simp: lua_gdSetPixel_def with_image_def GETIMAGE_def to_userdata_def exec assms(1,3,6,8,10)
      GETXY_def gdSetPixel_def MAXSIZEYX_def pixel_event_def not_less)
qed

theorem lua_gdSetPixel_bounds_witness:
  "\<exists>t. lua_gdSetPixel (toy_gd (- 1)) (li_start toy_image) = (Ok 0, t) \<and> blocks t = blocks (li_start toy_image) \<and>
    (fst (hd (evs t)) = pixel_event toy_image (- 1) (- 1) (- 1) \<longleftrightarrow>
      0 \<le> (- 1 :: int) \<and> - 1 \<le> int (width toy_image) \<and> 0 \<le> (- 1 :: int) \<and> - 1 \<le> int (height toy_image)) \<and>
    length (evs t) \<le> length (evs (li_start toy_image)) + 5"
  by (rule lua_gdSetPixel_bounds [where h = 4]) (simp_all add: toy_image_def)

end
