(* ===== verification/Lua_Gmp.thy ===== *)
theory Lua_Gmp
  imports Lua_Api
begin

text \<open>
  \<open>libbacteria/lua/libgmp.c\<close>: GMP numbers for scripts. A number is a block of 16 bytes on
  the C heap that a script holds as light userdata: the handle of the block \<open>b\<close> is
  \<open>b + 1\<close>, and 0 is \<open>NULL\<close>. What the block holds is GMP's business; a GMP function given a
  block that was freed is a use after free.
\<close>

definition user_of :: "ptr \<Rightarrow> handle" where
  "user_of p = (case p of Null \<Rightarrow> 0 | Addr b i \<Rightarrow> Suc b)"

definition ptr_of :: "handle \<Rightarrow> ptr" where
  "ptr_of h = (case h of 0 \<Rightarrow> Null | Suc b \<Rightarrow> Addr b 0)"

lemma ptr_of_simps [simp]: "ptr_of 0 = Null" "ptr_of (Suc b) = Addr b 0" "ptr_of (user_of (Addr b 0)) = Addr b 0"
  by (simp_all add: ptr_of_def user_of_def)

text \<open>The macro \<open>GETMP\<close>, and a call that works on the given numbers.\<close>

definition GETMP :: "int \<Rightarrow> ('z, handle) prog" where
  "GETMP i = bnd (to_userdata i) (\<lambda>h.
     if h = 0 then luaL_error ''init err GMP'' else ret h)"

definition mp_live :: "handle \<Rightarrow> ('z, unit) prog" where
  "mp_live h = read_mem (\<lambda>m. case cells_of m (ptr_of h) of Inl x \<Rightarrow> Inl x | Inr _ \<Rightarrow> Inr ())"

primrec all_live :: "handle list \<Rightarrow> ('z, unit) prog" where
  "all_live [] = ret ()"
| "all_live (h # hs) = bnd (mp_live h) (\<lambda>_. all_live hs)"

definition mp_op :: "string \<Rightarrow> ('z, int) prog" where
  "mp_op op =
     bnd (GETMP 1) (\<lambda>a.
     bnd (GETMP 2) (\<lambda>b.
     bnd (GETMP 3) (\<lambda>c.
     bnd (all_live [a, b, c]) (\<lambda>_.
     bnd (ext (Gmp (Gmp_op op [a, b, c]))) (\<lambda>_.
     ret 0)))))"

text \<open>The third operand is an \<open>int\<close> that GMP takes as an \<open>unsigned long\<close>.\<close>

definition mp_op_ui :: "string \<Rightarrow> ('z, int) prog" where
  "mp_op_ui op =
     bnd (GETMP 1) (\<lambda>a.
     bnd (GETMP 2) (\<lambda>b.
     bnd (luaL_checknumber 3) (\<lambda>c.
     bnd (all_live [a, b]) (\<lambda>_.
     bnd (ext (Gmp (Gmp_op_ui op [a, b] (size_t c)))) (\<lambda>_.
     ret 0)))))"

text \<open>\<open>mpz_init\<close> writes through the pointer that \<open>malloc\<close> returned.\<close>

definition mp_init :: "string \<Rightarrow> ('z, int) prog" where
  "mp_init op =
     bnd (malloc 16) (\<lambda>rt.
     if rt = Null then fail NullDeref else
     bnd (ext (Gmp (Gmp_init op (user_of rt)))) (\<lambda>_.
     bnd (push (LUser (user_of rt))) (\<lambda>_.
     ret 1)))"

definition mp_init_str :: "string \<Rightarrow> ('z, int) prog" where
  "mp_init_str op =
     bnd (malloc 16) (\<lambda>rt.
     bnd (luaL_checkstring 1) (\<lambda>val.
     bnd (read_str val) (\<lambda>digits.
     if rt = Null then fail NullDeref else
     bnd (ext (Gmp (Gmp_init_set_str op (user_of rt) digits 0))) (\<lambda>_.
     bnd (push (LUser (user_of rt))) (\<lambda>_.
     ret 1)))))"

text \<open>
  \<open>LGMPGETSTR\<close>: \<open>gmp_snprintf\<close> writes at most \<open>c\<close> bytes, the last of them zero. The reply
  is the whole text of the number.
\<close>

definition mp_getstr :: "string \<Rightarrow> ('z, int) prog" where
  "mp_getstr fmt =
     bnd (GETMP 1) (\<lambda>a.
     bnd (luaL_checknumber 2) (\<lambda>c.
     local_arr (nat c) (\<lambda>buf.
     bnd (mp_live a) (\<lambda>_.
     bnd (ext (Gmp (Gmp_snprintf fmt a))) (\<lambda>r.
     bnd (write_bytes buf (take (nat c - 1) (r_bytes r) @ [NUL])) (\<lambda>_.
     bnd (lua_pushstring buf) (\<lambda>_.
     ret 1)))))))"

definition mp_release :: "string \<Rightarrow> handle \<Rightarrow> ('z, unit) prog" where
  "mp_release op a =
     bnd (mp_live a) (\<lambda>_.
     bnd (ext (Gmp (Gmp_clear op a))) (\<lambda>_.
     free (ptr_of a)))"

subsection \<open>Integers\<close>

definition lua_mpz_div :: "('z, int) prog" where "lua_mpz_div = mp_op ''mpz_div''"
definition lua_mpz_mod :: "('z, int) prog" where "lua_mpz_mod = mp_op ''mpz_mod''"
definition lua_mpz_mul :: "('z, int) prog" where "lua_mpz_mul = mp_op ''mpz_mul''"
definition lua_mpz_mul_ui :: "('z, int) prog" where "lua_mpz_mul_ui = mp_op_ui ''mpz_mul_ui''"
definition lua_mpz_init :: "('z, int) prog" where "lua_mpz_init = mp_init ''mpz_init''"
definition lua_mpz_init_str :: "('z, int) prog" where "lua_mpz_init_str = mp_init_str ''mpz_init_set_str''"
definition lua_mpz_add :: "('z, int) prog" where "lua_mpz_add = mp_op ''mpz_add''"
definition lua_mpz_add_ui :: "('z, int) prog" where "lua_mpz_add_ui = mp_op_ui ''mpz_add_ui''"
definition lua_mpz_sub :: "('z, int) prog" where "lua_mpz_sub = mp_op ''mpz_sub''"
definition lua_mpz_sub_ui :: "('z, int) prog" where "lua_mpz_sub_ui = mp_op_ui ''mpz_sub_ui''"
definition lua_mpz_getstr :: "('z, int) prog" where "lua_mpz_getstr = mp_getstr ''%Zd''"

text \<open>The test \<open>*la == NULL\<close> compares the address of the number, which is not \<open>NULL\<close> here.\<close>

definition lua_mpz_clear :: "('z, int) prog" where
  "lua_mpz_clear = bnd (GETMP 1) (\<lambda>a. bnd (mp_release ''mpz_clear'' a) (\<lambda>_. ret 0))"

subsection \<open>Floating-point and rational numbers\<close>

definition lua_mpf_div :: "('z, int) prog" where "lua_mpf_div = mp_op ''mpf_div''"
definition lua_mpf_mul :: "('z, int) prog" where "lua_mpf_mul = mp_op ''mpf_mul''"
definition lua_mpf_mul_ui :: "('z, int) prog" where "lua_mpf_mul_ui = mp_op_ui ''mpf_mul_ui''"
definition lua_mpf_init :: "('z, int) prog" where "lua_mpf_init = mp_init ''mpf_init''"
definition lua_mpf_init_str :: "('z, int) prog" where "lua_mpf_init_str = mp_init_str ''mpf_init_set_str''"
definition lua_mpf_add :: "('z, int) prog" where "lua_mpf_add = mp_op ''mpf_add''"
definition lua_mpf_sub :: "('z, int) prog" where "lua_mpf_sub = mp_op ''mpf_sub''"
definition lua_mpf_sub_ui :: "('z, int) prog" where "lua_mpf_sub_ui = mp_op_ui ''mpf_sub_ui''"
definition lua_mpf_getstr :: "('z, int) prog" where "lua_mpf_getstr = mp_getstr ''%.Ff''"

text \<open>
  The following functions end without a \<open>return\<close>; Lua uses what they return. The operand
  of \<open>mpf_add_ui\<close> passes through a \<open>float\<close>, whose rounding above \<open>2 ^ 24\<close> is not modelled.
\<close>

definition lua_mpf_add_ui :: "('z, int) prog" where
  "lua_mpf_add_ui =
     bnd (GETMP 1) (\<lambda>a.
     bnd (GETMP 2) (\<lambda>b.
     bnd (luaL_checknumber 3) (\<lambda>c.
     bnd (ext (Libc (Format_num ''float val: %f'' c))) (\<lambda>_.
     bnd (all_live [a, b]) (\<lambda>_.
     bnd (ext (Gmp (Gmp_op_ui ''mpf_add_ui'' [a, b] (size_t c)))) (\<lambda>_.
     fail NoReturnValue))))))"

definition lua_mpf_clear :: "('z, int) prog" where
  "lua_mpf_clear = bnd (GETMP 1) (\<lambda>a. bnd (mp_release ''mpf_clear'' a) (\<lambda>_. fail NoReturnValue))"

definition lua_mpq_init :: "('z, int) prog" where "lua_mpq_init = fail NoReturnValue"
definition lua_mpq_add :: "('z, int) prog" where "lua_mpq_add = fail NoReturnValue"
definition lua_mpq_add_ui :: "('z, int) prog" where "lua_mpq_add_ui = fail NoReturnValue"
definition lua_mpq_init_str :: "('z, int) prog" where "lua_mpq_init_str = fail NoReturnValue"
definition lua_mpq_getstr :: "('z, int) prog" where "lua_mpq_getstr = fail NoReturnValue"
definition lua_mpq_clear :: "('z, int) prog" where "lua_mpq_clear = fail NoReturnValue"

text \<open>The functions that the library \<open>lgmp\<close> registers.\<close>

definition lgmp :: "(string \<times> ('z, int) prog) list" where
  "lgmp =
    [(''mpz_init'', lua_mpz_init), (''mpz_init_str'', lua_mpz_init_str), (''mpz_getstr'', lua_mpz_getstr),
     (''mpz_add'', lua_mpz_add), (''mpz_mul_ui'', lua_mpz_mul_ui), (''mpz_sub'', lua_mpz_sub),
     (''mpz_sub_ui'', lua_mpz_sub_ui), (''mpz_div'', lua_mpz_div), (''mpz_mod'', lua_mpz_mod),
     (''mpz_mul'', lua_mpz_mul), (''mpz_add_ui'', lua_mpz_add_ui), (''mpz_clear'', lua_mpz_clear),
     (''mpf_init'', lua_mpf_init), (''mpf_add'', lua_mpf_add), (''mpf_sub'', lua_mpf_sub),
     (''mpf_sub_ui'', lua_mpf_sub_ui), (''mpf_mul_ui'', lua_mpf_mul_ui), (''mpf_div'', lua_mpf_div),
     (''mpf_mul'', lua_mpf_mul), (''mpf_add_ui'', lua_mpf_add_ui), (''mpf_getstr'', lua_mpf_getstr),
     (''mpf_init_str'', lua_mpf_init_str), (''mpf_clear'', lua_mpf_clear),
     (''mpq_init'', lua_mpq_init), (''mpq_add'', lua_mpq_add), (''mpq_add_ui'', lua_mpq_add_ui),
     (''mpq_getstr'', lua_mpq_getstr), (''mpq_init_str'', lua_mpq_init_str), (''mpq_clear'', lua_mpq_clear)]"

end
