(* ===== verification/Lua_Gmp_Props.thy ===== *)
theory Lua_Gmp_Props
  imports Lua_Gmp
begin

text \<open>The properties of the GMP numbers of scripts (\<open>Lua_Gmp\<close>).\<close>

lemma mp_live_run [exec]:
  "blocks s b \<noteq> None \<Longrightarrow> mp_live (Suc b) e s = (Ok (), s)"
  "blocks s b = None \<Longrightarrow> mp_live (Suc b) e s = (Err UseAfterFree, s)"
  by (auto simp: mp_live_def read_mem_def cells_of_def split: sum.split)

lemma ensures_rest:
  assumes "\<And>a. ensures (\<lambda>_. True) (f a) Q"
  shows "ensures (\<lambda>_. True) (bnd m f) Q"
  using assms by (intro ensures_bnd [where R = "\<lambda>_ _. True"]) (simp_all add: ensures_def)

text \<open>Claim C37: a number that a script makes and clears leaves the heap as it was, and each of
  GMP's two functions is called once, on the same number.\<close>

theorem gmp_init_clear:
  assumes "fresh s" "alloc_total e"
    and "\<And>l. answer e l (Lua (lua_touserdata 1)) = RHandle (Suc (nxt s))"
  shows "\<exists>t. bnd lua_mpz_init (\<lambda>_. lua_mpz_clear) e s = (Ok 0, t) \<and> blocks t = blocks s \<and>
    map fst (events t) = map fst (events s) @
      [Gmp (Gmp_init ''mpz_init'' (Suc (nxt s))), Lua (lua_push (LUser (Suc (nxt s)))),
       Lua (lua_touserdata 1), Gmp (Gmp_clear ''mpz_clear'' (Suc (nxt s)))]"
proof -
  have "(blocks s)(nxt s := None) = blocks s"
    using assms(1) by auto
  then show ?thesis
    using assms
    by (simp add: lua_mpz_init_def mp_init_def lua_mpz_clear_def GETMP_def to_userdata_def mp_release_def
        exec user_of_def events_def drop_block_def new_block_def)
qed

text \<open>The script keeps the handle of a number it cleared: clearing it again, using it as
  an operand and printing it are uses of freed memory.\<close>

theorem gmp_use_after_clear:
  assumes "\<And>l i. answer e l (Lua (lua_touserdata i)) = RHandle (Suc b)" "blocks s b = Some cs"
    and "\<And>l i. answer e l (Lua (lua_arg_number i)) = RInt n" "0 < n" "b < nxt s"
  shows "\<exists>t. lua_mpz_clear e s = (Ok 0, t) \<and> blocks t = (blocks s)(b := None) \<and>
    fst (lua_mpz_clear e t) = Err UseAfterFree \<and> fst (lua_mpz_add e t) = Err UseAfterFree \<and>
    fst (lua_mpz_add_ui e t) = Err UseAfterFree \<and> fst (lua_mpz_getstr e t) = Err UseAfterFree"
  using assms(2,4,5)
  by (simp add: lua_mpz_clear_def lua_mpz_add_def mp_op_def lua_mpz_add_ui_def mp_op_ui_def GETMP_def
      to_userdata_def mp_release_def exec assms(1,3) lua_mpz_getstr_def mp_getstr_def local_arr_def)

text \<open>\<open>mpz_getstr\<close> with a size \<open>c\<close> pushes the first \<open>c - 1\<close> characters of the number,
  whatever its length, and writes nothing outside its array.\<close>

theorem gmp_getstr_prefix:
  assumes "fresh s" "\<And>l. answer e l (Lua (lua_touserdata 1)) = RHandle (Suc b)" "blocks s b = Some cs"
    and "\<And>l. answer e l (Lua (lua_arg_number 2)) = RInt c" "0 < c"
    and "\<And>l. answer e l (Gmp (Gmp_snprintf ''%Zd'' (Suc b))) = ROut n digits" "NUL \<notin> set digits"
  shows "\<exists>t. lua_mpz_getstr e s = (Ok 1, t) \<and> blocks t = blocks s \<and>
    fst (hd (evs t)) = Lua (lua_push (LStr (take (nat c - 1) digits)))"
proof -
  let ?w = "take (nat c - 1) digits"
  have len: "Suc (length ?w) \<le> nat c"
    using assms(5) by auto
  have "NUL \<notin> set ?w"
    using assms(7) by (auto dest: in_set_takeD)
  then have str: "get_str (m(k \<mapsto> map Byte (?w @ [NUL]) @ cs)) (Addr k 0) = Inr ?w" for m k cs
    by (simp add: get_str_def cells_of_def scan_string)
  have other: "(blocks s)(nxt s := None) = blocks s" "b \<noteq> nxt s"
    using assms(1,3) fresh_nxt [OF assms(1)] by auto
  show ?thesis
    using len assms(3,5) other str
    by (simp add: lua_mpz_getstr_def mp_getstr_def GETMP_def to_userdata_def exec assms(2,4,6) local_arr_def
        lua_pushstring_def new_block_def drop_block_def del: map_append)
qed

text \<open>Of the functions that \<open>lgmp\<close> registers, the six for rational numbers,
  \<open>mpf_clear\<close> and \<open>mpf_add_ui\<close> never return a value, whatever the arguments.\<close>

theorem gmp_no_value:
  assumes "(nm, f) \<in> set lgmp"
    and "nm \<in> {''mpq_init'', ''mpq_add'', ''mpq_add_ui'', ''mpq_init_str'', ''mpq_getstr'', ''mpq_clear'',
      ''mpf_clear'', ''mpf_add_ui''}"
  shows "fst (f e s) \<noteq> Ok n"
proof -
  have "ensures (\<lambda>_. True) f (\<lambda>_ _. False)"
    using assms unfolding lgmp_def
    by (auto simp: lua_mpq_init_def lua_mpq_add_def lua_mpq_add_ui_def lua_mpq_init_str_def lua_mpq_getstr_def
       lua_mpq_clear_def ensures_fail lua_mpf_clear_def lua_mpf_add_ui_def intro!: ensures_rest)
  then show ?thesis
    by (rule ensures_never) simp
qed


subsection \<open>Instances\<close>

definition toy_gmp :: env where
  "toy_gmp = \<lparr>malloc_ok = (\<lambda>_ _. True), answer = (\<lambda>l c. case c of
     Lua (lua_touserdata i) \<Rightarrow> RHandle 1
   | Gmp (Gmp_snprintf f h) \<Rightarrow> ROut 3 [49, 50, 51]
   | _ \<Rightarrow> RInt 3)\<rparr>"

lemma toy_gmp_simps [simp]:
  "answer toy_gmp l (Lua (lua_touserdata i)) = RHandle 1"
  "answer toy_gmp l (Gmp (Gmp_snprintf f h)) = ROut 3 [49, 50, 51]"
  "answer toy_gmp l (Lua (lua_arg_number i)) = RInt 3"
  "alloc_total toy_gmp"
  by (simp_all add: toy_gmp_def alloc_total_def)

theorem gmp_init_clear_witness:
  fixes s defines "s \<equiv> state_of []"
  shows "\<exists>t. bnd lua_mpz_init (\<lambda>_. lua_mpz_clear) toy_gmp s = (Ok 0, t) \<and> blocks t = blocks s \<and>
    map fst (events t) = map fst (events s) @
      [Gmp (Gmp_init ''mpz_init'' (Suc (nxt s))), Lua (lua_push (LUser (Suc (nxt s)))),
       Lua (lua_touserdata 1), Gmp (Gmp_clear ''mpz_clear'' (Suc (nxt s)))]"
  by (rule gmp_init_clear) (simp_all add: s_def)

theorem gmp_use_after_clear_witness:
  fixes s defines "s \<equiv> state_of [replicate 16 Undef]"
  shows "\<exists>t. lua_mpz_clear toy_gmp s = (Ok 0, t) \<and> blocks t = (blocks s)(0 := None) \<and>
    fst (lua_mpz_clear toy_gmp t) = Err UseAfterFree \<and> fst (lua_mpz_add toy_gmp t) = Err UseAfterFree \<and>
    fst (lua_mpz_add_ui toy_gmp t) = Err UseAfterFree \<and> fst (lua_mpz_getstr toy_gmp t) = Err UseAfterFree"
  by (rule gmp_use_after_clear [where n = 3]) (simp_all add: s_def)

theorem gmp_getstr_prefix_witness:
  fixes s defines "s \<equiv> state_of [replicate 16 Undef]"
  shows "\<exists>t. lua_mpz_getstr toy_gmp s = (Ok 1, t) \<and> blocks t = blocks s \<and>
    fst (hd (evs t)) = Lua (lua_push (LStr (take (nat 3 - 1) [49, 50, 51])))"
  by (rule gmp_getstr_prefix [where b = 0 and c = 3 and n = 3]) (simp_all add: s_def)

theorem gmp_no_value_witness: "fst (lua_mpf_clear toy_gmp (state_of [])) \<noteq> Ok 0"
  by (rule gmp_no_value [of "''mpf_clear''"]) (simp_all add: lgmp_def)

end
