(* ===== verification/Lua_Coins.thy ===== *)
theory Lua_Coins
  imports Json_Rpc Lua_Api
begin

text \<open>
  \<open>libbacteria/lua/libcrypto.c\<close> and \<open>libjson.c\<close>: the coin table and the RPC client for
  scripts. The table that a script holds is a copy in userdata: a block of cells that Lua
  owns, behind a handle. Two of the static variables exist twice: \<open>count_cryptocoins\<close> is
  static in a header, so \<open>libcrypto.c\<close> has one of its own, which nothing assigns.
\<close>

record lc_state = cc_state +
  cryptocoinsinited :: bool
  own_count :: nat
  coin_ud :: "handle \<Rightarrow> ptr option"
  rpc_s :: jstring

type_synonym ('z, 'a) lcprog = "('z lc_state_ext cc_state_ext, 'a) prog"

subsection \<open>Loading\<close>

text \<open>
  How many cells of an array of coins lie within its first bytes: the seven cells of a
  coin end at the offsets 1, 16, 24, 25, 26, 40 and 48.
\<close>

definition coin_ends :: "nat list" where
  "coin_ends = [1, 16, 24, 25, 26, 40, 48]"

definition coin_cells_in :: "nat \<Rightarrow> nat" where
  "coin_cells_in n = 7 * (n div 48) + length (filter (\<lambda>k. k \<le> n mod 48) coin_ends)"

definition coin_nbytes :: "nat \<Rightarrow> nat \<Rightarrow> nat \<Rightarrow> nat \<Rightarrow> byte \<Rightarrow> nat \<Rightarrow> nat" where
  "coin_nbytes nu np nh nn tn port =
     size_t (48 + int ((nu + 1) + (np + 1) + (nh + 1) + (nn + 1)) + (if tn = 0 then 0 else 1) + 2 * (int port - 1))"

text \<open>
  \<open>memcpy (a, crypto, nbytes)\<close> reads as many bytes from the table as the userdata has. The
  first member of a coin is one byte, so every byte behind the last coin counts as a cell
  past the block.
\<close>

definition copy_coins :: "ptr \<Rightarrow> ('z, int) lcprog" where
  "copy_coins crypto =
     bnd (load_ptr (coin_at crypto 0 rpcuser)) (\<lambda>u. bnd (strlen u) (\<lambda>nu.
     bnd (load_ptr (coin_at crypto 0 rpcpassword)) (\<lambda>p. bnd (strlen p) (\<lambda>np.
     bnd (load_ptr (coin_at crypto 0 rpchost)) (\<lambda>h. bnd (strlen h) (\<lambda>nh.
     bnd (load_ptr (coin_at crypto 0 cryptocoin_name)) (\<lambda>n. bnd (strlen n) (\<lambda>nn.
     bnd (load_byte (coin_at crypto 0 testnet)) (\<lambda>tn.
     bnd (load_port (coin_at crypto 0 rpcport)) (\<lambda>port.
     let nbytes = coin_nbytes nu np nh nn tn port in
     bnd (ext (Lua (lua_newuserdata nbytes))) (\<lambda>ud.
     bnd (read_cells crypto (coin_cells_in nbytes)) (\<lambda>cs.
     bnd (lib_block cs) (\<lambda>a.
     bnd (modify (\<lambda>s. s\<lparr>coin_ud := (coin_ud s)(r_handle ud \<mapsto> a), cryptocoinsinited := True\<rparr>)) (\<lambda>_.
     ret 1))))))))))))))"

definition loadCryptocoins :: "('z, int) lcprog" where
  "loadCryptocoins =
     bnd (gets cryptocoinsinited) (\<lambda>inited.
     if inited then luaL_error ''you already loaded cryptocoin config file!'' else
     bnd (luaL_checkstring 1) (\<lambda>pathtofile.
     bnd (init_cryptocoins pathtofile) (\<lambda>crypto.
     if crypto = Null then luaL_error ''load failed'' else
     bnd getCountCryptocoins (\<lambda>n.
     bnd (push (LNum (int n))) (\<lambda>_.
     bnd (lua_do (lua_setglobal ''count_cryptocoins'')) (\<lambda>_.
     copy_coins crypto))))))"

definition luagetcount_cryptocoins :: "('z, nat) prog" where
  "luagetcount_cryptocoins =
     bnd (lua_do (lua_getglobal ''count_cryptocoins'')) (\<lambda>_.
     bnd (lua_test (lua_isnumber (- 1))) (\<lambda>num.
     if \<not> num then luaL_error ''`count_cryptocoins' should be a number'' else
     bnd (lua_tonumber (- 1)) (\<lambda>c.
     ret (c_uint (c_int c)))))"

definition get_coins :: "('z, ptr) lcprog" where
  "get_coins =
     bnd (to_userdata 1) (\<lambda>h.
     if h = 0 then luaL_error ''`array' expected'' else deref coin_ud h)"

subsection \<open>Clearing\<close>

text \<open>
  The loop tests two members of the entry before the counter. Its body frees the strings
  of the first entry. The function ends without a \<open>return\<close>.
\<close>

definition luaclear_cond :: "ptr \<Rightarrow> nat \<Rightarrow> ('z, bool) lcprog" where
  "luaclear_cond crypto i =
     bnd (load_ptr (coin_at crypto i rpchost)) (\<lambda>h.
     if h = Null then ret False else
     bnd (load_port (coin_at crypto i rpcport)) (\<lambda>port.
     if port = 0 then ret False else
     gets (\<lambda>s. i < own_count s)))"

definition luaclear_body :: "ptr \<Rightarrow> nat \<Rightarrow> ('z, nat) lcprog" where
  "luaclear_body crypto i =
     bnd (load_ptr (coin_at crypto 0 rpcuser)) (\<lambda>p. bnd (free p) (\<lambda>_.
     bnd (load_ptr (coin_at crypto 0 rpcpassword)) (\<lambda>p. bnd (free p) (\<lambda>_.
     bnd (load_ptr (coin_at crypto 0 rpchost)) (\<lambda>p. bnd (free p) (\<lambda>_.
     bnd (load_ptr (coin_at crypto 0 cryptocoin_name)) (\<lambda>p. bnd (free p) (\<lambda>_.
     bnd (setCountCryptocoins 0) (\<lambda>_.
     ret (c_uchar (int i + 1)))))))))))"

definition luaclear_cryptocoins :: "('z, int) lcprog" where
  "luaclear_cryptocoins =
     bnd get_coins (\<lambda>crypto.
     bnd (c_loop (luaclear_cond crypto) (luaclear_body crypto) 0) (\<lambda>_.
     bnd (modify (\<lambda>s. s\<lparr>cryptocoinsinited := False\<rparr>)) (\<lambda>_.
     fail NoReturnValue)))"

subsection \<open>Looking up a coin\<close>

text \<open>The loop counts down from \<open>c\<close>, which is cut to an \<open>unsigned char\<close>.\<close>

primrec find_coin :: "nat \<Rightarrow> ptr \<Rightarrow> ptr \<Rightarrow> ('z, nat option) prog" where
  "find_coin 0 crypto needcoin = ret None"
| "find_coin (Suc i) crypto needcoin =
     bnd (load_ptr (coin_at crypto i cryptocoin_name)) (\<lambda>nm.
     bnd (str_eq needcoin nm) (\<lambda>same.
     if same then ret (Some i) else find_coin i crypto needcoin))"

definition push_member :: "string \<Rightarrow> ptr \<Rightarrow> ('z, unit) prog" where
  "push_member key member =
     bnd (push (LStr (bytes_of key))) (\<lambda>_.
     bnd (load_ptr member) (\<lambda>v.
     bnd (lua_pushstring v) (\<lambda>_.
     lua_do (lua_settable (- 3)))))"

text \<open>The part of \<open>getCryptocoinsTable\<close> that fills the table.\<close>

definition push_coin :: "ptr \<Rightarrow> nat \<Rightarrow> ('z, unit) prog" where
  "push_coin crypto i =
     bnd (push (LStr (bytes_of ''istestnet''))) (\<lambda>_.
     bnd (load_byte (coin_at crypto i testnet)) (\<lambda>tn.
     bnd (push (LBool (tn \<noteq> 0))) (\<lambda>_.
     bnd (lua_do (lua_settable (- 3))) (\<lambda>_.
     bnd (push_member ''user'' (coin_at crypto i rpcuser)) (\<lambda>_.
     bnd (push_member ''password'' (coin_at crypto i rpcpassword)) (\<lambda>_.
     bnd (push_member ''host'' (coin_at crypto i rpchost)) (\<lambda>_.
     bnd (push_member ''name'' (coin_at crypto i cryptocoin_name)) (\<lambda>_.
     bnd (push (LStr (bytes_of ''port''))) (\<lambda>_.
     bnd (load_port (coin_at crypto i rpcport)) (\<lambda>port.
     bnd (push (LNum (int port))) (\<lambda>_.
     lua_do (lua_settable (- 3)))))))))))))"

definition getCryptocoinsTable :: "('z, int) lcprog" where
  "getCryptocoinsTable =
     bnd luagetcount_cryptocoins (\<lambda>c.
     bnd (lua_do (lua_createtable 0 4)) (\<lambda>_.
     bnd get_coins (\<lambda>crypto.
     bnd (luaL_checkstring 2) (\<lambda>needcoin.
     bnd (find_coin (c_uchar (int c)) crypto needcoin) (\<lambda>found.
     case found of None \<Rightarrow> luaL_error ''cryptocoin not found''
     | Some i \<Rightarrow> bnd (push_coin crypto i) (\<lambda>_. ret 1))))))"

definition lua_loadscript :: "ptr \<Rightarrow> ('z, unit) prog" where
  "lua_loadscript filename =
     bnd (read_str filename) (\<lambda>f.
     bnd (lua_test (luaL_loadfile f)) (\<lambda>bad.
     bnd (if bad then ret True else lua_test lua_pcall) (\<lambda>err.
     if err then bnd (lua_tostring (- 1)) (\<lambda>_. luaL_error ''cannot run configuration file'')
     else ret ())))"

definition cryptocoinslib :: "(string \<times> ('z, int) lcprog) list" where
  "cryptocoinslib = [(''load'', loadCryptocoins), (''gettable'', getCryptocoinsTable), (''clear'', luaclear_cryptocoins)]"

subsection \<open>Requests\<close>

text \<open>A field of the table at the top of the stack; \<open>GETLUASTRING\<close> leaves the string on Lua's stack.\<close>

definition rpc_field :: "string \<Rightarrow> lua_call \<Rightarrow> string \<Rightarrow> ('z, unit) prog" where
  "rpc_field what is_ok complaint =
     bnd (push (LStr (bytes_of what))) (\<lambda>_.
     bnd (lua_do (lua_gettable (- 2))) (\<lambda>_.
     bnd (lua_test is_ok) (\<lambda>b.
     if b then ret () else luaL_error complaint)))"

definition GETLUASTRING :: "string \<Rightarrow> ('z, ptr) prog" where
  "GETLUASTRING what =
     bnd (rpc_field what (lua_isstring (- 1)) (''invalid '' @ what)) (\<lambda>_.
     bnd (lua_tostring (- 1)) (\<lambda>p.
     bnd (lua_do (lua_pop 1)) (\<lambda>_.
     ret p)))"

text \<open>The string \<open>s\<close> of the unit keeps the answer of the last request.\<close>

definition rpc_send :: "handle \<Rightarrow> ptr \<Rightarrow> ptr \<Rightarrow> ptr \<Rightarrow> ('z, handle) lcprog" where
  "rpc_send curl url userpwd data =
     bnd (gets rpc_s) (\<lambda>old.
     bnd (if sptr old \<noteq> Null then free (sptr old) else ret ()) (\<lambda>_.
     bnd init_string (\<lambda>s.
     bnd (modify (rpc_s_update (\<lambda>_. s))) (\<lambda>_.
     bnd (ext (Web (curl_slist_append 0 ''content-type: text/plain;''))) (\<lambda>headers.
     bnd (ext (Web (curl_setopt_header curl (r_handle headers)))) (\<lambda>_.
     bnd (read_str url) (\<lambda>u.
     bnd (ext (Web (curl_setopt_url curl u))) (\<lambda>_.
     bnd (read_str data) (\<lambda>d.
     bnd (ext (Web (curl_setopt_postfieldsize curl (int (length d))))) (\<lambda>_.
     bnd (ext (Web (curl_setopt_postfields curl d))) (\<lambda>_.
     bnd (read_str userpwd) (\<lambda>up.
     bnd (ext (Web (curl_setopt_userpwd curl up))) (\<lambda>_.
     bnd (ext (Web (curl_setopt_use_ssl curl))) (\<lambda>_.
     bnd (ext (Web (curl_setopt_write curl))) (\<lambda>_.
     bnd (ext (Web (curl_easy_perform curl))) (\<lambda>r.
     bnd (deliver (r_chunks r) s) (\<lambda>s2.
     bnd (modify (rpc_s_update (\<lambda>_. s2))) (\<lambda>_.
     bnd (lua_pushstring (sptr s2)) (\<lambda>_.
     bnd (lua_do (lua_settop (- 1))) (\<lambda>_.
     ret (r_handle headers)))))))))))))))))))))"

definition rpc_buffers :: "handle \<Rightarrow> ptr \<Rightarrow> ptr \<Rightarrow> ptr \<Rightarrow> nat \<Rightarrow> ptr \<Rightarrow> ('z, handle) lcprog" where
  "rpc_buffers curl user password host port data =
     bnd (strlen user) (\<lambda>nu.
     bnd (strlen password) (\<lambda>np.
     local_arr (nu + np + 2) (\<lambda>userpwd.
     bnd (strlen host) (\<lambda>nh.
     local_arr (nh + sizeof_http + sizeof_port + 2) (\<lambda>url.
     bnd (read_str user) (\<lambda>us.
     bnd (read_str password) (\<lambda>ps.
     bnd (write_bytes userpwd (us @ [COLON] @ ps @ [0, NUL])) (\<lambda>_.
     bnd (read_str host) (\<lambda>hs.
     bnd (write_bytes url (bytes_of ''http://'' @ hs @ [COLON] @ dec port @ [0, NUL])) (\<lambda>_.
     rpc_send curl url userpwd data))))))))))"

definition lua_rpc_requst :: "('z, int) lcprog" where
  "lua_rpc_requst =
     bnd (lua_tostring 2) (\<lambda>data.
     bnd (lua_test (lua_isstring (- 1))) (\<lambda>str.
     if \<not> str then luaL_error ''need data json(decoded) requst'' else
     bnd (lua_do (lua_pop 1)) (\<lambda>_.
     bnd (lua_test (lua_istable 1)) (\<lambda>tab.
     if \<not> tab then luaL_error ''`table` error'' else
     bnd (rpc_field ''port'' (lua_isnumber (- 1)) ''invalid rpcport'') (\<lambda>_.
     bnd (lua_tonumber (- 1)) (\<lambda>port.
     bnd (lua_do (lua_pop 1)) (\<lambda>_.
     bnd (rpc_field ''istestnet'' (lua_isboolean (- 1)) ''invalid istestnet'') (\<lambda>_.
     bnd (lua_test (lua_toboolean (- 1))) (\<lambda>rpc_istestnet.
     bnd (lua_do (lua_pop 1)) (\<lambda>_.
     bnd (GETLUASTRING ''host'') (\<lambda>host.
     bnd (GETLUASTRING ''user'') (\<lambda>user.
     bnd (GETLUASTRING ''password'') (\<lambda>password.
     bnd (GETLUASTRING ''name'') (\<lambda>name.
     bnd (ext (Web curl_easy_init)) (\<lambda>curl.
     bnd (if r_handle curl = 0 then ret 0 else
          rpc_buffers (r_handle curl) user password host (nat (port mod 2 ^ 16)) data) (\<lambda>headers.
     bnd (ext (Web (curl_slist_free_all headers))) (\<lambda>_.
     bnd (ext (Web (curl_easy_cleanup (r_handle curl)))) (\<lambda>_.
     ret 1))))))))))))))))))"

definition rpclib :: "(string \<times> ('z, int) lcprog) list" where
  "rpclib = [(''request'', lua_rpc_requst)]"

end
