(* ===== verification/Lua_Coins_Props.thy ===== *)
theory Lua_Coins_Props
  imports Lua_Coins Coins_Props
begin

text \<open>The properties of the coin table and the RPC client of scripts (\<open>Lua_Coins\<close>).\<close>

subsection \<open>A table in memory\<close>

record coin =
  k_testnet :: byte
  k_user :: "byte list"
  k_pass :: "byte list"
  k_port :: nat
  k_host :: "byte list"
  k_name :: "byte list"

definition str_at :: "mem \<Rightarrow> ptr \<Rightarrow> byte list \<Rightarrow> bool" where
  "str_at m p bs \<longleftrightarrow> (\<exists>q. get_ptr m p = Inr q \<and> q \<noteq> Null \<and> get_str m q = Inr bs)"

definition coin_is :: "mem \<Rightarrow> ptr \<Rightarrow> nat \<Rightarrow> coin \<Rightarrow> bool" where
  "coin_is m p i c \<longleftrightarrow> get_byte m (coin_at p i testnet) = Inr (k_testnet c) \<and>
     str_at m (coin_at p i rpcuser) (k_user c) \<and> str_at m (coin_at p i rpcpassword) (k_pass c) \<and>
     (\<exists>lo hi. get_byte m (coin_at p i rpcport) = Inr lo \<and> get_byte m (padd (coin_at p i rpcport) 1) = Inr hi \<and>
        k_port c = unat lo + 256 * unat hi) \<and>
     str_at m (coin_at p i rpchost) (k_host c) \<and> str_at m (coin_at p i cryptocoin_name) (k_name c)"

lemma get_byte_upd_dead:
  assumes "get_byte m p = Inr q" "m b = None"
  shows "get_byte (m(b := x)) p = Inr q"
  using assms
  by (cases p) (auto simp: get_byte_def get_cells_def cells_of_def split: option.splits if_splits sum.splits)

text \<open>A new block disturbs no table.\<close>

lemma coin_is_new: "coin_is (blocks s) p i c \<Longrightarrow> fresh s \<Longrightarrow> coin_is ((blocks s)(nxt s \<mapsto> x)) p i c"
  unfolding coin_is_def str_at_def using fresh_nxt [of s] by (fastforce simp: get_byte_upd_dead get_ptr_upd_dead get_str_upd_dead)

lemma run_str_at:
  assumes "str_at (blocks s) p bs"
  shows "\<exists>q. load_ptr p e s = (Ok q, s) \<and> q \<noteq> Null \<and> get_str (blocks s) q = Inr bs"
  using assms by (auto simp: str_at_def load_ptr_def run_read_mem)

subsection \<open>Copying the table\<close>

lemma coin_cells_in_past: "48 * k < n \<Longrightarrow> 7 * k < coin_cells_in n"
proof -
  assume n: "48 * k < n"
  show ?thesis
  proof (cases "n mod 48 = 0")
    case True
    then have "k < n div 48"
      using n by (metis dvd_mult_div_cancel mod_0_imp_dvd mult_less_cancel1 mult.commute)
    then show ?thesis
      by (simp add: coin_cells_in_def)
  next
    case False
    then have "k \<le> n div 48"
      using n by (simp add: less_eq_div_iff_mult_less_eq)
    moreover have "0 < length (filter (\<lambda>k. k \<le> n mod 48) coin_ends)"
      using False by (simp add: coin_ends_def)
    ultimately show ?thesis
      unfolding coin_cells_in_def by linarith
  qed
qed

text \<open>The script's copy of the table is sized from the members of the first coin, with
  two bytes for every port number: when that is more than the table has, \<open>memcpy\<close> reads
  past its end.\<close>

theorem loadCryptocoins_overreads:
  assumes "coin_is (blocks s) (Addr cb 0) 0 c" "blocks s cb = Some cs" "length cs = 7 * count"
    and "48 * count < coin_nbytes (length (k_user c)) (length (k_pass c)) (length (k_host c))
      (length (k_name c)) (k_testnet c) (k_port c)"
  shows "fst (copy_coins (Addr cb 0) e s) = Err OutOfBounds"
proof -
  let ?n = "coin_nbytes (length (k_user c)) (length (k_pass c)) (length (k_host c)) (length (k_name c)) (k_testnet c) (k_port c)"
  obtain u p h n where q: "load_ptr (coin_at (Addr cb 0) 0 rpcuser) e s = (Ok u, s)" "get_str (blocks s) u = Inr (k_user c)"
    "load_ptr (coin_at (Addr cb 0) 0 rpcpassword) e s = (Ok p, s)" "get_str (blocks s) p = Inr (k_pass c)"
    "load_ptr (coin_at (Addr cb 0) 0 rpchost) e s = (Ok h, s)" "get_str (blocks s) h = Inr (k_host c)"
    "load_ptr (coin_at (Addr cb 0) 0 cryptocoin_name) e s = (Ok n, s)" "get_str (blocks s) n = Inr (k_name c)"
    using assms(1) run_str_at [of s _ _ e] unfolding coin_is_def by metis
  have "load_port (coin_at (Addr cb 0) 0 rpcport) e s = (Ok (k_port c), s)"
    "load_byte (coin_at (Addr cb 0) 0 testnet) e s = (Ok (k_testnet c), s)"
    using assms(1) by (auto simp: coin_is_def load_port_def exec)
  moreover have "get_cells (blocks s) (Addr cb 0) (coin_cells_in ?n) = Inl OutOfBounds"
    using assms(2,3) coin_cells_in_past [OF assms(4)] by (simp add: get_cells_def cells_of_def)
  ultimately show ?thesis
    using q by (simp add: copy_coins_def exec Let_def read_cells_def run_read_mem)
qed


subsection \<open>Clearing\<close>

text \<open>\<open>clear\<close> frees nothing and returns nothing to the script: the counter it compares
  with is a copy that nothing assigns, so for every table its loop ends at once; all it does
  is to allow another \<open>load\<close>.\<close>

theorem luaclear_frees_nothing:
  assumes "\<And>l. answer e l (Lua (lua_touserdata 1)) = RHandle h" "h \<noteq> 0" "coin_ud s h = Some p"
    and "coin_is (blocks s) p 0 c" "own_count s = 0"
  shows "\<exists>t. luaclear_cryptocoins e s = (Err NoReturnValue, t) \<and> blocks t = blocks s \<and>
    count_cryptocoins t = count_cryptocoins s \<and> \<not> cryptocoinsinited t"
proof -
  let ?s = "s\<lparr>evs := (Lua (lua_touserdata 1), RHandle h) # evs s\<rparr>"
  obtain q where "load_ptr (coin_at p 0 rpchost) e ?s = (Ok q, ?s)"
    using assms(4) run_str_at [of ?s _ _ e] unfolding coin_is_def by force
  moreover have "load_port (coin_at p 0 rpcport) e ?s = (Ok (k_port c), ?s)"
    using assms(4) by (auto simp: coin_is_def load_port_def exec)
  ultimately have "luaclear_cond p 0 e ?s = (Ok False, ?s)"
    using assms(5) by (simp add: luaclear_cond_def exec)
  then show ?thesis
    using assms(2,3)
    by (simp add: luaclear_cryptocoins_def get_coins_def to_userdata_def exec assms(1) c_loop_stop)
qed

subsection \<open>Looking up\<close>

text \<open>The coin that the loop finds: the last of that name.\<close>

primrec last_named :: "byte list \<Rightarrow> coin list \<Rightarrow> nat \<Rightarrow> nat option" where
  "last_named nm cs 0 = None"
| "last_named nm cs (Suc i) = (if k_name (cs ! i) = nm then Some i else last_named nm cs i)"

lemma last_named_Some:
  "last_named nm cs n = Some i \<longleftrightarrow>
   i < n \<and> k_name (cs ! i) = nm \<and> (\<forall>j. i < j \<longrightarrow> j < n \<longrightarrow> k_name (cs ! j) \<noteq> nm)"
  by (induction n) (auto simp: less_Suc_eq)

lemma find_coin_run:
  assumes "\<forall>i<n. coin_is (blocks s) p i (cs ! i)" "get_str (blocks s) q = Inr nm"
  shows "find_coin n p q e s = (Ok (last_named nm cs n), s)"
  using assms(1)
proof (induction n)
  case (Suc n)
  obtain r where "load_ptr (coin_at p n cryptocoin_name) e s = (Ok r, s)" "get_str (blocks s) r = Inr (k_name (cs ! n))"
    using Suc.prems run_str_at [of s _ _ e] unfolding coin_is_def by blast
  moreover have "find_coin n p q e s = (Ok (last_named nm cs n), s)"
    using Suc by simp
  ultimately show ?case
    using assms(2) by (auto simp: exec str_eq_def run_read_mem)
qed (simp add: exec)

definition coin_pushes :: "coin \<Rightarrow> call list" where
  "coin_pushes c =
     (let key = \<lambda>k. Lua (lua_push (LStr (bytes_of k))); val = \<lambda>v. [Lua (lua_push v), Lua (lua_settable (- 3))] in
     key ''istestnet'' # val (LBool (k_testnet c \<noteq> 0)) @ key ''user'' # val (LStr (k_user c)) @
     key ''password'' # val (LStr (k_pass c)) @ key ''host'' # val (LStr (k_host c)) @
     key ''name'' # val (LStr (k_name c)) @ key ''port'' # val (LNum (int (k_port c))))"

text \<open>A run that pushes the given values and leaves memory alone.\<close>

definition does :: "('z, unit) prog \<Rightarrow> env \<Rightarrow> mem \<Rightarrow> call list \<Rightarrow> bool" where
  "does m e bl cs \<longleftrightarrow> (\<forall>s. blocks s = bl \<longrightarrow> (\<exists>t. m e s = (Ok (), t) \<and> blocks t = bl \<and>
     map fst (events t) = map fst (events s) @ cs))"

lemma does_bnd: "does m e bl cs \<Longrightarrow> does m' e bl cs' \<Longrightarrow> does (bnd m (\<lambda>_. m')) e bl (cs @ cs')"
  unfolding does_def run_bnd by fastforce

lemma does_push: "does (push v) e bl [Lua (lua_push v)]" "does (lua_do c) e bl [Lua c]"
  by (auto simp: does_def exec events_def)

definition loads :: "('z, 'a) prog \<Rightarrow> env \<Rightarrow> mem \<Rightarrow> 'a \<Rightarrow> bool" where
  "loads m e bl a \<longleftrightarrow> (\<forall>s. blocks s = bl \<longrightarrow> m e s = (Ok a, s))"

lemma does_load: "loads m e bl a \<Longrightarrow> does (f a) e bl cs \<Longrightarrow> does (bnd m f) e bl cs"
  unfolding does_def loads_def run_bnd by auto

lemma does_member:
  assumes "str_at bl p v"
  shows "does (push_member k p :: ('z, unit) prog) e bl
    ([Lua (lua_push (LStr (bytes_of k)))] @ [Lua (lua_push (LStr v))] @ [Lua (lua_settable (- 3))])"
proof -
  obtain q where q: "get_ptr bl p = Inr q" "q \<noteq> Null" "get_str bl q = Inr v"
    using assms by (auto simp: str_at_def)
  then have str: "does (lua_pushstring q :: ('z, unit) prog) e bl [Lua (lua_push (LStr v))]"
    unfolding lua_pushstring_def by (simp add: does_load [OF _ does_push(1)] loads_def exec)
  have load: "loads (load_ptr p :: ('z, ptr) prog) e bl q"
    by (simp add: loads_def q load_ptr_def run_read_mem)
  have "does (bnd (load_ptr p) (\<lambda>v. bnd (lua_pushstring v) (\<lambda>_. lua_do (lua_settable (- 3)))) :: ('z, unit) prog) e bl
      ([Lua (lua_push (LStr v))] @ [Lua (lua_settable (- 3))])"
    by (rule does_load [OF load]) (rule does_bnd [OF str does_push(2)])
  then show ?thesis
    unfolding push_member_def by (rule does_bnd [OF does_push(1)])
qed

lemma does_push_coin:
  assumes "coin_is bl p i c"
  shows "does (push_coin p i :: ('z, unit) prog) e bl (coin_pushes c)"
proof -
  have port: "loads (load_port (coin_at p i rpcport) :: ('z, _) prog) e bl (k_port c)"
    and tn: "loads (load_byte (coin_at p i testnet) :: ('z, _) prog) e bl (k_testnet c)"
    using assms by (auto simp: coin_is_def load_port_def exec loads_def)
  have str: "str_at bl (coin_at p i rpcuser) (k_user c)" "str_at bl (coin_at p i rpcpassword) (k_pass c)"
    "str_at bl (coin_at p i rpchost) (k_host c)" "str_at bl (coin_at p i cryptocoin_name) (k_name c)"
    using assms by (simp_all add: coin_is_def)
  have "does (push_coin p i :: ('z, unit) prog) e bl ([Lua (lua_push (LStr (bytes_of ''istestnet'')))] @
      [Lua (lua_push (LBool (k_testnet c \<noteq> 0)))] @ [Lua (lua_settable (- 3))] @
      ([Lua (lua_push (LStr (bytes_of ''user'')))] @ [Lua (lua_push (LStr (k_user c)))] @ [Lua (lua_settable (- 3))]) @
      ([Lua (lua_push (LStr (bytes_of ''password'')))] @ [Lua (lua_push (LStr (k_pass c)))] @ [Lua (lua_settable (- 3))]) @
      ([Lua (lua_push (LStr (bytes_of ''host'')))] @ [Lua (lua_push (LStr (k_host c)))] @ [Lua (lua_settable (- 3))]) @
      ([Lua (lua_push (LStr (bytes_of ''name'')))] @ [Lua (lua_push (LStr (k_name c)))] @ [Lua (lua_settable (- 3))]) @
      [Lua (lua_push (LStr (bytes_of ''port'')))] @ [Lua (lua_push (LNum (int (k_port c))))] @ [Lua (lua_settable (- 3))])"
    unfolding push_coin_def
    by (intro does_bnd does_push does_member str does_load [OF tn] does_load [OF port])
  then show ?thesis
    by (simp add: coin_pushes_def Let_def)
qed


text \<open>Claim C33: \<open>gettable\<close> pushes the members of the last coin with the wanted name, among the
  first \<open>c mod 256\<close> coins, where \<open>c\<close> is the number in Lua's global; if none of them has the
  name, or \<open>c\<close> is a multiple of 256, it raises an error.\<close>

theorem gettable_finds_last:
  assumes "fresh s" "\<And>l. answer e l (Lua (lua_touserdata 1)) = RHandle h" "h \<noteq> 0" "coin_ud s h = Some p"
    and "\<And>l. answer e l (Lua (lua_isnumber (- 1))) = RInt 1"
    and "\<And>l. answer e l (Lua (lua_arg_number (- 1))) = RInt (int c)" "c < 2 ^ 31"
    and "\<And>l. answer e l (Lua (lua_arg_string 2)) = ROut n nm" "NUL \<notin> set nm"
    and "\<forall>i<c mod 256. coin_is (blocks s) p i (cs ! i)"
  shows "(case last_named nm cs (c mod 256) of
      None \<Rightarrow> fst (getCryptocoinsTable e s) = Err (LuaError ''cryptocoin not found'')
    | Some i \<Rightarrow> \<exists>t. getCryptocoinsTable e s = (Ok 1, t) \<and>
        map fst (events t) = map fst (events s) @
          [Lua (lua_getglobal ''count_cryptocoins''), Lua (lua_isnumber (- 1)), Lua (lua_arg_number (- 1)),
           Lua (lua_createtable 0 4), Lua (lua_touserdata 1), Lua (lua_arg_string 2)] @ coin_pushes (cs ! i))"
proof -
  let ?l = "[(Lua (lua_arg_string 2), ROut n nm), (Lua (lua_touserdata 1), RHandle h)]"
  define l where "l = (Lua (lua_createtable 0 4),
      answer e ((Lua (lua_arg_number (- 1)), RInt (int c)) # (Lua (lua_isnumber (- 1)), RInt 1) #
        (Lua (lua_getglobal ''count_cryptocoins''), answer e (evs s) (Lua (lua_getglobal ''count_cryptocoins''))) # evs s)
      (Lua (lua_createtable 0 4))) # (Lua (lua_arg_number (- 1)), RInt (int c)) # (Lua (lua_isnumber (- 1)), RInt 1) #
        (Lua (lua_getglobal ''count_cryptocoins''), answer e (evs s) (Lua (lua_getglobal ''count_cryptocoins''))) # evs s"
  define s' where "s' = new_block (map Byte nm @ [Byte NUL]) (s\<lparr>evs := ?l @ l\<rparr>)"
  have coins: "\<forall>i<c mod 256. coin_is (blocks s') p i (cs ! i)"
    using assms(1,10) by (simp add: s'_def coin_is_new)
  have nm: "get_str (blocks s') (Addr (nxt s) 0) = Inr nm"
    using assms(9) by (simp add: s'_def)
  have c: "c_uint (c_int (int c)) = c" "c_uchar (int c) = c mod 256"
    using assms(7) by (simp_all add: c_uchar_def nat_mod_distrib)
  have run: "getCryptocoinsTable e s = cont (find_coin (c mod 256) p (Addr (nxt s) 0) e s') (\<lambda>found. (case found of
      None \<Rightarrow> luaL_error ''cryptocoin not found'' | Some i \<Rightarrow> bnd (push_coin p i) (\<lambda>_. ret 1)) e)"
    using assms(3,4)
    by (simp add: getCryptocoinsTable_def luagetcount_cryptocoins_def lua_test_def get_coins_def to_userdata_def exec
      assms(2,5,6,8) c s'_def l_def)
  have ev: "map fst (events s') = map fst (events s) @ [Lua (lua_getglobal ''count_cryptocoins''), Lua (lua_isnumber (- 1)),
      Lua (lua_arg_number (- 1)), Lua (lua_createtable 0 4), Lua (lua_touserdata 1), Lua (lua_arg_string 2)]"
    by (simp add: s'_def l_def events_def)
  show ?thesis
  proof (cases "last_named nm cs (c mod 256)")
    case None
    then show ?thesis
      by (simp add: run find_coin_run [OF coins nm] luaL_error_def exec)
  next
    case (Some i)
    have "coin_is (blocks s') p i (cs ! i)"
      using coins Some by (simp add: last_named_Some)
    then obtain t where t: "push_coin p i e s' = (Ok (), t)" "map fst (events t) = map fst (events s') @ coin_pushes (cs ! i)"
      using does_push_coin unfolding does_def by blast
    then show ?thesis
      by (simp add: run find_coin_run [OF coins nm] Some exec ev)
  qed
qed

subsection \<open>Requests\<close>

interpretation fr: step_guard fresh_kept fresh
  by unfold_locales (simp add: fresh_kept_def)

lemma strlen_Ok: "strlen p e s = (Ok n, t) \<longleftrightarrow> t = s \<and> (\<exists>bs. get_str (blocks s) p = Inr bs \<and> n = length bs)"
  by (cases "get_str (blocks s) p") (auto simp: strlen_def run_bnd read_mem_def ret_def)

lemma write_too_long:
  "length cs = n \<Longrightarrow> blocks s b = Some cs \<Longrightarrow> n < length bs \<Longrightarrow> write_bytes (Addr b 0) bs e s = (Err OutOfBounds, s)"
  by (cases bs) (simp_all add: write_bytes_def write_mem_def put_cells_def)

text \<open>The buffer for the user name and the password is one byte short, as in \<open>json_rpc.c\<close>.\<close>

lemma rpc_buffers_overflows: "ensures fresh (rpc_buffers curl user password host port data) (\<lambda>_ _. False)"
  unfolding ensures_def
proof (intro allI impI)
  fix e and s :: "'z lc_state_scheme" and a t
  assume fr: "fresh s" and run: "rpc_buffers curl user password host port data e s = (Ok a, t)"
  obtain us ps where str: "get_str (blocks s) user = Inr us" "get_str (blocks s) password = Inr ps"
    using run unfolding rpc_buffers_def run_bnd cont_eq_Ok strlen_Ok by blast
  let ?n = "length us + length ps + 2"
  let ?s = "new_block (replicate ?n Undef) s"
  have dead: "blocks s (nxt s) = None" "blocks s (Suc (nxt s)) = None"
    using fr by (simp_all add: fresh_above)
  have len: "strlen user e s = (Ok (length us), s)" "strlen password e s = (Ok (length ps), s)"
    using str by (simp_all add: exec)
  show False
  proof (cases "get_str (blocks ?s) host")
    case (Inl x)
    then show False
      using run by (simp add: rpc_buffers_def len exec local_arr_def split: if_splits)
  next
    case (Inr hs)
    then show False
      using run str dead by (simp add: rpc_buffers_def len exec local_arr_def write_too_long
          split: if_splits prod.splits)
  qed
qed

lemma keeps_rpc_field [intro!]: "keeps fresh_kept (rpc_field what is_ok msg)" "keeps fresh_kept (GETLUASTRING what)"
  unfolding rpc_field_def GETLUASTRING_def by auto

definition nothing_sent :: "int \<Rightarrow> 'z cstate_scheme \<Rightarrow> bool" where
  "nothing_sent r t \<longleftrightarrow> r = 1 \<and> (\<exists>l r1 r2 rep. r_handle rep = 0 \<and>
     evs t = (Web (curl_easy_cleanup 0), r1) # (Web (curl_slist_free_all 0), r2) # (Web curl_easy_init, rep) # l)"

lemma rpc_tail:
  "ensures fresh (bnd (ext (Web curl_easy_init)) (\<lambda>curl.
     bnd (if r_handle curl = 0 then ret 0 else rpc_buffers (r_handle curl) user password host port data) (\<lambda>headers.
     bnd (ext (Web (curl_slist_free_all headers))) (\<lambda>_.
     bnd (ext (Web (curl_easy_cleanup (r_handle curl)))) (\<lambda>_. ret 1))))) nothing_sent"
proof (rule ensures_bnd)
  show "ensures fresh (ext (Web curl_easy_init)) (\<lambda>rep s. fresh s \<and> (\<exists>l. evs s = (Web curl_easy_init, rep) # l))"
    by (auto simp: ensures_def exec fresh_def)
  fix curl
  let ?free = "\<lambda>headers. bnd (ext (Web (curl_slist_free_all headers))) (\<lambda>_.
     bnd (ext (Web (curl_easy_cleanup (r_handle curl)))) (\<lambda>_. ret (1 :: int)))"
  show "ensures (\<lambda>s. fresh s \<and> (\<exists>l. evs s = (Web curl_easy_init, curl) # l))
      (bnd (if r_handle curl = 0 then ret 0 else rpc_buffers (r_handle curl) user password host port data) ?free) nothing_sent"
  proof (cases "r_handle curl = 0")
    case True
    then show ?thesis
      by (auto simp: ensures_def nothing_sent_def exec)
  next
    case False
    have "ensures fresh (bnd (rpc_buffers (r_handle curl) user password host port data) ?free) nothing_sent"
      by (rule ensures_bnd [OF rpc_buffers_overflows]) (simp add: ensures_def)
    then show ?thesis
      using False by (auto elim: ensures_weaken)
  qed
qed

lemma ensures_lua_error: "ensures P (luaL_error msg) Q"
  unfolding luaL_error_def by (rule ensures_fail)

lemma lua_rpc_sends_nothing: "ensures fresh lua_rpc_requst nothing_sent"
  unfolding lua_rpc_requst_def
  by (rule rpc_tail ensures_if ensures_lua_error fr.ensures_keep_bnd | rule fk.keeps_lua keeps_rpc_field)+

text \<open>No script ever gets an answer from the RPC client: when \<open>rpc.request\<close> returns,
  curl had no handle to give, and the last three calls are the request for one and the
  release of nothing; with a handle, the buffer for user name and password overflows.\<close>

theorem lua_rpc_never_sends:
  assumes "lua_rpc_requst e s = (Ok r, t)" "fresh s"
  shows "r = 1 \<and> (\<exists>l r1 r2 rep. r_handle rep = 0 \<and>
    evs t = (Web (curl_easy_cleanup 0), r1) # (Web (curl_slist_free_all 0), r2) # (Web curl_easy_init, rep) # l)"
  using ensuresD [OF lua_rpc_sends_nothing assms(2,1)] by (simp add: nothing_sent_def)

subsection \<open>Instances\<close>

definition lc_state_of :: "cell list list \<Rightarrow> lc_state" where
  "lc_state_of cs = cstate.extend (state_of cs) \<lparr>count_cryptocoins = 1, cryptocoinsinited = True, own_count = 0,
     coin_ud = (\<lambda>h. if h = 4 then Some (Addr 0 0) else None), rpc_s = \<lparr>sptr = Null, slen = 0\<rparr>\<rparr>"

lemma lc_state_of_simps [simp]:
  "blocks (lc_state_of cs) b = (if b < length cs then Some (cs ! b) else None)"
  "nxt (lc_state_of cs) = length cs" "evs (lc_state_of cs) = []" "fresh (lc_state_of cs)"
  "coin_ud (lc_state_of cs) 4 = Some (Addr 0 0)" "own_count (lc_state_of cs) = 0"
  "count_cryptocoins (lc_state_of cs) = 1"
  by (simp_all add: lc_state_of_def state_of_def cstate.defs fresh_def)

text \<open>One coin, \<open>a:b@c:8080\<close>, called \<open>d\<close>.\<close>

definition toy_coin :: coin where
  "toy_coin = \<lparr>k_testnet = 0, k_user = [97], k_pass = [98], k_port = 8080, k_host = [99], k_name = [100]\<rparr>"

abbreviation toy_table :: "cell list list" where
  "toy_table \<equiv> [coin_cells 0 1 2 144 31 3 4, cstr [97], cstr [98], cstr [99], cstr [100]]"

lemma toy_coin_is: "coin_is (blocks (lc_state_of toy_table)) (Addr 0 0) 0 toy_coin"
  by (simp add: coin_is_def str_at_def toy_coin_def coin_at_def get_ptr_block get_byte_block coin_cells_def)

definition coin_env :: env where
  "coin_env = \<lparr>malloc_ok = (\<lambda>_ _. True), answer = (\<lambda>l c. case c of
     Lua (lua_touserdata k) \<Rightarrow> RHandle 4 | Lua (lua_arg_string k) \<Rightarrow> ROut 0 [100] | _ \<Rightarrow> RInt 1)\<rparr>"

theorem loadCryptocoins_overreads_witness:
  "fst (copy_coins (Addr 0 0) coin_env (lc_state_of toy_table)) = Err OutOfBounds"
  by (rule loadCryptocoins_overreads [where count = 1 and cs = "coin_cells 0 1 2 144 31 3 4", OF toy_coin_is])
    (simp_all add: coin_cells_def coin_nbytes_def toy_coin_def)

theorem luaclear_frees_nothing_witness:
  fixes s defines "s \<equiv> lc_state_of toy_table"
  shows "\<exists>t. luaclear_cryptocoins coin_env s = (Err NoReturnValue, t) \<and> blocks t = blocks s \<and>
    count_cryptocoins t = count_cryptocoins s \<and> \<not> cryptocoinsinited t"
  unfolding s_def
  by (rule luaclear_frees_nothing [where h = 4 and p = "Addr 0 0" and c = toy_coin, OF _ _ _ toy_coin_is])
    (simp_all add: coin_env_def)

theorem gettable_finds_last_witness:
  "case last_named [100] [toy_coin] (1 mod 256) of
      None \<Rightarrow> fst (getCryptocoinsTable coin_env (lc_state_of toy_table)) = Err (LuaError ''cryptocoin not found'')
    | Some i \<Rightarrow> \<exists>t. getCryptocoinsTable coin_env (lc_state_of toy_table) = (Ok 1, t) \<and>
        map fst (events t) = map fst (events (lc_state_of toy_table)) @
          [Lua (lua_getglobal ''count_cryptocoins''), Lua (lua_isnumber (- 1)), Lua (lua_arg_number (- 1)),
           Lua (lua_createtable 0 4), Lua (lua_touserdata 1), Lua (lua_arg_string 2)] @ coin_pushes ([toy_coin] ! i)"
  by (rule gettable_finds_last [where h = 4 and p = "Addr 0 0" and c = 1])
    (use toy_coin_is in \<open>simp_all add: coin_env_def\<close>)

definition no_curl :: env where
  "no_curl = \<lparr>malloc_ok = (\<lambda>_ _. True), answer = (\<lambda>l c. case c of
     Web w \<Rightarrow> RHandle 0 | Lua (lua_arg_string k) \<Rightarrow> ROut 0 [100] | _ \<Rightarrow> RInt 1)\<rparr>"

theorem lua_rpc_never_sends_witness:
  fixes t defines "t \<equiv> snd (lua_rpc_requst no_curl (lc_state_of []))"
  shows "(1 :: int) = 1 \<and> (\<exists>l r1 r2 rep. r_handle rep = 0 \<and>
    evs t = (Web (curl_easy_cleanup 0), r1) # (Web (curl_slist_free_all 0), r2) # (Web curl_easy_init, rep) # l)"
proof (rule lua_rpc_never_sends)
  have "fst (lua_rpc_requst no_curl (lc_state_of [])) = Ok 1"
    by (simp add: lua_rpc_requst_def rpc_field_def GETLUASTRING_def lua_test_def exec no_curl_def cong del: cont_cong)
  then show "lua_rpc_requst no_curl (lc_state_of []) = (Ok 1, t)"
    by (simp add: t_def prod_eq_iff)
qed simp

end
