(* ===== verification/Lua_Serv.thy ===== *)
theory Lua_Serv
  imports Lua_Coins AES
begin

text \<open>
  \<open>libbacteria/lua/afirst.c\<close>, \<open>utils.c\<close> and \<open>luaserv.c\<close>: starting Lua, pushing arguments by a
  format string, and the server that runs the text it receives as Lua code. The global
  \<open>stdout\<close> is a field of the state.
\<close>

subsection \<open>Starting Lua\<close>

definition dot_name :: "byte list \<Rightarrow> bool" where
  "dot_name nm \<longleftrightarrow> nm = bytes_of ''.'' \<or> nm = bytes_of ''..''"

text \<open>One entry of the directory; a reply that is not a name ends the directory.\<close>

definition run_entry :: "byte list \<Rightarrow> byte list \<Rightarrow> ('z, unit) prog" where
  "run_entry path nm =
     (if dot_name nm then ret () else
     local_arr (length path + length nm + 2) (\<lambda>tmp.
     bnd (write_bytes tmp (path @ bytes_of ''/'' @ nm @ [NUL])) (\<lambda>_.
     bnd (ext (Libc (Printf ''init: %s'' nm))) (\<lambda>_.
     bnd (read_str tmp) (\<lambda>file.
     lua_do (luaL_dofile file))))))"

definition next_entry :: "handle \<Rightarrow> ('z, byte list option) prog" where
  "next_entry dir = bnd (ext (Libc (Readdir dir))) (\<lambda>r.
     ret (case r of ROut n nm \<Rightarrow> Some nm | _ \<Rightarrow> None))"

definition run_entries :: "byte list \<Rightarrow> handle \<Rightarrow> ('z, byte list option) prog" where
  "run_entries path dir =
     bnd (next_entry dir) (\<lambda>ent.
     c_while (\<lambda>ent. ent \<noteq> None) (\<lambda>ent. bnd (run_entry path (the ent)) (\<lambda>_. next_entry dir)) ent)"

definition runAllLuaFilesInDir :: "ptr \<Rightarrow> ('z, unit) prog" where
  "runAllLuaFilesInDir pathdir =
     bnd (read_str pathdir) (\<lambda>path.
     bnd (ext (Libc (Opendir path))) (\<lambda>dir.
     if r_handle dir \<noteq> 0 then
       bnd (run_entries path (r_handle dir)) (\<lambda>_.
       bnd (ext (Libc (Closedir (r_handle dir)))) (\<lambda>_. ret ()))
     else
       bnd (ext (Libc (Fprintf_stderr ''WARNING: could not found submodule directrory''))) (\<lambda>_. ret ())))"

definition init_lua_file_path :: "byte list" where
  "init_lua_file_path = bytes_of ''./luasubmodules/init.lua''"

text \<open>
  The tables of functions as they are registered: the name in scripts and the name of the C function
  (the programs behind them are \<open>cryptocoinslib\<close>, \<open>encdeclib\<close> and so on of the other theories).
\<close>

definition LUAPAIR :: "string \<Rightarrow> string \<times> string" where
  "LUAPAIR name = (name, ''lua_'' @ name)"

definition cryptocoinslib_reg :: "(string \<times> string) list" where
  "cryptocoinslib_reg =
    [(''load'', ''loadCryptocoins''), (''gettable'', ''getCryptocoinsTable''),
     (''clear'', ''luaclear_cryptocoins'')]"

definition rpclib_reg :: "(string \<times> string) list" where
  "rpclib_reg =
    [(''request'', ''lua_rpc_requst'')]"

definition encdeclib_reg :: "(string \<times> string) list" where
  "encdeclib_reg =
    [(''genRandBytes'', ''lua_genRandBytes''), (''AESenc'', ''lua_AESenc''), (''AESdec'', ''lua_AESdec''),
     (''getKeyPair'', ''lua_getKeyPair''), (''freeKeyPair'', ''lua_freeKeyPair''),
     (''getSharedKey'', ''lua_getSharedKey''), (''createKeyPair'', ''lua_createKeyPair''),
     (''getSharedKey'', ''lua_getSharedKey''), (''freeAESData'', ''lua_freeAESData''),
     (''getAESData'', ''lua_getAESData''), (''initKeyPairFromFile'', ''lua_initKeyPairFromFile''),
     (''saveKeyPairToFile'', ''lua_saveKeyPairToFile''), LUAPAIR ''getAESData_len'',
     LUAPAIR ''createAESData'', LUAPAIR ''getPubKey'', LUAPAIR ''getPrivKey'', LUAPAIR ''toSHA512'',
     LUAPAIR ''toSHA256'']"

definition imagesLib_reg :: "(string \<times> string) list" where
  "imagesLib_reg =
    [LUAPAIR ''gdInitImage'', LUAPAIR ''gdInitImageFromFile'', LUAPAIR ''gdSetPixel'',
     LUAPAIR ''gdDrawRandomPixels'', LUAPAIR ''gdDrawRandomLines'', LUAPAIR ''getImageData'',
     LUAPAIR ''getImageDataSize'', LUAPAIR ''writeToFile'', LUAPAIR ''gdInitColor'', LUAPAIR ''gdSetColor'',
     LUAPAIR ''gdAddColor'', LUAPAIR ''gdFoundColor'', LUAPAIR ''gdRandColor'', LUAPAIR ''gdGetRandStr'',
     LUAPAIR ''gdDrawRect'', LUAPAIR ''gdDrawLine'', LUAPAIR ''gdFree'', LUAPAIR ''getImageDataRaw'',
     LUAPAIR ''gdWriteText'']"

definition lgmp_reg :: "(string \<times> string) list" where
  "lgmp_reg =
    [LUAPAIR ''mpz_init'', LUAPAIR ''mpz_init_str'', LUAPAIR ''mpz_getstr'', LUAPAIR ''mpz_add'',
     LUAPAIR ''mpz_mul_ui'', LUAPAIR ''mpz_sub'', LUAPAIR ''mpz_sub_ui'', LUAPAIR ''mpz_div'',
     LUAPAIR ''mpz_mod'', LUAPAIR ''mpz_mul'', LUAPAIR ''mpz_add_ui'', LUAPAIR ''mpz_clear'',
     LUAPAIR ''mpf_init'', LUAPAIR ''mpf_add'', LUAPAIR ''mpf_sub'', LUAPAIR ''mpf_sub_ui'',
     LUAPAIR ''mpf_mul_ui'', LUAPAIR ''mpf_div'', LUAPAIR ''mpf_mul'', LUAPAIR ''mpf_add_ui'',
     LUAPAIR ''mpf_getstr'', LUAPAIR ''mpf_init_str'', LUAPAIR ''mpf_clear'', LUAPAIR ''mpq_init'',
     LUAPAIR ''mpq_add'', LUAPAIR ''mpq_add_ui'', LUAPAIR ''mpq_getstr'', LUAPAIR ''mpq_init_str'',
     LUAPAIR ''mpq_clear'']"

definition libed25519rsa_reg :: "(string \<times> string) list" where
  "libed25519rsa_reg =
    [LUAPAIR ''generateKeysEd25519'', LUAPAIR ''generateKeysRSA'', LUAPAIR ''initPrivKey'',
     LUAPAIR ''signIt'', LUAPAIR ''verifyIt'', LUAPAIR ''freeaKey'', LUAPAIR ''getaPubKey'',
     LUAPAIR ''getaPrivKey'']"

definition lnet_reg :: "(string \<times> string) list" where
  "lnet_reg =
    [LUAPAIR ''send'', LUAPAIR ''recv'', LUAPAIR ''set_timeout'', LUAPAIR ''bind'', LUAPAIR ''accept'',
     LUAPAIR ''close_sock'', LUAPAIR ''getsockaddr'', LUAPAIR ''join_addresses'', LUAPAIR ''join_data'',
     LUAPAIR ''toBase64'', LUAPAIR ''decBase64'', LUAPAIR ''unpackData'', LUAPAIR ''packData'']"

text \<open>A constant of the C code as an entry of the table on the stack, and the functions that register the libraries.\<close>

definition LUA_ENUM :: "ENCType \<Rightarrow> ('z, unit) prog" where
  "LUA_ENUM val =
     bnd (push (LStr (bytes_of (enc_name val)))) (\<lambda>_.
     bnd (push (LNum (2 ^ enc_bit val))) (\<lambda>_.
     lua_do (lua_settable (- 3))))"

definition luaopen_encdec :: "('z, int) prog" where
  "luaopen_encdec =
     bnd (lua_do lua_newtable) (\<lambda>_.
     bnd (LUA_ENUM t_ecb) (\<lambda>_.
     bnd (LUA_ENUM t_cbc) (\<lambda>_.
     bnd (LUA_ENUM t_chacha20) (\<lambda>_.
     bnd (lua_do (lua_setglobal ''AESENCType'')) (\<lambda>_.
     bnd (lua_do (luaL_openlib ''encdec'' encdeclib_reg)) (\<lambda>_. ret 1))))))"

definition luaopen_cryptocoins :: "('z, int) prog" where
  "luaopen_cryptocoins = bnd (lua_do (luaL_openlib ''cryptocoins'' cryptocoinslib_reg)) (\<lambda>_. ret 1)"

definition luaopen_rpc :: "('z, int) prog" where
  "luaopen_rpc = bnd (lua_do (luaL_openlib ''rpc'' rpclib_reg)) (\<lambda>_. ret 1)"

definition luaopen_libimages :: "('z, int) prog" where
  "luaopen_libimages = bnd (lua_do (luaL_openlib ''images'' imagesLib_reg)) (\<lambda>_. ret 1)"

definition luaopen_liblgmp :: "('z, int) prog" where
  "luaopen_liblgmp = bnd (lua_do (luaL_openlib ''lgmp'' lgmp_reg)) (\<lambda>_. ret 1)"

definition luaopen_libed25519rsa :: "('z, int) prog" where
  "luaopen_libed25519rsa = bnd (lua_do (luaL_openlib ''ed25519rsa'' libed25519rsa_reg)) (\<lambda>_. ret 1)"

definition luaopen_lnet :: "('z, int) prog" where
  "luaopen_lnet = bnd (lua_do (luaL_openlib ''lnet'' lnet_reg)) (\<lambda>_. ret 1)"

definition start_lua :: "ptr \<Rightarrow> ('z, handle) prog" where
  "start_lua initScript =
     bnd (ext (Lua luaL_newstate)) (\<lambda>L.
     bnd (lua_do luaL_openlibs) (\<lambda>_.
     bnd luaopen_cryptocoins (\<lambda>_.
     bnd luaopen_rpc (\<lambda>_.
     bnd luaopen_encdec (\<lambda>_.
     bnd luaopen_libimages (\<lambda>_.
     bnd luaopen_liblgmp (\<lambda>_.
     bnd luaopen_libed25519rsa (\<lambda>_.
     bnd luaopen_lnet (\<lambda>_.
     bnd (if initScript = Null then lib_block (cstr init_lua_file_path) else ret initScript) (\<lambda>script.
     bnd (lua_loadscript script) (\<lambda>_.
     ret (r_handle L))))))))))))"

subsection \<open>Pushing arguments\<close>

text \<open>The variable arguments; \<open>va_arg\<close> with another type than the argument's is undefined.\<close>

datatype va = VNum int | VInt int | VStr ptr

fun va_num :: "va list \<Rightarrow> ('z, int \<times> va list) prog" where
  "va_num (VNum n # ap) = ret (n, ap)"
| "va_num _ = fail TypeFault"

fun va_int :: "va list \<Rightarrow> ('z, int \<times> va list) prog" where
  "va_int (VInt n # ap) = ret (n, ap)"
| "va_int _ = fail TypeFault"

fun va_str :: "va list \<Rightarrow> ('z, ptr \<times> va list) prog" where
  "va_str (VStr p # ap) = ret (p, ap)"
| "va_str _ = fail TypeFault"

text \<open>The cases \<open>'s'\<close>, \<open>'b'\<close> and \<open>'m'\<close> have no \<open>break\<close> between them.\<close>

definition param_m :: "va list \<Rightarrow> ('z, va list) prog" where
  "param_m ap =
     bnd (va_str ap) (\<lambda>(k, ap).
     bnd (lua_pushstring k) (\<lambda>_.
     bnd (va_str ap) (\<lambda>(v, ap).
     bnd (lua_pushstring v) (\<lambda>_.
     bnd (lua_do (lua_settable (- 3))) (\<lambda>_.
     ret ap)))))"

definition param_b :: "va list \<Rightarrow> ('z, va list) prog" where
  "param_b ap =
     bnd (va_int ap) (\<lambda>(b, ap).
     bnd (push (LBool (b \<noteq> 0))) (\<lambda>_.
     param_m ap))"

definition param_s :: "va list \<Rightarrow> ('z, va list) prog" where
  "param_s ap =
     bnd (va_str ap) (\<lambda>(p, ap).
     bnd (lua_pushstring p) (\<lambda>_.
     param_b ap))"

definition param_g :: "va list \<Rightarrow> ('z, va list) prog" where
  "param_g ap =
     bnd (va_str ap) (\<lambda>(k, ap).
     bnd (lua_pushstring k) (\<lambda>_.
     bnd (va_int ap) (\<lambda>(n, ap).
     bnd (push (LNum n)) (\<lambda>_.
     bnd (lua_do (lua_settable (- 3))) (\<lambda>_.
     ret ap)))))"

definition param :: "byte \<Rightarrow> va list \<Rightarrow> ('z, va list) prog" where
  "param c ap =
     (if c = 105 then bnd (va_num ap) (\<lambda>(n, ap). bnd (push (LNum n)) (\<lambda>_. ret ap))
      else if c = 115 then param_s ap
      else if c = 98 then param_b ap
      else if c = 109 then param_m ap
      else if c = 103 then param_g ap
      else if c = 110 then bnd (push LNil) (\<lambda>_. ret ap)
      else bnd (ext (Libc (Fprintf_stderr ''GETPERAMS WARNING: undetifned type''))) (\<lambda>_. ret ap))"

primrec params_walk :: "byte list \<Rightarrow> va list \<Rightarrow> ('z, unit) prog" where
  "params_walk [] ap = ret ()"
| "params_walk (c # cs) ap = bnd (param c ap) (params_walk cs)"

definition getparams :: "ptr \<Rightarrow> va list \<Rightarrow> ('z, unit) prog" where
  "getparams params ap =
     (if params = Null then ret () else bnd (read_str params) (\<lambda>cs. params_walk cs ap))"

subsection \<open>The server\<close>

abbreviation LUABUF :: nat where "LUABUF \<equiv> 10024"
abbreviation LUAMAXLISTEN :: int where "LUAMAXLISTEN \<equiv> 3"
abbreviation MAXERRACCEPT :: nat where "MAXERRACCEPT \<equiv> 5"

record servArgs =
  sv_host :: ptr
  sv_port :: nat

record sv_state = cstate +
  stdout_file :: handle

type_synonym ('z, 'a) svprog = "('z sv_state_ext, 'a) prog"

text \<open>The third member of \<open>servArgs\<close>, the Lua state, is the environment.\<close>

text \<open>A result of \<open>lua_tostring\<close> that is printed with \<open>%s\<close>.\<close>

definition lua_text :: "('z, byte list) prog" where
  "lua_text = bnd (lua_tostring (- 1)) read_str"

text \<open>What \<open>%d\<close> prints of an \<open>int\<close>.\<close>

definition int_dec :: "int \<Rightarrow> byte list" where
  "int_dec n = (if n < 0 then 45 # dec (nat (- n)) else dec (nat n))"

definition checkRetVal :: "int \<Rightarrow> ('z, unit) prog" where
  "checkRetVal n =
     bnd (lua_do (lua_getglobal ''checkRetVal'')) (\<lambda>_.
     bnd (push (LNum n)) (\<lambda>_.
     bnd (lua_test lua_pcall) (\<lambda>err.
     if err then bnd (lua_tostring (- 1)) (\<lambda>_. luaL_error ''error running function checkRetVal'') else
     bnd (lua_test (lua_isnumber (- 1))) (\<lambda>num.
     bnd (if \<not> num then
            bnd lua_text (\<lambda>v. bnd (ext (Libc (Printf ''(check retval[lua]) Ret val: %s'' v))) (\<lambda>_. ret ()))
          else
            bnd (lua_tonumber (- 1)) (\<lambda>v.
            bnd (ext (Libc (Printf ''(check retval[lua]) Ret val (num): %d'' (int_dec (c_int v))))) (\<lambda>_. ret ()))) (\<lambda>_.
     lua_do (lua_pop 1))))))"

definition say :: "string \<Rightarrow> ('z, unit) prog" where
  "say msg = bnd (ext (Libc (Fprintf_stderr msg))) (\<lambda>_. ret ())"

text \<open>
  The address is an automatic variable: \<open>bind\<close> gets the handle 0. The socket is closed
  when \<open>bind\<close> or \<open>listen\<close> fails.
\<close>

definition luaServInit :: "servArgs \<Rightarrow> ('z, int) prog" where
  "luaServInit args =
     bnd (read_str (sv_host args)) (\<lambda>host.
     bnd (if host \<noteq> bytes_of ''127.0.0.1'' then say ''WARNING: lua listening not in localhost!'' else ret ()) (\<lambda>_.
     bnd (ext (Sys (Socket ''SOCK_STREAM''))) (\<lambda>sk.
     let sock = r_int sk in
     if sock = - 1 then bnd (say ''can't init socket for luaServer'') (\<lambda>_. ret 0) else
     bnd (ext (Sys (Inet_addr host))) (\<lambda>_.
     bnd (ext (Sys (Bind sock 0 16))) (\<lambda>r.
     if r_int r = - 1 then
       bnd (ext (Sys (Close sock))) (\<lambda>_. bnd (say ''can't bind'') (\<lambda>_. ret 0))
     else
     bnd (ext (Sys (Listen sock LUAMAXLISTEN))) (\<lambda>l.
     if r_int l = - 1 then
       bnd (ext (Sys (Close sock))) (\<lambda>_. bnd (say ''cant listen'') (\<lambda>_. ret 0))
     else ret sock))))))"

definition tmp_path :: "byte list" where
  "tmp_path = bytes_of ''./tmp_bacteria_lua.txt''"

text \<open>What the script printed is read from the file; \<open>fread\<close> may fill the whole buffer.\<close>

definition send_buf :: "int \<Rightarrow> ptr \<Rightarrow> ('z, unit) prog" where
  "send_buf csocket buf =
     bnd (read_str buf) (\<lambda>txt1.
     bnd (ext (Sys (Send csocket txt1))) (\<lambda>_. ret ()))"

definition fclose :: "handle \<Rightarrow> ('z, unit) prog" where
  "fclose f = (if f = 0 then fail NullDeref else bnd (ext (Libc (Fclose f))) (\<lambda>_. ret ()))"

definition clear_tmp :: "('z, unit) prog" where
  "clear_tmp =
     bnd (ext (Libc (Fopen tmp_path ''wb''))) (\<lambda>tmp.
     if r_handle tmp = 0 then fail NullDeref else
     bnd (ext (Libc (Fwrite (r_handle tmp) [NUL]))) (\<lambda>_.
     fclose (r_handle tmp)))"

definition run_chunk :: "int \<Rightarrow> ptr \<Rightarrow> ('z, unit) svprog" where
  "run_chunk csocket buf =
     bnd (gets stdout_file) (\<lambda>out.
     if out = 0 then fail NullDeref else
     bnd (ext (Libc (Freopen tmp_path ''w'' out))) (\<lambda>tmp.
     bnd (ext (Libc (Fopen tmp_path ''rb''))) (\<lambda>tmp1.
     bnd (read_str buf) (\<lambda>code.
     bnd (lua_test (luaL_loadbuffer code)) (\<lambda>bad.
     bnd (if bad then ret True else lua_test lua_pcall) (\<lambda>err.
     bnd (if err then
            bnd lua_text (\<lambda>msg.
            bnd (write_bytes buf (msg @ [NUL])) (\<lambda>_.
            bnd (lua_do (lua_pop 1)) (\<lambda>_.
            bnd (send_buf csocket buf) (\<lambda>_.
            bnd (fclose (r_handle tmp)) (\<lambda>_.
            fclose (r_handle tmp1))))))
          else
            bnd (ext (Libc (Fflush out))) (\<lambda>_.
            bnd (fclose (r_handle tmp)) (\<lambda>_.
            bnd (bzero buf LUABUF) (\<lambda>_.
            if r_handle tmp1 = 0 then fail NullDeref else
            bnd (ext (Libc (Fread (r_handle tmp1) LUABUF))) (\<lambda>r.
            bnd (write_bytes buf (r_bytes r)) (\<lambda>_.
            bnd (send_buf csocket buf) (\<lambda>_.
            fclose (r_handle tmp1)))))))) (\<lambda>_.
     bnd (bzero buf LUABUF) (\<lambda>_.
     clear_tmp))))))))"

text \<open>
  \<open>msg_size\<close> is a \<open>size_t\<close>: a \<open>recv\<close> that fails with -1 leaves it positive.
\<close>

definition receive :: "int \<Rightarrow> ptr \<Rightarrow> ('z, nat) prog" where
  "receive csocket buf =
     bnd (ext (Sys (Recv csocket (LUABUF - 1)))) (\<lambda>r.
     bnd (write_bytes buf (r_bytes r)) (\<lambda>_.
     ret (size_t (r_int r))))"

definition serve :: "int \<Rightarrow> ('z, unit) svprog" where
  "serve csocket =
     local_arr LUABUF (\<lambda>buf.
     bnd (bzero buf LUABUF) (\<lambda>_.
     bnd (c_loop (\<lambda>_. bnd (receive csocket buf) (\<lambda>msg_size. ret (0 < msg_size)))
            (\<lambda>_. run_chunk csocket buf) ()) (\<lambda>_.
     ret ())))"

text \<open>
  The loop over connections: \<open>err_count\<close> is not assigned before it is read, its first
  value is an indeterminate one; \<open>None\<close> ends the loop.
\<close>

definition count_errors :: "int \<Rightarrow> nat \<Rightarrow> ('z, nat) prog" where
  "count_errors csocket err_count =
     (if csocket = - 1 then bnd (say ''cant accept'') (\<lambda>_. ret (size_t (int err_count + 1)))
      else ret (err_count - 1))"

definition connection :: "int \<Rightarrow> int \<times> nat \<Rightarrow> ('z, (int \<times> nat) option) svprog" where
  "connection serv_sock = (\<lambda>(csocket, err_count).
     bnd (ext (Libc (Dup 1))) (\<lambda>saved.
     bnd (count_errors csocket err_count) (\<lambda>err_count.
     if MAXERRACCEPT < err_count then ret None else
     bnd (ext (Sys (Inet_ntoa 0))) (\<lambda>ip.
     bnd (ext (Libc (Printf ''(lua_server) Connected %s:%d'' (r_bytes ip)))) (\<lambda>_.
     bnd (serve csocket) (\<lambda>_.
     bnd (gets stdout_file) (\<lambda>out.
     bnd (ext (Libc (Fflush out))) (\<lambda>_.
     bnd (fclose out) (\<lambda>_.
     bnd (ext (Libc (Fdopen (r_int saved) ''w''))) (\<lambda>f.
     bnd (modify (stdout_file_update (\<lambda>_. r_handle f))) (\<lambda>_.
     if r_handle f = 0 then fail NullDeref else
     bnd (ext (Libc (Printf ''(lua_server) lost connection %s:%d'' (r_bytes ip)))) (\<lambda>_.
     bnd (ext (Sys (Close csocket))) (\<lambda>_.
     bnd (ext (Sys (Accept serv_sock))) (\<lambda>c.
     ret (if r_int c = 0 then None else Some (r_int c, err_count))))))))))))))))"

definition luaServer :: "servArgs \<Rightarrow> ('z, unit) svprog" where
  "luaServer args =
     bnd (luaServInit args) (\<lambda>serv_sock.
     if serv_sock = 0 then ret () else
     bnd (ext (Indeterminate ''err_count'')) (\<lambda>garbage.
     bnd (read_str (sv_host args)) (\<lambda>host.
     bnd (ext (Libc (Printf ''(lua server) listening on %s:%d'' (host @ dec (sv_port args))))) (\<lambda>_.
     bnd (ext (Sys (Accept serv_sock))) (\<lambda>c.
     bnd (c_while (\<lambda>st. st \<noteq> None) (\<lambda>st. connection serv_sock (the st))
            (if r_int c = 0 then None else Some (r_int c, size_t (r_int garbage)))) (\<lambda>_.
     ret ()))))))"

end
