(* ===== verification/Lua_Serv_Props.thy ===== *)
theory Lua_Serv_Props
  imports Lua_Serv Lua_Encdec Lua_Coins_Props
begin

text \<open>The properties of the start of Lua and of the Lua server (\<open>Lua_Serv\<close>), each with an instance.\<close>

subsection \<open>Starting Lua\<close>

text \<open>What \<open>start_lua\<close> asks of Lua before it runs a script.\<close>

definition enum_calls :: "ENCType \<Rightarrow> lua_call list" where
  "enum_calls v = [lua_push (LStr (bytes_of (enc_name v))), lua_push (LNum (2 ^ enc_bit v)), lua_settable (- 3)]"

definition start_calls :: "lua_call list" where
  "start_calls = [luaL_newstate, luaL_openlibs, luaL_openlib ''cryptocoins'' cryptocoinslib_reg, luaL_openlib ''rpc'' rpclib_reg, lua_newtable] @
     enum_calls t_ecb @ enum_calls t_cbc @ enum_calls t_chacha20 @
     [lua_setglobal ''AESENCType'', luaL_openlib ''encdec'' encdeclib_reg, luaL_openlib ''images'' imagesLib_reg,
      luaL_openlib ''lgmp'' lgmp_reg, luaL_openlib ''ed25519rsa'' libed25519rsa_reg, luaL_openlib ''lnet'' lnet_reg]"

text \<open>A program that makes some calls, whatever their answers, and goes on as another one.\<close>

definition goes_on_as :: "env \<Rightarrow> call list \<Rightarrow> ('z, 'a) prog \<Rightarrow> ('z, 'a) prog \<Rightarrow> bool" where
  "goes_on_as e cs m m' \<longleftrightarrow> (\<forall>s. \<exists>t. m e s = m' e t \<and> blocks t = blocks s \<and> nxt t = nxt s \<and>
     map fst (events t) = map fst (events s) @ cs)"

lemma goes_on_here: "goes_on_as e [] m m"
  unfolding goes_on_as_def by auto

lemma goes_on_ext:
  fixes f :: "reply \<Rightarrow> ('z, 'a) prog"
  assumes P: "\<And>l. P (answer e l c)" and f: "\<And>r. P r \<Longrightarrow> goes_on_as e cs (f r) m'"
  shows "goes_on_as e (c # cs) (bnd (ext c) f) m'"
  unfolding goes_on_as_def
proof
  fix s :: "'z cstate_scheme"
  let ?s = "s\<lparr>evs := (c, answer e (evs s) c) # evs s\<rparr>"
  obtain t where "f (answer e (evs s) c) e ?s = m' e t" "blocks t = blocks ?s" "nxt t = nxt ?s"
    "map fst (events t) = map fst (events ?s) @ cs"
    using f [OF P, of "evs s"] unfolding goes_on_as_def by blast
  then show "\<exists>t. bnd (ext c) f e s = m' e t \<and> blocks t = blocks s \<and> nxt t = nxt s \<and> map fst (events t) = map fst (events s) @ c # cs"
    by (auto simp: exec events_def)
qed

lemmas goes_on_any = goes_on_ext [where P = "\<lambda>_. True", OF TrueI]

text \<open>
  What Lua makes of these calls: its stack and its global variables, the newest first. A table that is registered
  is filled in the order of its entries and stays on the stack.
\<close>

datatype lua_slot = SVal lua_val | SFun string | STab "(byte list \<times> lua_slot) list"

type_synonym lua_globals = "(byte list \<times> lua_slot) list"

definition reg_fields :: "(string \<times> string) list \<Rightarrow> (byte list \<times> lua_slot) list" where
  "reg_fields fs = map (\<lambda>(k, f). (bytes_of k, SFun f)) (rev fs)"

definition lua_exec :: "lua_call \<Rightarrow> lua_slot list \<times> lua_globals \<Rightarrow> lua_slot list \<times> lua_globals" where
  "lua_exec c m = (let (st, g) = m in case c of
     lua_newtable \<Rightarrow> (STab [] # st, g)
   | lua_push v \<Rightarrow> (SVal v # st, g)
   | lua_settable i \<Rightarrow> (case st of v # SVal (LStr k) # STab fs # st \<Rightarrow> if i = - 3 then (STab ((k, v) # fs) # st, g) else m | _ \<Rightarrow> m)
   | lua_setglobal nm \<Rightarrow> (case st of v # st \<Rightarrow> (st, (bytes_of nm, v) # g) | _ \<Rightarrow> m)
   | luaL_openlib nm fs \<Rightarrow>
       let t = STab (reg_fields fs @ (case map_of g (bytes_of nm) of Some (STab old) \<Rightarrow> old | _ \<Rightarrow> []))
       in (t # st, (bytes_of nm, t) # g)
   | _ \<Rightarrow> m)"

lemma lua_exec_simps:
  "lua_exec lua_newtable (st, g) = (STab [] # st, g)"
  "lua_exec (lua_push v) (st, g) = (SVal v # st, g)"
  "lua_exec (lua_settable (- 3)) (v' # SVal (LStr k) # STab fs # st, g) = (STab ((k, v') # fs) # st, g)"
  "lua_exec (lua_setglobal nm) (v' # st, g) = (st, (bytes_of nm, v') # g)"
  "map_of g (bytes_of nm) = None \<Longrightarrow>
   lua_exec (luaL_openlib nm regs) (st, g) = (STab (reg_fields regs) # st, (bytes_of nm, STab (reg_fields regs)) # g)"
  "lua_exec luaL_newstate m = m" "lua_exec luaL_openlibs m = m"
  by (simp_all add: lua_exec_def Let_def split: prod.split)

definition globals_of :: "lua_call list \<Rightarrow> lua_globals" where
  "globals_of cs = snd (fold lua_exec cs ([], []))"

definition lua_field :: "lua_globals \<Rightarrow> string \<Rightarrow> string \<Rightarrow> lua_slot option" where
  "lua_field g tab k = (case map_of g (bytes_of tab) of Some (STab fs) \<Rightarrow> map_of fs (bytes_of k) | _ \<Rightarrow> None)"

definition libraries :: "(string \<times> (string \<times> string) list) list" where
  "libraries = [(''cryptocoins'', cryptocoinslib_reg), (''rpc'', rpclib_reg), (''encdec'', encdeclib_reg), (''images'', imagesLib_reg),
     (''lgmp'', lgmp_reg), (''ed25519rsa'', libed25519rsa_reg), (''lnet'', lnet_reg)]"

lemma bytes_of_inj: "bytes_of a = bytes_of b \<longleftrightarrow> a = b"
proof -
  have code: "unat (of_nat (of_char c) :: byte) = of_char c" for c
    by (simp add: unat_of_nat del: of_nat_of_char)
  have "inj (\<lambda>c. of_nat (of_char c) :: byte)"
    by (rule injI) (metis code of_char_eq_iff)
  then show ?thesis
    by (simp add: bytes_of_def inj_map_eq_map)
qed

lemma map_of_reg: "map_of (reg_fields fs) (bytes_of k) = map_option SFun (map_of (rev fs) k)"
proof -
  have "map_of (map (\<lambda>(k, f). (bytes_of k, SFun f)) gs) (bytes_of k) = map_option SFun (map_of gs k)" for gs
    by (induction gs) (auto simp: bytes_of_inj)
  then show ?thesis
    by (simp add: reg_fields_def)
qed

lemma start_globals:
  "globals_of start_calls = map (\<lambda>(nm, fs). (bytes_of nm, STab (reg_fields fs)))
     [(''lnet'', lnet_reg), (''ed25519rsa'', libed25519rsa_reg), (''lgmp'', lgmp_reg), (''images'', imagesLib_reg), (''encdec'', encdeclib_reg)] @
   (bytes_of ''AESENCType'', STab [(bytes_of ''t_chacha20'', SVal (LNum 8)), (bytes_of ''t_cbc'', SVal (LNum 2)),
     (bytes_of ''t_ecb'', SVal (LNum 4))]) #
   map (\<lambda>(nm, fs). (bytes_of nm, STab (reg_fields fs))) [(''rpc'', rpclib_reg), (''cryptocoins'', cryptocoinslib_reg)]"
  by (simp add: globals_of_def start_calls_def enum_calls_def lua_exec_simps bytes_of_inj del: bytes_of_simps)

lemma start_libraries:
  assumes "(lib, fs) \<in> set libraries"
  shows "lua_field (globals_of start_calls) lib k = map_option SFun (map_of (rev fs) k)"
  using assms unfolding libraries_def
  by (simp only: set_simps insert_iff empty_iff prod.inject simp_thms)
    (elim disjE conjE; simp add: start_globals lua_field_def bytes_of_inj map_of_reg del: bytes_of_simps)

lemma start_constants:
  "\<exists>n. lua_field (globals_of start_calls) ''AESENCType'' (enc_name v) = Some (SVal (LNum n)) \<and> enc_select n = Some v"
  by (cases v) (simp_all add: start_globals lua_field_def bytes_of_inj enc_select_def bit_simps del: bytes_of_simps)

lemma start_lua_prefix:
  fixes s :: "'z cstate_scheme"
  assumes "\<And>l. r_handle (answer e l (Lua luaL_newstate)) = L"
  shows "\<exists>t. start_lua p e s = bnd (if p = Null then lib_block (cstr init_lua_file_path) else ret p)
      (\<lambda>script. bnd (lua_loadscript script) (\<lambda>_. ret L)) e t \<and> blocks t = blocks s \<and> nxt t = nxt s \<and>
    map fst (events t) = map fst (events s) @ map Lua start_calls"
proof -
  have "goes_on_as e (map Lua start_calls) (start_lua p :: ('z, handle) prog)
      (bnd (if p = Null then lib_block (cstr init_lua_file_path) else ret p) (\<lambda>script. bnd (lua_loadscript script) (\<lambda>_. ret L)))"
    unfolding start_lua_def luaopen_cryptocoins_def luaopen_rpc_def luaopen_encdec_def luaopen_libimages_def luaopen_liblgmp_def
      luaopen_libed25519rsa_def luaopen_lnet_def LUA_ENUM_def push_def lua_do_def
      start_calls_def enum_calls_def append.simps list.map bnd_assoc bnd_ret_left
    apply (rule goes_on_ext [where P = "\<lambda>r. r_handle r = L"], rule assms)
    apply (rule goes_on_any)+
    apply (simp only:)
    apply (rule goes_on_here)
    done
  then show ?thesis
    unfolding goes_on_as_def by blast
qed

text \<open>Claim C19: after \<open>start_lua\<close> has made a state and registered its libraries, and before it runs the given script (or
  \<open>./luasubmodules/init.lua\<close> for a null pointer), a script finds under every name of every library the C function of its
  table and nothing else, and under \<open>AESENCType\<close> for each cipher a number that the encryption for scripts takes for that
  cipher. The script is loaded once and run once if it loads; the result is the state if both succeed, else a Lua error.\<close>

theorem start_lua_registers:
  fixes s :: "'z cstate_scheme"
  assumes "p = Null \<and> f = init_lua_file_path \<or> p \<noteq> Null \<and> get_str (blocks s) p = Inr f"
    and "\<And>l. r_handle (answer e l (Lua luaL_newstate)) = L"
    and "\<And>l. answer e l (Lua (luaL_loadfile f)) = RInt bad" "\<And>l. answer e l (Lua lua_pcall) = RInt err"
  shows "\<exists>cs t. start_lua p e s = (if bad = 0 \<and> err = 0 then Ok L else Err (LuaError ''cannot run configuration file''), t) \<and>
    (p \<noteq> Null \<and> bad = 0 \<and> err = 0 \<longrightarrow> blocks t = blocks s) \<and>
    map fst (events t) = map fst (events s) @ map Lua (cs @ [luaL_loadfile f] @ (if bad = 0 then [lua_pcall] else []) @
      (if bad = 0 \<and> err = 0 then [] else [lua_arg_string (- 1)])) \<and>
    (\<forall>(lib, fs)\<in>set libraries. \<forall>k. lua_field (globals_of cs) lib k = map_option SFun (map_of (rev fs) k)) \<and>
    (\<forall>v. \<exists>n. lua_field (globals_of cs) ''AESENCType'' (enc_name v) = Some (SVal (LNum n)) \<and> enc_select n = Some v)"
proof -
  obtain u where u: "start_lua p e s = bnd (if p = Null then lib_block (cstr init_lua_file_path) else ret p)
      (\<lambda>script. bnd (lua_loadscript script) (\<lambda>_. ret L)) e u" "blocks u = blocks s"
    "map fst (events u) = map fst (events s) @ map Lua start_calls"
    using start_lua_prefix [OF assms(2)] by blast
  have run: "\<exists>t. bnd (lua_loadscript q) (\<lambda>_. ret L) e v =
        (if bad = 0 \<and> err = 0 then Ok L else Err (LuaError ''cannot run configuration file''), t) \<and>
      (bad = 0 \<and> err = 0 \<longrightarrow> blocks t = blocks v) \<and>
      map fst (events t) = map fst (events v) @ map Lua ([luaL_loadfile f] @ (if bad = 0 then [lua_pcall] else []) @
        (if bad = 0 \<and> err = 0 then [] else [lua_arg_string (- 1)]))"
    if "get_str (blocks v) q = Inr f" for q and v :: "'z cstate_scheme"
  proof -
    have err: "\<exists>t. cont (cont (lua_tostring (- 1) e y) (\<lambda>a. fail x e)) k = (Err x, t) \<and>
        map fst (rev (evs t)) = map fst (rev (evs y)) @ [Lua (lua_arg_string (- 1))]"
      for x and y :: "'z cstate_scheme" and k :: "unit \<Rightarrow> 'z cstate_scheme \<Rightarrow> handle res \<times> 'z cstate_scheme"
      by (auto simp: lua_tostring_def exec lib_str_def lib_block_def new_block_def split: reply.split)
    note defs = lua_loadscript_def lua_test_def exec assms(3,4) luaL_error_def events_def
    consider "bad = 0" "err = 0" | "bad = 0" "err \<noteq> 0" | "bad \<noteq> 0"
      by blast
    then show ?thesis
    proof cases
      case 1
      then show ?thesis
        using that by (simp add: defs)
    next
      case 2
      then show ?thesis
        using that err [of "v\<lparr>evs := (Lua lua_pcall, RInt err) # (Lua (luaL_loadfile f), RInt 0) # evs v\<rparr>"] by (simp add: defs)
    next
      case 3
      then show ?thesis
        using that err [of "v\<lparr>evs := (Lua (luaL_loadfile f), RInt bad) # evs v\<rparr>"] by (simp add: defs)
    qed
  qed
  show ?thesis
  proof (cases "p = Null")
    case True
    then have "get_str (blocks (new_block (cstr init_lua_file_path) u)) (Addr (nxt u) 0) = Inr f"
      using assms(1) by (simp add: get_str_cstr init_lua_file_path_def)
    from run [OF this] show ?thesis
      using u True start_libraries start_constants
      by (intro exI [of _ start_calls]) (auto simp: lib_block_def run_bnd events_def)
  next
    case False
    then show ?thesis
      using run [of u p] u assms(1) start_libraries start_constants
      by (intro exI [of _ start_calls]) (auto simp: run_bnd run_ret)
  qed
qed

definition lua_env :: env where
  "lua_env = \<lparr>malloc_ok = (\<lambda>_ _. True), answer = (\<lambda>l c. case c of Lua luaL_newstate \<Rightarrow> RHandle 7 | _ \<Rightarrow> RInt 0)\<rparr>"

theorem start_lua_registers_witness:
  fixes s defines "s \<equiv> state_of [cstr [97]]"
  shows "\<exists>cs t. start_lua (Addr 0 0) lua_env s = (Ok 7, t) \<and> blocks t = blocks s \<and>
    map fst (events t) = map fst (events s) @ map Lua (cs @ [luaL_loadfile [97], lua_pcall]) \<and>
    lua_field (globals_of cs) ''encdec'' ''AESenc'' = Some (SFun ''lua_AESenc'')"
proof -
  have a: "Addr 0 0 = Null \<and> [97] = init_lua_file_path \<or> Addr 0 0 \<noteq> Null \<and> get_str (blocks s) (Addr 0 0) = Inr [97]"
    "r_handle (answer lua_env l (Lua luaL_newstate)) = 7" "answer lua_env l (Lua (luaL_loadfile [97])) = RInt 0"
    "answer lua_env l (Lua lua_pcall) = RInt 0" for l
    by (simp_all add: s_def lua_env_def get_str_cstr)
  obtain cs t where t: "start_lua (Addr 0 0) lua_env s = (Ok 7, t)" "blocks t = blocks s"
    "map fst (events t) = map fst (events s) @ map Lua (cs @ [luaL_loadfile [97], lua_pcall])"
    "\<forall>(lib, fs)\<in>set libraries. \<forall>k. lua_field (globals_of cs) lib k = map_option SFun (map_of (rev fs) k)"
    using start_lua_registers [OF a] by auto
  have "(''encdec'', encdeclib_reg) \<in> set libraries"
    by (simp add: libraries_def)
  then have "lua_field (globals_of cs) ''encdec'' ''AESenc'' = map_option SFun (map_of (rev encdeclib_reg) ''AESenc'')"
    using t(4) by fast
  then show ?thesis
    using t(1-3) by (auto simp: encdeclib_reg_def LUAPAIR_def)
qed

subsection \<open>The files of a directory\<close>

definition dofiles :: "(call \<times> reply) list \<Rightarrow> byte list list" where
  "dofiles es = concat (map (\<lambda>ev. case fst ev of Lua (luaL_dofile f) \<Rightarrow> [f] | _ \<Rightarrow> []) es)"

lemma dofiles_simps [simp]:
  "dofiles [] = []" "dofiles (es @ es') = dofiles es @ dofiles es'"
  "dofiles ((c, r) # es) = (case c of Lua (luaL_dofile f) \<Rightarrow> [f] | _ \<Rightarrow> []) @ dofiles es"
  by (simp_all add: dofiles_def)

definition readdirs :: "handle \<Rightarrow> (call \<times> reply) list \<Rightarrow> nat" where
  "readdirs d l = length (filter (\<lambda>ev. fst ev = Libc (Readdir d)) l)"

lemma readdirs_simps [simp]:
  "readdirs d [] = 0"
  "readdirs d (ev # l) = (if fst ev = Libc (Readdir d) then 1 else 0) + readdirs d l"
  by (simp_all add: readdirs_def)

abbreviation in_dir :: "byte list \<Rightarrow> byte list \<Rightarrow> byte list" where
  "in_dir path nm \<equiv> path @ bytes_of ''/'' @ nm"

text \<open>An entry is run from an array of exactly the needed size.\<close>

lemma run_entry_run:
  assumes "fresh s" "NUL \<notin> set path" "NUL \<notin> set nm"
  shows "\<exists>t. run_entry path nm e s = (Ok (), t) \<and> fresh t \<and> blocks t = blocks s \<and>
    readdirs d (evs t) = readdirs d (evs s) \<and>
    dofiles (events t) = dofiles (events s) @ (if dot_name nm then [] else [in_dir path nm])"
proof (cases "dot_name nm")
  case True
  then show ?thesis
    using assms by (simp add: run_entry_def exec)
next
  case False
  have dead: "blocks s (nxt s) = None"
    using assms by (simp add: fresh_above)
  have "NUL \<notin> set (in_dir path nm)"
    using assms by (simp add: bytes_of_def)
  then have str: "get_str m (Addr b 0) = Inr (in_dir path nm)"
    if "m b = Some (map Byte path @ Byte 47 # map Byte nm @ [Byte NUL])" for m b
    using that by (intro get_str_block) simp
  have "(blocks s)(nxt s := None) = blocks s"
    using dead by (rule fun_upd_idem)
  then have "\<exists>t. run_entry path nm e s = (Ok (), t) \<and> blocks t = blocks s \<and>
      readdirs d (evs t) = readdirs d (evs s) \<and> dofiles (events t) = dofiles (events s) @ [in_dir path nm]"
    using assms False by (simp add: run_entry_def exec local_arr_def str events_def drop_block_def)
  moreover have "keeps fresh_kept (run_entry path nm)"
    unfolding run_entry_def by auto
  ultimately show ?thesis
    using assms(1) False by (force dest: keepsD simp: fresh_kept_def)
qed

text \<open>What is left of a directory of which some entries were read.\<close>

lemma run_entries_run:
  fixes s :: "'z cstate_scheme"
  assumes "fresh s" "NUL \<notin> set path" "\<forall>nm\<in>set names. NUL \<notin> set nm"
    and dir: "\<And>l. answer e l (Libc (Readdir d)) = (if readdirs d l < length names then ROut 0 (names ! readdirs d l) else RUnit)"
    and "k = readdirs d (evs s)" "k \<le> length names"
  shows "\<exists>t. run_entries path d e s = (Ok None, t) \<and> blocks t = blocks s \<and>
    dofiles (events t) = dofiles (events s) @ map (in_dir path) (filter (\<lambda>nm. \<not> dot_name nm) (drop k names))"
  using assms(1,5,6)
proof (induction "length names - k" arbitrary: k s)
  case 0
  then show ?case
    by (simp add: run_entries_def next_entry_def exec dir events_def)
next
  case (Suc n)
  then have k: "k < length names"
    by simp
  let ?nm = "names ! k"
  let ?s = "s\<lparr>evs := (Libc (Readdir d), ROut 0 ?nm) # evs s\<rparr>"
  have nm: "NUL \<notin> set ?nm"
    using assms(3) k by simp
  have "fresh ?s"
    using Suc.prems by (simp add: fresh_def)
  then obtain u where u: "run_entry path ?nm e ?s = (Ok (), u)" "fresh u" "blocks u = blocks ?s"
    "readdirs d (evs u) = readdirs d (evs ?s)"
    "dofiles (events u) = dofiles (events ?s) @ (if dot_name ?nm then [] else [in_dir path ?nm])"
    using run_entry_run [OF _ assms(2) nm] by blast
  have k': "Suc k = readdirs d (evs u)" and b: "blocks u = blocks s"
    and ev: "dofiles (events ?s) = dofiles (events s)"
    using Suc.prems(2) u(3,4) by (simp_all add: events_def)
  have n: "n = length names - Suc k"
    using Suc.hyps(2) by simp
  obtain t where t: "run_entries path d e u = (Ok None, t)" "blocks t = blocks u"
    "dofiles (events t) = dofiles (events u) @ map (in_dir path) (filter (\<lambda>nm. \<not> dot_name nm) (drop (Suc k) names))"
    using Suc.hyps(1) [OF n u(2) k'] k by auto
  have first: "next_entry d e s = (Ok (Some ?nm), ?s)"
    using k Suc.prems by (simp add: next_entry_def exec dir)
  obtain r v where v: "next_entry d e u = (Ok r, v)"
    by (simp add: next_entry_def exec)
  let ?body = "\<lambda>ent. bnd (run_entry path (the ent)) (\<lambda>_. next_entry d)"
  have "?body (Some ?nm) e ?s = (Ok r, v)"
    using u(1) v by (simp add: exec)
  moreover have "c_while (\<lambda>ent. ent \<noteq> None) ?body r e v = (Ok None, t)"
    using t(1) v by (simp add: run_entries_def run_bnd)
  ultimately have "c_while (\<lambda>ent. ent \<noteq> None) ?body (Some ?nm) e ?s = (Ok None, t)"
    by (rule c_while_next [of "\<lambda>ent. ent \<noteq> None", rotated]) simp_all
  then have "run_entries path d e s = (Ok None, t)"
    using first by (simp add: run_entries_def run_bnd)
  moreover have "drop k names = ?nm # drop (Suc k) names"
    using k by (simp add: Cons_nth_drop_Suc)
  ultimately show ?case
    using t u(5) b ev by (intro exI [of _ t]) simp
qed

text \<open>Claim C32: starting the submodules ends for every directory, runs each of its files once and
  in the order in which the directory lists them, and leaves the memory as it was.\<close>

theorem submodules_run_once:
  assumes "fresh s" "get_str (blocks s) p = Inr path" "\<forall>nm\<in>set names. NUL \<notin> set nm"
    and "\<And>l. answer e l (Libc (Opendir path)) = RHandle d" "d \<noteq> 0" "readdirs d (evs s) = 0"
    and "\<And>l. answer e l (Libc (Readdir d)) = (if readdirs d l < length names then ROut 0 (names ! readdirs d l) else RUnit)"
  shows "\<exists>t. runAllLuaFilesInDir p e s = (Ok (), t) \<and> blocks t = blocks s \<and>
    dofiles (events t) = dofiles (events s) @ map (in_dir path) (filter (\<lambda>nm. \<not> dot_name nm) names)"
proof -
  let ?s = "s\<lparr>evs := (Libc (Opendir path), RHandle d) # evs s\<rparr>"
  have "fresh ?s"
    using assms(1) by (simp add: fresh_def)
  then obtain t where "run_entries path d e ?s = (Ok None, t)" "blocks t = blocks s"
    "dofiles (events t) = dofiles (events s) @ map (in_dir path) (filter (\<lambda>nm. \<not> dot_name nm) names)"
    using run_entries_run [OF _ get_str_nonzero [OF assms(2)] assms(3,7), of ?s 0] assms(6) by (auto simp: events_def)
  then show ?thesis
    using assms(2,4,5) by (simp add: runAllLuaFilesInDir_def exec events_def)
qed

subsection \<open>Pushing arguments\<close>

text \<open>A format of one \<open>s\<close> pushes a string, but then a boolean, a key and a value as well,
  which it takes from the arguments that follow: with just the string it runs past them.\<close>

theorem getparams_falls_through:
  assumes "get_str (blocks s) f = Inr [115]" "get_str (blocks s) a = Inr as" "get_str (blocks s) k = Inr ks"
    and "get_str (blocks s) v = Inr vs"
  shows "fst (getparams f [VStr a] e s) = Err TypeFault \<and>
    (\<exists>t. getparams f [VStr a, VInt b, VStr k, VStr v] e s = (Ok (), t) \<and>
      map fst (events t) = map fst (events s) @ map (\<lambda>v. Lua (lua_push v)) [LStr as, LBool (b \<noteq> 0), LStr ks, LStr vs] @
        [Lua (lua_settable (- 3))])"
proof -
  have "f \<noteq> Null" "a \<noteq> Null" "k \<noteq> Null" "v \<noteq> Null"
    using assms by auto
  then show ?thesis
    using assms by (simp add: getparams_def param_def param_s_def param_b_def param_m_def lua_pushstring_def exec events_def)
qed

subsection \<open>The server\<close>

text \<open>\<open>luaServInit\<close> gives the listening socket, or 0 after closing exactly the socket that
  it opened; a socket that could not be opened is not closed.\<close>

theorem luaServInit_socket:
  assumes "get_str (blocks s) (sv_host a) = Inr host" "\<And>l. answer e l (Sys (Socket ''SOCK_STREAM'')) = RInt sk"
    and "\<And>l. answer e l (Sys (Bind sk 0 16)) = RInt b" "\<And>l. answer e l (Sys (Listen sk LUAMAXLISTEN)) = RInt n"
  shows "\<exists>t. luaServInit a e s = (Ok (if sk = - 1 \<or> b = - 1 \<or> n = - 1 then 0 else sk), t) \<and> blocks t = blocks s \<and>
    filter (\<lambda>c. \<exists>k. c = Sys (Close k)) (map fst (events t)) = filter (\<lambda>c. \<exists>k. c = Sys (Close k)) (map fst (events s)) @
      (if sk \<noteq> - 1 \<and> (b = - 1 \<or> n = - 1) then [Sys (Close sk)] else [])"
  using assms by (simp add: luaServInit_def exec say_def events_def)

text \<open>Claim C34: serving a client ends only when \<open>recv\<close> answers 0: after a failed \<open>recv\<close>, whose -1
  is stored in a \<open>size_t\<close>, the loop goes on, so a client whose connection breaks keeps the
  server for ever.\<close>

theorem serve_never_ends_on_error:
  fixes s :: "'z sv_state_scheme"
  assumes "\<And>l. r_int (answer e l (Sys (Recv c (LUABUF - 1)))) = - 1"
  shows "fst (serve c e s) \<noteq> Ok ()"
proof
  assume "fst (serve c e s) = Ok ()"
  then obtain t where "serve c e s = (Ok (), t)"
    by (metis prod.collapse)
  then have "\<exists>p (u :: 'z sv_state_scheme) u'. bnd (bzero p LUABUF) (\<lambda>_. bnd (c_loop (\<lambda>_. bnd (receive c p) (\<lambda>n. ret (0 < n)))
      (\<lambda>_. run_chunk c p) ()) (\<lambda>_. ret ())) e u = (Ok (), u')"
    unfolding serve_def by (rule local_arr_Ok)
  then obtain p and u :: "'z sv_state_scheme" and u' where body: "bnd (bzero p LUABUF) (\<lambda>_. bnd (c_loop (\<lambda>_. bnd (receive c p) (\<lambda>n. ret (0 < n)))
      (\<lambda>_. run_chunk c p) ()) (\<lambda>_. ret ())) e u = (Ok (), u')"
    by blast
  then obtain v and w :: "'z sv_state_scheme" and x where loop: "c_loop (\<lambda>_. bnd (receive c p) (\<lambda>n. ret (0 < n))) (\<lambda>_. run_chunk c p) () e w = (Ok v, x)"
    unfolding run_bnd cont_eq_Ok by blast
  then obtain w w' :: "'z sv_state_scheme" where "bnd (receive c p) (\<lambda>n. ret (0 < n)) e w = (Ok False, w')"
    using c_loop_last_test [OF loop] by blast
  then show False
    by (auto simp: receive_def ok_iff assms [simplified] size_t_def)
qed

lemma send_unterminated:
  assumes "blocks s b = Some (map Byte out)" "NUL \<notin> set out"
  shows "fst (send_buf c (Addr b 0) e s) = Err OutOfBounds"
proof -
  have "get_str (blocks s) (Addr b 0) = Inl OutOfBounds"
    using assms by (simp add: get_str_def cells_of_def scan_map_Byte)
  then show ?thesis
    by (simp add: send_buf_def exec)
qed

text \<open>When a script has printed as many bytes as the buffer has, the answer has no
  terminator, and sending it reads past the buffer.\<close>

theorem run_chunk_reads_past:
  fixes s :: "'z sv_state_scheme"
  assumes "blocks s b = Some cs" "length cs = LUABUF" "get_str (blocks s) (Addr b 0) = Inr code"
    and "\<And>l. answer e l (Lua (luaL_loadbuffer code)) = RInt 0" "\<And>l. answer e l (Lua lua_pcall) = RInt 0"
    and "\<And>l h. answer e l (Libc (Fread h LUABUF)) = ROut 1 out" "length out = LUABUF" "NUL \<notin> set out"
    and files: "stdout_file s \<noteq> 0" "\<And>l h. r_handle (answer e l (Libc (Freopen tmp_path ''w'' h))) \<noteq> 0"
      "\<And>l. r_handle (answer e l (Libc (Fopen tmp_path ''rb''))) \<noteq> 0"
  shows "fst (run_chunk c (Addr b 0) e s) = Err OutOfBounds"
proof -
  have past: "fst (bnd (bzero (Addr b 0) LUABUF) (\<lambda>_. bnd (ext (Libc (Fread h LUABUF))) (\<lambda>r.
      bnd (write_bytes (Addr b 0) (r_bytes r)) (\<lambda>_. bnd (send_buf c (Addr b 0)) f))) e u) = Err OutOfBounds"
    if "blocks u = blocks s" for u :: "'z sv_state_scheme" and h and f :: "unit \<Rightarrow> ('z, unit) svprog"
  proof (rule fst_bnd_ok)
    let ?v = "u\<lparr>blocks := (blocks u)(b \<mapsto> replicate LUABUF (Byte NUL))\<rparr>"
    show "bzero (Addr b 0) LUABUF e u = (Ok (), ?v)"
      using assms(1,2) that by (simp add: exec)
    show "fst (bnd (ext (Libc (Fread h LUABUF))) (\<lambda>r. bnd (write_bytes (Addr b 0) (r_bytes r)) (\<lambda>_.
        bnd (send_buf c (Addr b 0)) f)) e ?v) = Err OutOfBounds"
      by (rule fst_bnd_ok [where a = "ROut 1 out"], simp add: exec assms(6), rule fst_bnd_ok, simp add: exec assms(7))
        (rule fst_bnd_Err, rule send_unterminated [OF _ assms(8)], simp add: assms(7))
  qed
  have read: "read_str (Addr b 0) e u = (Ok code, u)" if "blocks u = blocks s" for u :: "'z sv_state_scheme"
    using assms(3) that by (simp add: exec)
  have test: "lua_test (luaL_loadbuffer code) e u = (Ok False, u\<lparr>evs := (Lua (luaL_loadbuffer code), RInt 0) # evs u\<rparr>)"
    "lua_test lua_pcall e u = (Ok False, u\<lparr>evs := (Lua lua_pcall, RInt 0) # evs u\<rparr>)" for u :: "'z sv_state_scheme"
    by (simp_all add: lua_test_def exec assms(4,5))
  have close: "h \<noteq> 0 \<Longrightarrow> fclose h e u = (Ok (), u\<lparr>evs := (Libc (Fclose h), answer e (evs u) (Libc (Fclose h))) # evs u\<rparr>)"
    for h and u :: "'z sv_state_scheme"
    by (simp add: fclose_def exec)
  show ?thesis
    unfolding run_chunk_def
    apply (rule fst_bnd_ok [OF run_gets], simp only: files(1) if_False)
    apply (rule fst_bnd_ok [OF run_ext], rule fst_bnd_ok [OF run_ext], rule fst_bnd_ok, rule read, simp)
    apply (rule fst_bnd_ok, rule test(1), simp only: if_False, rule fst_bnd_ok, rule test(2), simp only: if_False)
    apply (rule fst_bnd_Err, rule fst_bnd_ext, rule fst_bnd_ok, rule close, rule files(2))
    apply (simp only: files(3) if_False, rule past, simp)
    done
qed

subsection \<open>Instances\<close>

definition sv_state_of :: "cell list list \<Rightarrow> sv_state" where
  "sv_state_of cs = cstate.extend (state_of cs) \<lparr>stdout_file = 1\<rparr>"

lemma sv_state_of_simps [simp]:
  "blocks (sv_state_of cs) b = (if b < length cs then Some (cs ! b) else None)"
  "nxt (sv_state_of cs) = length cs" "evs (sv_state_of cs) = []" "fresh (sv_state_of cs)"
  by (simp_all add: sv_state_of_def state_of_def cstate.defs fresh_def)

text \<open>A directory \<open>d\<close> that holds \<open>.\<close> and \<open>a\<close>.\<close>

definition toy_dir :: env where
  "toy_dir = \<lparr>malloc_ok = (\<lambda>_ _. True), answer = (\<lambda>l c. case c of
     Libc (Opendir n) \<Rightarrow> RHandle 1
   | Libc (Readdir d) \<Rightarrow> if readdirs d l < length [[46], [97 :: byte]] then ROut 0 ([[46], [97]] ! readdirs d l) else RUnit
   | _ \<Rightarrow> RUnit)\<rparr>"

theorem submodules_run_once_witness:
  "\<exists>t. runAllLuaFilesInDir (Addr 0 0) toy_dir (sv_state_of [cstr [100]]) = (Ok (), t) \<and>
    blocks t = blocks (sv_state_of [cstr [100]]) \<and>
    dofiles (events t) = dofiles (events (sv_state_of [cstr [100]])) @
      map (in_dir [100]) (filter (\<lambda>nm. \<not> dot_name nm) [[46], [97]])"
  by (rule submodules_run_once [where d = 1]) (simp_all add: toy_dir_def)

theorem getparams_falls_through_witness:
  fixes s defines "s \<equiv> state_of [cstr [115], cstr [97], cstr [98], cstr [99]]"
  shows "fst (getparams (Addr 0 0) [VStr (Addr 1 0)] (const_env RUnit) s) = Err TypeFault \<and>
    (\<exists>t. getparams (Addr 0 0) [VStr (Addr 1 0), VInt 5, VStr (Addr 2 0), VStr (Addr 3 0)] (const_env RUnit) s = (Ok (), t) \<and>
      map fst (events t) = map fst (events s) @
        map (\<lambda>v. Lua (lua_push v)) [LStr [97], LBool ((5 :: int) \<noteq> 0), LStr [98], LStr [99]] @ [Lua (lua_settable (- 3))])"
  by (rule getparams_falls_through) (simp_all add: s_def)

definition no_listen :: env where
  "no_listen = \<lparr>malloc_ok = (\<lambda>_ _. True), answer = (\<lambda>l c. case c of
     Sys (Socket k) \<Rightarrow> RInt 7 | Sys (Bind k a n) \<Rightarrow> RInt 0 | Sys (Listen k n) \<Rightarrow> RInt (- 1) | _ \<Rightarrow> RUnit)\<rparr>"

theorem luaServInit_socket_witness:
  fixes s defines "s \<equiv> sv_state_of [cstr [49]]"
  shows "\<exists>t. luaServInit \<lparr>sv_host = Addr 0 0, sv_port = 80\<rparr> no_listen s =
      (Ok (if (7 :: int) = - 1 \<or> (0 :: int) = - 1 \<or> (- 1 :: int) = - 1 then 0 else 7), t) \<and> blocks t = blocks s \<and>
    filter (\<lambda>c. \<exists>k. c = Sys (Close k)) (map fst (events t)) = filter (\<lambda>c. \<exists>k. c = Sys (Close k)) (map fst (events s)) @
      (if (7 :: int) \<noteq> - 1 \<and> ((0 :: int) = - 1 \<or> (- 1 :: int) = - 1) then [Sys (Close 7)] else [])"
  by (rule luaServInit_socket [where host = "[49]"]) (simp_all add: no_listen_def s_def)

theorem serve_never_ends_on_error_witness:
  "fst (serve 5 (const_env (RInt (- 1))) (sv_state_of [])) \<noteq> Ok ()"
  by (rule serve_never_ends_on_error) simp

definition printer :: env where
  "printer = \<lparr>malloc_ok = (\<lambda>_ _. True), answer = (\<lambda>l c. case c of
     Libc (Fread h n) \<Rightarrow> ROut 1 (replicate n 97)
   | Libc (Freopen p m h) \<Rightarrow> RHandle 2 | Libc (Fopen p m) \<Rightarrow> RHandle 3 | _ \<Rightarrow> RInt 0)\<rparr>"

theorem run_chunk_reads_past_witness:
  "fst (run_chunk 5 (Addr 0 0) printer (sv_state_of [Byte NUL # replicate 10023 Undef])) = Err OutOfBounds"
  by (rule run_chunk_reads_past [where cs = "Byte NUL # replicate 10023 Undef" and code = "[]" and out = "replicate LUABUF 97"])
    (simp_all add: printer_def get_str_def cells_of_def sv_state_of_def cstate.defs)

end
