(* ===== verification/Client.thy ===== *)
theory Client
  imports AES Lua_Net "HOL-Library.AList"
begin

text \<open>
  The test client \<open>src/client/main.cpp\<close> with \<open>src/net/utils.cpp\<close>: it connects to the server,
  binds a socket to the address under which the server sees it (hole punching), asks for the
  list of users and pings them. C++ strings are byte lists; the pointers to the two sockets in
  a \<open>sock_data\<close> are a flag that they are set, since a program has one \<open>serv_data\<close>; a
  \<open>std::map\<close> is an association list, whose order nothing depends on. An exception derived
  from \<open>std::exception\<close> is the fault \<open>Thrown\<close>, one of type \<open>const char *\<close> is \<open>ThrownChars\<close>.
\<close>

subsection \<open>Strings\<close>

definition npos :: nat where
  "npos = 2 ^ 64 - 1"

definition str_find :: "byte \<Rightarrow> byte list \<Rightarrow> nat" where
  "str_find c s = (if c \<in> set s then length (takeWhile (\<lambda>b. b \<noteq> c) s) else npos)"

definition substr :: "nat \<Rightarrow> nat \<Rightarrow> byte list \<Rightarrow> ('z, byte list) prog" where
  "substr pos n s = (if length s < pos then fail (Thrown ''basic_string::substr'') else ret (take n (drop pos s)))"

definition sz_add :: "nat \<Rightarrow> nat \<Rightarrow> nat" where
  "sz_add a b = size_t (int a + int b)"

definition sz_sub :: "nat \<Rightarrow> nat \<Rightarrow> nat" where
  "sz_sub a b = size_t (int a - int b)"

definition print :: "byte list \<Rightarrow> ('z, unit) prog" where
  "print bs = bnd (ext (Libc (Printf ''%s'' bs))) (\<lambda>_. ret ())"

text \<open>\<open>catch (std::exception \&)\<close>, whose handler prints what was thrown.\<close>

definition try_std :: "('z, unit) prog \<Rightarrow> ('z, unit) prog" where
  "try_std m = (\<lambda>e s. case m e s of
     (Err (Thrown what), t) \<Rightarrow> print (bytes_of what) e t
   | r \<Rightarrow> r)"

text \<open>The wrapper of \<open>split_msg\<close>: its pieces as a vector of strings.\<close>

primrec pieces_from :: "nat \<Rightarrow> nat \<Rightarrow> ptr \<Rightarrow> ('z, byte list list) prog" where
  "pieces_from 0 i splitted = ret []"
| "pieces_from (Suc n) i splitted =
     bnd (load_ptr (padd splitted i)) (\<lambda>p.
     bnd (read_str p) (\<lambda>x.
     bnd (pieces_from n (Suc i) splitted) (\<lambda>xs.
     ret (x # xs))))"

definition split :: "ptr \<Rightarrow> byte \<Rightarrow> nat \<Rightarrow> ('z, byte list list) prog" where
  "split buf schar bufsize =
     bnd (if bufsize = 0 then strlen buf else ret bufsize) (\<lambda>bufsize.
     bnd (split_msg buf schar bufsize) (\<lambda>(splitted, split_size).
     bnd (pieces_from split_size 0 splitted) (\<lambda>rt.
     bnd (free_splitted splitted split_size) (\<lambda>_.
     ret rt))))"

subsection \<open>Peers\<close>

abbreviation (input) con_tcp :: nat where "con_tcp \<equiv> 2"
abbreviation (input) con_udp :: nat where "con_udp \<equiv> 4"

type_synonym peer = "byte list \<times> nat"

record sock_data =
  m_adr :: "sockaddr_in option"
  m_socks :: bool
  pinged :: "int option"
  m_peer_info :: peer
  sd_contype :: "nat option"

text \<open>The members of the one \<open>serv_data\<close>.\<close>

record cl_state = cstate +
  m_contype :: nat
  m_sock_udp :: int
  m_sock_tcp :: int
  users_map :: "(peer \<times> sock_data) list"
  serv_m_data :: sock_data
  m_addr :: "sockaddr_in option"

type_synonym ('z, 'a) clprog = "('z cl_state_ext, 'a) prog"

definition sock_of :: "sock_data \<Rightarrow> bool \<Rightarrow> ('z, int) clprog" where
  "sock_of sd isTCP =
     (if m_socks sd then gets (if isTCP then m_sock_tcp else m_sock_udp) else fail UninitRead)"

definition new_sock_data :: "peer \<Rightarrow> nat \<Rightarrow> ('z, sock_data) prog" where
  "new_sock_data peer_info type =
     bnd (ext (Sys (Inet_addr (fst peer_info)))) (\<lambda>r.
     ret \<lparr>m_adr = Some \<lparr>sin_family = AF_INET, sin_port = htons (snd peer_info), s_addr = c_uint (r_int r)\<rparr>,
       m_socks = True, pinged = None, m_peer_info = peer_info, sd_contype = Some type\<rparr>)"

definition sd_set_timeout :: "sock_data \<Rightarrow> nat \<Rightarrow> nat \<Rightarrow> bool \<Rightarrow> ('z, unit) clprog" where
  "sd_set_timeout sd tSec tUsec isTCP =
     bnd (sock_of sd isTCP) (\<lambda>sock.
     bnd (ext (Sys (Setsockopt_rcvtimeo sock tSec tUsec))) (\<lambda>_. ret ()))"

definition sd_write :: "sock_data \<Rightarrow> byte list \<Rightarrow> bool \<Rightarrow> ('z, int) clprog" where
  "sd_write sd bs isTCP =
     bnd (sock_of sd isTCP) (\<lambda>tmp.
     bnd (field (sd_contype sd)) (\<lambda>ct.
     if isTCP \<and> and ct con_tcp \<noteq> con_tcp then fail (ThrownChars ''TCP with peer unnallowed'') else
     if \<not> isTCP \<and> and ct con_udp \<noteq> con_udp then fail (ThrownChars ''UDP with peer unnallowed'') else
     bnd (field (m_adr sd)) (\<lambda>a.
     bnd (ext (Sys (Sendto_in tmp bs (sin_family a) (sin_port a) (s_addr a)))) (\<lambda>r.
     let c = c_int (r_int r) in
     if c < 0 then fail (Thrown ''Can't send to peer'') else ret c))))"

definition sd_read :: "sock_data \<Rightarrow> nat \<Rightarrow> bool \<Rightarrow> ('z, byte list \<times> sock_data) clprog" where
  "sd_read sd sbuf isTCP =
     local_arr sbuf (\<lambda>buf.
     bnd (bzero buf sbuf) (\<lambda>_.
     bnd (sock_of sd isTCP) (\<lambda>tmp.
     bnd (field (m_adr sd)) (\<lambda>adr.
     bnd (ext (Sys (Recvfrom tmp sbuf 0))) (\<lambda>r.
     bnd (write_bytes buf (r_bytes r)) (\<lambda>_.
     let tadr = (if r_addr r = [] then adr else sockaddr_of (r_addr r)) in
     if c_int (r_int r) < 0 then fail (Thrown ''Can't recv from peer'') else
     bnd (if adr \<noteq> tadr then
            bnd (ext (Sys (Inet_ntoa (s_addr tadr)))) (\<lambda>ip.
            new_sock_data (r_bytes ip, htons (sin_port tadr)) con_udp)
          else new_sock_data (m_peer_info sd) con_udp) (\<lambda>n.
     bnd (read_str buf) (\<lambda>s.
     ret (s, n)))))))))"

subsection \<open>The server as the client sees it\<close>

definition conUserData :: "byte list" where
  "conUserData = bytes_of ''PING!'' @ [LF]"

definition cl_close :: "int \<Rightarrow> ('z, unit) prog" where
  "cl_close sock = bnd (ext (Sys (Close sock))) (\<lambda>_. ret ())"

definition serv_write :: "byte list \<Rightarrow> bool \<Rightarrow> ('z, int) clprog" where
  "serv_write bs isTCP = bnd (gets serv_m_data) (\<lambda>sd. sd_write sd bs isTCP)"

definition serv_read :: "nat \<Rightarrow> bool \<Rightarrow> ('z, byte list \<times> sock_data) clprog" where
  "serv_read sbuf isTCP = bnd (gets serv_m_data) (\<lambda>sd. sd_read sd sbuf isTCP)"

definition closeconn :: "('z, unit) clprog" where
  "closeconn =
     bnd (gets m_sock_tcp) (\<lambda>t. bnd (cl_close t) (\<lambda>_.
     bnd (gets m_sock_udp) (\<lambda>u. cl_close u)))"

text \<open>\<open>users_map[peer_info]\<close> enters a peer it does not know, with members that are not written.\<close>

definition sock_data_default :: sock_data where
  "sock_data_default = \<lparr>m_adr = None, m_socks = False, pinged = None, m_peer_info = ([], 0), sd_contype = None\<rparr>"

definition user_at :: "peer \<Rightarrow> ('z, sock_data) clprog" where
  "user_at peer_info =
     bnd (gets users_map) (\<lambda>us. case map_of us peer_info of
       Some sd \<Rightarrow> ret sd
     | None \<Rightarrow> bnd (modify (users_map_update (AList.update peer_info sock_data_default))) (\<lambda>_. ret sock_data_default))"

definition serv_write_to :: "peer \<Rightarrow> byte list \<Rightarrow> bool \<Rightarrow> ('z, int) clprog" where
  "serv_write_to peer_info bs isTCP = bnd (user_at peer_info) (\<lambda>sd. sd_write sd bs isTCP)"

definition serv_read_from :: "peer \<Rightarrow> nat \<Rightarrow> bool \<Rightarrow> ('z, byte list \<times> sock_data) clprog" where
  "serv_read_from peer_info sbuf isTCP = bnd (user_at peer_info) (\<lambda>sd. sd_read sd sbuf isTCP)"

text \<open>A write to a peer that is not in the map enters him and reads a pointer to a socket that was never written.\<close>

lemma serv_write_to_unknown:
  "map_of (users_map s) p = None \<Longrightarrow>
   serv_write_to p bs isTCP e s = (Err UninitRead, s\<lparr>users_map := AList.update p sock_data_default (users_map s)\<rparr>)"
  by (simp add: serv_write_to_def user_at_def sd_write_def sock_of_def sock_data_default_def exec)

definition stop_program :: "string \<Rightarrow> ('z, 'a) prog" where
  "stop_program msg = bnd (ext (Libc (Fprintf_stderr msg))) (\<lambda>_. fail (Exited 1))"

text \<open>The address in the answer \<open>[ip:port]: ...\<close>.\<close>

definition self_address :: "byte list \<Rightarrow> ('z, byte list \<times> byte list) prog" where
  "self_address t =
     bnd (substr 1 (sz_sub (str_find COLON t) 1) t) (\<lambda>sIp.
     let colon = sz_add (str_find COLON t) 1 in
     bnd (substr colon (sz_sub (str_find 93 t) colon) t) (\<lambda>sPort.
     ret (sIp, sPort)))"

definition self_bind :: "('z, unit) clprog" where
  "self_bind =
     bnd (ext (Sys (Socket ''SOCK_DGRAM''))) (\<lambda>r.
     let m_udp_self = r_int r in
     if m_udp_self \<le> 0 then fail (Thrown ''Can't init sockets (SELF)'') else
     bnd (serv_write (bytes_of ''getmypeerinfo'' @ [LF]) False) (\<lambda>_.
     bnd (serv_read 1024 False) (\<lambda>(t, _).
     bnd (print (bytes_of ''Buffer:'')) (\<lambda>_.
     bnd (print t) (\<lambda>_.
     bnd (self_address t) (\<lambda>(sIp, sPort).
     bnd (print sIp) (\<lambda>_.
     bnd (print sPort) (\<lambda>_.
     bnd (ext (Sys (Inet_addr sIp))) (\<lambda>ia.
     let a = \<lparr>sin_family = AF_INET, sin_port = htons (nat (atoi sPort mod 2 ^ 16)), s_addr = c_uint (r_int ia)\<rparr> in
     bnd (modify (m_addr_update (\<lambda>_. Some a))) (\<lambda>_.
     bnd (gets m_sock_udp) (\<lambda>old.
     bnd (cl_close old) (\<lambda>_.
     bnd (ext (Sys (Bind_in m_udp_self (sin_family a) (sin_port a) (s_addr a)))) (\<lambda>b.
     if c_int (r_int b) < 0 then stop_program ''Can't bind(hole punch)'' else
     modify (m_sock_udp_update (\<lambda>_. m_udp_self)))))))))))))))"

primrec scan_users :: "int \<Rightarrow> int \<Rightarrow> (peer \<times> sock_data) list \<Rightarrow> ('z, peer option) prog" where
  "scan_users timenow s [] = ret None"
| "scan_users timenow s (u # us) =
     bnd (field (pinged (snd u))) (\<lambda>p.
     if timenow - p > s then ret (Some (fst u)) else scan_users timenow s us)"

definition del_user :: "int \<Rightarrow> int \<Rightarrow> ('z, bool) clprog" where
  "del_user timenow s =
     bnd (gets users_map) (\<lambda>us.
     bnd (scan_users timenow s us) (\<lambda>found.
     case found of None \<Rightarrow> ret False
     | Some k \<Rightarrow> bnd (modify (users_map_update (AList.delete k))) (\<lambda>_. ret True)))"

definition cl_delByPing :: "int \<Rightarrow> ('z, unit) clprog" where
  "cl_delByPing s =
     bnd (ext (Libc Time)) (\<lambda>timenow.
     bnd (del_user (r_int timenow) s) (\<lambda>erased.
     bnd (c_while (\<lambda>d. d) (\<lambda>_. del_user (r_int timenow) s) erased) (\<lambda>_. ret ())))"

text \<open>One entry \<open>ip:port\<close> of the list of users.\<close>

definition user_address :: "byte list \<Rightarrow> ('z, byte list \<times> byte list) prog" where
  "user_address address =
     bnd (substr 0 (str_find COLON address) address) (\<lambda>ip.
     bnd (substr (sz_add (str_find COLON address) 1) (length address) address) (\<lambda>port.
     ret (ip, port)))"

definition ping_user :: "byte list \<Rightarrow> ('z, unit) clprog" where
  "ping_user address =
     bnd (print address) (\<lambda>_.
     bnd (user_address address) (\<lambda>(ip, port).
     bnd (print ip) (\<lambda>_.
     bnd (print port) (\<lambda>_.
     let peer = (ip, nat (atoi port mod 2 ^ 16)) in
     bnd (new_sock_data peer con_udp) (\<lambda>n_data.
     bnd (sd_write n_data conUserData False) (\<lambda>_.
     try_std (
       bnd (sd_set_timeout n_data 1 0 False) (\<lambda>_.
       bnd (sd_read n_data 1024 False) (\<lambda>(r, _).
       if r = [] then ret () else
       bnd (ext (Libc Time)) (\<lambda>now.
       modify (users_map_update (AList.update peer (n_data\<lparr>pinged := Some (r_int now)\<rparr>)))))))))))))"

primrec ping_users :: "byte list list \<Rightarrow> ('z, unit) clprog" where
  "ping_users [] = ret ()"
| "ping_users (a # as) = bnd (ping_user a) (\<lambda>_. ping_users as)"

text \<open>The sender of a message is added if he is new, and his ping is now.\<close>

definition note_sender :: "sock_data \<Rightarrow> ('z, unit) clprog" where
  "note_sender n =
     bnd (modify (users_map_update (\<lambda>us. if map_of us (m_peer_info n) = None then AList.update (m_peer_info n) n us else us))) (\<lambda>_.
     bnd (ext (Libc Time)) (\<lambda>now.
     modify (users_map_update (AList.map_entry (m_peer_info n) (pinged_update (\<lambda>_. Some (r_int now)))))))"

definition tcp_test :: "('z, unit) clprog" where
  "tcp_test =
     bnd (print (bytes_of ''Test passed!'')) (\<lambda>_.
     bnd (serv_write (bytes_of ''abcd'' @ [LF] @ bytes_of ''3.14zda'' @ [LF]) True) (\<lambda>_.
     bnd (serv_read 1024 True) (\<lambda>(b, _).
     bnd (print b) (\<lambda>_.
     bnd (serv_write (bytes_of ''example'' @ [LF]) True) (\<lambda>_.
     bnd (serv_read 1024 True) (\<lambda>(c, _).
     bnd (print c) (\<lambda>_.
     bnd (ext (Sys (Sleep 1000))) (\<lambda>_. ret ()))))))))"

definition getUsers :: "('z, unit) clprog" where
  "getUsers = try_std (
     bnd (serv_write (bytes_of ''getuserlist'' @ [LF]) False) (\<lambda>_.
     bnd (serv_read 1024 False) (\<lambda>_.
     bnd (serv_read 1024 False) (\<lambda>(user_list_data, _).
     bnd (print (bytes_of ''users list:'')) (\<lambda>_.
     bnd (local_cells (map Byte user_list_data @ [Byte NUL])
       (\<lambda>p. split p SPLITADDRCHAR (length user_list_data))) (\<lambda>addresses.
     bnd (ping_users addresses) (\<lambda>_.
     bnd (gets serv_m_data) (\<lambda>sd.
     bnd (sd_set_timeout sd 1 0 False) (\<lambda>_.
     bnd (sd_read sd 1024 False) (\<lambda>(_, n).
     bnd (note_sender n) (\<lambda>_.
     bnd (gets users_map) (\<lambda>us.
     bnd (print (dec (sz_sub (length us) 1))) (\<lambda>_.
     if sz_sub (length us) 1 > 2 then tcp_test else ret ())))))))))))))"

subsection \<open>Connecting\<close>

definition close_opened :: "int \<Rightarrow> ('z, unit) prog" where
  "close_opened sock = (if sock > 0 then cl_close sock else ret ())"

definition connect_or_close :: "int \<Rightarrow> sockaddr_in \<Rightarrow> nat \<Rightarrow> string \<Rightarrow> ('z, unit) clprog" where
  "connect_or_close sock addr type msg =
     bnd (ext (Sys (Connect_in sock (sin_family addr) (sin_port addr) (s_addr addr)))) (\<lambda>r.
     if c_int (r_int r) \<ge> 0 then modify (m_contype_update (\<lambda>t. or t type))
     else bnd (print (bytes_of msg)) (\<lambda>_. cl_close sock))"

definition serv_data :: "byte list \<Rightarrow> nat \<Rightarrow> ('z, unit) clprog" where
  "serv_data host port =
     bnd (modify (m_contype_update (\<lambda>_. 0))) (\<lambda>_.
     bnd (ext (Sys (Socket ''SOCK_DGRAM''))) (\<lambda>u.
     bnd (modify (m_sock_udp_update (\<lambda>_. r_int u))) (\<lambda>_.
     bnd (ext (Sys (Socket ''SOCK_STREAM''))) (\<lambda>t.
     bnd (modify (m_sock_tcp_update (\<lambda>_. r_int t))) (\<lambda>_.
     if r_int u \<le> 0 \<or> r_int t \<le> 0 then
       bnd (close_opened (r_int u)) (\<lambda>_.
       bnd (close_opened (r_int t)) (\<lambda>_.
       fail (Thrown ''Can't init sockets'')))
     else
       bnd (ext (Sys (Inet_addr host))) (\<lambda>ia.
       let addr = \<lparr>sin_family = AF_INET, sin_port = htons port, s_addr = c_uint (r_int ia)\<rparr> in
       bnd (connect_or_close (r_int u) addr con_udp ''Can't connect to UDP'') (\<lambda>_.
       bnd (connect_or_close (r_int t) addr con_tcp ''Can't connect to TCP'') (\<lambda>_.
       bnd (gets m_contype) (\<lambda>ct.
       if ct = 0 then
         local_arr 256 (\<lambda>errbuf.
         bnd (write_bytes errbuf (bytes_of ''Can't connect to '' @ host @ [COLON] @ dec port @ [LF, 0, NUL])) (\<lambda>_.
         fail (Thrown ''Can't connect'')))
       else
         modify (serv_m_data_update (\<lambda>_. \<lparr>m_adr = Some addr, m_socks = True, pinged = None,
           m_peer_info = (host, port), sd_contype = Some ct\<rparr>)))))))))))"

text \<open>The test program: an endless loop, left only by an exception or \<open>exit\<close>.\<close>

definition client_main :: "byte list list \<Rightarrow> ('z, unit) clprog" where
  "client_main argv =
     (let (host, port) = (if length argv = 3 then (argv ! 1, nat (atoi (argv ! 2) mod 2 ^ 16))
        else (bytes_of ''127.0.0.1'', 3245)) in
     bnd (serv_data host port) (\<lambda>_.
     bnd self_bind (\<lambda>_.
     c_while (\<lambda>_. True) (\<lambda>_.
       bnd getUsers (\<lambda>_.
       bnd (cl_delByPing 5) (\<lambda>_.
       bnd (ext (Sys (Sleep 1))) (\<lambda>_. ret ())))) ())))"

end
