(* ===== verification/Async_Serv.thy ===== *)
theory Async_Serv
  imports Lua_Net Lua_Serv
begin

text \<open>
  The network server: \<open>src/async_serv.cpp\<close>, with the opcodes and events of \<open>src/net\<close>. One
  thread waits with epoll for a datagram, a connection or data of a client. The datagrams
  are answered and their senders kept in the list \<open>users\<close>; the data of a client are
  dispatched by their first four bytes to an event, which calls a function of Lua. The
  C++ strings and vectors are lists; the buffers on the stack are blocks of memory.
\<close>

subsection \<open>Opcodes and events\<close>

abbreviation SBUF :: nat where "SBUF \<equiv> 1024"
abbreviation MAX_LISTEN :: nat where "MAX_LISTEN \<equiv> 100"

datatype eventfun = event0 | event1

record opcode =
  m_data :: "byte list"
  m_event :: eventfun

definition ignorebyte :: byte where
  "ignorebyte = 14"

definition opcodes :: "opcode list" where
  "opcodes =
    [\<lparr>m_data = [1, ignorebyte, ignorebyte, 1], m_event = event0\<rparr>,
     \<lparr>m_data = bytes_of ''abcd'', m_event = event1\<rparr>]"

text \<open>The comparison with four bytes of data: every byte has to be the same.\<close>

definition opcode_eq :: "opcode \<Rightarrow> byte list \<Rightarrow> bool" where
  "opcode_eq op a \<longleftrightarrow> list_all2 (=) (m_data op) a"

text \<open>The macros: the arguments of a Lua function, its call, its result and the answer.\<close>

definition PREINIT_CALLLUAEVENFUNC :: "string \<Rightarrow> int \<Rightarrow> byte list \<Rightarrow> nat \<Rightarrow> ptr \<Rightarrow> ('z, unit) prog" where
  "PREINIT_CALLLUAEVENFUNC namefunc sock uIp uPort buf =
     bnd (lua_do (lua_getglobal namefunc)) (\<lambda>_.
     bnd (push (LNum sock)) (\<lambda>_.
     bnd (push (LStr uIp)) (\<lambda>_.
     bnd (push (LNum (int uPort))) (\<lambda>_.
     lua_pushstring (padd buf 4)))))"

definition CALLLUAFUNC :: "('z, unit) prog" where
  "CALLLUAFUNC =
     bnd (lua_test lua_pcall) (\<lambda>err.
     if err then bnd (lua_tostring (- 1)) (\<lambda>_. luaL_error ''error running function'') else ret ())"

definition GETRETDATA :: "ptr \<Rightarrow> ('z, unit) prog" where
  "GETRETDATA retdata =
     bnd (store_byte retdata NUL) (\<lambda>_.
     bnd (lua_test (lua_isnil (- 1))) (\<lambda>nil.
     bnd (if nil then ret () else
       bnd (lua_test (lua_isnumber (- 1))) (\<lambda>num.
       if \<not> num then
         bnd lua_text (\<lambda>v.
         bnd (ext (Libc (Printf ''(check retval[lua]) Ret val: %s'' v))) (\<lambda>_.
         bnd lua_text (\<lambda>v.
         write_bytes retdata (v @ [NUL]))))
       else
         bnd (lua_tonumber (- 1)) (\<lambda>v.
         bnd (write_bytes retdata (int_dec (c_int v) @ [NUL])) (\<lambda>_.
         bnd (lua_tonumber (- 1)) (\<lambda>v.
         bnd (ext (Libc (Printf ''(check retval[lua]) Ret val (num): %d'' (int_dec (c_int v))))) (\<lambda>_. ret ())))))) (\<lambda>_.
     lua_do (lua_pop 1))))"

definition send_retdata :: "int \<Rightarrow> ptr \<Rightarrow> ('z, unit) prog" where
  "send_retdata sock retdata =
     bnd (read_str retdata) (\<lambda>bs.
     bnd (ext (Sys (Send sock bs))) (\<lambda>r.
     if r_int r < 0 then bnd (ext (Libc (Perror ''Write error''))) (\<lambda>_. ret ()) else ret ()))"

definition SENDRETDATA :: "int \<Rightarrow> ptr \<Rightarrow> ('z, unit) prog" where
  "SENDRETDATA sock retdata =
     bnd (strlen retdata) (\<lambda>n. if n \<noteq> 0 then send_retdata sock retdata else ret ())"

definition puts :: "string \<Rightarrow> ('z, unit) prog" where
  "puts msg = bnd (ext (Libc (Puts msg))) (\<lambda>_. ret ())"

definition run_event1 :: "int \<Rightarrow> byte list \<Rightarrow> nat \<Rightarrow> ptr \<Rightarrow> ('z, unit) prog" where
  "run_event1 sock uIp uPort buf =
     bnd (puts ''event1 -'') (\<lambda>_.
     bnd (PREINIT_CALLLUAEVENFUNC ''event1'' sock uIp uPort buf) (\<lambda>_.
     bnd CALLLUAFUNC (\<lambda>_.
     local_arr 512 (\<lambda>retdata.
     bnd (GETRETDATA retdata) (\<lambda>_.
     send_retdata sock retdata)))))"

definition run_event0 :: "int \<Rightarrow> byte list \<Rightarrow> nat \<Rightarrow> ptr \<Rightarrow> ('z, unit) prog" where
  "run_event0 sock uIp uPort buf = puts ''event0 - ''"

fun run_event :: "eventfun \<Rightarrow> int \<Rightarrow> byte list \<Rightarrow> nat \<Rightarrow> ptr \<Rightarrow> ('z, unit) prog" where
  "run_event event0 = run_event0"
| "run_event event1 = run_event1"

text \<open>The opcode is pushed as a C string, up to its first zero byte.\<close>

definition notFound :: "int \<Rightarrow> byte list \<Rightarrow> nat \<Rightarrow> ptr \<Rightarrow> byte list \<Rightarrow> ('z, unit) prog" where
  "notFound sock uIp uPort buf op =
     bnd (PREINIT_CALLLUAEVENFUNC ''undefined_event'' sock uIp uPort buf) (\<lambda>_.
     bnd (push (LStr (takeWhile (\<lambda>b. b \<noteq> NUL) op))) (\<lambda>_.
     bnd CALLLUAFUNC (\<lambda>_.
     local_arr 512 (\<lambda>retdata.
     bnd (GETRETDATA retdata) (\<lambda>_.
     SENDRETDATA sock retdata)))))"

definition dispatch :: "int \<Rightarrow> byte list \<Rightarrow> nat \<Rightarrow> ptr \<Rightarrow> ('z, unit) prog" where
  "dispatch fd ip port buf =
     bnd (read_bytes buf 4) (\<lambda>data.
     case find (\<lambda>op. opcode_eq op data) opcodes of
       Some op \<Rightarrow> bnd (puts ''Opcode found'') (\<lambda>_. run_event (m_event op) fd ip port buf)
     | None \<Rightarrow> bnd (puts ''Opcode not founded'') (\<lambda>_. notFound fd ip port buf data))"

subsection \<open>Users\<close>

record user =
  u_ip :: "byte list"
  u_port :: nat
  u_in :: sockaddr_in
  lastPing :: int

record as_state = cstate +
  users :: "user list"
  serv_inited :: bool

type_synonym ('z, 'a) asprog = "('z as_state_ext, 'a) prog"

definition new_user :: "sockaddr_in \<Rightarrow> ('z, user) prog" where
  "new_user a =
     bnd (ext (Sys (Inet_ntoa (s_addr a)))) (\<lambda>ip.
     bnd (ext (Libc Time)) (\<lambda>now.
     ret \<lparr>u_ip = r_bytes ip, u_port = htons (sin_port a), u_in = a, lastPing = r_int now\<rparr>))"

text \<open>Erasing the first element with a property, if there is one.\<close>

fun erase_first :: "('a \<Rightarrow> bool) \<Rightarrow> 'a list \<Rightarrow> ('a \<times> 'a list) option" where
  "erase_first P [] = None"
| "erase_first P (x # xs) =
     (if P x then Some (x, xs) else map_option (\<lambda>(y, ys). (y, x # ys)) (erase_first P xs))"

definition stale :: "int \<Rightarrow> user \<Rightarrow> bool" where
  "stale timenow u \<longleftrightarrow> timenow - lastPing u > 120"

definition del_step :: "int \<Rightarrow> ('z, bool) asprog" where
  "del_step timenow =
     bnd (gets users) (\<lambda>us.
     case erase_first (stale timenow) us of
       None \<Rightarrow> ret False
     | Some (u, rest) \<Rightarrow>
         bnd (puts ''Erase user(timeout): '') (\<lambda>_.
         bnd (ext (Libc (Printf ''%s'' (u_ip u)))) (\<lambda>_.
         bnd (modify (users_update (\<lambda>_. rest))) (\<lambda>_. ret True))))"

definition delByPing :: "int \<Rightarrow> ('z, unit) asprog" where
  "delByPing timenow =
     bnd (del_step timenow) (\<lambda>deleted.
     bnd (c_while (\<lambda>d. d) (\<lambda>_. del_step timenow) deleted) (\<lambda>_. ret ()))"

text \<open>The loop over the users works on copies: the ping that it updates is the copy's.\<close>

primrec list_users :: "user list \<Rightarrow> sockaddr_in \<Rightarrow> ('z, bool \<times> byte list) prog" where
  "list_users [] client_addr = ret (False, [])"
| "list_users (u # us) client_addr =
     bnd (if u_in u = client_addr then
            bnd (puts ''User exists already'') (\<lambda>_. bnd (ext (Libc Time)) (\<lambda>_. ret True))
          else ret False) (\<lambda>hit.
     bnd (list_users us client_addr) (\<lambda>(user_exists, list).
     ret (hit \<or> user_exists, u_ip u @ [COLON] @ dec (u_port u) @ bytes_of '';'' @ list)))"

definition add_user :: "sockaddr_in \<Rightarrow> ('z, unit) asprog" where
  "add_user client_addr =
     bnd (modify (users_update (\<lambda>us. if length us > 10 then [] else us))) (\<lambda>_.
     bnd (new_user client_addr) (\<lambda>usr.
     modify (users_update (\<lambda>us. us @ [usr]))))"

definition sendto_client :: "int \<Rightarrow> byte list \<Rightarrow> sockaddr_in \<Rightarrow> ('z, unit) prog" where
  "sendto_client fd bs a =
     bnd (ext (Sys (Sendto_in fd bs (sin_family a) (sin_port a) (s_addr a)))) (\<lambda>_. ret ())"

definition register_user :: "int \<Rightarrow> sockaddr_in \<Rightarrow> ('z, unit) asprog" where
  "register_user fd client_addr =
     bnd (ext (Libc Time)) (\<lambda>timenow.
     bnd (delByPing (r_int timenow)) (\<lambda>_.
     bnd (gets users) (\<lambda>us.
     bnd (list_users us client_addr) (\<lambda>(user_exists, list).
     bnd (if user_exists then ret () else add_user client_addr) (\<lambda>_.
     bnd (puts ''sendto'') (\<lambda>_.
     bnd (sendto_client fd list client_addr) (\<lambda>_.
     puts ''Continue'')))))))"

subsection \<open>Handlers\<close>

text \<open>
  The result of \<open>recvfrom\<close> is stored in a \<open>size_t\<close>: the test \<open>nbytes < 0\<close> is never true. The
  address of the last client is a local variable of the thread, unassigned at first.
\<close>

definition last_addr :: "byte list \<Rightarrow> sockaddr_in option \<Rightarrow> sockaddr_in option" where
  "last_addr bs client_addr = (if bs = [] then client_addr else Some (sockaddr_of bs))"

definition udp_reply :: "byte list \<Rightarrow> nat \<Rightarrow> byte list \<Rightarrow> byte list" where
  "udp_reply ip port msg = bytes_of ''['' @ ip @ [COLON] @ dec port @ bytes_of '']: '' @ msg @ [LF]"

definition udp_handler :: "int \<Rightarrow> sockaddr_in option \<Rightarrow> ('z, sockaddr_in option) asprog" where
  "udp_handler fd client_addr =
     local_arr SBUF (\<lambda>buf_udp.
     bnd (puts ''RECVFROM UDP'') (\<lambda>_.
     bnd (ext (Sys (Recvfrom fd SBUF 0))) (\<lambda>r.
     bnd (write_bytes buf_udp (r_bytes r)) (\<lambda>_.
     let nbytes = size_t (r_int r); client_addr = last_addr (r_addr r) client_addr in
     bnd (store_byte (padd buf_udp nbytes) NUL) (\<lambda>_.
     bnd (field client_addr) (\<lambda>a.
     bnd (ext (Sys (Inet_ntoa (s_addr a)))) (\<lambda>ip.
     bnd (read_str buf_udp) (\<lambda>msg.
     bnd (ext (Libc (Printf ''(UDP) %s:%d -> %s'' msg))) (\<lambda>_.
     bnd (local_arr 256 (\<lambda>tmp.
       bnd (write_bytes tmp (udp_reply (r_bytes ip) (htons (sin_port a)) msg @ [0, NUL])) (\<lambda>_.
       bnd (read_str tmp) (\<lambda>reply.
       sendto_client fd reply a)))) (\<lambda>_.
     bnd (register_user fd a) (\<lambda>_.
     ret client_addr)))))))))))"

definition perror_exit :: "string \<Rightarrow> ('z, 'a) prog" where
  "perror_exit msg = bnd (ext (Libc (Perror msg))) (\<lambda>_. fail (Exited 1))"

definition accept_handler :: "int \<Rightarrow> int \<Rightarrow> sockaddr_in option \<Rightarrow> ('z, sockaddr_in option) prog" where
  "accept_handler epollfd main_descriptor client_addr =
     bnd (puts ''Accept handler'') (\<lambda>_.
     bnd (ext (Sys (Accept main_descriptor))) (\<lambda>r.
     let conn_sock = r_int r in
     if conn_sock = - 1 then
       bnd (ext (Libc (Perror ''accept''))) (\<lambda>_. bnd (puts ''accept'') (\<lambda>_. fail (Exited 1)))
     else
     bnd (ext (Sys (Fcntl_getfl conn_sock))) (\<lambda>flags.
     bnd (ext (Sys (Fcntl_setfl_nonblock conn_sock (r_int flags)))) (\<lambda>_.
     bnd (ext (Sys (Epoll_add epollfd conn_sock True))) (\<lambda>c.
     if r_int c = - 1 then bnd (puts ''epoll_ctl'') (\<lambda>_. perror_exit ''epoll_ctl: conn_sock'') else
     ret (last_addr (r_bytes r) client_addr))))))"

text \<open>The result is whether the server goes on.\<close>

definition client_handler :: "int \<Rightarrow> int \<Rightarrow> sockaddr_in option \<Rightarrow> ('z, bool) asprog" where
  "client_handler epollfd fd client_addr =
     bnd (puts ''client handler TCP'') (\<lambda>_.
     local_arr SBUF (\<lambda>buf.
     bnd (field client_addr) (\<lambda>a.
     bnd (ext (Sys (Inet_ntoa (s_addr a)))) (\<lambda>ip.
     bnd (bzero buf SBUF) (\<lambda>_.
     bnd (ext (Sys (Recv fd SBUF))) (\<lambda>r.
     bnd (write_bytes buf (r_bytes r)) (\<lambda>_.
     if size_t (r_int r) = 0 then
       bnd (ext (Sys (Epoll_del epollfd fd))) (\<lambda>_.
       bnd (ext (Sys (Close fd))) (\<lambda>_. ret True))
     else
       bnd (lua_do (lua_getglobal ''server_inited'')) (\<lambda>_.
       bnd (lua_test (lua_toboolean (- 1))) (\<lambda>inited.
       bnd (modify (serv_inited_update (\<lambda>_. inited))) (\<lambda>_.
       bnd (lua_do (lua_pop 1)) (\<lambda>_.
       if \<not> inited then bnd (puts ''Stop server?'') (\<lambda>_. ret False) else
       bnd (dispatch fd (r_bytes ip) (htons (sin_port a)) buf) (\<lambda>_. ret True))))))))))))"

definition handle_event ::
    "int \<Rightarrow> int \<Rightarrow> int \<Rightarrow> int \<Rightarrow> sockaddr_in option \<Rightarrow> ('z, bool \<times> sockaddr_in option) asprog" where
  "handle_event epollfd main_descriptor main_descriptor_udp fd client_addr =
     (if fd = main_descriptor_udp then bnd (udp_handler fd client_addr) (\<lambda>a. ret (True, a))
      else if fd = main_descriptor then
        bnd (accept_handler epollfd main_descriptor client_addr) (\<lambda>a. ret (True, a))
      else bnd (client_handler epollfd fd client_addr) (\<lambda>go. ret (go, client_addr)))"

primrec handle_events ::
    "int \<Rightarrow> int \<Rightarrow> int \<Rightarrow> int list \<Rightarrow> sockaddr_in option \<Rightarrow> ('z, bool \<times> sockaddr_in option) asprog" where
  "handle_events epollfd md udp [] client_addr = ret (True, client_addr)"
| "handle_events epollfd md udp (fd # fds) client_addr =
     bnd (handle_event epollfd md udp fd client_addr) (\<lambda>(go, client_addr).
     if go then handle_events epollfd md udp fds client_addr else ret (False, client_addr))"

definition cycle :: "int \<Rightarrow> int \<Rightarrow> int \<Rightarrow> sockaddr_in option \<Rightarrow> ('z, bool \<times> sockaddr_in option) asprog" where
  "cycle epollfd md udp client_addr =
     bnd (puts ''Cycle'') (\<lambda>_.
     bnd (ext (Sys (Epoll_wait epollfd MAX_LISTEN))) (\<lambda>r.
     if r_int r = - 1 then bnd (puts ''Epoll_Wait'') (\<lambda>_. perror_exit ''epoll_wait'') else
     bnd (puts ''Now data'') (\<lambda>_.
     handle_events epollfd md udp (take MAX_LISTEN (r_fds r)) client_addr)))"

subsection \<open>The thread\<close>

record serv_arguments =
  listen_host :: ptr
  listen_port :: nat
  cryptocoins :: ptr

definition doExit :: "string \<Rightarrow> ('z, 'a) prog" where
  "doExit msg = bnd (ext (Libc (Fprintf_stderr msg))) (\<lambda>_. fail (Exited 1))"

definition bind_or_exit :: "int \<Rightarrow> sockaddr_in \<Rightarrow> string \<Rightarrow> ('z, unit) prog" where
  "bind_or_exit sock a msg =
     bnd (ext (Sys (Bind_in sock (sin_family a) (sin_port a) (s_addr a)))) (\<lambda>r.
     if r_int r = - 1 then doExit msg else ret ())"

definition open_sockets :: "serv_arguments \<Rightarrow> ('z, int \<times> int) prog" where
  "open_sockets arguments =
     bnd (ext (Sys (Socket ''SOCK_STREAM''))) (\<lambda>md.
     bnd (ext (Sys (Socket ''SOCK_DGRAM''))) (\<lambda>udp.
     if r_int md = - 1 then doExit ''Can't init socket'' else
     if r_int udp = - 1 then doExit ''Can't init udp support socket'' else
     bnd (read_str (listen_host arguments)) (\<lambda>host.
     bnd (ext (Sys (Inet_addr host))) (\<lambda>ia.
     let my_addr = \<lparr>sin_family = AF_INET, sin_port = htons (listen_port arguments), s_addr = c_uint (r_int ia)\<rparr> in
     bnd (bind_or_exit (r_int md) my_addr ''Can't init bind on (TCP) %s:%d'') (\<lambda>_.
     bnd (bind_or_exit (r_int udp) my_addr ''Can't init bind on (UDP) %s:%d'') (\<lambda>_.
     bnd (ext (Sys (Listen (r_int md) (int MAX_LISTEN)))) (\<lambda>l.
     if r_int l = - 1 then doExit ''Cant start listening (TCP)'' else
     bnd (ext (Sys (Setsockopt_rcvtimeo (r_int md) 0 250))) (\<lambda>_.
     bnd (ext (Sys (Setsockopt_rcvtimeo (r_int udp) 0 250))) (\<lambda>_.
     bnd (ext (Libc (Printf ''(serv) %s:%d listening (TCP+UDP)'' (host @ dec (listen_port arguments))))) (\<lambda>_.
     ret (r_int md, r_int udp)))))))))))"

definition watch :: "int \<Rightarrow> int \<Rightarrow> bool \<Rightarrow> string \<Rightarrow> ('z, unit) prog" where
  "watch epollfd fd edge msg =
     bnd (ext (Sys (Epoll_add epollfd fd edge))) (\<lambda>c.
     if r_int c = - 1 then perror_exit msg else ret ())"

definition serv_thread :: "serv_arguments \<Rightarrow> ('z, unit) asprog" where
  "serv_thread arguments =
     bnd (open_sockets arguments) (\<lambda>(md, udp).
     bnd (push (LBool True)) (\<lambda>_.
     bnd (lua_do (lua_setglobal ''server_inited'')) (\<lambda>_.
     bnd (lua_do (lua_pop 1)) (\<lambda>_.
     bnd (modify (serv_inited_update (\<lambda>_. True))) (\<lambda>_.
     bnd (ext (Sys Epoll_create)) (\<lambda>ep.
     let epollfd = r_int ep in
     if epollfd = - 1 then perror_exit ''epoll_create1'' else
     bnd (watch epollfd md False ''epoll_ctl: main_descriptor'') (\<lambda>_.
     bnd (watch epollfd udp True ''epoll_ctl: main_descriptor_udp'') (\<lambda>_.
     bnd (c_while fst (\<lambda>(_, client_addr). cycle epollfd md udp client_addr) (True, None)) (\<lambda>_.
     ret ())))))))))"

end
