(* ===== verification/C_Wp.thy ===== *)
theory C_Wp
  imports C_Logs
begin

text \<open>
  Total correctness of a run. \<open>wp m Q e s\<close>: in the environment \<open>e\<close> and the state \<open>s\<close> the
  program \<open>m\<close> returns, and \<open>Q\<close> holds of its result and of the state it leaves. The rules
  walk through a program with the answers of the environment as variables, so a long run
  does not build up in the goal; what an assumption fixes of an answer is its equation.
  \<open>faults x m e s\<close>: the run ends with the fault \<open>x\<close>.
\<close>

named_theorems wp_rules "rules that walk through a program"
named_theorems wp_eqs "the same as equations"

definition wp :: "(env \<Rightarrow> 's \<Rightarrow> 'a res \<times> 's) \<Rightarrow> ('a \<Rightarrow> 's \<Rightarrow> bool) \<Rightarrow> env \<Rightarrow> 's \<Rightarrow> bool" where
  "wp m Q e s \<longleftrightarrow> (\<exists>a t. m e s = (Ok a, t) \<and> Q a t)"

definition faults :: "fault \<Rightarrow> (env \<Rightarrow> 's \<Rightarrow> 'a res \<times> 's) \<Rightarrow> env \<Rightarrow> 's \<Rightarrow> bool" where
  "faults x m e s \<longleftrightarrow> fst (m e s) = Err x"

lemma wpD: "wp m Q e s \<Longrightarrow> \<exists>a t. m e s = (Ok a, t) \<and> Q a t"
  by (simp add: wp_def)

lemma wp_run: "m e s = (Ok a, t) \<Longrightarrow> Q a t \<Longrightarrow> wp m Q e s"
  by (simp add: wp_def)

lemma wp_weaken: "wp m R e s \<Longrightarrow> (\<And>a t. R a t \<Longrightarrow> Q a t) \<Longrightarrow> wp m Q e s"
  unfolding wp_def by blast

lemma wp_ret [wp_rules]: "Q a s \<Longrightarrow> wp (ret a) Q e s"
  by (simp add: wp_def exec)

lemma wp_bnd [wp_rules]: "wp m (\<lambda>a. wp (f a) Q e) e s \<Longrightarrow> wp (bnd m f) Q e s"
  unfolding wp_def run_bnd cont_eq_Ok by blast

text \<open>The same as equations, for runs whose answers are all known.\<close>

lemma wp_ret_eq [wp_eqs]: "wp (ret a) Q e s = Q a s"
  by (simp add: wp_def exec)

lemma wp_bnd_eq [wp_eqs]: "wp (bnd m f) Q e s = wp m (\<lambda>a. wp (f a) Q e) e s"
  unfolding wp_def run_bnd cont_eq_Ok by blast

lemma wp_ext_eq [wp_eqs]: "wp (ext c) Q e s = Q (answer e (evs s) c) (s\<lparr>evs := (c, answer e (evs s) c) # evs s\<rparr>)"
  by (simp add: wp_def exec)

lemma wp_state_eqs [wp_eqs]: "wp (gets f) Q e s = Q (f s) s" "wp (modify g) R e s = R () (g s)"
  by (simp_all add: wp_def exec)

lemma wp_field_eq [wp_eqs]: "wp (field (Some v)) Q e s = Q v s"
  by (simp add: wp_def exec)

lemma wp_local_arr_eq [wp_eqs]:
  "n \<noteq> 0 \<Longrightarrow> wp (local_arr n body) Q e s =
     wp (body (Addr (nxt s) 0)) (\<lambda>a t. Q a (drop_block (nxt s) t)) e (new_block (replicate n Undef) s)"
  by (auto simp: wp_def local_arr_def split: prod.split)

lemma wp_store_eqs [wp_eqs]:
  "put_cells (blocks s) p (map Byte bs) = Inr m \<Longrightarrow> wp (write_bytes p bs) Q e s = Q () (s\<lparr>blocks := m\<rparr>)"
  "put_cells (blocks s) p (replicate n (Byte NUL)) = Inr m \<Longrightarrow> wp (bzero p n) Q e s = Q () (s\<lparr>blocks := m\<rparr>)"
  by (simp_all add: wp_def write_bytes_def bzero_def run_write_mem)

lemma wp_while_once:
  assumes "b a" "wp (body a) (\<lambda>a' t. \<not> b a' \<and> Q a' t) e s"
  shows "wp (c_while b body a) Q e s"
proof -
  obtain a' t where t: "body a e s = (Ok a', t)" "\<not> b a'" "Q a' t"
    using assms(2) by (auto simp: wp_def)
  have "c_while b body a e s = (Ok a', t)"
    by (rule c_while_next [where b = b and a' = a' and s' = t]) (use assms(1) t in \<open>simp_all add: c_while_stop\<close>)
  then show ?thesis
    using t(3) by (simp add: wp_def)
qed

lemma faults_here: "faults x m e s \<Longrightarrow> faults x (bnd m f) e s"
  by (cases "m e s"; cases "fst (m e s)") (auto simp: faults_def run_bnd)

lemma faults_later: "wp m (\<lambda>a. faults x (f a) e) e s \<Longrightarrow> faults x (bnd m f) e s"
  by (auto simp: wp_def faults_def run_bnd)

lemma faults_fail: "faults x (fail x) e s"
  by (simp add: faults_def exec)

lemma faults_if: "(b \<Longrightarrow> faults x m e s) \<Longrightarrow> (\<not> b \<Longrightarrow> faults x m' e s) \<Longrightarrow> faults x (if b then m else m') e s"
  by simp

lemma faults_local_arr:
  assumes "n \<noteq> 0" "faults x (body (Addr (nxt s) 0)) e (new_block (replicate n Undef) s)"
  shows "faults x (local_arr n body) e s"
  using assms by (auto simp: faults_def local_arr_def split: prod.split)

lemma wp_ext [wp_rules]:
  "(\<And>r. answer e (evs s) c = r \<Longrightarrow> Q r (s\<lparr>evs := (c, r) # evs s\<rparr>)) \<Longrightarrow> wp (ext c) Q e s"
  by (simp add: wp_def exec)

lemma wp_known: "answer e (evs s) c = r \<Longrightarrow> Q r (s\<lparr>evs := (c, r) # evs s\<rparr>) \<Longrightarrow> wp (ext c) Q e s"
  by (rule wp_ext) simp

lemma wp_if [wp_rules]: "(b \<Longrightarrow> wp m Q e s) \<Longrightarrow> (\<not> b \<Longrightarrow> wp m' Q e s) \<Longrightarrow> wp (if b then m else m') Q e s"
  by simp

lemma wp_let [wp_rules]: "wp (f x) Q e s \<Longrightarrow> wp (let a = x in f a) Q e s"
  by (simp add: Let_def)

lemma wp_case_prod [wp_rules]: "(\<And>a b. p = (a, b) \<Longrightarrow> wp (f a b) Q e s) \<Longrightarrow> wp (case p of (a, b) \<Rightarrow> f a b) Q e s"
  by (cases p) simp

lemma wp_gets [wp_rules]: "Q (f s) s \<Longrightarrow> wp (gets f) Q e s"
  by (simp add: wp_def exec)

lemma wp_modify [wp_rules]: "Q () (g s) \<Longrightarrow> wp (modify g) Q e s"
  by (simp add: wp_def exec)

lemma wp_field [wp_rules]: "x = Some v \<Longrightarrow> Q v s \<Longrightarrow> wp (field x) Q e s"
  by (simp add: wp_def exec)

lemma wp_local_arr [wp_rules]:
  assumes "n \<noteq> 0"
    and "wp (body (Addr (nxt s) 0)) (\<lambda>a t. Q a (drop_block (nxt s) t)) e (new_block (replicate n Undef) s)"
  shows "wp (local_arr n body) Q e s"
  using assms by (auto simp: wp_def local_arr_def split: prod.split)

lemma wp_read_mem [wp_rules]:
  "get_str (blocks s) p = Inr bs \<Longrightarrow> Q bs s \<Longrightarrow> wp (read_str p) Q e s"
  "get_bytes (blocks s) p n = Inr bs \<Longrightarrow> Q bs s \<Longrightarrow> wp (read_bytes p n) Q e s"
  unfolding wp_def read_str_def read_bytes_def
  by (simp_all add: run_read_mem)

lemma wp_strlen [wp_rules]: "get_str (blocks s) p = Inr bs \<Longrightarrow> Q (length bs) s \<Longrightarrow> wp (strlen p) Q e s"
  unfolding wp_def strlen_def run_bnd by (simp add: run_read_mem run_ret)

lemma wp_write_bytes [wp_rules]:
  assumes "put_cells (blocks s) p (map Byte bs) = Inr m" "Q () (s\<lparr>blocks := m\<rparr>)"
  shows "wp (write_bytes p bs) Q e s"
  unfolding wp_def write_bytes_def using assms by (simp add: run_write_mem)

lemma wp_bzero [wp_rules]:
  assumes "put_cells (blocks s) p (replicate n (Byte NUL)) = Inr m" "Q () (s\<lparr>blocks := m\<rparr>)"
  shows "wp (bzero p n) Q e s"
  unfolding wp_def bzero_def using assms by (simp add: run_write_mem)

lemma wp_store_byte [wp_rules]:
  assumes "put_cells (blocks s) p [Byte v] = Inr m" "Q () (s\<lparr>blocks := m\<rparr>)"
  shows "wp (store_byte p v) Q e s"
  unfolding wp_def store_byte_def using assms by (simp add: run_write_mem)

lemma faults_mem:
  "put_cells (blocks s) p (map Byte bs) = Inl x \<Longrightarrow> faults x (write_bytes p bs) e s"
  "put_cells (blocks s) p [Byte v] = Inl x \<Longrightarrow> faults x (store_byte p v) e s"
  by (simp_all add: faults_def write_bytes_def store_byte_def run_write_mem)

lemma wp_call: "(\<And>r. Q () (s\<lparr>evs := (c, r) # evs s\<rparr>)) \<Longrightarrow> wp (bnd (ext c) (\<lambda>_. ret ())) Q e s"
  by (simp add: wp_def exec)

end
