(* ===== verification/Erase_Loop.thy ===== *)
theory Erase_Loop
  imports C_Memory
begin

text \<open>
  The loop with which both the server and the client drop the users that have been silent:
  a step erases the first silent one and says whether there was one, and the steps are repeated
  until there is none, because an erasure invalidates the iterator. The interface names what a
  step promises; the loop then ends and leaves exactly the elements that are not stale.
\<close>

locale erase_loop =
  fixes step :: "env \<Rightarrow> 's \<Rightarrow> bool res \<times> 's" and elems :: "'s \<Rightarrow> 'a list" and gone :: "'a \<Rightarrow> bool"
    and good :: "'s \<Rightarrow> bool" and frame :: "'s \<Rightarrow> 's \<Rightarrow> bool"
  assumes frame_refl: "frame s s"
    and frame_trans: "frame s t \<Longrightarrow> frame t u \<Longrightarrow> frame s u"
    and none: "good s \<Longrightarrow> \<forall>x\<in>set (elems s). \<not> gone x \<Longrightarrow> step e s = (Ok False, s)"
    and some: "good s \<Longrightarrow> x \<in> set (elems s) \<Longrightarrow> gone x \<Longrightarrow>
      \<exists>t. step e s = (Ok True, t) \<and> good t \<and> frame s t \<and> length (elems t) < length (elems s) \<and>
        filter (\<lambda>x. \<not> gone x) (elems t) = filter (\<lambda>x. \<not> gone x) (elems s)"
begin

lemma loop_run:
  "good s \<Longrightarrow> \<exists>t. c_while (\<lambda>d. d) (\<lambda>_. step) True e s = (Ok False, t) \<and> good t \<and> frame s t \<and>
    elems t = filter (\<lambda>x. \<not> gone x) (elems s)"
proof (induction "length (elems s)" arbitrary: s rule: less_induct)
  case less
  show ?case
  proof (cases "\<forall>x\<in>set (elems s). \<not> gone x")
    case True
    have "c_while (\<lambda>d. d) (\<lambda>_. step) True e s = (Ok False, s)"
      by (rule c_while_next [where b = "\<lambda>d. d" and a' = False and s' = s])
        (simp_all add: none [OF less.prems True] c_while_stop)
    then show ?thesis
      using True less.prems by (simp add: frame_refl)
  next
    case False
    then obtain v where v: "step e s = (Ok True, v)" "good v" "frame s v" "length (elems v) < length (elems s)"
      "filter (\<lambda>x. \<not> gone x) (elems v) = filter (\<lambda>x. \<not> gone x) (elems s)"
      using some [OF less.prems] by blast
    obtain t where t: "c_while (\<lambda>d. d) (\<lambda>_. step) True e v = (Ok False, t)" "good t" "frame v t"
      "elems t = filter (\<lambda>x. \<not> gone x) (elems v)"
      using less.hyps [OF v(4,2)] by blast
    have "c_while (\<lambda>d. d) (\<lambda>_. step) True e s = (Ok False, t)"
      by (rule c_while_next [where b = "\<lambda>d. d" and a' = True and s' = v]) (use v(1) t(1) in simp_all)
    then show ?thesis
      using t v(5) frame_trans [OF v(3) t(3)] by auto
  qed
qed

lemma erase_run:
  assumes "good s"
  shows "\<exists>t. bnd step (\<lambda>deleted. bnd (c_while (\<lambda>d. d) (\<lambda>_. step) deleted) (\<lambda>_. ret ())) e s = (Ok (), t) \<and>
    good t \<and> frame s t \<and> elems t = filter (\<lambda>x. \<not> gone x) (elems s)"
proof (cases "\<forall>x\<in>set (elems s). \<not> gone x")
  case True
  then show ?thesis
    using none [OF assms True] assms by (simp add: exec frame_refl)
next
  case False
  then obtain v where v: "step e s = (Ok True, v)" "good v" "frame s v"
    "filter (\<lambda>x. \<not> gone x) (elems v) = filter (\<lambda>x. \<not> gone x) (elems s)"
    using some [OF assms] by blast
  then show ?thesis
    using loop_run [OF v(2), of e] frame_trans [OF v(3)] by (auto simp: exec)
qed

end

end
