(* ===== verification/Async_Serv_Props.thy ===== *)
theory Async_Serv_Props
  imports Async_Serv C_Wp Erase_Loop
begin

text \<open>
  The properties of the network server (\<open>Async_Serv\<close>): what a datagram does to the list of
  users and what it is answered, the invariant of the users over all turns of the loop, when
  the thread ends, and what becomes of a client whose connection fails; then instances.
\<close>

subsection \<open>Runs that touch only the users\<close>

text \<open>The datagrams that a log (newest first) shows to be sent, in order.\<close>

definition sent :: "(call \<times> reply) list \<Rightarrow> call list" where
  "sent l = rev (filter (\<lambda>c. \<exists>fd bs f p a. c = Sys (Sendto_in fd bs f p a)) (map fst l))"

lemma sent_simps [simp]:
  "sent [] = []"
  "sent ((Sys (Sendto_in fd bs f p a), r) # l) = sent l @ [Sys (Sendto_in fd bs f p a)]"
  "sent ((Libc lc, r) # l) = sent l" "sent ((Lua uc, r) # l) = sent l"
  "sent ((Sys (Inet_ntoa ip), r) # l) = sent l" "sent ((Sys (Recvfrom fd n fl), r) # l) = sent l"
  by (simp_all add: sent_def)

lemma as_state_order [simp]:
  "users_update f (evs_update h s) = evs_update h (users_update f s)"
  "users_update f (blocks_update g s) = blocks_update g (users_update f s)"
  "users_update f (nxt_update k s) = nxt_update k (users_update f s)"
  for s :: "'z as_state_scheme"
  by simp_all

lemma as_state_blocks [simp]:
  "users (new_block cs s) = users s" "users (drop_block b s) = users s"
  "serv_inited (new_block cs s) = serv_inited s" "serv_inited (drop_block b s) = serv_inited s"
  for s :: "'z as_state_scheme"
  by (simp_all add: new_block_def drop_block_def)

definition users_only :: "'z as_state_scheme \<Rightarrow> 'z as_state_scheme \<Rightarrow> bool" where
  "users_only s t \<longleftrightarrow> (\<exists>us l. t = s\<lparr>users := us, evs := l\<rparr>)"

lemma users_only_upd [simp]:
  fixes s :: "'z as_state_scheme"
  shows "users_only s (evs_update h (users_update f s))" "users_only s (users_update f s)"
    "users_only s (evs_update h s)" "users_only s s"
  unfolding users_only_def
  by (rule exI [of _ "f (users s)"] exI [of _ "users s"], rule exI [of _ "h (evs s)"] exI [of _ "evs s"], cases s, simp)+

lemma users_only_trans: "users_only s t \<Longrightarrow> users_only t u \<Longrightarrow> users_only s u"
  by (auto simp: users_only_def) blast

lemma users_onlyD: "users_only s t \<Longrightarrow> blocks t = blocks s \<and> nxt t = nxt s \<and> serv_inited t = serv_inited s"
  by (auto simp: users_only_def)

definition fresh_users :: "int \<Rightarrow> user list \<Rightarrow> user list" where
  "fresh_users now us = filter (\<lambda>u. \<not> stale now u) us"

lemma run_bnd_Ok: "m e s = (Ok a, t) \<Longrightarrow> bnd m f e s = f a e t"
  by (simp add: run_bnd)

lemma erase_first_None: "\<forall>x\<in>set xs. \<not> P x \<Longrightarrow> erase_first P xs = None"
  by (induction xs) auto

lemma erase_first_Some:
  "x \<in> set xs \<Longrightarrow> P x \<Longrightarrow> \<exists>y ys. erase_first P xs = Some (y, ys) \<and>
    filter (\<lambda>x. \<not> P x) ys = filter (\<lambda>x. \<not> P x) xs \<and> length ys < length xs"
  by (induction xs) fastforce+

text \<open>The loop of \<open>delByPing\<close> sends nothing and touches only the users.\<close>

definition users_frame :: "'z as_state_scheme \<Rightarrow> 'z as_state_scheme \<Rightarrow> bool" where
  "users_frame s t \<longleftrightarrow> users_only s t \<and> sent (evs t) = sent (evs s)"

interpretation del: erase_loop "del_step now" users "stale now" "\<lambda>_. True" users_frame for now
proof
  fix s t u :: "'z as_state_scheme" and e x
  show "users_frame s s"
    by (simp add: users_frame_def)
  show "users_frame s t \<Longrightarrow> users_frame t u \<Longrightarrow> users_frame s u"
    using users_only_trans by (auto simp: users_frame_def)
  show "\<forall>x\<in>set (users s). \<not> stale now x \<Longrightarrow> del_step now e s = (Ok False, s)"
    by (simp add: del_step_def exec erase_first_None)
  assume "x \<in> set (users s)" "stale now x"
  then obtain y ys where "erase_first (stale now) (users s) = Some (y, ys)"
    "filter (\<lambda>x. \<not> stale now x) ys = filter (\<lambda>x. \<not> stale now x) (users s)" "length ys < length (users s)"
    using erase_first_Some [of x "users s" "stale now"] by auto
  then show "\<exists>t. del_step now e s = (Ok True, t) \<and> True \<and> users_frame s t \<and> length (users t) < length (users s) \<and>
      filter (\<lambda>x. \<not> stale now x) (users t) = filter (\<lambda>x. \<not> stale now x) (users s)"
    by (simp add: del_step_def puts_def exec users_frame_def)
qed

lemma delByPing_run:
  fixes s :: "'z as_state_scheme"
  shows "\<exists>t. delByPing now e s = (Ok (), t) \<and> users_only s t \<and> sent (evs t) = sent (evs s) \<and>
    users t = fresh_users now (users s)"
  using del.erase_run [where s = s and e = e and now = now] by (auto simp: delByPing_def users_frame_def fresh_users_def)

text \<open>The list of the users that a sender gets: \<open>ip:port;\<close> for each.\<close>

definition user_list :: "user list \<Rightarrow> byte list" where
  "user_list us = concat (map (\<lambda>u. u_ip u @ [COLON] @ dec (u_port u) @ bytes_of '';'') us)"

lemma list_users_run:
  fixes s :: "'z as_state_scheme"
  shows "\<exists>t. list_users us a e s = (Ok (a \<in> u_in ` set us, user_list us), t) \<and> users_only s t \<and>
    sent (evs t) = sent (evs s) \<and> users t = users s"
proof (induction us arbitrary: s)
  case Nil
  show ?case
    by (simp add: exec user_list_def)
next
  case (Cons u us)
  let ?m = "if u_in u = a then bnd (puts ''User exists already'') (\<lambda>_. bnd (ext (Libc Time)) (\<lambda>_. ret True)) else ret False"
  have "\<exists>v. ?m e s = (Ok (u_in u = a), v) \<and> users_only s v \<and> sent (evs v) = sent (evs s) \<and> users v = users s"
    by (simp add: puts_def exec)
  then obtain v :: "'z as_state_scheme" where v: "?m e s = (Ok (u_in u = a), v)" "users_only s v" "sent (evs v) = sent (evs s)" "users v = users s"
    by blast
  obtain t where t: "list_users us a e v = (Ok (a \<in> u_in ` set us, user_list us), t)" "users_only v t"
    "sent (evs t) = sent (evs v)" "users t = users v"
    using Cons by blast
  let ?j = "\<lambda>hit (user_exists, list). ret (hit \<or> user_exists, u_ip u @ [COLON] @ dec (u_port u) @ bytes_of '';'' @ list)"
  have "list_users (u # us) a e s = bnd (list_users us a) (?j (u_in u = a)) e v"
    unfolding list_users.simps using v(1) by (rule run_bnd_Ok)
  also have "\<dots> = ?j (u_in u = a) (a \<in> u_in ` set us, user_list us) e t"
    using t(1) by (rule run_bnd_Ok)
  also have "\<dots> = (Ok (a \<in> u_in ` set (u # us), user_list (u # us)), t)"
    by (auto simp: run_ret user_list_def)
  finally have "list_users (u # us) a e s = (Ok (a \<in> u_in ` set (u # us), user_list (u # us)), t)" .
  moreover have "users_only s t" "sent (evs t) = sent (evs s)" "users t = users s"
    using users_only_trans [OF v(2) t(2)] v(3,4) t(3,4) by simp_all
  ultimately show ?case
    by blast
qed

text \<open>What the thread promises about its users: a specification without memory or effects.\<close>

definition users_after :: "int \<Rightarrow> sockaddr_in \<Rightarrow> byte list \<Rightarrow> user list \<Rightarrow> user list" where
  "users_after now a ip us =
     (let us = fresh_users now us in
      if a \<in> u_in ` set us then us
      else (if length us > 10 then [] else us) @
        [\<lparr>u_ip = ip, u_port = htons (sin_port a), u_in = a, lastPing = now\<rparr>])"

abbreviation sends_to :: "int \<Rightarrow> byte list \<Rightarrow> sockaddr_in \<Rightarrow> call" where
  "sends_to fd bs a \<equiv> Sys (Sendto_in fd bs (sin_family a) (sin_port a) (s_addr a))"

lemma register_user_run:
  fixes s :: "'z as_state_scheme"
  assumes time: "\<And>l. answer e l (Libc Time) = RInt now"
    and ip: "\<And>l. answer e l (Sys (Inet_ntoa (s_addr a))) = ROut 0 ip"
  shows "\<exists>t. register_user fd a e s = (Ok (), t) \<and> users_only s t \<and> users t = users_after now a ip (users s) \<and>
    sent (evs t) = sent (evs s) @ [sends_to fd (user_list (fresh_users now (users s))) a]"
proof -
  let ?us = "fresh_users now (users s)"
  let ?s0 = "s\<lparr>evs := (Libc Time, RInt now) # evs s\<rparr>"
  obtain v :: "'z as_state_scheme" where v: "delByPing now e ?s0 = (Ok (), v)" "users_only ?s0 v" "sent (evs v) = sent (evs s)" "users v = ?us"
    using delByPing_run [of now e ?s0] by auto
  obtain w :: "'z as_state_scheme" where w: "list_users ?us a e v = (Ok (a \<in> u_in ` set ?us, user_list ?us), w)" "users_only v w"
    "sent (evs w) = sent (evs v)" "users w = users v"
    using list_users_run [of ?us a e v] by auto
  have "users_only s ?s0"
    by simp
  then have sw: "users_only s w"
    using v w users_only_trans by metis
  let ?rest = "bnd (if a \<in> u_in ` set ?us then ret () else add_user a) (\<lambda>_.
     bnd (puts ''sendto'') (\<lambda>_. bnd (sendto_client fd (user_list ?us) a) (\<lambda>_. puts ''Continue'')))"
  have "register_user fd a e s = ?rest e w"
    using v w by (simp add: register_user_def run_bnd run_ext run_gets time)
  moreover have "\<exists>t. ?rest e w = (Ok (), t) \<and> users_only w t \<and> users t = users_after now a ip (users s) \<and>
    sent (evs t) = sent (evs w) @ [sends_to fd (user_list ?us) a]"
    using v(4) w(4) by (simp add: add_user_def new_user_def puts_def sendto_client_def exec time ip users_after_def Let_def)
  ultimately show ?thesis
    using sw v(3) w(3) users_only_trans by metis
qed

subsection \<open>Datagrams\<close>

lemma udp_len: "length (udp_reply ip port msg) = length ip + length (dec port) + length msg + 6"
  by (simp add: udp_reply_def)

lemma udp_nonzero: "NUL \<notin> set ip \<Longrightarrow> NUL \<notin> set msg \<Longrightarrow> NUL \<notin> set (udp_reply ip port msg)"
  by (auto simp: udp_reply_def dec_nonzero)

lemma udp_answer_run:
  fixes u :: "'z as_state_scheme"
  assumes dead: "blocks u (nxt u) = None"
    and ip: "\<And>l. answer e l (Sys (Inet_ntoa (s_addr a))) = ROut 0 ip"
    and time: "\<And>l. answer e l (Libc Time) = RInt now"
    and rep: "NUL \<notin> set reply" "length reply \<le> 254"
  shows "wp (bnd (local_arr 256 (\<lambda>tmp. bnd (write_bytes tmp (reply @ [0, NUL])) (\<lambda>_.
      bnd (read_str tmp) (\<lambda>reply. sendto_client fd reply a)))) (\<lambda>_.
      bnd (register_user fd a) (\<lambda>_. ret ca)))
    (\<lambda>ca' t. ca' = ca \<and> blocks t = blocks u \<and> users t = users_after now a ip (users u) \<and>
      sent (evs t) = sent (evs u) @ [sends_to fd reply a, sends_to fd (user_list (fresh_users now (users u))) a]) e u"
proof -
  have reg: "wp (register_user fd a) (\<lambda>_ t. users_only v t \<and> users t = users_after now a ip (users v) \<and>
    sent (evs t) = sent (evs v) @ [sends_to fd (user_list (fresh_users now (users v))) a]) e v"
    for v :: "'z as_state_scheme"
    using register_user_run [OF time ip, of fd v] by (auto simp: wp_def)
  have mem: "(blocks u)(nxt u := None) = blocks u"
    using dead by (rule fun_upd_idem)
  have str: "get_str m (Addr b 0) = Inr reply" if "m b = Some (map Byte reply @ Byte 0 # Byte NUL # cs)" for m b cs
    using that rep by (simp add: get_str_def cells_of_def scan_string)
  show ?thesis
    unfolding sendto_client_def
    apply (rule wp_bnd, rule wp_local_arr, simp)
    apply (rule wp_bnd, rule wp_write_bytes)
    using rep apply simp
    apply (rule wp_bnd, rule wp_read_mem, rule str, simp)
    apply (rule wp_bnd, rule wp_ext, rule wp_ret)
    apply (rule wp_bnd, rule wp_weaken [OF reg])
    apply (rule wp_ret)
    apply (auto simp: mem dest!: users_onlyD)
    done
qed

text \<open>Claim C4: a datagram whose echo fits into 256 bytes is sent back with the sender's address in
  front, and the sender then gets the list of the users who talked in the last 120 seconds. The
  sender is one of the users afterwards: he stays as he is if he was known, and otherwise comes
  last, after the others are forgotten if they are more than ten. The memory is as before.\<close>

theorem udp_handler_answers:
  fixes s :: "'z as_state_scheme"
  assumes "fresh s" and a_def: "a = sockaddr_of ab"
    and rcv: "\<And>l. answer e l (Sys (Recvfrom fd SBUF 0)) = RFrom (int (length bs)) bs ab"
    and bs: "NUL \<notin> set bs" "length bs < SBUF" and ab: "ab \<noteq> []"
    and ip: "\<And>l. answer e l (Sys (Inet_ntoa (s_addr a))) = ROut 0 ip" "NUL \<notin> set ip"
    and time: "\<And>l. answer e l (Libc Time) = RInt now"
    and fits: "length (udp_reply ip (htons (sin_port a)) bs) \<le> 254"
  shows "\<exists>t. udp_handler fd ca e s = (Ok (Some a), t) \<and> blocks t = blocks s \<and>
    users t = users_after now a ip (users s) \<and>
    sent (evs t) = sent (evs s) @ [sends_to fd (udp_reply ip (htons (sin_port a)) bs) a,
      sends_to fd (user_list (fresh_users now (users s))) a]"
proof -
  have b: "blocks s (Suc (nxt s)) = None" "blocks s (nxt s) = None" "(blocks s)(nxt s := None) = blocks s"
    using assms(1) by (simp_all add: fresh_above fun_upd_idem)
  have "wp (udp_handler fd ca) (\<lambda>ca' t. ca' = Some a \<and> blocks t = blocks s \<and>
    users t = users_after now a ip (users s) \<and>
    sent (evs t) = sent (evs s) @ [sends_to fd (udp_reply ip (htons (sin_port a)) bs) a,
      sends_to fd (user_list (fresh_users now (users s))) a]) e s"
    unfolding udp_handler_def puts_def
    apply (rule wp_local_arr, simp)
    apply (rule wp_bnd, rule wp_bnd, rule wp_ext, rule wp_ret)
    apply (rule wp_bnd, rule wp_known [OF rcv], rule wp_bnd, rule wp_write_bytes)
    using bs apply simp
    apply (simp add: last_addr_def ab Let_def flip: a_def)
    apply (rule wp_bnd, rule wp_store_byte)
    using bs apply simp
    apply (rule wp_bnd, rule wp_field, rule refl)
    apply (rule wp_bnd, rule wp_known [OF ip(1)], rule wp_bnd, rule wp_read_mem)
    using bs apply simp
    apply (rule wp_bnd, rule wp_ext)
    apply (rule wp_weaken, simp only: r_bytes.simps, rule udp_answer_run)
    using bs ip time fits b apply (simp_all add: udp_nonzero)
    apply (auto simp: fun_eq_iff)
    done
  then show ?thesis
    by (auto dest!: wpD)
qed

text \<open>Claim C24: a datagram whose echo, with the sender's address in front, does not fit into 256 bytes with the two zeros
  that end it is written past the end of the array \<open>tmp\<close>; the case of Claim C4 ends at exactly this length.\<close>

theorem udp_handler_overflows:
  fixes s :: "'z as_state_scheme"
  assumes a_def: "a = sockaddr_of ab"
    and rcv: "\<And>l. answer e l (Sys (Recvfrom fd SBUF 0)) = RFrom (int (length bs)) bs ab"
    and bs: "NUL \<notin> set bs" "length bs < SBUF" and ab: "ab \<noteq> []"
    and ip: "\<And>l. answer e l (Sys (Inet_ntoa (s_addr a))) = ROut 0 ip"
    and long: "254 < length (udp_reply ip (htons (sin_port a)) bs)"
  shows "fst (udp_handler fd ca e s) = Err OutOfBounds"
proof -
  have "faults OutOfBounds (udp_handler fd ca) e s"
    unfolding udp_handler_def puts_def
    apply (rule faults_local_arr, simp)
    apply (rule faults_later, rule wp_bnd, rule wp_ext, rule wp_ret)
    apply (rule faults_later, rule wp_known [OF rcv], rule faults_later, rule wp_write_bytes)
    using bs apply simp
    apply (simp add: last_addr_def ab Let_def flip: a_def)
    apply (rule faults_later, rule wp_store_byte)
    using bs apply simp
    apply (rule faults_later, rule wp_field, rule refl)
    apply (rule faults_later, rule wp_known [OF ip(1)], rule faults_later, rule wp_read_mem)
    using bs apply simp
    apply (rule faults_later, rule wp_ext, rule faults_here, rule faults_local_arr, simp)
    apply (rule faults_here, rule faults_mem)
    using long apply simp
    done
  then show ?thesis
    by (simp add: faults_def)
qed

text \<open>When \<open>recvfrom\<close> fails, its -1 becomes the largest \<open>size_t\<close>, the test for a negative
  count does not see it, and the terminator is stored outside the buffer; a datagram that fills
  the buffer has its terminator stored just after it.\<close>

theorem udp_recv_faults:
  fixes s :: "'z as_state_scheme"
  assumes rcv: "\<And>l. answer e l (Sys (Recvfrom fd SBUF 0)) = RFrom n bs ab"
    and n: "n = - 1 \<and> bs = [] \<or> n = int SBUF \<and> length bs = SBUF"
  shows "fst (udp_handler fd ca e s) = Err OutOfBounds"
proof -
  have n': "size_t n \<ge> SBUF" "length bs \<le> SBUF"
    using n by (auto simp: size_t_def)
  have "faults OutOfBounds (udp_handler fd ca) e s"
    unfolding udp_handler_def puts_def
    apply (rule faults_local_arr, simp)
    apply (rule faults_later, rule wp_bnd, rule wp_ext, rule wp_ret)
    apply (rule faults_later, rule wp_known [OF rcv], rule faults_later, rule wp_write_bytes)
    using n' apply simp
    apply (simp add: Let_def)
    apply (rule faults_here, rule faults_mem)
    using n' apply simp
    done
  then show ?thesis
    by (simp add: faults_def)
qed

subsection \<open>The invariant of the users\<close>

text \<open>One datagram: without any assumption on the answers of the environment.\<close>

definition registered :: "sockaddr_in \<Rightarrow> user list \<Rightarrow> user list \<Rightarrow> bool" where
  "registered a us us' \<longleftrightarrow> (\<exists>now usr. let vs = fresh_users now us in
     if a \<in> u_in ` set vs then us' = vs
     else u_in usr = a \<and> u_port usr = htons (sin_port a) \<and>
       us' = (if length vs > 10 then [] else vs) @ [usr])"

lemma add_user_any:
  fixes s :: "'z as_state_scheme"
  shows "wp (add_user a) (\<lambda>_ t. users_only s t \<and> (\<exists>usr. u_in usr = a \<and> u_port usr = htons (sin_port a) \<and>
     users t = (if length (users s) > 10 then [] else users s) @ [usr])) e s"
  unfolding add_user_def new_user_def by (intro wp_rules) simp

lemma register_user_any:
  fixes s :: "'z as_state_scheme"
  shows "\<exists>t. register_user fd a e s = (Ok (), t) \<and> users_only s t \<and> registered a (users s) (users t)"
proof -
  define now where "now = r_int (answer e (evs s) (Libc Time))"
  let ?us = "fresh_users now (users s)"
  let ?s0 = "s\<lparr>evs := (Libc Time, answer e (evs s) (Libc Time)) # evs s\<rparr>"
  obtain v :: "'z as_state_scheme" where v: "delByPing now e ?s0 = (Ok (), v)" "users_only ?s0 v" "users v = ?us"
    using delByPing_run [of now e ?s0] by auto
  obtain w :: "'z as_state_scheme" where w: "list_users ?us a e v = (Ok (a \<in> u_in ` set ?us, user_list ?us), w)" "users_only v w"
    "users w = users v"
    using list_users_run [of ?us a e v] by auto
  have "users_only s ?s0"
    by simp
  then have sw: "users_only s w"
    using v w users_only_trans by metis
  let ?rest = "bnd (if a \<in> u_in ` set ?us then ret () else add_user a) (\<lambda>_.
     bnd (puts ''sendto'') (\<lambda>_. bnd (sendto_client fd (user_list ?us) a) (\<lambda>_. puts ''Continue'')))"
  have run: "register_user fd a e s = ?rest e w"
    using v w by (simp add: register_user_def run_bnd run_ext run_gets now_def)
  have tail: "wp (bnd (puts ''sendto'') (\<lambda>_. bnd (sendto_client fd l a) (\<lambda>_. puts ''Continue'')))
      (\<lambda>_ t. users_only x t \<and> users t = users x) e x" for l and x :: "'z as_state_scheme"
    unfolding puts_def sendto_client_def by (intro wp_rules) simp
  have "wp ?rest (\<lambda>_ t. users_only w t \<and> registered a (users s) (users t)) e w"
  proof (cases "a \<in> u_in ` set ?us")
    case True
    show ?thesis
      by (simp only: True if_True, rule wp_bnd, rule wp_ret, rule wp_weaken [OF tail])
        (use True v w in \<open>auto simp: registered_def Let_def intro!: exI [of _ now]\<close>)
  next
    case False
    show ?thesis
      by (simp only: False if_False, rule wp_bnd, rule wp_weaken [OF add_user_any], rule wp_weaken [OF tail])
        (use False v w users_only_trans in \<open>auto simp: registered_def Let_def intro!: exI [of _ now]\<close>)
  qed
  then obtain t :: "'z as_state_scheme" where "?rest e w = (Ok (), t)" "users_only w t" "registered a (users s) (users t)"
    unfolding wp_def by auto
  then show ?thesis
    using users_only_trans [OF sw] by (intro exI [of _ t]) (simp only: run simp_thms)
qed

text \<open>
  At most eleven users, no two with the same address, and the port that is listed is the
  port of the address.
\<close>

definition users_ok :: "user list \<Rightarrow> bool" where
  "users_ok us \<longleftrightarrow> length us \<le> 11 \<and> distinct (map u_in us) \<and> (\<forall>u\<in>set us. u_port u = htons (sin_port (u_in u)))"

lemma registered_ok:
  assumes ok: "users_ok us" and reg: "registered a us us'"
  shows "users_ok us'"
proof -
  obtain now usr where r: "if a \<in> u_in ` set (fresh_users now us) then us' = fresh_users now us
     else u_in usr = a \<and> u_port usr = htons (sin_port a) \<and>
       us' = (if length (fresh_users now us) > 10 then [] else fresh_users now us) @ [usr]"
    using reg unfolding registered_def Let_def by blast
  have "users_ok (fresh_users now us)"
    using ok le_trans [OF length_filter_le [of "\<lambda>u. \<not> stale now u" us], of 11] by (auto simp: users_ok_def fresh_users_def distinct_map_filter)
  then show ?thesis
    using r by (auto simp: users_ok_def split: if_splits)
qed

text \<open>
  What holds of every step of the server holds of its cycle: it is enough to look at the registration of a
  sender and at the flag that a script sets.
\<close>

locale serv_steps = step_relation R for R :: "'z as_state_scheme \<Rightarrow> 'z as_state_scheme \<Rightarrow> bool" +
  assumes keeps_register [intro!]: "keeps R (register_user fd a)"
    and keeps_inited [intro!]: "keeps R (modify (serv_inited_update f))"
begin

lemma keeps_serv [intro!]:
  "keeps R (puts msg)" "keeps R (perror_exit msg)" "keeps R (sendto_client fd bs a)" "keeps R CALLLUAFUNC"
  "keeps R (PREINIT_CALLLUAEVENFUNC nm fd bs p buf)" "keeps R lua_text"
  by (auto simp: puts_def perror_exit_def sendto_client_def CALLLUAFUNC_def PREINIT_CALLLUAEVENFUNC_def lua_text_def)

lemma keeps_retdata [intro!]:
  "keeps R (GETRETDATA q)" "keeps R (send_retdata fd q)" "keeps R (SENDRETDATA fd q)"
  by (auto simp: GETRETDATA_def send_retdata_def SENDRETDATA_def)

lemma keeps_dispatch [intro!]: "keeps R (dispatch fd bs p buf)"
proof -
  have "keeps R (run_event ev fd bs p buf)" for ev
    by (cases ev) (auto simp: run_event0_def run_event1_def)
  then show ?thesis
    by (auto simp: dispatch_def notFound_def split: option.split)
qed

lemma keeps_handlers:
  "keeps R (udp_handler fd ca)" "keeps R (client_handler ep fd ca)" "keeps R (accept_handler ep md ca)"
  by (auto simp: udp_handler_def client_handler_def accept_handler_def Let_def)

lemma keeps_events: "keeps R (handle_events ep md udp fds ca)"
  by (induction fds arbitrary: ca) (auto simp: handle_event_def intro!: keeps_handlers split: prod.split)

lemma keeps_cycle: "keeps R (cycle ep md udp ca)"
  unfolding cycle_def using keeps_events by auto

end

definition users_kept :: "'z as_state_scheme \<Rightarrow> 'z as_state_scheme \<Rightarrow> bool" where
  "users_kept s t \<longleftrightarrow> (users_ok (users s) \<longrightarrow> users_ok (users t))"

interpretation uk: serv_steps users_kept
proof
  show "keeps users_kept (register_user fd a :: ('z, unit) asprog)" for fd a
    unfolding keeps_def users_kept_def using register_user_any registered_ok by (metis snd_conv)
qed (auto simp: users_kept_def keeps_def exec)

text \<open>The name of a user is an answer of \<open>inet_ntoa\<close> for his address.\<close>

definition users_named :: "'z as_state_scheme \<Rightarrow> bool" where
  "users_named s \<longleftrightarrow> (\<forall>u\<in>set (users s). \<exists>r. (Sys (Inet_ntoa (s_addr (u_in u))), r) \<in> set (evs s) \<and> u_ip u = r_bytes r)"

definition names_kept :: "'z as_state_scheme \<Rightarrow> 'z as_state_scheme \<Rightarrow> bool" where
  "names_kept s t \<longleftrightarrow> (users_named s \<longrightarrow> users_named t)"

lemma users_named_grow:
  "users_named s \<Longrightarrow> set (users t) \<subseteq> set (users s) \<Longrightarrow> set (evs s) \<subseteq> set (evs t) \<Longrightarrow> users_named t"
  unfolding users_named_def by blast

interpretation ns: step_relation names_kept
  by unfold_locales (auto simp: names_kept_def elim!: users_named_grow)

lemma set_erase_first: "erase_first P xs = Some (y, ys) \<Longrightarrow> set ys \<subseteq> set xs"
  by (induction P xs arbitrary: y ys rule: erase_first.induct) (auto split: if_splits)

lemma names_kept_users:
  "keeps names_kept (del_step now :: ('z, bool) asprog)" "keeps names_kept (add_user a :: ('z, unit) asprog)"
proof -
  show "keeps names_kept (del_step now :: ('z, bool) asprog)"
    by (auto simp: keeps_def names_kept_def del_step_def puts_def exec split: option.split
        dest!: set_erase_first elim!: users_named_grow)
  show "keeps names_kept (add_user a :: ('z, unit) asprog)"
    by (auto simp: keeps_def names_kept_def add_user_def new_user_def exec users_named_def)
qed

lemma names_kept_list: "keeps names_kept (list_users us a :: ('z, _) asprog)"
  by (induction us) (auto simp: puts_def)

interpretation nk: serv_steps names_kept
proof
  show "keeps names_kept (register_user fd a :: ('z, unit) asprog)" for fd a
    unfolding register_user_def delByPing_def puts_def sendto_client_def
    by (auto intro!: names_kept_users names_kept_list)
qed (auto simp: names_kept_def keeps_def exec elim!: users_named_grow)

subsection \<open>The loop of the thread\<close>

text \<open>The states in which the loop of the thread is, from one in which it starts.\<close>

inductive serves :: "env \<Rightarrow> int \<Rightarrow> int \<Rightarrow> int \<Rightarrow> 'z as_state_scheme \<Rightarrow> sockaddr_in option \<Rightarrow> 'z as_state_scheme \<Rightarrow> bool"
  for e :: env and ep md udp :: int and s :: "'z as_state_scheme" where
  start: "serves e ep md udp s None s"
| turn: "serves e ep md udp s ca t \<Longrightarrow> cycle ep md udp ca e t = (Ok (True, ca'), u) \<Longrightarrow> serves e ep md udp s ca' u"

lemma serves_users_ok: "serves e ep md udp s ca t \<Longrightarrow> users_ok (users s) \<Longrightarrow> users_ok (users t)"
proof (induction rule: serves.induct)
  case (turn ca t ca' u)
  then show ?case
    using keepsD [OF uk.keeps_cycle turn.hyps(2)] by (simp add: users_kept_def)
qed

lemma serves_users_named: "serves e ep md udp s ca t \<Longrightarrow> users_named s \<Longrightarrow> users_named t"
proof (induction rule: serves.induct)
  case (turn ca t ca' u)
  then show ?case
    using keepsD [OF nk.keeps_cycle turn.hyps(2)] by (simp add: names_kept_def)
qed

text \<open>Claim C3: however long the server runs and whatever its clients send, it knows at most eleven
  users, no address twice, and the port that it lists of a user is the one of his address.\<close>

theorem serv_users_bounded:
  assumes "serves e ep md udp s ca t" "users s = []"
  shows "length (users t) \<le> 11 \<and> distinct (map u_in (users t)) \<and>
    (\<forall>u\<in>set (users t). u_port u = htons (sin_port (u_in u)))"
  using serves_users_ok [OF assms(1)] assms(2) by (simp add: users_ok_def)

definition goes_on :: "bool \<Rightarrow> 'z as_state_scheme \<Rightarrow> bool" where
  "goes_on go s \<longleftrightarrow> go \<or> \<not> serv_inited s"

lemma ensures_any: "ensures P m (\<lambda>_ _. True)"
  by (simp add: ensures_def)

lemma ensures_then: "(\<And>a. ensures (\<lambda>_. True) (f a) Q) \<Longrightarrow> ensures P (bnd m f) Q"
  by (rule ensures_bnd [OF ensures_any])

lemma ensures_ret_True: "ensures P (bnd m (\<lambda>a. ret (True, f a))) (\<lambda>(go, _). goes_on go)"
  by (rule ensures_then, rule ensures_ret) (simp add: goes_on_def)

lemma client_goes_on: "ensures (\<lambda>_. True) (client_handler ep fd ca :: ('z, bool) asprog) goes_on"
proof -
  have on: "ensures (\<lambda>_. True) (bnd m (\<lambda>_. ret True)) goes_on" for m :: "('z, unit) asprog"
    by (rule ensures_then, rule ensures_ret) (simp add: goes_on_def)
  have stop: "ensures (\<lambda>_. True) (bnd (modify (serv_inited_update (\<lambda>_. b))) (\<lambda>_. bnd (lua_do c) (\<lambda>_.
      if \<not> b then bnd (puts m) (\<lambda>_. ret False) else bnd d (\<lambda>_. ret True)) :: ('z, bool) asprog)) goes_on" for b c m d
    unfolding ensures_def goes_on_def
    by (auto simp: ok_iff exec cont_eq_Ok puts_def split: if_splits)
  have arr: "ensures (\<lambda>_. True) (local_arr n body) goes_on" if "\<And>p. ensures (\<lambda>_. True) (body p) goes_on"
    for n and body :: "ptr \<Rightarrow> ('z, bool) asprog"
    unfolding ensures_def
  proof (intro allI impI)
    fix e and s :: "'z as_state_scheme" and a t
    assume "local_arr n body e s = (Ok a, t)"
    then obtain u where "body (Addr (nxt s) 0) e (new_block (replicate n Undef) s) = (Ok a, u)" "t = drop_block (nxt s) u"
      by (auto simp: local_arr_def split: if_splits prod.splits)
    then show "goes_on a t"
      using ensuresD [OF that] by (auto simp: goes_on_def)
  qed
  show ?thesis
    unfolding client_handler_def
    by (rule on ensures_if stop arr | rule ensures_then | (rule ensures_ret, simp add: goes_on_def))+
qed


lemma events_go_on: "ensures (\<lambda>_. True) (handle_events ep md udp fds ca :: ('z, _) asprog) (\<lambda>(go, _). goes_on go)"
proof (induction fds arbitrary: ca)
  case Nil
  show ?case
    by (simp add: ensures_ret goes_on_def)
next
  case (Cons fd fds)
  have ev: "ensures (\<lambda>_. True) (handle_event ep md udp fd ca :: ('z, _) asprog) (\<lambda>(go, _). goes_on go)"
    unfolding handle_event_def
    by (intro ensures_if ensures_ret_True, rule ensures_bnd [OF client_goes_on], rule ensures_ret) simp
  have rest: "ensures (\<lambda>s. goes_on (fst x) s) (case x of (go, ca') \<Rightarrow>
      if go then handle_events ep md udp fds ca' else ret (False, ca')) (\<lambda>(go, _). goes_on go :: 'z as_state_scheme \<Rightarrow> bool)" for x
    by (cases x) (auto intro!: ensures_if ensures_ret ensures_weaken [OF Cons])
  show ?case
    unfolding handle_events.simps by (rule ensures_bnd [OF ensures_weaken [OF ev] rest]) auto
qed

text \<open>Claim C23: the thread returns only when a script has set \<open>server_inited\<close> to false: an error of
  a client, of a datagram or of \<open>epoll\<close> ends the process or is served on.\<close>

theorem serv_thread_stops_by_script:
  fixes s :: "'z as_state_scheme"
  assumes "serv_thread a e s = (Ok (), t)"
  shows "\<not> serv_inited t"
proof -
  obtain ep md udp ca and u :: "'z as_state_scheme" where run: "c_while fst (\<lambda>(_, ca). cycle ep md udp ca) (True, None) e u = (Ok ca, t)"
    using assms by (auto simp: serv_thread_def perror_exit_def run_bnd cont_eq_Ok exec Let_def split: prod.splits if_splits)
  have cyc: "ensures (\<lambda>_. True) (cycle ep md udp x :: ('z, _) asprog) (\<lambda>(go, _). goes_on go)" for x
    unfolding cycle_def perror_exit_def
    by (rule ensures_then | rule ensures_if ensures_fail events_go_on)+
  have stop: "\<not> serv_inited w" if "cycle ep md udp x e v = (Ok (False, x'), w)" for x x' and v w :: "'z as_state_scheme"
    using ensuresD [OF cyc TrueI that] by (simp add: goes_on_def)
  have "goes_on (fst ca) t \<and> \<not> fst ca"
    by (rule c_while_invariant [OF run, where P = "\<lambda>g t. goes_on (fst g) t"])
      (auto simp: goes_on_def dest: stop)
  then show "\<not> serv_inited t"
    unfolding goes_on_def by blast
qed

subsection \<open>Opcodes\<close>

text \<open>The byte \<open>ignorebyte\<close> is not a wildcard: it only equals itself.\<close>

lemma ignorebyte_is_literal:
  "find (\<lambda>op. opcode_eq op [1, x, y, 1]) opcodes \<noteq> None \<longleftrightarrow> x = ignorebyte \<and> y = ignorebyte"
  by (auto simp: opcodes_def opcode_eq_def bytes_of_def)

subsection \<open>A client that is gone\<close>

text \<open>The script's \<open>undefined_event\<close> when it returns nil.\<close>

lemma notFound_run:
  fixes u :: "'z as_state_scheme"
  assumes "get_str (blocks u) (Addr b 4) = Inr msg" "blocks u (nxt u) = None"
    and lua: "\<And>l. answer e l (Lua lua_pcall) = RInt 0" "\<And>l. answer e l (Lua (lua_isnil (- 1))) = RInt 1"
  shows "wp (notFound fd ip port (Addr b 0) op) (\<lambda>_ t. users t = users u \<and> blocks t = blocks u \<and> nxt t = Suc (nxt u) \<and>
    map fst (events t) = map fst (events u) @ map Lua [lua_getglobal ''undefined_event'', lua_push (LNum fd), lua_push (LStr ip),
      lua_push (LNum (int port)), lua_push (LStr msg), lua_push (LStr (takeWhile (\<lambda>b. b \<noteq> NUL) op)), lua_pcall,
      lua_isnil (- 1), lua_pop 1]) e u"
proof -
  have mem: "(blocks u)(nxt u := None) = blocks u"
    using assms(2) by (rule fun_upd_idem)
  show ?thesis
    unfolding notFound_def PREINIT_CALLLUAEVENFUNC_def CALLLUAFUNC_def GETRETDATA_def SENDRETDATA_def push_def lua_do_def
      lua_test_def lua_pushstring_def
    apply (rule wp_bnd)+
    apply (rule wp_ext, rule wp_ret)
    apply (rule wp_bnd, rule wp_bnd, rule wp_ext, rule wp_ret)
    apply (rule wp_bnd, rule wp_bnd, rule wp_ext, rule wp_ret)
    apply (rule wp_bnd, rule wp_bnd, rule wp_ext, rule wp_ret)
    apply (simp only: padd.simps ptr.distinct if_False add_0_left)
    apply (rule wp_bnd, rule wp_read_mem)
     apply (simp add: assms)
    apply (rule wp_bnd, rule wp_ext, rule wp_ret)
    apply (rule wp_bnd, rule wp_bnd, rule wp_ext, rule wp_ret)
    apply (rule wp_bnd)+
    apply (rule wp_known [OF lua(1)], rule wp_ret)
    apply (simp only: r_int.simps simp_thms if_False, rule wp_ret)
    apply (rule wp_local_arr, simp)
    apply (rule wp_bnd)+
    apply (rule wp_store_byte, simp)
    apply (rule wp_bnd)+
    apply (rule wp_known [OF lua(2)], rule wp_ret)
    apply (simp only: r_int.simps one_neq_zero simp_thms if_True, rule wp_bnd, rule wp_ret)
    apply (rule wp_bnd, rule wp_ext, rule wp_ret)
    apply (rule wp_bnd, rule wp_strlen)
     apply (simp add: get_str_def cells_of_def)
    apply (simp only: list.size simp_thms if_False, rule wp_ret)
    apply (simp add: mem events_def)
    done
qed

text \<open>Claim C26: a client that closes its connection is taken from epoll and its socket closed,
  and no script runs; a connection that breaks is neither closed nor taken from epoll: the -1 of
  \<open>recv\<close> is not seen, and the script's \<open>undefined_event\<close> is run with four zero bytes.\<close>

theorem client_gone:
  fixes s :: "'z as_state_scheme"
  assumes "fresh s"
    and ip: "\<And>l. answer e l (Sys (Inet_ntoa (s_addr a))) = ROut 0 ip"
    and rcv: "\<And>l. answer e l (Sys (Recv fd SBUF)) = RInt n" "n = 0 \<or> n = - 1"
    and lua: "\<And>l. answer e l (Lua (lua_toboolean (- 1))) = RInt 1" "\<And>l. answer e l (Lua lua_pcall) = RInt 0"
      "\<And>l. answer e l (Lua (lua_isnil (- 1))) = RInt 1"
  shows "\<exists>t. client_handler ep fd (Some a) e s = (Ok True, t) \<and> users t = users s \<and> blocks t = blocks s \<and>
    map fst (events t) = map fst (events s) @ [Libc (Puts ''client handler TCP''), Sys (Inet_ntoa (s_addr a)), Sys (Recv fd SBUF)] @
      (if n = 0 then [Sys (Epoll_del ep fd), Sys (Close fd)]
       else [Lua (lua_getglobal ''server_inited''), Lua (lua_toboolean (- 1)), Lua (lua_pop 1), Libc (Puts ''Opcode not founded'')] @
        map Lua [lua_getglobal ''undefined_event'', lua_push (LNum fd), lua_push (LStr ip),
          lua_push (LNum (int (htons (sin_port a)))), lua_push (LStr []), lua_push (LStr []), lua_pcall, lua_isnil (- 1), lua_pop 1])"
proof -
  have mem: "(blocks s)(nxt s := None) = blocks s" "blocks s (nxt s) = None" "blocks s (Suc (nxt s)) = None"
    using assms(1) by (simp_all add: fresh_above fun_upd_idem)
  have mem': "(\<lambda>a. if a = nxt s then Some cs else blocks s a)(nxt s := None) = blocks s" for cs
    using mem(2) by (auto simp: fun_eq_iff)
  let ?Q = "\<lambda>r t. r = True \<and> users t = users s \<and> blocks t = blocks s \<and>
    map fst (events t) = map fst (events s) @ [Libc (Puts ''client handler TCP''), Sys (Inet_ntoa (s_addr a)), Sys (Recv fd SBUF)] @
      (if n = 0 then [Sys (Epoll_del ep fd), Sys (Close fd)]
       else [Lua (lua_getglobal ''server_inited''), Lua (lua_toboolean (- 1)), Lua (lua_pop 1), Libc (Puts ''Opcode not founded'')] @
        map Lua [lua_getglobal ''undefined_event'', lua_push (LNum fd), lua_push (LStr ip),
          lua_push (LNum (int (htons (sin_port a)))), lua_push (LStr []), lua_push (LStr []), lua_pcall, lua_isnil (- 1), lua_pop 1])"
  have zeros: "find (\<lambda>op. opcode_eq op [0, 0, 0, 0]) opcodes = None"
    by (simp add: opcodes_def opcode_eq_def)
  have "wp (client_handler ep fd (Some a)) ?Q e s"
    unfolding client_handler_def puts_def
    apply (rule wp_bnd, rule wp_bnd, rule wp_ext, rule wp_ret)
    apply (rule wp_local_arr, simp)
    apply (rule wp_bnd, rule wp_field, rule refl)
    apply (rule wp_bnd, rule wp_known [OF ip])
    apply (rule wp_bnd, rule wp_bzero, simp)
    apply (rule wp_bnd, rule wp_known [OF rcv(1)])
    apply (rule wp_bnd, rule wp_write_bytes, simp)
    apply (rule wp_if)
     apply (rule wp_bnd, rule wp_ext, rule wp_bnd, rule wp_ext, rule wp_ret)
     apply (use rcv(2) in \<open>auto simp: mem' events_def size_t_def\<close>)[1]
    apply (simp only: lua_do_def lua_test_def)
    apply (rule wp_bnd, rule wp_bnd, rule wp_ext, rule wp_ret)
    apply (rule wp_bnd, rule wp_bnd, rule wp_known [OF lua(1)], rule wp_ret)
    apply (rule wp_bnd, rule wp_modify)
    apply (rule wp_bnd, rule wp_bnd, rule wp_ext, rule wp_ret)
    apply (simp only: r_int.simps r_bytes.simps one_neq_zero simp_thms if_False)
    apply (rule wp_bnd)
    apply (simp only: dispatch_def)
    apply (rule wp_bnd, rule wp_read_mem(2) [where bs = "[0, 0, 0, 0]"])
     apply (simp add: get_bytes_def get_cells_def cells_of_def numeral_eq_Suc)
    apply (simp only: zeros option.case puts_def)
    apply (rule wp_bnd, rule wp_bnd, rule wp_ext, rule wp_ret)
    apply (rule wp_weaken, rule notFound_run [OF _ _ lua(2,3), where msg = "[]"])
      apply (simp add: get_str_def cells_of_def numeral_eq_Suc)
     apply (simp add: mem)
    apply (rule wp_ret)
    apply (use rcv(2) in \<open>auto simp: mem' events_def size_t_def\<close>)
    done
  then show ?thesis
    by (auto dest!: wpD)
qed


subsection \<open>Instances\<close>

text \<open>An environment in which a datagram has arrived from 10.0.0.1, port 80, at the time 1000.\<close>

definition udp_env :: "byte list \<Rightarrow> env" where
  "udp_env bs = \<lparr>malloc_ok = (\<lambda>_ _. True), answer = (\<lambda>_ c. case c of
     Sys (Recvfrom fd n fl) \<Rightarrow> RFrom (int (length bs)) bs [2, 0, 0, 80, 10, 0, 0, 1]
   | Sys (Inet_ntoa a) \<Rightarrow> ROut 0 (bytes_of ''10.0.0.1'')
   | Libc Time \<Rightarrow> RInt 1000 | _ \<Rightarrow> RInt 0)\<rparr>"

lemma udp_env_answers:
  "answer (udp_env bs) l (Sys (Recvfrom fd n fl)) = RFrom (int (length bs)) bs [2, 0, 0, 80, 10, 0, 0, 1]"
  "answer (udp_env bs) l (Sys (Inet_ntoa a)) = ROut 0 (bytes_of ''10.0.0.1'')"
  "answer (udp_env bs) l (Libc Time) = RInt 1000"
  by (simp_all add: udp_env_def)

definition as_empty :: as_state where
  "as_empty = \<lparr>blocks = Map.empty, nxt = 0, evs = [], users = [], serv_inited = True\<rparr>"

lemma as_empty_fresh: "fresh as_empty"
  by (simp add: as_empty_def fresh_def)

lemma client_port: "htons (sin_port (sockaddr_of [2, 0, 0, 80, 10, 0, 0, 1])) = 80"
  by (simp add: sockaddr_of_def htons_def byte_at_def)

theorem udp_handler_answers_witness:
  "\<exists>t. udp_handler 4 None (udp_env (bytes_of ''hi'')) as_empty = (Ok (Some (sockaddr_of [2, 0, 0, 80, 10, 0, 0, 1])), t) \<and>
    map u_ip (users t) = [bytes_of ''10.0.0.1''] \<and> length (sent (evs t)) = 2"
proof -
  let ?a = "sockaddr_of [2, 0, 0, 80, 10, 0, 0, 1]"
  have bs: "NUL \<notin> set (bytes_of ''hi'')" "NUL \<notin> set (bytes_of ''10.0.0.1'')"
    by (simp_all add: bytes_of_def)
  have len: "length (udp_reply (bytes_of ''10.0.0.1'') (htons (sin_port ?a)) (bytes_of ''hi'')) \<le> 254"
    unfolding client_port udp_len by (simp add: dec.simps)
  have h: "length (bytes_of ''hi'') < SBUF" "[2, 0, 0, 80, 10, 0, 0, 1] \<noteq> ([] :: byte list)"
    by simp_all
  obtain t where t: "udp_handler 4 None (udp_env (bytes_of ''hi'')) as_empty = (Ok (Some ?a), t)"
    "users t = users_after 1000 ?a (bytes_of ''10.0.0.1'') (users as_empty)" "length (sent (evs t)) = length (sent (evs as_empty)) + 2"
    using udp_handler_answers [OF as_empty_fresh refl udp_env_answers(1) bs(1) h udp_env_answers(2) bs(2) udp_env_answers(3) len, of 4 None]
    by auto
  show ?thesis
    using t by (intro exI [of _ t]) (simp add: users_after_def fresh_users_def, simp add: as_empty_def)
qed

theorem udp_handler_overflows_witness:
  "fst (udp_handler 4 None (udp_env (replicate 300 65)) as_empty) = Err OutOfBounds"
proof -
  have bs: "NUL \<notin> set (replicate 300 (65 :: byte))" "length (replicate 300 (65 :: byte)) < SBUF"
    "[2, 0, 0, 80, 10, 0, 0, 1] \<noteq> ([] :: byte list)"
    by simp_all
  have "254 < length (udp_reply (bytes_of ''10.0.0.1'') (htons (sin_port (sockaddr_of [2, 0, 0, 80, 10, 0, 0, 1]))) (replicate 300 65))"
    by (simp add: udp_len)
  then show ?thesis
    by (rule udp_handler_overflows [OF refl udp_env_answers(1) bs udp_env_answers(2)])
qed

theorem udp_recv_faults_witness: "fst (udp_handler 4 None (const_env (RFrom (- 1) [] [])) as_empty) = Err OutOfBounds"
  by (rule udp_recv_faults [where n = "- 1" and bs = "[]" and ab = "[]"]) simp_all

text \<open>A turn of the loop in which nothing happened.\<close>

lemma idle_turn: "\<exists>t. cycle 3 4 5 None (const_env (RFds [])) as_empty = (Ok (True, None), t)"
  by (simp add: cycle_def puts_def exec)

theorem serv_users_bounded_witness:
  "\<exists>t. serves (const_env (RFds [])) 3 4 5 as_empty None t \<and> evs t \<noteq> [] \<and> length (users t) \<le> 11"
proof -
  obtain t where t: "cycle 3 4 5 None (const_env (RFds [])) as_empty = (Ok (True, None), t)" "evs t \<noteq> []"
    using idle_turn by (auto simp: cycle_def puts_def exec)
  then have r: "serves (const_env (RFds [])) 3 4 5 as_empty None t"
    using serves.turn [OF serves.start] by blast
  then show ?thesis
    using serv_users_bounded [OF r] t by (intro exI [of _ t]) (simp add: as_empty_def)
qed

definition gone_env :: "int \<Rightarrow> env" where
  "gone_env n = \<lparr>malloc_ok = (\<lambda>_ _. True), answer = (\<lambda>_ c. case c of
     Sys (Inet_ntoa a) \<Rightarrow> ROut 0 (bytes_of ''10.0.0.1'') | Sys (Recv fd k) \<Rightarrow> RInt n
   | Lua (lua_toboolean i) \<Rightarrow> RInt 1 | Lua (lua_isnil i) \<Rightarrow> RInt 1 | _ \<Rightarrow> RInt 0)\<rparr>"

lemma gone_env_answers:
  "answer (gone_env n) l (Sys (Inet_ntoa a)) = ROut 0 (bytes_of ''10.0.0.1'')"
  "answer (gone_env n) l (Sys (Recv fd k)) = RInt n" "answer (gone_env n) l (Lua (lua_toboolean i)) = RInt 1"
  "answer (gone_env n) l (Lua (lua_isnil i)) = RInt 1" "answer (gone_env n) l (Lua lua_pcall) = RInt 0"
  by (simp_all add: gone_env_def)

theorem client_gone_witness:
  "\<exists>t. client_handler 3 9 (Some (sockaddr_of [2, 0, 0, 80, 10, 0, 0, 1])) (gone_env (- 1)) as_empty = (Ok True, t) \<and>
    Sys (Close 9) \<notin> set (map fst (events t)) \<and> Lua (lua_getglobal ''undefined_event'') \<in> set (map fst (events t))"
proof -
  have n: "- 1 = (0 :: int) \<or> - 1 = (- 1 :: int)"
    by simp
  obtain t where t: "client_handler 3 9 (Some (sockaddr_of [2, 0, 0, 80, 10, 0, 0, 1])) (gone_env (- 1)) as_empty = (Ok True, t)"
    "map fst (events t) = map fst (events as_empty) @ [Libc (Puts ''client handler TCP''), Sys (Inet_ntoa (s_addr (sockaddr_of [2, 0, 0, 80, 10, 0, 0, 1]))), Sys (Recv 9 SBUF)] @
      (if - 1 = (0 :: int) then [Sys (Epoll_del 3 9), Sys (Close 9)]
       else [Lua (lua_getglobal ''server_inited''), Lua (lua_toboolean (- 1)), Lua (lua_pop 1), Libc (Puts ''Opcode not founded'')] @
        map Lua [lua_getglobal ''undefined_event'', lua_push (LNum 9), lua_push (LStr (bytes_of ''10.0.0.1'')),
          lua_push (LNum (int (htons (sin_port (sockaddr_of [2, 0, 0, 80, 10, 0, 0, 1]))))), lua_push (LStr []), lua_push (LStr []), lua_pcall, lua_isnil (- 1), lua_pop 1])"
    using client_gone [OF as_empty_fresh gone_env_answers(1,2) n gone_env_answers(3,5,4), of 3 9 "sockaddr_of [2, 0, 0, 80, 10, 0, 0, 1]"] by blast
  have "events as_empty = []"
    by (simp add: as_empty_def events_def)
  then show ?thesis
    using t by (intro exI [of _ t]) simp
qed

text \<open>A server whose script stops it at once.\<close>

definition stop_env :: env where
  "stop_env = \<lparr>malloc_ok = (\<lambda>_ _. True), answer = (\<lambda>l c. case c of
     Sys (Socket k) \<Rightarrow> RInt (if k = ''SOCK_STREAM'' then 4 else 5) | Sys (Inet_ntoa a) \<Rightarrow> ROut 0 (bytes_of ''10.0.0.1'')
   | Sys (Epoll_wait ep k) \<Rightarrow> RFds [4, 9] | Sys (Accept d) \<Rightarrow> ROut 9 [2, 0, 0, 80, 10, 0, 0, 1]
   | Sys (Recv fd k) \<Rightarrow> ROut 1 [65] | _ \<Rightarrow> RInt 0)\<rparr>"

definition as_host :: as_state where
  "as_host = \<lparr>blocks = [0 \<mapsto> map Byte (bytes_of ''0.0.0.0'') @ [Byte NUL]], nxt = 1, evs = [], users = [], serv_inited = False\<rparr>"

definition serv_args :: serv_arguments where
  "serv_args = \<lparr>listen_host = Addr 0 0, listen_port = 8000, cryptocoins = Null\<rparr>"


lemma stop_env_answers [simp]:
  "answer stop_env l (Sys (Socket k)) = RInt (if k = ''SOCK_STREAM'' then 4 else 5)"
  "answer stop_env l (Sys (Inet_ntoa a)) = ROut 0 (bytes_of ''10.0.0.1'')"
  "answer stop_env l (Sys (Epoll_wait ep n)) = RFds [4, 9]"
  "answer stop_env l (Sys (Accept d)) = ROut 9 [2, 0, 0, 80, 10, 0, 0, 1]"
  "answer stop_env l (Sys (Recv fd n)) = ROut 1 [65]"
  "answer stop_env l (Libc lc) = RInt 0" "answer stop_env l (Lua uc) = RInt 0"
  "answer stop_env l (Sys (Inet_addr h)) = RInt 0" "answer stop_env l (Sys (Bind_in d f p a)) = RInt 0"
  "answer stop_env l (Sys (Listen d b)) = RInt 0" "answer stop_env l (Sys (Setsockopt_rcvtimeo d x y)) = RInt 0"
  "answer stop_env l (Sys Epoll_create) = RInt 0" "answer stop_env l (Sys (Epoll_add ep d edge)) = RInt 0"
  "answer stop_env l (Sys (Fcntl_getfl d)) = RInt 0" "answer stop_env l (Sys (Fcntl_setfl_nonblock d fl)) = RInt 0"
  by (simp_all add: stop_env_def)

lemma wp_open: "wp (open_sockets serv_args) (\<lambda>p t. p = (4, 5) \<and> blocks t = blocks as_host \<and> nxt t = 1) stop_env as_host"
proof -
  have host: "get_str (blocks as_host) (Addr 0 0) = Inr (bytes_of ''0.0.0.0'')"
    by (simp add: get_str_def cells_of_def bytes_of_def as_host_def)
  have rd: "wp (read_str (Addr 0 0)) Q e s = Q (bytes_of ''0.0.0.0'') s" if "blocks s = blocks as_host" for Q e and s :: as_state
    using that host by (simp add: wp_def exec)
  show ?thesis
    by (simp add: open_sockets_def wp_eqs serv_args_def rd bind_or_exit_def Let_def) (simp add: as_host_def)
qed

lemma wp_accept:
  fixes s :: as_state
  shows "wp (accept_handler 0 4 ca) (\<lambda>r t. r = Some (sockaddr_of [2, 0, 0, 80, 10, 0, 0, 1]) \<and> blocks t = blocks s \<and> nxt t = nxt s) stop_env s"
  by (simp add: accept_handler_def wp_eqs puts_def last_addr_def)

lemma wp_client:
  fixes s :: as_state
  shows "wp (client_handler 0 9 (Some a)) (\<lambda>go t. \<not> go) stop_env s"
  apply (simp add: client_handler_def wp_eqs puts_def lua_do_def lua_test_def)
  done

lemma stop_run: "wp (serv_thread serv_args) (\<lambda>_ _. True) stop_env as_host"
  unfolding serv_thread_def
  apply (rule wp_bnd, rule wp_weaken [OF wp_open])
  apply (simp add: wp_eqs push_def lua_do_def watch_def)
  apply (rule wp_while_once, simp)
  apply (simp add: cycle_def wp_eqs puts_def handle_event_def)
  apply (rule wp_weaken [OF wp_accept])
  apply (simp add: wp_eqs handle_event_def)
  apply (rule wp_weaken [OF wp_client])
  apply (simp add: wp_eqs)
  done

theorem serv_thread_stops_by_script_witness: "\<exists>t. serv_thread serv_args stop_env as_host = (Ok (), t) \<and> \<not> serv_inited t"
  using wpD [OF stop_run] serv_thread_stops_by_script [of serv_args stop_env as_host] by auto

end
