(* ===== verification/Client_Props.thy ===== *)
theory Client_Props
  imports Client Async_Serv_Props Net_Unpack
begin

text \<open>
  The properties of the test client (\<open>Client\<close>) and of its composition with the network server:
  what the client reads in the server's echo and in its list of users is what the server wrote,
  as far as the splitting of the list gets; then the connection, the loop that forgets silent
  users, and instances.
\<close>

subsection \<open>Decimal numbers\<close>

lemma dec_nonempty [simp]: "dec n \<noteq> []"
  by (subst dec.simps) simp

lemma digits_of_dec: "foldl (\<lambda>n b. n * 10 + (int (unat b) - 48)) 0 (dec n) = int n"
proof (induction n rule: dec.induct)
  case (1 n)
  have digit: "unat (of_nat (48 + k) :: byte) = 48 + k" if "k < 10" for k :: nat
    using that by (simp only: unat_of_nat) simp
  show ?case
  proof (cases "n < 10")
    case True
    then have "dec n = [of_nat (48 + n)]"
      by (simp add: dec.simps [of n])
    then show ?thesis
      using digit [OF True] by (simp only: foldl.simps)
  next
    case False
    then have "dec n = dec (n div 10) @ [of_nat (48 + n mod 10)]"
      by (simp add: dec.simps [of n])
    moreover have "unat (of_nat (48 + n mod 10) :: byte) = 48 + n mod 10"
      by (rule digit) simp
    moreover have "int (n div 10) * 10 + int (n mod 10) = int n"
      by (simp add: zdiv_int zmod_int)
    ultimately show ?thesis
      using 1 False by (simp only: foldl_append foldl.simps) simp
  qed
qed

lemma dec_is_digit: "b \<in> set (dec n) \<Longrightarrow> is_digit b"
  using dec_digits by (simp add: is_digit_def)

lemma atoi_dec [simp]: "atoi (dec n) = int n"
proof -
  obtain b r where br: "dec n = b # r"
    by (cases "dec n") auto
  have "48 \<le> unat b" "unat b \<le> 57"
    using dec_digits [of b n] br by auto
  then have "b \<notin> set [32, 9, 10, 11, 12, 13]" "b \<noteq> 45" "b \<noteq> 43"
    by auto
  moreover have "takeWhile is_digit (dec n) = dec n"
    using dec_is_digit by (simp add: takeWhile_eq_all_conv)
  ultimately show ?thesis
    using br digits_of_dec [of n] by (simp add: atoi_def digits_val_def)
qed

subsection \<open>The address in the server's answer\<close>

lemma sz_add_small: "a + b < 2 ^ 64 \<Longrightarrow> sz_add a b = a + b"
  unfolding sz_add_def by (subst size_t_small) (simp_all add: nat_int_add)

lemma sz_sub_small: "b \<le> a \<Longrightarrow> a < 2 ^ 64 \<Longrightarrow> sz_sub a b = a - b"
  unfolding sz_sub_def by (subst size_t_small) (simp_all add: nat_diff_distrib)

lemma str_find_here: "c \<notin> set xs \<Longrightarrow> str_find c (xs @ c # ys) = length xs"
  by (simp add: str_find_def takeWhile_append_notin)

lemma self_address_reply:
  assumes ip: "COLON \<notin> set ip" "93 \<notin> set ip" and len: "length (udp_reply ip port msg) < 2 ^ 63"
  shows "self_address (udp_reply ip port msg) e s = (Ok (ip, dec port), s)"
proof -
  have notin: "COLON \<notin> set (dec port)" "93 \<notin> set (dec port)"
    using dec_digits [of COLON port] dec_digits [of 93 port] by auto
  have len': "length ip + length (dec port) + length msg + 6 < 2 ^ 63"
    using len by (simp only: udp_len)
  have c: "str_find COLON (udp_reply ip port msg) = length ip + 1"
    using str_find_here [of COLON "91 # ip"] ip by (simp add: udp_reply_def)
  have b: "str_find 93 (udp_reply ip port msg) = length ip + length (dec port) + 2"
    using str_find_here [of 93 "91 # ip @ COLON # dec port"] ip notin by (simp add: udp_reply_def)
  show ?thesis
    using len' by (simp add: self_address_def substr_def c b sz_add_small sz_sub_small exec udp_len Let_def) (simp add: udp_reply_def)
qed


subsection \<open>Splitting\<close>

lemma pieces_from_run:
  assumes "list_all2 (\<lambda>p q. get_str (blocks s) p = Inr q) (drop i ps) qs"
    and "blocks s a = Some (map PtrC ps)" "i \<le> length ps"
  shows "pieces_from (length qs) i (Addr a 0) e s = (Ok qs, s)"
  using assms
proof (induction qs arbitrary: i rule: list.induct)
  case Nil
  then show ?case
    by (simp add: exec)
next
  case (Cons q qs)
  have i: "i < length ps"
    using Cons.prems by (auto dest: list_all2_lengthD)
  then have d: "drop i ps = ps ! i # drop (Suc i) ps"
    by (rule Cons_nth_drop_Suc [symmetric])
  have p: "get_str (blocks s) (ps ! i) = Inr q"
    and r: "list_all2 (\<lambda>p q. get_str (blocks s) p = Inr q) (drop (Suc i) ps) qs"
    using Cons.prems(1) unfolding d by simp_all
  have "pieces_from (length qs) (Suc i) (Addr a 0) e s = (Ok qs, s)"
    using Cons.IH [OF r assms(2)] i by simp
  then show ?case
    using p i assms(2) by (simp add: exec get_ptr_block)
qed

lemma split_run:
  assumes al: "alloc_total e" and fr: "fresh s" and c: "c \<noteq> NUL"
    and buf: "get_str (blocks s) buf = Inr xs" "xs \<noteq> []"
    and qs: "qs = split_spec max_splitted c xs"
  shows "length qs \<le> 2 \<Longrightarrow> \<exists>t. split buf c (length xs) e s = (Ok qs, t) \<and> evs t = evs s"
    and "3 \<le> length qs \<Longrightarrow> last qs \<noteq> [] \<Longrightarrow> fst (split buf c (length xs) e s) = Err UseAfterFree"
proof -
  obtain m1 a1 ps1 where run: "split_msg buf c (length xs) e s = (Ok (Addr a1 0, length ps1),
       s\<lparr>blocks := m1(a1 \<mapsto> map PtrC ps1), nxt := nxt s + 2 + 2 * length ps1\<rparr>)"
    and ps: "pieces_in (blocks s) m1 (nxt s) ps1 qs" and a1: "m1 a1 = None"
    using split_msg_run [OF al c fr buf(1), of "length xs"] buf(2) qs by auto
  define u where "u = s\<lparr>blocks := m1(a1 \<mapsto> map PtrC ps1), nxt := nxt s + 2 + 2 * length ps1\<rparr>"
  have nz: "NUL \<notin> set q" if "q \<in> set qs" for q
    using split_spec_subset [of q max_splitted c xs] get_str_nonzero [OF buf(1)] that qs by auto
  have l2: "list_all2 (\<lambda>p q. \<exists>b. p = Addr b 0 \<and> b \<noteq> a1 \<and> blocks u b = Some (cstr q)) ps1 qs"
  proof (rule list_all2_mono)
    show "list_all2 (\<lambda>p q. \<exists>b\<ge>nxt s. p = Addr b 0 \<and> m1 b = Some (cstr q)) ps1 qs"
      using ps by (simp add: pieces_in_def)
    fix p q
    assume "\<exists>b\<ge>nxt s. p = Addr b 0 \<and> m1 b = Some (cstr q)"
    then obtain b where "p = Addr b 0" "m1 b = Some (cstr q)"
      by blast
    then show "\<exists>b. p = Addr b 0 \<and> b \<noteq> a1 \<and> blocks u b = Some (cstr q)"
      using a1 by (intro exI [of _ b]) (auto simp: u_def)
  qed
  have len: "length ps1 = length qs"
    using l2 by (rule list_all2_lengthD)
  have "list_all2 (\<lambda>p q. get_str (blocks u) p = Inr q) ps1 qs"
    unfolding list_all2_conv_all_nth
  proof (intro conjI allI impI)
    fix i
    assume i: "i < length ps1"
    then show "get_str (blocks u) (ps1 ! i) = Inr (qs ! i)"
      using list_all2_nthD [OF l2 i] nz [of "qs ! i"] len by (auto simp: get_str_block cstr_def)
  qed (rule len)
  then have pieces: "pieces_from (length qs) 0 (Addr a1 0) e u = (Ok qs, u)"
    by (intro pieces_from_run [where ps = ps1]) (simp_all add: u_def)
  have split: "split buf c (length xs) e s = cont (free_splitted (Addr a1 0) (length qs) e u) (\<lambda>_. ret qs e)"
    using pieces buf(2) len run [folded u_def] unfolding split_def by (simp add: exec)
  have ua: "blocks u a1 = Some (map PtrC ps1)" and ue: "evs u = evs s"
    by (simp_all add: u_def)
  show "\<exists>t. split buf c (length xs) e s = (Ok qs, t) \<and> evs t = evs s" if few: "length qs \<le> 2"
  proof (cases "length qs \<le> 1")
    case True
    then show ?thesis
      using split free_splitted_le1 [OF ua True] ue by (simp add: exec)
  next
    case False
    then obtain q0 q1 where q: "qs = [q0, q1]"
      using few by (cases qs rule: remdups_adj.cases) auto
    with l2 obtain b0 b1 where b: "ps1 = [Addr b0 0, Addr b1 0]" "blocks u b0 = Some (cstr q0)"
      "blocks u b1 = Some (cstr q1)" "a1 \<noteq> b0"
      by (auto simp: list_all2_Cons2)
    have "free_splitted (Addr a1 0) 2 e u = (Ok (), drop_block a1 (if q1 = [] then u else drop_block b0 u))"
      using b ua nz q by (intro free_splitted_two) (simp_all add: get_ptr_block)
    then show ?thesis
      using split ue q by (simp add: exec numeral_2_eq_2)
  qed
  show "fst (split buf c (length xs) e s) = Err UseAfterFree" if many: "3 \<le> length qs" "last qs \<noteq> []"
  proof -
    obtain n where n: "length qs = n + 3"
      using many(1) by (metis le_add_diff_inverse2)
    obtain b q where b: "ps1 ! (n + 1) = Addr b 0" "blocks u b = Some (cstr q)" "b \<noteq> a1"
      using list_all2_nthD2 [OF l2, of "n + 1"] n by auto
    obtain b' where b': "ps1 ! (n + 2) = Addr b' 0" "blocks u b' = Some (cstr (last qs))"
      using list_all2_nthD2 [OF l2, of "n + 2"] n last_conv_nth [of qs] many(1) by force
    have "last qs \<in> set qs"
      using many by (metis last_in_set list.size(3) not_numeral_le_zero)
    then have "NUL \<notin> set (last qs)"
      by (rule nz)
    then obtain x y where xy: "last qs = x # y" "x \<noteq> NUL"
      using many(2) by (cases "last qs") auto
    have "get_byte (blocks u) (Addr b' 0) = Inr x"
      using get_byte_block [of "blocks u" b' "cstr (last qs)" 0] b'(2) by (simp add: xy cstr_def)
    then have "free_splitted (Addr a1 0) (n + 3) e u = (Err UseAfterFree, drop_block b u)"
      using b b'(1) ua xy len n by (intro free_splitted_use_after_free) (simp_all add: get_ptr_block)
    then show ?thesis
      by (simp add: split n)
  qed
qed


subsection \<open>The list of users\<close>

definition entry :: "user \<Rightarrow> byte list" where
  "entry u = u_ip u @ [COLON] @ dec (u_port u)"

definition plain_ip :: "byte list \<Rightarrow> bool" where
  "plain_ip ip \<longleftrightarrow> NUL \<notin> set ip \<and> COLON \<notin> set ip \<and> SPLITADDRCHAR \<notin> set ip \<and> 93 \<notin> set ip"

lemma user_list_entries: "user_list us = concat (map (\<lambda>q. q @ [SPLITADDRCHAR]) (map entry us))"
  by (induction us) (simp_all add: user_list_def entry_def bytes_of_def)

lemma entry_clean: "plain_ip (u_ip u) \<Longrightarrow> NUL \<notin> set (entry u) \<and> SPLITADDRCHAR \<notin> set (entry u) \<and> entry u \<noteq> []"
  using dec_digits [of SPLITADDRCHAR "u_port u"] dec_digits [of 0 "u_port u"]
  by (auto simp: entry_def plain_ip_def)

lemma user_list_split:
  assumes "\<forall>u\<in>set us. plain_ip (u_ip u)" "length us \<le> max_splitted"
  shows "split_spec max_splitted SPLITADDRCHAR (user_list us) = map entry us"
  using split_spec_concat [of "map entry us" SPLITADDRCHAR max_splitted "[]"] assms entry_clean
  by (auto simp: user_list_entries)

lemma user_list_clean:
  assumes "\<forall>u\<in>set us. plain_ip (u_ip u)"
  shows "NUL \<notin> set (user_list us)" "us \<noteq> [] \<Longrightarrow> user_list us \<noteq> []"
  using assms entry_clean by (auto simp: user_list_entries)

text \<open>Claim C2: the list of users that the server sends comes back entry by entry in the client
  when it has one or two; an empty list, which the first user gets, makes the client declare an
  array of no elements; and with three or more users the client reads a piece of the message that
  it has freed.\<close>

theorem user_list_received:
  assumes "alloc_total e" "fresh s" "\<forall>u\<in>set us. plain_ip (u_ip u)" "length us \<le> 11"
  shows "fst (local_cells (map Byte (user_list us) @ [Byte NUL])
      (\<lambda>p. split p SPLITADDRCHAR (length (user_list us))) e s) =
    (if us = [] then Err ZeroSizeArray else if length us \<le> 2 then Ok (map entry us) else Err UseAfterFree)"
proof -
  let ?xs = "user_list us"
  let ?c = "map Byte ?xs @ [Byte NUL]"
  let ?s = "s\<lparr>blocks := (blocks s)(nxt s \<mapsto> ?c), nxt := Suc (nxt s)\<rparr>"
  have fr: "fresh ?s"
    using assms(2) by (auto simp: fresh_def less_Suc_eq)
  have str: "get_str (blocks ?s) (Addr (nxt s) 0) = Inr ?xs"
    using user_list_clean(1) [OF assms(3)] by (simp add: get_str_block)
  have run: "fst (local_cells ?c (\<lambda>p. split p SPLITADDRCHAR (length ?xs)) e s) =
      fst (split (Addr (nxt s) 0) SPLITADDRCHAR (length ?xs) e ?s)"
    by (simp add: local_cells_def local_arr_def new_block_def exec put_cells_def write_mem_def split: prod.split)
  show ?thesis
  proof (cases "us = []")
    case True
    then show ?thesis
      unfolding run using str assms(1)
      by (simp add: split_def split_msg_def exec user_list_def local_arr_def get_str_def cells_of_def)
  next
    case False
    have c: "SPLITADDRCHAR \<noteq> NUL"
      by simp
    have ne: "?xs \<noteq> []"
      using user_list_clean(2) [OF assms(3) False] .
    have qs: "map entry us = split_spec max_splitted SPLITADDRCHAR ?xs"
      using user_list_split [OF assms(3)] assms(4) by (simp add: max_splitted_def)
    have last: "last (map entry us) \<noteq> []"
      using entry_clean assms(3) False by (simp add: last_map)
    show ?thesis
      unfolding run using split_run [OF assms(1) fr c str ne qs] last False by (cases "length us \<le> 2") auto
  qed
qed

subsection \<open>Reading and writing\<close>

lemma cl_state_blocks [simp]:
  "m_sock_udp (new_block cs s) = m_sock_udp s" "m_sock_udp (drop_block b s) = m_sock_udp s"
  "m_sock_tcp (new_block cs s) = m_sock_tcp s" "m_sock_tcp (drop_block b s) = m_sock_tcp s"
  "users_map (new_block cs s) = users_map s" "users_map (drop_block b s) = users_map s"
  "m_addr (new_block cs s) = m_addr s" "m_addr (drop_block b s) = m_addr s"
  "serv_m_data (new_block cs s) = serv_m_data s" "serv_m_data (drop_block b s) = serv_m_data s"
  for s :: "'z cl_state_scheme"
  by (simp_all add: new_block_def drop_block_def)

text \<open>The server's side of a connection, and a peer with whom the client talks by UDP.\<close>

definition talks_udp :: "sock_data \<Rightarrow> sockaddr_in \<Rightarrow> bool" where
  "talks_udp sd a \<longleftrightarrow> m_adr sd = Some a \<and> m_socks sd \<and> (\<exists>ct. sd_contype sd = Some ct \<and> and ct con_udp = con_udp)"

abbreviation calls :: "'z cstate_scheme \<Rightarrow> call list" where
  "calls s \<equiv> map fst (events s)"

lemma sd_write_run:
  fixes s :: "'z cl_state_scheme"
  assumes "talks_udp sd a"
    and "\<And>l. answer e l (Sys (Sendto_in (m_sock_udp s) bs (sin_family a) (sin_port a) (s_addr a))) = RInt n" "0 \<le> n" "n < 2 ^ 31"
  shows "wp (sd_write sd bs False) (\<lambda>c t. c = n \<and> t = s\<lparr>evs := evs t\<rparr> \<and>
    calls t = calls s @ [Sys (Sendto_in (m_sock_udp s) bs (sin_family a) (sin_port a) (s_addr a))]) e s"
proof -
  obtain ct where sd: "m_adr sd = Some a" "m_socks sd" "sd_contype sd = Some ct" "and ct 4 = 4"
    using assms(1) by (auto simp: talks_udp_def)
  show ?thesis
    using assms(2-4) by (simp add: sd_write_def sock_of_def wp_eqs sd Let_def events_def)
qed

lemma sd_read_run:
  fixes s :: "'z cl_state_scheme"
  assumes "fresh s" "m_adr sd = Some a" "m_socks sd"
    and rcv: "\<And>l. answer e l (Sys (Recvfrom (m_sock_udp s) 1024 0)) = RFrom (int (length bs)) bs ab"
    and ab: "ab = [] \<or> sockaddr_of ab = a" and bs: "length bs < 1024" "NUL \<notin> set bs"
  shows "wp (sd_read sd 1024 False) (\<lambda>p t. fst p = bs \<and> m_peer_info (snd p) = m_peer_info sd \<and> t = s\<lparr>nxt := Suc (nxt s), evs := evs t\<rparr> \<and>
    calls t = calls s @ [Sys (Recvfrom (m_sock_udp s) 1024 0), Sys (Inet_addr (fst (m_peer_info sd)))]) e s"
proof -
  have mem: "(blocks s)(nxt s := None) = blocks s"
    using assms(1) by (simp add: fun_upd_idem)
  have mem': "(\<lambda>x. if x = nxt s then Some cs else blocks s x)(nxt s := None) = blocks s" for cs
    using assms(1) by (auto simp: fun_eq_iff)
  have str: "get_str m (Addr b 0) = Inr bs" if "m b = Some (map Byte bs @ replicate (1024 - length bs) (Byte NUL))" for m b
  proof -
    have "1024 - length bs = Suc (1023 - length bs)"
      using bs(1) by simp
    then have "replicate (1024 - length bs) (Byte NUL) = Byte NUL # replicate (1023 - length bs) (Byte NUL)"
      by (simp only: replicate_Suc)
    then show ?thesis
      using that bs(2) by (simp add: get_str_def cells_of_def scan_string)
  qed
  have tadr: "(if ab = [] then a else sockaddr_of ab) = a"
    using ab by auto
  have pos: "(c_int (int (length bs)) < 0) = False"
    using bs(1) by simp
  have rep: "replicate (1024 - length bs) (Byte NUL) = drop (length bs) (replicate 1024 (Byte NUL))"
    by simp
  show ?thesis
    unfolding sd_read_def sock_of_def new_sock_data_def
    apply (rule wp_local_arr, simp)
    apply (rule wp_bnd, rule wp_bzero, simp)
    apply (simp only: assms(3) if_True if_False, rule wp_bnd, rule wp_gets)
    apply (rule wp_bnd, rule wp_field, rule assms(2))
    apply (rule wp_bnd, rule wp_known [of _ _ _ "RFrom (int (length bs)) bs ab"])
     apply (simp add: rcv)
    apply (rule wp_bnd, rule wp_write_bytes)
    using bs apply simp
    apply (simp only: r_addr.simps r_int.simps r_bytes.simps tadr pos Let_def if_False not_True_eq_False refl)
    apply (rule wp_bnd, rule wp_bnd, rule wp_ext, rule wp_ret)
    apply (rule wp_bnd, rule wp_read_mem(1), rule str, simp)
    apply (rule wp_ret)
    apply (simp add: events_def drop_block_def new_block_def mem)
    done
qed


text \<open>The same with the log of the new state as a variable.\<close>

lemma sd_write_wp:
  fixes s :: "'z cl_state_scheme"
  assumes "talks_udp sd a"
    and "\<And>l. answer e l (Sys (Sendto_in (m_sock_udp s) bs (sin_family a) (sin_port a) (s_addr a))) = RInt n" "0 \<le> n" "n < 2 ^ 31"
    and "\<And>l. map fst (rev l) = calls s @ [Sys (Sendto_in (m_sock_udp s) bs (sin_family a) (sin_port a) (s_addr a))] \<Longrightarrow> Q n (s\<lparr>evs := l\<rparr>)"
  shows "wp (sd_write sd bs False) Q e s"
  by (rule wp_weaken [OF sd_write_run [OF assms(1-4)]]) (metis assms(5) events_def)

lemma sd_read_wp:
  fixes s :: "'z cl_state_scheme"
  assumes "fresh s" "m_adr sd = Some a" "m_socks sd"
    and "\<And>l. answer e l (Sys (Recvfrom (m_sock_udp s) 1024 0)) = RFrom (int (length bs)) bs ab"
    and "ab = [] \<or> sockaddr_of ab = a" and "length bs < 1024" "NUL \<notin> set bs"
    and "\<And>l sd'. map fst (rev l) = calls s @ [Sys (Recvfrom (m_sock_udp s) 1024 0), Sys (Inet_addr (fst (m_peer_info sd)))] \<Longrightarrow>
      m_peer_info sd' = m_peer_info sd \<Longrightarrow> Q (bs, sd') (s\<lparr>nxt := Suc (nxt s), evs := l\<rparr>)"
  shows "wp (sd_read sd 1024 False) Q e s"
  by (rule wp_weaken [OF sd_read_run [OF assms(1-7)]]) (metis assms(8) events_def prod.collapse)

subsection \<open>Binding to the address that the server sees\<close>

lemma print_run:
  "(\<And>r. Q () (s\<lparr>evs := (Libc (Printf ''%s'' bs), r) # evs s\<rparr>)) \<Longrightarrow> wp (print bs) Q e s"
  unfolding print_def by (rule wp_bnd, rule wp_ext, rule wp_ret)

text \<open>Claim C7: the client binds its new socket to the very address and port from which the
  server got its datagram, as the server wrote them into its echo, and closes the old socket once.\<close>

theorem self_bind_binds_seen_address:
  fixes s :: "'z cl_state_scheme"
  assumes "fresh s" and sd: "talks_udp (serv_m_data s) a"
    and sock: "\<And>l. answer e l (Sys (Socket ''SOCK_DGRAM'')) = RInt sk" "0 < sk"
    and snd: "\<And>l. answer e l (Sys (Sendto_in (m_sock_udp s) (bytes_of ''getmypeerinfo'' @ [LF]) (sin_family a) (sin_port a) (s_addr a))) = RInt 14"
    and rcv: "\<And>l. answer e l (Sys (Recvfrom (m_sock_udp s) 1024 0)) = RFrom (int (length (udp_reply ip port msg))) (udp_reply ip port msg) ab"
    and ab: "ab = [] \<or> sockaddr_of ab = a" and len: "length (udp_reply ip port msg) < 1024"
    and ip: "plain_ip ip" "NUL \<notin> set msg" "port < 2 ^ 16"
    and ia: "\<And>l. answer e l (Sys (Inet_addr ip)) = RInt i" "\<And>l f p a. answer e l (Sys (Bind_in sk f p a)) = RInt 0"
  shows "\<exists>t. self_bind e s = (Ok (), t) \<and> m_sock_udp t = sk \<and> blocks t = blocks s \<and>
    m_addr t = Some \<lparr>sin_family = AF_INET, sin_port = htons port, s_addr = c_uint i\<rparr> \<and>
    filter (\<lambda>c. \<exists>k. c = Sys (Close k) \<or> (\<exists>f p a. c = Sys (Bind_in k f p a))) (calls t) =
      filter (\<lambda>c. \<exists>k. c = Sys (Close k) \<or> (\<exists>f p a. c = Sys (Bind_in k f p a))) (calls s) @
        [Sys (Close (m_sock_udp s)), Sys (Bind_in sk AF_INET (htons port) (c_uint i))]"
proof -
  let ?f = "filter (\<lambda>c. \<exists>k. c = Sys (Close k) \<or> (\<exists>f p a. c = Sys (Bind_in k f p a)))"
  let ?reply = "udp_reply ip port msg"
  let ?a = "\<lparr>sin_family = AF_INET, sin_port = htons port, s_addr = c_uint i\<rparr>"
  have m: "m_adr (serv_m_data s) = Some a" "m_socks (serv_m_data s)"
    using sd by (auto simp: talks_udp_def)
  have nz: "NUL \<notin> set ?reply"
    using ip by (simp add: plain_ip_def udp_nonzero)
  have port: "nat (int port mod 65536) = port"
    using ip(3) by simp
  have adr: "wp (self_address ?reply) Q e u" if "Q (ip, dec port) u" for Q and u :: "'z cl_state_scheme"
    using self_address_reply [of ip port msg e u] that ip(1) len by (simp add: wp_def plain_ip_def)
  have "wp self_bind (\<lambda>_ t. m_sock_udp t = sk \<and> blocks t = blocks s \<and> m_addr t = Some ?a \<and>
    ?f (calls t) = ?f (calls s) @ [Sys (Close (m_sock_udp s)), Sys (Bind_in sk AF_INET (htons port) (c_uint i))]) e s"
    unfolding self_bind_def serv_write_def serv_read_def cl_close_def
    apply (rule wp_bnd, rule wp_known [OF sock(1)], rule wp_let)
    using sock(2) apply (simp only: r_int.simps not_less [symmetric] not_True_eq_False if_False)
    apply (rule wp_bnd, rule wp_bnd, rule wp_gets)
    apply (rule sd_write_wp [where a = a and n = 14])
    using sd apply simp
    using snd apply simp
    apply simp
    apply simp
    apply (rule wp_bnd, rule wp_bnd, rule wp_gets)
    apply (rule sd_read_wp [where a = a and ab = ab and bs = ?reply])
    using assms(1) apply (simp add: fresh_def)
    using m apply simp
    using m apply simp
    using rcv apply simp
    apply (rule ab)
    apply (rule len)
    apply (rule nz)
    apply (simp only: prod.case)
    apply (rule wp_bnd, rule print_run)
    apply (rule wp_bnd, rule print_run)
    apply (rule wp_bnd, rule adr, simp only: prod.case)
    apply (rule wp_bnd, rule print_run)
    apply (rule wp_bnd, rule print_run)
    apply (rule wp_bnd, rule wp_known [OF ia(1)], rule wp_let)
    apply (rule wp_bnd, rule wp_modify)
    apply (rule wp_bnd, rule wp_gets)
    apply (rule wp_bnd, rule wp_bnd, rule wp_ext, rule wp_ret)
    apply (rule wp_bnd, rule wp_known [OF ia(2)])
    apply (simp add: port wp_state_eqs events_def)
    done
  then show ?thesis
    by (auto dest!: wpD)
qed

subsection \<open>Pinging the users\<close>

lemma wp_try_ok: "wp m Q e s \<Longrightarrow> wp (try_std m) Q e s"
  by (auto simp: wp_def try_std_def)

lemma wp_try_catch: "m e s = (Err (Thrown w), t) \<Longrightarrow> wp (print (bytes_of w)) Q e t \<Longrightarrow> wp (try_std m) Q e s"
  by (simp add: wp_def try_std_def)

definition peer_addr :: "nat \<Rightarrow> int \<Rightarrow> sockaddr_in" where
  "peer_addr port i = \<lparr>sin_family = AF_INET, sin_port = htons port, s_addr = c_uint i\<rparr>"

lemma user_address_entry:
  assumes "plain_ip (u_ip u)" "length (u_ip u) < 2 ^ 62"
  shows "user_address (entry u) e s = (Ok (u_ip u, dec (u_port u)), s)"
proof -
  have f: "str_find COLON (entry u) = length (u_ip u)"
    using str_find_here [of COLON "u_ip u" "dec (u_port u)"] assms(1) by (simp add: entry_def plain_ip_def)
  have a: "sz_add (length (u_ip u)) 1 = length (u_ip u) + 1"
    using assms(2) by (intro sz_add_small) simp
  show ?thesis
    unfolding user_address_def f a by (simp add: substr_def exec) (simp add: entry_def)
qed

abbreviation sendings :: "'z cstate_scheme \<Rightarrow> call list" where
  "sendings s \<equiv> filter (\<lambda>c. \<exists>d x f p a. c = Sys (Sendto_in d x f p a)) (calls s)"

lemma sd_read_fails:
  fixes s :: "'z cl_state_scheme"
  assumes "fresh s" "m_adr sd = Some a" "m_socks sd"
    and rcv: "answer e (evs s) (Sys (Recvfrom (m_sock_udp s) 1024 0)) = RFrom (- 1) [] ab"
  shows "sd_read sd 1024 False e s = (Err (Thrown ''Can't recv from peer''),
    s\<lparr>nxt := Suc (nxt s), evs := (Sys (Recvfrom (m_sock_udp s) 1024 0), RFrom (- 1) [] ab) # evs s\<rparr>)"
proof -
  have mem: "(\<lambda>x. if x = nxt s then Some cs else blocks s x)(nxt s := None) = blocks s" for cs
    using assms(1) by (auto simp: fun_eq_iff)
  have mem': "(blocks s)(nxt s := None) = blocks s"
    using assms(1) by (simp add: fun_upd_idem)
  show ?thesis
    by (simp add: sd_read_def sock_of_def assms(2,3) local_arr_def exec rcv Let_def)
      (simp add: drop_block_def new_block_def mem mem')
qed

text \<open>A datagram from anyone is read up to its first zero.\<close>

lemma scan_datagram: "scan (map Byte bs @ Byte NUL # cs) = Inr (takeWhile (\<lambda>b. b \<noteq> NUL) bs)"
  by (induction bs) auto

lemma sd_read_any:
  fixes s :: "'z cl_state_scheme"
  assumes "fresh s" "m_adr sd = Some a" "m_socks sd"
    and rcv: "answer e (evs s) (Sys (Recvfrom (m_sock_udp s) 1024 0)) = RFrom (int (length bs)) bs ab" and bs: "length bs < 1024"
  shows "wp (sd_read sd 1024 False) (\<lambda>p t. fst p = takeWhile (\<lambda>b. b \<noteq> NUL) bs \<and>
    t = s\<lparr>nxt := Suc (nxt s), evs := evs t\<rparr> \<and> sendings t = sendings s) e s"
proof -
  have mem: "(blocks s)(nxt s := None) = blocks s"
    using assms(1) by (simp add: fun_upd_idem)
  have str: "get_str m (Addr b 0) = Inr (takeWhile (\<lambda>b. b \<noteq> NUL) bs)"
    if "m b = Some (map Byte bs @ replicate (1024 - length bs) (Byte NUL))" for m b
  proof -
    have "1024 - length bs = Suc (1023 - length bs)"
      using bs by simp
    then have "replicate (1024 - length bs) (Byte NUL) = Byte NUL # replicate (1023 - length bs) (Byte NUL)"
      by (simp only: replicate_Suc)
    then show ?thesis
      using that by (simp add: get_str_def cells_of_def scan_datagram)
  qed
  have pos: "(c_int (int (length bs)) < 0) = False"
    using bs by simp
  show ?thesis
    unfolding sd_read_def sock_of_def new_sock_data_def
    apply (rule wp_local_arr, simp)
    apply (rule wp_bnd, rule wp_bzero, simp)
    apply (simp only: assms(3) if_True if_False, rule wp_bnd, rule wp_gets)
    apply (rule wp_bnd, rule wp_field, rule assms(2))
    apply (rule wp_bnd, rule wp_known [of _ _ _ "RFrom (int (length bs)) bs ab"])
     apply (simp add: rcv)
    apply (rule wp_bnd, rule wp_write_bytes)
    using bs apply simp
    apply (simp only: r_int.simps r_bytes.simps pos Let_def if_False)
    apply (rule wp_bnd, rule wp_if)
     apply (rule wp_bnd, rule wp_ext, rule wp_bnd, rule wp_ext, rule wp_ret)
     apply (rule wp_bnd, rule wp_read_mem(1), rule str, simp)
     apply (rule wp_ret)
     apply (simp add: events_def drop_block_def new_block_def mem)
    apply (rule wp_bnd, rule wp_ext, rule wp_ret)
    apply (rule wp_bnd, rule wp_read_mem(1), rule str, simp)
    apply (rule wp_ret)
    apply (simp add: events_def drop_block_def new_block_def mem)
    done
qed

text \<open>The steps of a ping.\<close>

lemma user_address_wp:
  assumes "plain_ip (u_ip u)" "length (u_ip u) < 2 ^ 62" "Q (u_ip u, dec (u_port u)) v"
  shows "wp (user_address (entry u)) Q e v"
  using user_address_entry [OF assms(1,2), of e v] assms(3) by (simp add: wp_def)

lemma new_sock_data_wp:
  fixes v :: "'z cl_state_scheme"
  assumes "\<And>l. answer e l (Sys (Inet_addr ip)) = RInt i"
    and "\<And>l. map fst (rev l) = calls v @ [Sys (Inet_addr ip)] \<Longrightarrow> Q \<lparr>m_adr = Some (peer_addr p i), m_socks = True,
      pinged = None, m_peer_info = (ip, p), sd_contype = Some ty\<rparr> (v\<lparr>evs := l\<rparr>)"
  shows "wp (new_sock_data (ip, p) ty) Q e v"
  unfolding new_sock_data_def fst_conv snd_conv
  by (rule wp_bnd, rule wp_known [OF assms(1)], rule wp_ret) (use assms(2) in \<open>simp add: peer_addr_def events_def\<close>)

lemma set_timeout_run:
  fixes v :: "'z cl_state_scheme"
  assumes "m_socks sd"
  shows "sd_set_timeout sd a b False e v = (Ok (), v\<lparr>evs := (Sys (Setsockopt_rcvtimeo (m_sock_udp v) a b),
    answer e (evs v) (Sys (Setsockopt_rcvtimeo (m_sock_udp v) a b))) # evs v\<rparr>)"
  using assms by (simp add: sd_set_timeout_def sock_of_def exec)

text \<open>What \<open>recvfrom\<close> answers: a datagram from anyone that leaves room for the terminator, or a failure.\<close>

definition datagram :: "reply \<Rightarrow> bool" where
  "datagram r \<longleftrightarrow> (\<exists>n bs ab. r = RFrom n bs ab \<and> (n = int (length bs) \<and> length bs < 1024 \<or> n = - 1 \<and> bs = []))"

abbreviation answered :: "reply \<Rightarrow> bool" where
  "answered r \<equiv> takeWhile (\<lambda>b. b \<noteq> NUL) (r_bytes r) \<noteq> []"

text \<open>An answer is stored with its time; without one the exception ends the wait.\<close>

lemma ping_answered:
  fixes v :: "'z cl_state_scheme"
  assumes v: "fresh v" and sd: "m_adr sd = Some a" "m_socks sd"
    and rcv: "\<And>l. datagram (answer e l (Sys (Recvfrom (m_sock_udp v) 1024 0)))"
  shows "wp (try_std (bnd (sd_set_timeout sd 1 0 False) (\<lambda>_. bnd (sd_read sd 1024 False) (\<lambda>(r, _).
       if r = [] then ret () else bnd (ext (Libc Time)) (\<lambda>now.
       modify (users_map_update (AList.update p (sd\<lparr>pinged := Some (r_int now)\<rparr>))))))))
    (\<lambda>_ t. fresh t \<and> blocks t = blocks v \<and> m_sock_udp t = m_sock_udp v \<and> sendings t = sendings v \<and>
      (\<exists>l l'. users_map t = (if answered (answer e l (Sys (Recvfrom (m_sock_udp v) 1024 0)))
         then AList.update p (sd\<lparr>pinged := Some (r_int (answer e l' (Libc Time)))\<rparr>) (users_map v) else users_map v))) e v"
proof -
  let ?ev = "(Sys (Setsockopt_rcvtimeo (m_sock_udp v) 1 0), answer e (evs v) (Sys (Setsockopt_rcvtimeo (m_sock_udp v) 1 0)))"
  let ?u = "v\<lparr>evs := ?ev # evs v\<rparr>"
  let ?r = "answer e (evs ?u) (Sys (Recvfrom (m_sock_udp v) 1024 0))"
  have u: "fresh ?u"
    using v by (simp add: fresh_def)
  obtain n bs ab where r: "?r = RFrom n bs ab" "n = int (length bs) \<and> length bs < 1024 \<or> n = - 1 \<and> bs = []"
    using rcv [of "evs ?u"] unfolding datagram_def by blast
  have sends: "sendings ?u = sendings v"
    by (simp add: events_def)
  show ?thesis
  proof (cases "n = - 1")
    case False
    then have n: "?r = RFrom (int (length bs)) bs ab" "length bs < 1024"
      using r by auto
    have "wp (sd_read sd 1024 False) (\<lambda>p t. fst p = takeWhile (\<lambda>b. b \<noteq> NUL) bs \<and>
        t = ?u\<lparr>nxt := Suc (nxt ?u), evs := evs t\<rparr> \<and> sendings t = sendings ?u) e ?u"
      by (rule sd_read_any [OF u sd]) (use n in simp_all)
    then obtain x w where w: "sd_read sd 1024 False e ?u = (Ok x, w)" "fst x = takeWhile (\<lambda>b. b \<noteq> NUL) bs"
      "w = ?u\<lparr>nxt := Suc (nxt ?u), evs := evs w\<rparr>" "sendings w = sendings v"
      unfolding wp_def sends by blast
    have "fresh w"
      by (subst w(3)) (use v in \<open>auto simp: fresh_def less_Suc_eq\<close>)
    moreover have "blocks w = blocks v" "m_sock_udp w = m_sock_udp v" "users_map w = users_map v"
      by (subst w(3), simp)+
    ultimately have kept: "fresh w" "blocks w = blocks v" "m_sock_udp w = m_sock_udp v" "users_map w = users_map v"
      by blast+
    show ?thesis
      apply (rule wp_try_ok, rule wp_bnd, rule wp_run, rule set_timeout_run [OF sd(2)])
      apply (rule wp_bnd, rule wp_run, rule w(1), rule wp_case_prod)
      apply (rule wp_if)
       apply (rule wp_ret)
       apply (intro conjI kept w(4), rule exI [of _ "evs ?u"], rule exI [of _ "evs w"])
       apply (use kept w(2) r in simp)
      apply (rule wp_bnd, rule wp_ext, rule wp_modify)
      apply (intro conjI)
          apply (use kept(1) in \<open>simp add: fresh_def\<close>)
         apply (use kept w(4) in \<open>simp_all add: events_def\<close>)[3]
      apply (rule exI [of _ "evs ?u"], rule exI [of _ "evs w"])
      apply (use kept w(2) r in simp)
      done
  next
    case True
    then have r': "?r = RFrom (- 1) [] ab"
      using r by auto
    have rd: "sd_read sd 1024 False e ?u = (Err (Thrown ''Can't recv from peer''),
        ?u\<lparr>nxt := Suc (nxt ?u), evs := (Sys (Recvfrom (m_sock_udp ?u) 1024 0), RFrom (- 1) [] ab) # evs ?u\<rparr>)"
      by (rule sd_read_fails [OF u sd]) (use r' in simp)
    show ?thesis
      apply (rule wp_try_catch)
       apply (simp only: run_bnd set_timeout_run [OF sd(2)] rd cont.simps)
      apply (rule print_run)
      apply (intro conjI)
          apply (use v in \<open>simp_all add: fresh_def events_def less_Suc_eq\<close>)[4]
      apply (rule exI [of _ "evs ?u"], rule exI [of _ "evs v"])
      apply (use r' in simp)
      done
  qed
qed

text \<open>One ping: the datagram to the user's address and what is stored.\<close>

lemma ping_user_run:
  fixes s :: "'z cl_state_scheme"
  assumes "fresh s" and u: "plain_ip (u_ip u)" "length (u_ip u) < 2 ^ 62" "u_port u < 2 ^ 16"
    and ia: "\<And>l. answer e l (Sys (Inet_addr (u_ip u))) = RInt i"
    and snd: "\<And>l. answer e l (Sys (Sendto_in (m_sock_udp s) conUserData AF_INET (htons (u_port u)) (c_uint i))) = RInt 6"
    and rcv: "\<And>l. datagram (answer e l (Sys (Recvfrom (m_sock_udp s) 1024 0)))"
  shows "\<exists>t l l'. ping_user (entry u) e s = (Ok (), t) \<and> fresh t \<and> blocks t = blocks s \<and> m_sock_udp t = m_sock_udp s \<and>
    sendings t = sendings s @ [Sys (Sendto_in (m_sock_udp s) conUserData AF_INET (htons (u_port u)) (c_uint i))] \<and>
    users_map t = (if answered (answer e l (Sys (Recvfrom (m_sock_udp s) 1024 0)))
      then AList.update (u_ip u, u_port u)
        \<lparr>m_adr = Some (peer_addr (u_port u) i), m_socks = True, pinged = Some (r_int (answer e l' (Libc Time))),
         m_peer_info = (u_ip u, u_port u), sd_contype = Some con_udp\<rparr> (users_map s)
      else users_map s)"
proof -
  let ?sd = "\<lparr>m_adr = Some (peer_addr (u_port u) i), m_socks = True, pinged = None, m_peer_info = (u_ip u, u_port u),
       sd_contype = Some con_udp\<rparr>"
  have port: "nat (int (u_port u) mod 2 ^ 16) = u_port u"
    using u(3) by simp
  have udp: "talks_udp ?sd (peer_addr (u_port u) i)"
    by (simp add: talks_udp_def)
  have "wp (ping_user (entry u)) (\<lambda>_ t. fresh t \<and> blocks t = blocks s \<and> m_sock_udp t = m_sock_udp s \<and>
    sendings t = sendings s @ [Sys (Sendto_in (m_sock_udp s) conUserData AF_INET (htons (u_port u)) (c_uint i))] \<and>
    (\<exists>l l'. users_map t = (if answered (answer e l (Sys (Recvfrom (m_sock_udp s) 1024 0)))
      then AList.update (u_ip u, u_port u) (?sd\<lparr>pinged := Some (r_int (answer e l' (Libc Time)))\<rparr>) (users_map s)
      else users_map s))) e s"
    unfolding ping_user_def
    apply (rule wp_bnd, rule print_run)
    apply (rule wp_bnd, rule user_address_wp [OF u(1,2)], simp only: prod.case)
    apply (rule wp_bnd, rule print_run)
    apply (rule wp_bnd, rule print_run)
    apply (simp only: atoi_dec port Let_def)
    apply (rule wp_bnd, rule new_sock_data_wp [OF ia])
    apply (rule wp_bnd, rule sd_write_wp [OF udp])
    using snd apply (simp add: peer_addr_def)
    apply simp
    apply simp
    apply (rule wp_weaken, rule ping_answered)
    using assms(1) rcv apply (simp_all add: fresh_def)[4]
    apply (simp add: events_def peer_addr_def cong: if_cong split del: if_split)
    done
  then show ?thesis
    by (fastforce dest!: wpD)
qed

text \<open>Claim C21: for an entry of the server's list the client sends its ping to the user's address and port, once. If a
  datagram then comes in, from whomever, with a text (a byte before its first zero), the user is stored under his address
  and port with the time; if it has none, or if \<open>recvfrom\<close> fails, which throws an exception that is caught, the users
  stay as they are. Who sent the datagram is not looked at.\<close>

theorem ping_user_stores_answering:
  fixes s :: "'z cl_state_scheme"
  assumes "fresh s" and u: "plain_ip (u_ip u)" "length (u_ip u) < 2 ^ 62" "u_port u < 2 ^ 16"
    and ia: "\<And>l. answer e l (Sys (Inet_addr (u_ip u))) = RInt i"
    and snd: "\<And>l. answer e l (Sys (Sendto_in (m_sock_udp s) conUserData AF_INET (htons (u_port u)) (c_uint i))) = RInt 6"
    and rcv: "\<And>l. answer e l (Sys (Recvfrom (m_sock_udp s) 1024 0)) = RFrom n bs ab"
    and n: "n = int (length bs) \<and> length bs < 1024 \<or> n = - 1 \<and> bs = []"
    and now: "\<And>l. answer e l (Libc Time) = RInt now"
  shows "\<exists>t. ping_user (entry u) e s = (Ok (), t) \<and> blocks t = blocks s \<and>
    users_map t = (if takeWhile (\<lambda>b. b \<noteq> NUL) bs = [] then users_map s else AList.update (u_ip u, u_port u)
      \<lparr>m_adr = Some (peer_addr (u_port u) i), m_socks = True, pinged = Some now, m_peer_info = (u_ip u, u_port u),
       sd_contype = Some con_udp\<rparr> (users_map s)) \<and>
    filter (\<lambda>c. \<exists>d x f p a. c = Sys (Sendto_in d x f p a)) (calls t) =
      filter (\<lambda>c. \<exists>d x f p a. c = Sys (Sendto_in d x f p a)) (calls s) @
        [Sys (Sendto_in (m_sock_udp s) conUserData AF_INET (htons (u_port u)) (c_uint i))]"
proof -
  have "datagram (answer e l (Sys (Recvfrom (m_sock_udp s) 1024 0)))" for l
    using rcv n by (auto simp: datagram_def)
  from ping_user_run [OF assms(1) u ia snd this] show ?thesis
    by (auto simp: rcv now)
qed

lemma htons_htons: "n < 2 ^ 16 \<Longrightarrow> htons (htons n) = n"
proof -
  assume n: "n < 2 ^ 16"
  then have d: "n div 256 < 256"
    by simp
  have "htons n div 256 = n mod 256" "htons n mod 256 = n div 256"
    using d by (simp_all add: htons_def)
  then show ?thesis
    unfolding htons_def [of "htons n"] using d by simp
qed

lemma htons_less: "htons n < 2 ^ 16"
  by (simp add: htons_def)

text \<open>
  \<open>inet_ntoa\<close> and \<open>inet_addr\<close> are external: \<open>ntoa\<close> is the text that the server gets for an address, and the
  client reads it back to the same address.
\<close>

definition reads_back :: "env \<Rightarrow> (nat \<Rightarrow> byte list) \<Rightarrow> bool" where
  "reads_back e ntoa \<longleftrightarrow> (\<forall>a<2 ^ 32. plain_ip (ntoa a) \<and> length (ntoa a) < 16 \<and>
     (\<exists>i. c_uint i = a \<and> (\<forall>l. answer e l (Sys (Inet_addr (ntoa a))) = RInt i)))"

definition inet_address :: "sockaddr_in \<Rightarrow> bool" where
  "inet_address a \<longleftrightarrow> sin_family a = AF_INET \<and> sin_port a < 2 ^ 16 \<and> s_addr a < 2 ^ 32"

lemma ping_users_run:
  fixes c :: "'z cl_state_scheme"
  assumes "reads_back e ntoa" "\<forall>u\<in>set us. inet_address (u_in u) \<and> u_ip u = ntoa (s_addr (u_in u)) \<and> u_port u = htons (sin_port (u_in u))"
    and snd: "\<And>l f p a. answer e l (Sys (Sendto_in d conUserData f p a)) = RInt 6"
    and rcv: "\<And>l. datagram (answer e l (Sys (Recvfrom d 1024 0)))"
  shows "fresh c \<Longrightarrow> m_sock_udp c = d \<Longrightarrow> \<exists>t. ping_users (map entry us) e c = (Ok (), t) \<and> blocks t = blocks c \<and>
    sendings t = sendings c @ map (\<lambda>u. Sys (Sendto_in d conUserData (sin_family (u_in u)) (sin_port (u_in u)) (s_addr (u_in u)))) us"
  using assms(2)
proof (induction us arbitrary: c)
  case Nil
  then show ?case
    by (simp add: exec)
next
  case (Cons u us)
  let ?a = "u_in u"
  have u: "sin_family ?a = AF_INET" "sin_port ?a < 2 ^ 16" "s_addr ?a < 2 ^ 32" "u_ip u = ntoa (s_addr ?a)" "u_port u = htons (sin_port ?a)"
    using Cons.prems(3) by (auto simp: inet_address_def)
  obtain i where i: "\<And>l. answer e l (Sys (Inet_addr (u_ip u))) = RInt i" "c_uint i = s_addr ?a"
    using assms(1) u(3,4) unfolding reads_back_def by metis
  have ip: "plain_ip (u_ip u)" "length (u_ip u) < 2 ^ 62" "u_port u < 2 ^ 16"
    using assms(1) u(3-5) htons_less unfolding reads_back_def by (auto intro: less_trans [of _ 16])
  obtain t where t: "ping_user (entry u) e c = (Ok (), t)" "fresh t" "blocks t = blocks c" "m_sock_udp t = m_sock_udp c"
    "sendings t = sendings c @ [Sys (Sendto_in (m_sock_udp c) conUserData AF_INET (htons (u_port u)) (c_uint i))]"
    using ping_user_run [of c u e i] Cons.prems(1,2) ip i(1) snd rcv by blast
  have to: "htons (u_port u) = sin_port ?a"
    using u(2,5) htons_htons by simp
  obtain w where "ping_users (map entry us) e t = (Ok (), w)" "blocks w = blocks t"
    "sendings w = sendings t @ map (\<lambda>u. Sys (Sendto_in d conUserData (sin_family (u_in u)) (sin_port (u_in u)) (s_addr (u_in u)))) us"
    using Cons.IH [OF t(2)] t(4) Cons.prems(2,3) by auto
  then show ?case
    using t u(1) i(2) to Cons.prems(2) by (simp add: exec)
qed

text \<open>Claim C22: whatever the server has served before, the client that pings the entries of its list of users sends one
  ping to each of them, in the order of the list and to exactly the address, port and family from which that user sent his
  datagram to the server: the text of the address and the port that the server stores are read back by the client.\<close>

theorem pings_go_to_senders:
  fixes s t :: "'y as_state_scheme" and c :: "'z cl_state_scheme"
  assumes "serves es ep md udp s ca t" "users s = []" "\<forall>u\<in>set (users t). inet_address (u_in u)"
    and "\<And>a r. (Sys (Inet_ntoa a), r) \<in> set (evs t) \<Longrightarrow> r_bytes r = ntoa a" "reads_back e ntoa"
    and "fresh c" "m_sock_udp c = d"
    and "\<And>l f p a. answer e l (Sys (Sendto_in d conUserData f p a)) = RInt 6"
    and "\<And>l. datagram (answer e l (Sys (Recvfrom d 1024 0)))"
  shows "\<exists>c'. ping_users (map entry (users t)) e c = (Ok (), c') \<and> blocks c' = blocks c \<and>
    filter (\<lambda>c. \<exists>d x f p a. c = Sys (Sendto_in d x f p a)) (calls c') =
      filter (\<lambda>c. \<exists>d x f p a. c = Sys (Sendto_in d x f p a)) (calls c) @
        map (\<lambda>u. Sys (Sendto_in d conUserData (sin_family (u_in u)) (sin_port (u_in u)) (s_addr (u_in u)))) (users t)"
proof -
  have "users_ok (users t)" "users_named t"
    using serves_users_ok [OF assms(1)] serves_users_named [OF assms(1)] assms(2) by (simp_all add: users_ok_def users_named_def)
  then have "\<forall>u\<in>set (users t). inet_address (u_in u) \<and> u_ip u = ntoa (s_addr (u_in u)) \<and> u_port u = htons (sin_port (u_in u))"
    using assms(3,4) unfolding users_ok_def users_named_def by metis
  from ping_users_run [OF assms(5) this assms(8,9,6,7)] show ?thesis .
qed

lemma cl_contype_blocks [simp]:
  "m_contype (new_block cs s) = m_contype s" "m_contype (drop_block b s) = m_contype s"
  for s :: "'z cl_state_scheme"
  by (simp_all add: new_block_def drop_block_def)

subsection \<open>Connecting\<close>

text \<open>Claim C35: the client closes exactly the sockets that it opened and could not connect, once each,
  and gives up with an exception only when neither is left.\<close>

theorem serv_data_sockets:
  fixes s :: "'z cl_state_scheme"
  assumes u: "\<And>l. answer e l (Sys (Socket ''SOCK_DGRAM'')) = RInt u" and t: "\<And>l. answer e l (Sys (Socket ''SOCK_STREAM'')) = RInt k"
    and ne: "u \<noteq> k" "length host < 200" "port < 2 ^ 16"
    and cu: "\<And>l f p a. answer e l (Sys (Connect_in u f p a)) = RInt cu" "- (2 ^ 31) \<le> cu" "cu < 2 ^ 31"
    and ct: "\<And>l f p a. answer e l (Sys (Connect_in k f p a)) = RInt ct" "- (2 ^ 31) \<le> ct" "ct < 2 ^ 31"
  shows "(\<exists>t. serv_data host port e s =
      (if u \<le> 0 \<or> k \<le> 0 then Err (Thrown ''Can't init sockets'') else if cu < 0 \<and> ct < 0 then Err (Thrown ''Can't connect'') else Ok (), t) \<and>
    (0 < u \<and> 0 < k \<longrightarrow> m_contype t = (if cu < 0 then 0 else con_udp) + (if ct < 0 then 0 else con_tcp)) \<and>
    filter (\<lambda>c. \<exists>d. c = Sys (Close d)) (calls t) = filter (\<lambda>c. \<exists>d. c = Sys (Close d)) (calls s) @
      (if u \<le> 0 \<or> k \<le> 0 then (if 0 < u then [Sys (Close u)] else []) @ (if 0 < k then [Sys (Close k)] else [])
       else (if cu < 0 then [Sys (Close u)] else []) @ (if ct < 0 then [Sys (Close k)] else [])))"
proof -
  have len: "length (bytes_of ''Can't connect to '' @ host @ [COLON] @ dec port @ [LF, 0, NUL]) \<le> 256"
    using ne(2) length_dec_port [of port] ne(3) by simp
  show ?thesis
  proof (cases "u \<le> 0 \<or> k \<le> 0")
    case True
    then show ?thesis
      by (auto simp: serv_data_def close_opened_def cl_close_def exec u t events_def)
  next
    case False
    then show ?thesis
      using cu(2,3) ct(2,3) len
      by (auto simp: serv_data_def connect_or_close_def cl_close_def print_def exec u t cu(1) ct(1) Let_def events_def local_arr_def)
  qed
qed


subsection \<open>Forgetting silent users\<close>

definition silent :: "int \<Rightarrow> int \<Rightarrow> peer \<times> sock_data \<Rightarrow> bool" where
  "silent now sec u \<longleftrightarrow> now - the (pinged (snd u)) > sec"

definition all_pinged :: "'z cl_state_scheme \<Rightarrow> bool" where
  "all_pinged s \<longleftrightarrow> distinct (map fst (users_map s)) \<and> (\<forall>u\<in>set (users_map s). pinged (snd u) \<noteq> None)"

lemma scan_users_run:
  "\<forall>u\<in>set us. pinged (snd u) \<noteq> None \<Longrightarrow>
   scan_users now sec us e s = (Ok (map_option fst (find (silent now sec) us)), s)"
  by (induction us) (auto simp: exec silent_def)

lemma delete_distinct:
  "distinct (map fst us) \<Longrightarrow> u \<in> set us \<Longrightarrow> P u \<Longrightarrow> filter (\<lambda>x. \<not> P x) (AList.delete (fst u) us) = filter (\<lambda>x. \<not> P x) us"
  unfolding AList.delete_eq filter_filter by (rule filter_cong) (auto dest: eq_key_imp_eq_value simp: distinct_map inj_on_def)

interpretation cl: erase_loop "del_user now sec" users_map "silent now sec" all_pinged "\<lambda>s t. blocks t = blocks s" for now sec
proof
  fix s :: "'z cl_state_scheme" and e x
  assume good: "all_pinged s"
  then have scan: "scan_users now sec (users_map s) e s = (Ok (map_option fst (find (silent now sec) (users_map s))), s)"
    by (intro scan_users_run) (simp add: all_pinged_def)
  show "del_user now sec e s = (Ok False, s)" if "\<forall>x\<in>set (users_map s). \<not> silent now sec x"
  proof -
    have "find (silent now sec) (users_map s) = None"
      using that by (simp add: find_None_iff)
    then show ?thesis
      using scan by (simp add: del_user_def exec)
  qed
  assume x: "x \<in> set (users_map s)" "silent now sec x"
  then obtain u where u: "find (silent now sec) (users_map s) = Some u"
    using find_None_iff [of "silent now sec" "users_map s"] by fastforce
  then have us: "u \<in> set (users_map s)" "silent now sec u"
    by (auto simp: find_Some_iff)
  let ?us = "AList.delete (fst u) (users_map s)"
  have "length ?us < length (users_map s)"
    using us(1) unfolding AList.delete_eq by (intro length_filter_less) auto
  moreover have "filter (\<lambda>x. \<not> silent now sec x) ?us = filter (\<lambda>x. \<not> silent now sec x) (users_map s)"
    using good us by (intro delete_distinct) (simp_all add: all_pinged_def)
  moreover have "distinct (map fst ?us)" "\<forall>u\<in>set ?us. pinged (snd u) \<noteq> None"
    using good unfolding all_pinged_def AList.delete_eq by (auto simp: distinct_map_filter)
  ultimately show "\<exists>t. del_user now sec e s = (Ok True, t) \<and> all_pinged t \<and> blocks t = blocks s \<and>
      length (users_map t) < length (users_map s) \<and>
      filter (\<lambda>x. \<not> silent now sec x) (users_map t) = filter (\<lambda>x. \<not> silent now sec x) (users_map s)"
    using scan u by (simp add: del_user_def exec all_pinged_def)
qed auto

text \<open>Claim C36: forgetting the silent users ends, and exactly those who answered in the last seconds are left.\<close>

theorem cl_delByPing_filters:
  fixes s :: "'z cl_state_scheme"
  assumes "distinct (map fst (users_map s))" "\<forall>u\<in>set (users_map s). pinged (snd u) \<noteq> None"
    and "answer e (evs s) (Libc Time) = RInt now"
  shows "\<exists>t. cl_delByPing sec e s = (Ok (), t) \<and> blocks t = blocks s \<and>
    users_map t = filter (\<lambda>u. now - the (pinged (snd u)) \<le> sec) (users_map s)"
proof -
  let ?s = "s\<lparr>evs := (Libc Time, RInt now) # evs s\<rparr>"
  have "all_pinged ?s"
    using assms(1,2) by (simp add: all_pinged_def)
  then obtain t :: "'z cl_state_scheme" where "bnd (del_user now sec) (\<lambda>deleted. bnd (c_while (\<lambda>d. d) (\<lambda>_. del_user now sec) deleted) (\<lambda>_. ret ())) e ?s = (Ok (), t)"
    "blocks t = blocks ?s" "users_map t = filter (\<lambda>x. \<not> silent now sec x) (users_map ?s)"
    using cl.erase_run [of ?s now sec e] by blast
  then show ?thesis
    using assms(3) by (simp add: cl_delByPing_def run_bnd [of "ext (Libc Time)"] run_ext silent_def not_less)
qed

subsection \<open>A server that can only be reached by TCP\<close>

text \<open>When only the TCP connection is made, the program ends with an exception of type
  \<open>const char *\<close>, which nothing catches: \<open>self_bind\<close> writes by UDP without asking.\<close>

theorem tcp_only_client_aborts:
  fixes s :: "'z cl_state_scheme"
  assumes sock: "\<And>l. answer e l (Sys (Socket ''SOCK_DGRAM'')) = RInt u" "\<And>l. answer e l (Sys (Socket ''SOCK_STREAM'')) = RInt k"
    and uk: "0 < u" "0 < k"
    and con: "\<And>l f p a. answer e l (Sys (Connect_in u f p a)) = RInt (- 1)" "\<And>l f p a. answer e l (Sys (Connect_in k f p a)) = RInt 0"
  shows "fst (client_main argv e s) = Err (ThrownChars ''UDP with peer unnallowed'')"
proof -
  have "fst (bnd (serv_data host port) (\<lambda>_. bnd self_bind f) e s) = Err (ThrownChars ''UDP with peer unnallowed'')"
    for host port and f :: "unit \<Rightarrow> ('z, unit) clprog"
  proof -
    have "wp (serv_data host port) (\<lambda>_ t. \<exists>a. serv_m_data t = \<lparr>m_adr = Some a, m_socks = True, pinged = None, m_peer_info = (host, port), sd_contype = Some 2\<rparr>) e s"
      using uk con by (auto simp: serv_data_def connect_or_close_def cl_close_def print_def wp_eqs sock Let_def)
    then obtain t :: "'z cl_state_scheme" and a where t: "serv_data host port e s = (Ok (), t)"
      "serv_m_data t = \<lparr>m_adr = Some a, m_socks = True, pinged = None, m_peer_info = (host, port), sd_contype = Some 2\<rparr>"
      by (auto simp: wp_def)
    have "fst (self_bind e t) = Err (ThrownChars ''UDP with peer unnallowed'')"
      using uk by (simp add: self_bind_def exec sock Let_def serv_write_def sd_write_def sock_of_def t(2))
    then show ?thesis
      by (cases "self_bind e t") (simp add: run_bnd t(1))
  qed
  then show ?thesis
    by (simp add: client_main_def split: prod.split)
qed

subsection \<open>Instances\<close>

text \<open>A client whose UDP socket is 5, connected to 10.0.0.9, port 80, with the TCP socket 6.\<close>

definition server_addr :: sockaddr_in where
  "server_addr = \<lparr>sin_family = 2, sin_port = 20480, s_addr = 9\<rparr>"

definition server_data :: sock_data where
  "server_data = \<lparr>m_adr = Some server_addr, m_socks = True, pinged = None,
     m_peer_info = (bytes_of ''10.0.0.9'', 80), sd_contype = Some 6\<rparr>"

definition cl_start :: cl_state where
  "cl_start = \<lparr>blocks = Map.empty, nxt = 0, evs = [], m_contype = 6, m_sock_udp = 5, m_sock_tcp = 6,
     users_map = [], serv_m_data = server_data, m_addr = None\<rparr>"

lemma cl_start_simps [simp]:
  "fresh cl_start" "m_sock_udp cl_start = 5" "serv_m_data cl_start = server_data" "users_map cl_start = []"
  "blocks cl_start = Map.empty" "evs cl_start = []" "events cl_start = []"
  by (simp_all add: cl_start_def fresh_def events_def)

lemma server_data_udp: "talks_udp server_data server_addr"
  by (simp add: talks_udp_def server_data_def)

definition echo_env :: env where
  "echo_env = \<lparr>malloc_ok = (\<lambda>_ _. True), answer = (\<lambda>_ c. case c of
     Sys (Socket k) \<Rightarrow> RInt 7 | Sys (Sendto_in d bs f p a) \<Rightarrow> RInt (int (length bs))
   | Sys (Recvfrom d n h) \<Rightarrow> RFrom (int (length (udp_reply (bytes_of ''1.2.3.4'') 4660 []))) (udp_reply (bytes_of ''1.2.3.4'') 4660 []) []
   | Sys (Inet_addr h) \<Rightarrow> RInt 42 | _ \<Rightarrow> RInt 0)\<rparr>"

lemma echo_env_answers:
  "answer echo_env l (Sys (Socket k)) = RInt 7"
  "answer echo_env l (Sys (Sendto_in d bs f p a)) = RInt (int (length bs))"
  "answer echo_env l (Sys (Recvfrom d n h)) = RFrom (int (length (udp_reply (bytes_of ''1.2.3.4'') 4660 []))) (udp_reply (bytes_of ''1.2.3.4'') 4660 []) []"
  "answer echo_env l (Sys (Inet_addr ho)) = RInt 42" "answer echo_env l (Sys (Bind_in d f p a)) = RInt 0"
  by (simp_all add: echo_env_def)

lemma plain_example: "plain_ip (bytes_of ''1.2.3.4'')"
  by (simp add: plain_ip_def bytes_of_def)

theorem self_bind_binds_seen_address_witness:
  "\<exists>t. self_bind echo_env cl_start = (Ok (), t) \<and> m_sock_udp t = 7 \<and>
    m_addr t = Some \<lparr>sin_family = AF_INET, sin_port = htons 4660, s_addr = 42\<rparr>"
proof -
  have 1: "talks_udp (serv_m_data cl_start) server_addr"
    by (simp add: server_data_udp)
  have 2: "(0::int) < 7"
    by simp
  have 3: "answer echo_env l (Sys (Sendto_in (m_sock_udp cl_start) (bytes_of ''getmypeerinfo'' @ [LF])
      (sin_family server_addr) (sin_port server_addr) (s_addr server_addr))) = RInt 14" for l
    by (simp add: echo_env_answers)
  have 4: "length (udp_reply (bytes_of ''1.2.3.4'') 4660 []) < 1024"
    by (simp add: udp_len dec.simps)
  have 5: "[] = [] \<or> sockaddr_of [] = server_addr" "NUL \<notin> set []" "(4660::nat) < 2 ^ 16"
    by simp_all
  obtain t where "self_bind echo_env cl_start = (Ok (), t)" "m_sock_udp t = 7"
    "m_addr t = Some \<lparr>sin_family = AF_INET, sin_port = htons 4660, s_addr = c_uint 42\<rparr>"
    using self_bind_binds_seen_address [OF cl_start_simps(1) 1 echo_env_answers(1) 2 3 echo_env_answers(3) 5(1) 4 plain_example 5(2,3)
      echo_env_answers(4,5)] by blast
  then show ?thesis
    by (intro exI [of _ t]) (simp add: c_uint_def)
qed

definition user1 :: user where
  "user1 = \<lparr>u_ip = bytes_of ''1.2.3.4'', u_port = 4660, u_in = \<lparr>sin_family = 2, sin_port = 13330, s_addr = 42\<rparr>, lastPing = 0\<rparr>"

definition peer_env :: "int \<Rightarrow> byte list \<Rightarrow> env" where
  "peer_env n bs = \<lparr>malloc_ok = (\<lambda>_ _. True), answer = (\<lambda>_ c. case c of
     Sys (Sendto_in d x f p a) \<Rightarrow> RInt (int (length x)) | Sys (Recvfrom d k h) \<Rightarrow> RFrom n bs []
   | Sys (Inet_addr h) \<Rightarrow> RInt 42 | Libc Time \<Rightarrow> RInt 99 | _ \<Rightarrow> RInt 0)\<rparr>"

lemma peer_env_answers:
  "answer (peer_env n bs) l (Sys (Sendto_in d x f p a)) = RInt (int (length x))"
  "answer (peer_env n bs) l (Sys (Recvfrom d k h)) = RFrom n bs []"
  "answer (peer_env n bs) l (Sys (Inet_addr ho)) = RInt 42" "answer (peer_env n bs) l (Libc Time) = RInt 99"
  by (simp_all add: peer_env_def)

theorem ping_user_stores_answering_witness:
  "\<exists>t. ping_user (entry user1) (peer_env 2 [72, 105]) cl_start = (Ok (), t) \<and> map fst (users_map t) = [(bytes_of ''1.2.3.4'', 4660)]"
proof -
  have 1: "plain_ip (u_ip user1)" "length (u_ip user1) < 2 ^ 62" "u_port user1 < 2 ^ 16"
    by (simp_all add: user1_def plain_ip_def bytes_of_def)
  have 2: "answer (peer_env 2 [72, 105]) l (Sys (Sendto_in (m_sock_udp cl_start) conUserData AF_INET (htons (u_port user1)) (c_uint 42))) = RInt 6" for l
    by (simp add: peer_env_answers conUserData_def)
  have 3: "(2 :: int) = int (length [72, 105 :: byte]) \<and> length [72, 105 :: byte] < 1024 \<or> (2 :: int) = - 1 \<and> [72, 105] = ([] :: byte list)"
    by simp
  show ?thesis
    using ping_user_stores_answering [OF cl_start_simps(1) 1 peer_env_answers(3) 2 peer_env_answers(2) 3 peer_env_answers(4)]
    by (auto simp: user1_def)
qed

theorem user_list_received_witness:
  "fst (local_cells (map Byte (user_list [user1, user1, user1]) @ [Byte NUL])
      (\<lambda>p. split p SPLITADDRCHAR (length (user_list [user1, user1, user1]))) (const_env RUnit) empty_state) = Err UseAfterFree"
proof -
  have "\<forall>u\<in>set [user1, user1, user1]. plain_ip (u_ip u)" "length [user1, user1, user1] \<le> 11"
    by (simp_all add: user1_def plain_ip_def bytes_of_def)
  from user_list_received [OF const_env_simps(3) fresh_empty this] show ?thesis
    by simp
qed

text \<open>A server to which a first empty datagram comes from 10.0.0.1, port 80, and a client on the other side.\<close>

definition lan_env :: env where
  "lan_env = \<lparr>malloc_ok = (\<lambda>_ _. True), answer = (\<lambda>_ c. case c of
     Sys (Epoll_wait ep k) \<Rightarrow> RFds [5] | Sys (Recvfrom d k h) \<Rightarrow> RFrom 0 [] [2, 0, 0, 80, 10, 0, 0, 1]
   | Sys (Inet_ntoa a) \<Rightarrow> ROut 0 (dec a) | Sys (Inet_addr h) \<Rightarrow> RInt (atoi h) | Sys (Sendto_in d x f p a) \<Rightarrow> RInt (int (length x))
   | _ \<Rightarrow> RInt 0)\<rparr>"

lemma lan_env_answers [simp]:
  "answer lan_env l (Sys (Epoll_wait ep k)) = RFds [5]" "answer lan_env l (Sys (Recvfrom d k h)) = RFrom 0 [] [2, 0, 0, 80, 10, 0, 0, 1]"
  "answer lan_env l (Sys (Inet_ntoa a)) = ROut 0 (dec a)" "answer lan_env l (Sys (Inet_addr ho)) = RInt (atoi ho)"
  "answer lan_env l (Sys (Sendto_in d x f p a)) = RInt (int (length x))" "answer lan_env l (Libc lc) = RInt 0"
  by (simp_all add: lan_env_def)

definition sender1 :: sockaddr_in where
  "sender1 = sockaddr_of [2, 0, 0, 80, 10, 0, 0, 1]"

lemma sender1_port: "htons (sin_port sender1) = 80"
  by (simp add: sender1_def sockaddr_of_def htons_def byte_at_def)

lemma first_turn:
  "wp (cycle 3 4 5 None) (\<lambda>p t. p = (True, Some sender1) \<and> map u_in (users t) = [sender1] \<and>
     (\<forall>a r. (Sys (Inet_ntoa a), r) \<in> set (evs t) \<longrightarrow> r_bytes r = dec a)) lan_env as_empty"
proof -
  let ?reply = "udp_reply (dec (s_addr sender1)) 80 []"
  have len: "length ?reply \<le> 254"
    unfolding udp_len by (simp add: sender1_def sockaddr_of_def byte_at_def dec.simps)
  have nz: "NUL \<notin> set ?reply"
    by (rule udp_nonzero) (simp_all add: dec_nonzero)
  have empty: "get_str m (Addr b 0) = Inr []" if "m b = Some (Byte NUL # cs)" for m b cs
    using that by (simp add: get_str_def cells_of_def)
  have str: "get_str m (Addr b 0) = Inr ?reply" if "m b = Some (map Byte ?reply @ Byte 0 # Byte NUL # cs)" for m b cs
    using that nz by (simp add: get_str_def cells_of_def scan_string)
  show ?thesis
    unfolding cycle_def puts_def udp_handler_def
    apply (simp add: wp_eqs handle_event_def udp_handler_def last_addr_def puts_def size_t_def Let_def flip: sender1_def)
    apply (rule wp_store_byte)
     apply simp
    apply (rule wp_bnd, rule wp_field, rule refl)
    apply (rule wp_bnd, rule wp_ext, rule wp_bnd, rule wp_read_mem, rule empty, simp)
    apply (rule wp_bnd, rule wp_ext, rule wp_bnd)
    apply (simp only: lan_env_answers)
    apply (erule subst)
    apply (simp only: sender1_port r_bytes.simps)
    apply (rule wp_local_arr, simp)
    apply (rule wp_bnd, rule wp_write_bytes)
    using len apply simp
    apply (rule wp_bnd, rule wp_read_mem, rule str, simp)
    apply (simp add: sendto_client_def wp_eqs register_user_def delByPing_def del_step_def as_empty_def add_user_def new_user_def puts_def)
    apply (rule wp_run, rule c_while_stop, simp)
    apply (simp add: wp_eqs add_user_def new_user_def puts_def)
    done
qed

lemma length_dec_less: "a < 10 ^ Suc n \<Longrightarrow> length (dec a) \<le> Suc n"
proof (induction n arbitrary: a)
  case 0
  then show ?case
    by (subst dec.simps) simp
next
  case (Suc n)
  then have "length (dec (a div 10)) \<le> Suc n"
    by (simp add: less_mult_imp_div_less)
  then show ?case
    by (subst dec.simps) simp
qed

lemma lan_reads_back: "reads_back lan_env dec"
  unfolding reads_back_def
proof (intro allI impI conjI exI)
  fix a :: nat
  assume a: "a < 2 ^ 32"
  show "plain_ip (dec a)"
    using dec_digits [of COLON a] dec_digits [of SPLITADDRCHAR a] dec_digits [of 93 a] by (auto simp: plain_ip_def dec_nonzero)
  show "length (dec a) < 16"
    using length_dec_less [of a 9] a by simp
  show "c_uint (int a) = a"
    using a by (simp add: c_uint_def)
  show "answer lan_env l (Sys (Inet_addr (dec a))) = RInt (int a)" for l
    by simp
qed

theorem pings_go_to_senders_witness:
  "\<exists>t c. serves lan_env 3 4 5 as_empty (Some sender1) t \<and> ping_users (map entry (users t)) lan_env cl_start = (Ok (), c) \<and>
    sendings c = [Sys (Sendto_in 5 conUserData AF_INET (sin_port sender1) (s_addr sender1))]"
proof -
  obtain t where t: "cycle 3 4 5 None lan_env as_empty = (Ok (True, Some sender1), t)" "map u_in (users t) = [sender1]"
    and names: "\<And>a r. (Sys (Inet_ntoa a), r) \<in> set (evs t) \<Longrightarrow> r_bytes r = dec a"
    using wpD [OF first_turn] by auto
  have run: "serves lan_env 3 4 5 as_empty (Some sender1) t"
    by (rule serves.turn [OF serves.start t(1)])
  have in1: "inet_address sender1" "sin_family sender1 = AF_INET"
    by (simp_all add: inet_address_def sender1_def sockaddr_of_def byte_at_def)
  then have "\<forall>u\<in>set (users t). inet_address (u_in u)"
    using t(2) by auto
  moreover have "answer lan_env l (Sys (Sendto_in 5 conUserData f p a)) = RInt 6" "datagram (answer lan_env l (Sys (Recvfrom 5 1024 0)))" for l f p a
    by (simp_all add: conUserData_def datagram_def)
  moreover have "users as_empty = []" "m_sock_udp cl_start = 5" "fresh cl_start"
    by (simp_all add: as_empty_def)
  ultimately obtain c where "ping_users (map entry (users t)) lan_env cl_start = (Ok (), c)"
    "sendings c = sendings cl_start @ map (\<lambda>u. Sys (Sendto_in 5 conUserData (sin_family (u_in u)) (sin_port (u_in u)) (s_addr (u_in u)))) (users t)"
    using pings_go_to_senders [OF run _ _ names lan_reads_back, of cl_start 5] by blast
  moreover have "sendings cl_start = []"
    by (simp add: cl_start_def events_def)
  ultimately show ?thesis
    using run t(2) in1(2) by auto
qed

definition half_env :: "int \<Rightarrow> int \<Rightarrow> env" where
  "half_env cu ct = \<lparr>malloc_ok = (\<lambda>_ _. True), answer = (\<lambda>_ c. case c of
     Sys (Socket k) \<Rightarrow> RInt (if k = ''SOCK_DGRAM'' then 5 else 6)
   | Sys (Connect_in d f p a) \<Rightarrow> RInt (if d = 5 then cu else ct) | _ \<Rightarrow> RInt 0)\<rparr>"

lemma half_env_answers:
  "answer (half_env cu ct) l (Sys (Socket ''SOCK_DGRAM'')) = RInt 5"
  "answer (half_env cu ct) l (Sys (Socket ''SOCK_STREAM'')) = RInt 6"
  "answer (half_env cu ct) l (Sys (Connect_in 5 f p a)) = RInt cu"
  "answer (half_env cu ct) l (Sys (Connect_in 6 f p a)) = RInt ct"
  by (simp_all add: half_env_def)

theorem serv_data_sockets_witness:
  "\<exists>t. serv_data (bytes_of ''10.0.0.9'') 80 (half_env 0 (- 1)) cl_start = (Ok (), t) \<and> m_contype t = con_udp \<and>
    filter (\<lambda>c. \<exists>d. c = Sys (Close d)) (calls t) = [Sys (Close 6)]"
proof -
  have 1: "(5 :: int) \<noteq> 6" "length (bytes_of ''10.0.0.9'') < 200" "(80 :: nat) < 2 ^ 16"
    and 2: "- (2 ^ 31) \<le> (0 :: int)" "(0 :: int) < 2 ^ 31" "- (2 ^ 31) \<le> (- 1 :: int)" "(- 1 :: int) < 2 ^ 31"
    by simp_all
  show ?thesis
    using serv_data_sockets [OF half_env_answers(1,2) 1 half_env_answers(3) 2(1,2) half_env_answers(4) 2(3,4), of cl_start] by auto
qed

theorem cl_delByPing_filters_witness:
  "\<exists>t. cl_delByPing 5 (peer_env 0 []) (cl_start\<lparr>users_map := [(([49], 1), server_data\<lparr>pinged := Some 90\<rparr>), (([50], 2), server_data\<lparr>pinged := Some 97\<rparr>)]\<rparr>) = (Ok (), t) \<and>
    map fst (users_map t) = [([50], 2)]"
proof -
  let ?s = "cl_start\<lparr>users_map := [(([49], 1), server_data\<lparr>pinged := Some 90\<rparr>), (([50], 2), server_data\<lparr>pinged := Some 97\<rparr>)]\<rparr>"
  have 1: "distinct (map fst (users_map ?s))" "\<forall>u\<in>set (users_map ?s). pinged (snd u) \<noteq> None"
    by simp_all
  show ?thesis
    using cl_delByPing_filters [OF 1 peer_env_answers(4), of 5 0 "[]"] by auto
qed

theorem tcp_only_client_aborts_witness:
  "fst (client_main [] (half_env (- 1) 0) cl_start) = Err (ThrownChars ''UDP with peer unnallowed'')"
proof -
  have "(0 :: int) < 5" "(0 :: int) < 6"
    by simp_all
  then show ?thesis
    by (rule tcp_only_client_aborts [OF half_env_answers(1,2) _ _ half_env_answers(3,4)])
qed

end
