(* ===== verification/Getopt.thy ===== *)
theory Getopt
  imports AES
begin

text \<open>
  The loop over the options of a program. \<open>getopt_long\<close> belongs to the system; the two programs
  that call it in a loop differ in the options, in the condition and in what an option does. The
  interface \<open>option_parser\<close> says what the options do to the settings; a program's own options implement it.
\<close>

definition c_char :: "int \<Rightarrow> int" where
  "c_char i = (i + 128) mod 256 - 128"

text \<open>
  What \<open>getopt_long\<close> returns, kept in a \<open>char\<close>, the argument of the option (\<open>None\<close> for \<open>NULL\<close>), and the
  arguments of the program, which it reorders.
\<close>

type_synonym opt = "int \<times> byte list option \<times> byte list list"

definition getopt :: "string \<Rightarrow> ('z, opt) prog" where
  "getopt opts =
     bnd (ext (Libc (Getopt_long opts))) (\<lambda>r.
     ret (c_char (r_int r), (case r_chunks r of [] \<Rightarrow> None | a # as \<Rightarrow> Some a), tl (r_chunks r)))"

definition optarg_of :: "byte list option \<Rightarrow> ('z, byte list) prog" where
  "optarg_of a = (case a of None \<Rightarrow> fail NullDeref | Some bs \<Rightarrow> ret bs)"

text \<open>The loop ends when an option is no more, or when the settings say so, for a \<open>return\<close> in its body.\<close>

definition getopt_loop :: "string \<Rightarrow> (int \<Rightarrow> bool) \<Rightarrow> ('a \<Rightarrow> bool) \<Rightarrow> (int \<Rightarrow> byte list option \<Rightarrow> 'a \<Rightarrow> ('z, 'a) prog) \<Rightarrow>
    'a \<Rightarrow> ('z, opt \<times> 'a) prog" where
  "getopt_loop opts go stop handle st =
     bnd (getopt opts) (\<lambda>g.
     c_while (\<lambda>((c, arg, argv), st). go c \<and> \<not> stop st) (\<lambda>((c, arg, argv), st).
       bnd (handle c arg st) (\<lambda>st.
       if stop st then ret ((c, arg, argv), st) else
       bnd (getopt opts) (\<lambda>g. ret (g, st)))) (g, st))"

subsection \<open>The options that are given\<close>

definition getopts :: "string \<Rightarrow> event list \<Rightarrow> nat" where
  "getopts opts l = length (filter (\<lambda>ev. fst ev = Libc (Getopt_long opts)) l)"

lemma getopts_simps [simp]:
  "getopts opts [] = 0"
  "getopts opts ((c, r) # l) = (if c = Libc (Getopt_long opts) then 1 else 0) + getopts opts l"
  by (simp_all add: getopts_def)

text \<open>The options that \<open>getopt_long\<close> reports, one per call, and the arguments it leaves at the end.\<close>

definition gives_options :: "env \<Rightarrow> string \<Rightarrow> (int \<times> byte list) list \<Rightarrow> byte list list \<Rightarrow> bool" where
  "gives_options e opts os argv \<longleftrightarrow> (\<forall>x\<in>set os. 0 < fst x \<and> fst x < 128) \<and> (\<forall>l. answer e l (Libc (Getopt_long opts)) =
     (if getopts opts l < length os then RChunks (fst (os ! getopts opts l)) [snd (os ! getopts opts l)]
      else RChunks (-1) ([] # argv)))"

lemma getopt_run:
  assumes "gives_options e opts os argv"
  shows "getopt opts e s = (Ok (if getopts opts (evs s) < length os
      then (fst (os ! getopts opts (evs s)), Some (snd (os ! getopts opts (evs s))), []) else (-1, Some [], argv)),
    s\<lparr>evs := (Libc (Getopt_long opts), answer e (evs s) (Libc (Getopt_long opts))) # evs s\<rparr>)"
proof -
  have "c_char c = c" if "0 < c" "c < 128" for c
    using that by (simp add: c_char_def)
  moreover have "c_char (-1) = -1"
    by (simp add: c_char_def)
  ultimately show ?thesis
    using assms by (auto simp: getopt_def exec gives_options_def)
qed

definition only_options :: "string \<Rightarrow> 'z cstate_scheme \<Rightarrow> 'z cstate_scheme \<Rightarrow> bool" where
  "only_options opts s t \<longleftrightarrow> (\<exists>l. t = s\<lparr>evs := l @ evs s\<rparr> \<and> (\<forall>ev\<in>set l. fst ev = Libc (Getopt_long opts)))"

lemma only_options_next:
  assumes "only_options opts (s\<lparr>evs := (Libc (Getopt_long opts), r) # evs s\<rparr>) t"
  shows "only_options opts s t"
proof -
  obtain l where "t = s\<lparr>evs := l @ (Libc (Getopt_long opts), r) # evs s\<rparr>" "\<forall>ev\<in>set l. fst ev = Libc (Getopt_long opts)"
    using assms by (auto simp: only_options_def)
  then show ?thesis
    unfolding only_options_def by (intro exI [of _ "l @ [(Libc (Getopt_long opts), r)]"]) auto
qed

lemma only_options_refl: "only_options opts s s"
  unfolding only_options_def by (rule exI [of _ "[]"]) simp

locale option_parser =
  fixes go :: "int \<Rightarrow> bool" and stop :: "'a \<Rightarrow> bool" and handle :: "int \<Rightarrow> byte list option \<Rightarrow> 'a \<Rightarrow> ('z, 'a) prog"
    and known :: "int \<Rightarrow> bool" and effect :: "'a \<Rightarrow> int \<times> byte list \<Rightarrow> 'a"
  assumes handle: "known c \<Longrightarrow> handle c (Some a) st e s = (Ok (effect st (c, a)), s)"
    and effect_stop: "stop (effect st x) = stop st"
    and known_go: "known c \<Longrightarrow> go c" and end_go: "\<not> go (-1)"
begin

lemma loop_run:
  fixes s :: "'z cstate_scheme"
  assumes g: "gives_options e opts os argv" and os: "\<forall>x\<in>set os. known (fst x)"
  shows "getopts opts (evs s) = k \<Longrightarrow> k \<le> length os \<Longrightarrow> \<not> stop st \<Longrightarrow>
    \<exists>t. getopt_loop opts go stop handle st e s = (Ok ((-1, Some [], argv), foldl effect st (drop k os)), t) \<and>
      only_options opts s t"
proof (induction "length os - k" arbitrary: k s st)
  case 0
  let ?s = "s\<lparr>evs := (Libc (Getopt_long opts), answer e (evs s) (Libc (Getopt_long opts))) # evs s\<rparr>"
  have "getopt_loop opts go stop handle st e s = (Ok ((-1, Some [], argv), st), ?s)"
    using 0 by (simp add: getopt_loop_def run_bnd getopt_run [OF g] c_while_stop end_go)
  moreover have "only_options opts s ?s"
    by (rule only_options_next) (rule only_options_refl)
  ultimately show ?case
    using 0 by auto
next
  case (Suc n)
  let ?body = "\<lambda>((c, arg, argv), st). bnd (handle c arg st) (\<lambda>st.
       if stop st then ret ((c, arg, argv), st) else bnd (getopt opts) (\<lambda>g. ret (g, st)))"
  let ?loop = "c_while (\<lambda>((c, arg, argv), st). go c \<and> \<not> stop st) ?body"
  let ?st = "effect st (os ! k)"
  have k: "k < length os"
    using Suc by simp
  define u where "u = s\<lparr>evs := (Libc (Getopt_long opts), answer e (evs s) (Libc (Getopt_long opts))) # evs s\<rparr>"
  have u: "getopt opts e s = (Ok (fst (os ! k), Some (snd (os ! k)), []), u)"
    using k Suc.prems by (simp add: getopt_run [OF g] u_def)
  have x: "known (fst (os ! k))"
    using os k by simp
  have n: "n = length os - Suc k" and k': "getopts opts (evs u) = Suc k" and sk: "Suc k \<le> length os" and q: "\<not> stop ?st"
    using Suc.hyps(2) Suc.prems k by (simp_all add: u_def effect_stop)
  obtain t where t: "getopt_loop opts go stop handle ?st e u =
      (Ok ((-1, Some [], argv), foldl effect ?st (drop (Suc k) os)), t)" "only_options opts u t"
    using Suc.hyps(1) [OF n k' sk q] by blast
  obtain g' w where g': "getopt opts e u = (Ok g', w)"
    by (simp add: getopt_run [OF g])
  have step: "?body ((fst (os ! k), Some (snd (os ! k)), []), st) e u = (Ok (g', ?st), w)"
    using g' q handle [OF x] by (simp add: exec)
  have rest: "?loop (g', ?st) e w = (Ok ((-1, Some [], argv), foldl effect ?st (drop (Suc k) os)), t)"
    using t(1) g' by (simp add: getopt_loop_def run_bnd)
  have "?loop ((fst (os ! k), Some (snd (os ! k)), []), st) e u =
      (Ok ((-1, Some [], argv), foldl effect ?st (drop (Suc k) os)), t)"
  proof (rule c_while_next)
    show "?body ((fst (os ! k), Some (snd (os ! k)), []), st) e u = (Ok (g', ?st), w)"
      by (rule step)
    show "?loop (g', ?st) e w = (Ok ((-1, Some [], argv), foldl effect ?st (drop (Suc k) os)), t)"
      by (rule rest)
  qed (use known_go [OF x] Suc.prems(3) in auto)
  moreover have "drop k os = os ! k # drop (Suc k) os"
    using k by (simp add: Cons_nth_drop_Suc)
  ultimately show ?case
    using u t(2) only_options_next by (auto simp: getopt_loop_def run_bnd u_def)
qed

lemma options_run:
  assumes "gives_options e opts os argv" "\<forall>x\<in>set os. known (fst x)" "getopts opts (evs s) = 0" "\<not> stop st"
  shows "\<exists>t. getopt_loop opts go stop handle st e s = (Ok ((-1, Some [], argv), foldl effect st os), t) \<and>
    only_options opts s t"
  using loop_run [OF assms(1-3) le0 assms(4)] by simp

end

end
