(* ===== verification/Cxx.thy ===== *)
theory Cxx
  imports C_Logs
begin

text \<open>
  What the C++ files share. \<open>new\<close> throws when there is no memory. \<open>new uint8_t(n)\<close> makes one byte of value
  \<open>n\<close>, not an array; \<open>unique_ptr\<close> releases what it holds when it gets another pointer. An object
  that the code destroys is gone from memory before control leaves its scope.
\<close>

definition cxx_new :: "nat \<Rightarrow> ('z, ptr) prog" where
  "cxx_new n = bnd (malloc n) (\<lambda>p. if p = Null then fail (Thrown ''std::bad_alloc'') else ret p)"

definition new_byte :: "nat \<Rightarrow> ('z, ptr) prog" where
  "new_byte v = bnd (cxx_new 1) (\<lambda>p. bnd (store_byte p (of_nat v)) (\<lambda>_. ret p))"

text \<open>A string as \<open>c_str()\<close> gives it to a C function, which stops at a zero, and a string made from a C string.\<close>

definition c_part :: "byte list \<Rightarrow> byte list" where
  "c_part s = takeWhile (\<lambda>b. b \<noteq> NUL) s"

definition std_string :: "ptr \<Rightarrow> ('z, byte list) prog" where
  "std_string p = (if p = Null then fail (Thrown ''basic_string: construction from null'') else read_str p)"

lemma cxx_new_run [exec]:
  "malloc_ok e (nxt s) n \<Longrightarrow> cxx_new n e s = (Ok (Addr (nxt s) 0), new_block (replicate n Undef) s)"
  by (simp add: cxx_new_def exec)

lemma new_byte_run [exec]:
  "malloc_ok e (nxt s) 1 \<Longrightarrow> new_byte v e s = (Ok (Addr (nxt s) 0), new_block [Byte (of_nat v)] s)"
  by (simp add: new_byte_def exec new_block_def)

end
