(* ===== verification/Deletor.thy ===== *)
theory Deletor
  imports Getopt Cxx Lua_Serv "HOL-Library.List_Lexorder"
begin

text \<open>
  The tool \<open>src/assets/deletor_recursive.cpp\<close>: it lists the files below a directory with their
  sizes and destroys those that are larger than a limit. A \<open>std::map\<close> is a list of pairs in the
  order of the keys, which is the order in which it is iterated. A \<open>long double\<close> is a rational: the
  sizes are 64-bit integers and are only divided by 1024, which is exact. The nested calls of \<open>get\<close>
  are bounded by the size of the stack, the parameter \<open>depth\<close>. \<open>delete\<close> of the array that \<open>new char[]\<close> made
  is undefined in C++: whether the allocator takes the array or the program ends there is not determined.
\<close>

subsection \<open>Maps and sizes\<close>

type_synonym filepair_t = "(byte list \<times> nat) list"

fun map_put :: "byte list \<Rightarrow> nat \<Rightarrow> filepair_t \<Rightarrow> filepair_t" where
  "map_put k v [] = [(k, v)]"
| "map_put k v ((k', v') # m) =
     (if k < k' then (k, v) # (k', v') # m else if k = k' then (k, v) # m else (k', v') # map_put k v m)"

definition put_all :: "filepair_t \<Rightarrow> filepair_t \<Rightarrow> filepair_t" where
  "put_all xs m = fold (\<lambda>(k, v). map_put k v) xs m"

definition size_units :: "byte list list" where
  "size_units = map bytes_of [''bytes'', ''kbytes'', ''mBytes'', ''gBytes'', ''tBytes'']"

text \<open>The bound of the loop is \<open>sizeof(m)\<close>, the bytes of the five pointers.\<close>

definition isOf :: "rat \<Rightarrow> ('z, byte list \<times> rat) prog" where
  "isOf n =
     bnd (c_while (\<lambda>(b, i). b / 1024 \<ge> 1 \<and> i < 40) (\<lambda>(b, i). ret (b / 1024, c_uchar (int i + 1))) (n, 0)) (\<lambda>(b, i).
     if i < length size_units then ret (size_units ! i, b) else fail OutOfBounds)"

subsection \<open>Listing\<close>

abbreviation (input) DT_DIR :: int where "DT_DIR \<equiv> 4"
abbreviation (input) SEEK_SET :: int where "SEEK_SET \<equiv> 0"
abbreviation (input) SEEK_END :: int where "SEEK_END \<equiv> 2"

definition cant_open :: "byte list \<Rightarrow> byte list" where
  "cant_open path = bytes_of ''Can't open dir '' @ path"

definition next_dirent :: "handle \<Rightarrow> ('z, (int \<times> byte list) option) prog" where
  "next_dirent t = bnd (ext (Libc (Readdir t))) (\<lambda>r.
     ret (case r of ROut ty nm \<Rightarrow> Some (ty, nm) | _ \<Rightarrow> None))"

text \<open>\<open>get(path)\<close>, given the function that reads an open directory; the directory stays open.\<close>

definition get_path :: "(byte list \<Rightarrow> handle \<Rightarrow> ('z, filepair_t) prog) \<Rightarrow> byte list \<Rightarrow> ('z, filepair_t) prog" where
  "get_path get path =
     (if path = bytes_of ''.'' \<or> path = bytes_of ''..'' then ret [] else
     bnd (ext (Libc (Opendir path))) (\<lambda>tmp.
     if r_handle tmp = 0 then fail (ThrownStr (cant_open path)) else get path (r_handle tmp)))"

definition file_size :: "byte list \<Rightarrow> ('z, nat option) prog" where
  "file_size fullpath =
     bnd (ext (Libc (Fopen fullpath ''rb''))) (\<lambda>f.
     if r_handle f = 0 then bnd (ext (Libc (Fprintf_stderr ''Warning: can't open ''))) (\<lambda>_. ret None)
     else
       bnd (ext (Libc (Fseek (r_handle f) 0 SEEK_END))) (\<lambda>_.
       bnd (ext (Libc (Ftell (r_handle f)))) (\<lambda>sf.
       bnd (ext (Libc (Fclose (r_handle f)))) (\<lambda>_.
       ret (Some (size_t (r_int sf)))))))"

definition dir_entry :: "(byte list \<Rightarrow> handle \<Rightarrow> ('z, filepair_t) prog) \<Rightarrow> byte list \<Rightarrow> int \<times> byte list \<Rightarrow>
    filepair_t \<Rightarrow> ('z, filepair_t) prog" where
  "dir_entry get path d rt =
     (let fullpath = path @ bytes_of ''/'' @ snd d in
     if fst d = DT_DIR then
       if dot_name (snd d) then ret rt
       else bnd (get_path get fullpath) (\<lambda>anotherdir. ret (put_all anotherdir rt))
     else
       bnd (file_size fullpath) (\<lambda>sf.
       ret (case sf of None \<Rightarrow> rt | Some n \<Rightarrow> map_put fullpath n rt)))"

definition dir_loop :: "(byte list \<Rightarrow> handle \<Rightarrow> ('z, filepair_t) prog) \<Rightarrow> byte list \<Rightarrow> handle \<Rightarrow>
    filepair_t \<Rightarrow> ('z, (int \<times> byte list) option \<times> filepair_t) prog" where
  "dir_loop get path t rt =
     bnd (next_dirent t) (\<lambda>d.
     c_while (\<lambda>(d, rt). d \<noteq> None) (\<lambda>(d, rt).
       bnd (dir_entry get path (the d) rt) (\<lambda>rt.
       bnd (next_dirent t) (\<lambda>d. ret (d, rt)))) (d, rt))"

primrec dir_get :: "nat \<Rightarrow> byte list \<Rightarrow> handle \<Rightarrow> ('z, filepair_t) prog" where
  "dir_get 0 path t = fail StackOverflow"
| "dir_get (Suc depth) path t = bnd (dir_loop (dir_get depth) path t []) (\<lambda>(d, rt). ret rt)"

subsection \<open>Shredding\<close>

primrec fill_rand :: "nat \<Rightarrow> ptr \<Rightarrow> ('z, unit) prog" where
  "fill_rand 0 p = ret ()"
| "fill_rand (Suc n) p =
     bnd rand (\<lambda>r.
     bnd (store_byte p (of_nat r)) (\<lambda>_. fill_rand n (padd p 1)))"

definition wrand :: "ptr \<Rightarrow> handle \<Rightarrow> nat \<Rightarrow> ('z, unit) prog" where
  "wrand buf f c =
     bnd (ext (Libc Time)) (\<lambda>t.
     bnd (ext (Libc (Srand (r_int t)))) (\<lambda>_.
     bnd (fill_rand c buf) (\<lambda>_.
     bnd (read_bytes buf c) (\<lambda>bs.
     bnd (ext (Libc (Fwrite f bs))) (\<lambda>_. ret ())))))"

text \<open>\<open>delete\<close> of an array from \<open>new[]\<close>: undefined, so an indeterminate value says whether the allocator releases it.\<close>

definition delete_new_array :: "ptr \<Rightarrow> ('z, unit) prog" where
  "delete_new_array p =
     bnd (ext (Indeterminate ''delete of an array from new[]'')) (\<lambda>r.
     if r_int r = 0 then free p else fail BadFree)"

text \<open>The counter of the inner loop is not reset: after a pass it has wrapped to \<open>SIZE_MAX\<close>.\<close>

definition doit :: "byte list \<times> nat \<Rightarrow> nat \<Rightarrow> ('z, unit) prog" where
  "doit pair count =
     bnd (ext (Libc (Fopen (fst pair) ''wb''))) (\<lambda>fr.
     let f = r_handle fr in
     if f = 0 then bnd (ext (Libc (Fprintf_stderr ''Warning: can't open - ''))) (\<lambda>_. ret ()) else
     bnd (cxx_new 128) (\<lambda>buf.
     bnd (ext (Libc (Fseek f SEEK_END 0))) (\<lambda>_.
     bnd (ext (Libc (Ftell f))) (\<lambda>size_file.
     bnd (ext (Libc (Fseek f SEEK_SET 0))) (\<lambda>_.
     bnd (c_while (\<lambda>(i, count). i < size_t (r_int size_file)) (\<lambda>(i, count).
       bnd (c_while (\<lambda>c. c \<noteq> 0) (\<lambda>c. bnd (wrand buf f 128) (\<lambda>_. ret (c - 1))) count) (\<lambda>c.
       ret (size_t (int i + 128), size_t (int c - 1)))) (0, count)) (\<lambda>_.
     bnd (delete_new_array buf) (\<lambda>_.
     bnd (ext (Libc (Fclose f))) (\<lambda>_. ret ()))))))))"

definition shred_command :: "byte list \<Rightarrow> byte list" where
  "shred_command fullpath = bytes_of ''shred -u '' @ [34] @ fullpath @ [34, LF]"

definition shred :: "byte list \<Rightarrow> ('z, unit) prog" where
  "shred fullpath =
     local_arr 256 (\<lambda>command.
     bnd (bzero command 256) (\<lambda>_.
     bnd (write_bytes command (shred_command fullpath @ [NUL])) (\<lambda>_.
     bnd (read_str command) (\<lambda>c.
     bnd (ext (Libc (System c))) (\<lambda>_. ret ())))))"

subsection \<open>The program\<close>

definition del_usage :: "('z, unit) prog" where
  "del_usage = bnd (ext (Libc (Puts ''deletor dada; usage: ./dada [options] path to dir''))) (\<lambda>_. ret ())"

record del_opts =
  maxSize :: nat
  useSystemShred :: bool
  quit :: bool

definition del_option :: "int \<Rightarrow> byte list option \<Rightarrow> del_opts \<Rightarrow> ('z, del_opts) prog" where
  "del_option c optarg st =
     (if c = 115 then bnd (optarg_of optarg) (\<lambda>bs. ret (st\<lparr>maxSize := size_t (atoi bs)\<rparr>))
      else if c = 122 then ret (st\<lparr>useSystemShred := True\<rparr>)
      else bnd del_usage (\<lambda>_. ret (st\<lparr>quit := True\<rparr>)))"

definition del_options :: "('z, del_opts \<times> byte list list) prog" where
  "del_options =
     bnd (getopt_loop ''s:hz'' (\<lambda>c. c > 0) quit del_option \<lparr>maxSize = 0, useSystemShred = False, quit = False\<rparr>)
       (\<lambda>((c, arg, argv), st). ret (st, argv))"

definition put_line :: "byte list \<Rightarrow> ('z, unit) prog" where
  "put_line bs = bnd (ext (Libc (Printf ''%s'' bs))) (\<lambda>_. ret ())"

definition visit_file :: "del_opts \<Rightarrow> byte list \<times> nat \<Rightarrow> ('z, unit) prog" where
  "visit_file st file =
     bnd (put_line (bytes_of ''FUllpath: '' @ fst file)) (\<lambda>_.
     bnd (isOf (of_nat (snd file))) (\<lambda>sOf.
     bnd (put_line (bytes_of ''Size in bytes: '' @ dec (snd file))) (\<lambda>_.
     bnd (ext (Libc (Print_ld (snd sOf)))) (\<lambda>_.
     bnd (put_line (fst sOf)) (\<lambda>_.
     bnd (if snd file > maxSize st then
            bnd (put_line (int_dec (c_int (int (snd file))) @ bytes_of '' > '' @ int_dec (c_int (int (maxSize st))))) (\<lambda>_.
            bnd (ext (Libc (Puts ''Shred it!''))) (\<lambda>_.
            bnd (if useSystemShred st then shred (fst file) else doit file 33) (\<lambda>_.
            bnd (ext (Libc (Puts ''Continue''))) (\<lambda>_. ret ()))))
          else ret ()) (\<lambda>_.
     bnd (put_line (replicate 60 126)) (\<lambda>_.
     bnd (ext (Libc (Puts ''''))) (\<lambda>_. ret ()))))))))"

primrec visit_files :: "del_opts \<Rightarrow> filepair_t \<Rightarrow> ('z, unit) prog" where
  "visit_files st [] = ret ()"
| "visit_files st (f # fs) = bnd (visit_file st f) (\<lambda>_. visit_files st fs)"

text \<open>The scope of a \<open>dir\<close>: its destructor runs at the end and when the handler below is entered.\<close>

definition dir_scope :: "byte list \<Rightarrow> (handle \<Rightarrow> ('z, unit) prog) \<Rightarrow> ('z, unit) prog" where
  "dir_scope path body =
     bnd (ext (Libc (Opendir path))) (\<lambda>d.
     if r_handle d = 0 then fail (ThrownStr (cant_open path)) else
     (\<lambda>e s. case body (r_handle d) e s of
        (Ok u, t) \<Rightarrow> bnd (ext (Libc (Closedir (r_handle d)))) (\<lambda>_. ret u) e t
      | (Err (ThrownStr w), t) \<Rightarrow> bnd (ext (Libc (Closedir (r_handle d)))) (\<lambda>_. fail (ThrownStr w)) e t
      | r \<Rightarrow> r))"

definition catch_string :: "('z, unit) prog \<Rightarrow> ('z, unit) prog" where
  "catch_string m = (\<lambda>e s. case m e s of
     (Err (ThrownStr w), t) \<Rightarrow> put_line w e t
   | r \<Rightarrow> r)"

definition deletor_main :: "nat \<Rightarrow> ('z, int) prog" where
  "deletor_main depth =
     bnd del_options (\<lambda>(st, argv).
     if quit st then ret 0 else
     if maxSize st = 0 then bnd (ext (Libc (Fprintf_stderr ''[%s -h]''))) (\<lambda>r. ret (c_int (r_int r))) else
     if argv = [] then fail OutOfBounds else
     let dirpath = last argv in
     bnd (catch_string (dir_scope dirpath (\<lambda>m_dir.
       bnd (dir_get depth dirpath m_dir) (\<lambda>files.
       bnd (put_line (bytes_of ''Foreach myDir map: '')) (\<lambda>_.
       visit_files st files))))) (\<lambda>_.
     ret 0))"

end
