(* ===== verification/Deletor_Tree.thy ===== *)
theory Deletor_Tree
  imports Deletor C_Wp Lua_Serv_Props
begin

text \<open>
  What the listing of \<open>Deletor\<close> returns: the map that \<open>map_put\<close> builds is in the order of its keys
  and determined by its lookups, and on an environment that serves a tree of files the recursive
  \<open>get\<close> returns the map of all files of the tree.
\<close>

subsection \<open>Maps\<close>

abbreviation in_order :: "filepair_t \<Rightarrow> bool" where
  "in_order m \<equiv> sorted_wrt (<) (map fst m)"

lemma keys_map_put: "fst ` set (map_put k v m) = insert k (fst ` set m)"
  by (induction k v m rule: map_put.induct) auto

lemma map_put_in_order: "in_order m \<Longrightarrow> in_order (map_put k v m)"
proof (induction k v m rule: map_put.induct)
  case (2 k v k' v' m)
  have "y \<in> fst ` set (map_put k v m) \<Longrightarrow> k' < k \<Longrightarrow> k' < y" for y
    using 2(2) by (auto simp: keys_map_put)
  then show ?case
    using 2 by (force simp: not_less le_less)
qed simp

lemma map_of_map_put: "in_order m \<Longrightarrow> map_of (map_put k v m) = (map_of m)(k \<mapsto> v)"
proof (induction k v m rule: map_put.induct)
  case (2 k v k' v' m)
  then show ?case
    by (auto simp: fun_eq_iff not_less le_less)
qed simp

lemma put_all_simps [simp]:
  "put_all [] m = m" "put_all ((k, v) # xs) m = put_all xs (map_put k v m)"
  "put_all (xs @ ys) m = put_all ys (put_all xs m)"
  by (simp_all add: put_all_def)

lemma put_all_in_order: "in_order m \<Longrightarrow> in_order (put_all xs m)"
  by (induction xs arbitrary: m) (auto simp: map_put_in_order)

lemma map_of_put_all: "in_order m \<Longrightarrow> map_of (put_all xs m) = map_of m ++ map_of (rev xs)"
  by (induction xs arbitrary: m) (auto simp: map_put_in_order map_of_map_put map_add_def fun_eq_iff split: option.splits)

text \<open>A map in order is determined by its lookups.\<close>

lemma in_order_distinct: "in_order m \<Longrightarrow> distinct (map fst m)"
  by (simp only: strict_sorted_iff)

lemma in_order_map_of: "in_order m \<Longrightarrow> map_of m k = Some v \<longleftrightarrow> (k, v) \<in> set m"
  by (rule map_of_eq_Some_iff) (rule in_order_distinct)

lemma map_of_rev: "distinct (map fst m) \<Longrightarrow> map_of (rev m) = map_of m"
  by (rule ext, rule option.expand) (auto simp: map_of_eq_None_iff rev_map [symmetric] dest: map_of_SomeD)

lemma in_order_unique:
  assumes "in_order m" "in_order m'" "map_of m = map_of m'"
  shows "m = m'"
proof -
  have s: "set m = set m'"
    using in_order_map_of [OF assms(1)] in_order_map_of [OF assms(2)] assms(3) by auto
  have k: "map fst m = map fst m'"
    by (rule sorted_distinct_set_unique) (use assms(1,2) s in \<open>auto simp only: strict_sorted_iff set_map\<close>)
  have m: "map (\<lambda>k. (k, the (map_of m k))) (map fst m) = m" if "in_order m" for m
    unfolding map_map o_def by (rule map_idI) (use in_order_map_of [OF that] in \<open>metis option.sel prod.collapse\<close>)
  show ?thesis
    using m [OF assms(1)] m [OF assms(2)] k assms(3) by simp
qed

lemma put_all_put_all:
  assumes "in_order m"
  shows "put_all (put_all xs []) m = put_all xs m"
proof (rule in_order_unique)
  have o: "in_order (put_all xs [])"
    by (rule put_all_in_order) simp
  have "map_of (rev (put_all xs [])) = map_of (rev xs)"
    using map_of_rev [OF in_order_distinct [OF o]] by (simp add: map_of_put_all)
  then show "map_of (put_all (put_all xs []) m) = map_of (put_all xs m)"
    using assms by (simp add: map_of_put_all)
qed (simp_all add: put_all_in_order assms)

subsection \<open>Listing a tree of files\<close>

datatype dirent = File "byte list" nat | Dir "byte list" "dirent list"

fun files_of :: "byte list \<Rightarrow> dirent list \<Rightarrow> filepair_t" where
  "files_of path [] = []"
| "files_of path (File nm n # es) = (in_dir path nm, n) # files_of path es"
| "files_of path (Dir nm sub # es) = (if dot_name nm then [] else files_of (in_dir path nm) sub) @ files_of path es"

fun dirs_of :: "byte list \<Rightarrow> dirent list \<Rightarrow> byte list list" where
  "dirs_of path [] = []"
| "dirs_of path (File nm n # es) = dirs_of path es"
| "dirs_of path (Dir nm sub # es) =
     (if dot_name nm then [] else in_dir path nm # dirs_of (in_dir path nm) sub) @ dirs_of path es"

fun dirent_reply :: "dirent \<Rightarrow> reply" where
  "dirent_reply (File nm n) = ROut 8 nm"
| "dirent_reply (Dir nm sub) = ROut DT_DIR nm"

text \<open>The position of a stream after \<open>fseek\<close>, from the size of the file and the position before: a negative one is refused.\<close>

definition seek_pos :: "nat \<Rightarrow> nat \<Rightarrow> int \<Rightarrow> int \<Rightarrow> nat" where
  "seek_pos len pos off whence =
     (let n = off + (if whence = SEEK_SET then 0 else if whence = SEEK_END then int len else int pos)
      in if n < 0 then pos else nat n)"

text \<open>The position of a stream on a file of \<open>n\<close> bytes, from the calls: \<open>fopen\<close> starts at 0.\<close>

fun tell_pos :: "handle \<Rightarrow> nat \<Rightarrow> event list \<Rightarrow> nat" where
  "tell_pos h n [] = 0"
| "tell_pos h n ((Libc (Fopen p m), r) # l) = (if r_handle r = h then 0 else tell_pos h n l)"
| "tell_pos h n ((Libc (Fseek h' off whence), r) # l) =
     (if h' = h then seek_pos n (tell_pos h n l) off whence else tell_pos h n l)"
| "tell_pos h n (ev # l) = tell_pos h n l"

text \<open>
  The environment serves the tree below \<open>path\<close>, of at most so many levels: \<open>H\<close> gives the handle of
  a directory, \<open>F\<close> of a file, a directory is read from its start to its end, and \<open>ftell\<close> gives the
  position in a file of that size.
\<close>

definition serves_file :: "env \<Rightarrow> (byte list \<Rightarrow> handle) \<Rightarrow> byte list \<Rightarrow> nat \<Rightarrow> bool" where
  "serves_file e F p n \<longleftrightarrow> F p \<noteq> 0 \<and> n < 2 ^ 64 \<and> (\<forall>l. answer e l (Libc (Fopen p ''rb'')) = RHandle (F p) \<and>
     answer e l (Libc (Ftell (F p))) = RInt (int (tell_pos (F p) n l)))"

definition reads_dir :: "env \<Rightarrow> handle \<Rightarrow> dirent list \<Rightarrow> bool" where
  "reads_dir e h es \<longleftrightarrow> (\<forall>l. answer e l (Libc (Readdir h)) =
     (if readdirs h l < length es then dirent_reply (es ! readdirs h l) else RUnit))"

primrec serves_tree :: "env \<Rightarrow> (byte list \<Rightarrow> handle) \<Rightarrow> (byte list \<Rightarrow> handle) \<Rightarrow> nat \<Rightarrow> byte list \<Rightarrow> dirent list \<Rightarrow> bool" where
  "serves_tree e H F 0 path es = False"
| "serves_tree e H F (Suc d) path es \<longleftrightarrow>
     path \<noteq> bytes_of ''.'' \<and> path \<noteq> bytes_of ''..'' \<and>
     H path \<noteq> 0 \<and> (\<forall>l. answer e l (Libc (Opendir path)) = RHandle (H path)) \<and> reads_dir e (H path) es \<and>
     (\<forall>x\<in>set es. case x of File nm n \<Rightarrow> serves_file e F (in_dir path nm) n
        | Dir nm sub \<Rightarrow> dot_name nm \<or> serves_tree e H F d (in_dir path nm) sub)"

text \<open>The calls of a run that do more than list: what a program wrote, removed or ran.\<close>

fun harmless :: "call \<Rightarrow> bool" where
  "harmless (Libc (Fopen p m)) = (m = ''rb'')"
| "harmless (Libc (Fseek h i w)) = True"
| "harmless (Libc (Ftell h)) = True"
| "harmless (Libc (Fclose h)) = True"
| "harmless (Libc (Opendir p)) = True"
| "harmless (Libc (Readdir h)) = True"
| "harmless (Libc (Closedir h)) = True"
| "harmless c = False"

text \<open>A listing only adds harmless calls to the record, and reads no directory but these.\<close>

definition listing :: "handle set \<Rightarrow> 'z cstate_scheme \<Rightarrow> 'z cstate_scheme \<Rightarrow> bool" where
  "listing hs s t \<longleftrightarrow> (\<exists>l. t = s\<lparr>evs := l @ evs s\<rparr> \<and> (\<forall>ev\<in>set l. harmless (fst ev)) \<and>
     (\<forall>h. h \<notin> hs \<longrightarrow> readdirs h l = 0))"

lemma readdirs_append [simp]: "readdirs h (l @ l') = readdirs h l + readdirs h l'"
  by (simp add: readdirs_def)

lemma listing_refl: "listing hs s s"
  unfolding listing_def by (rule exI [of _ "[]"]) simp

lemma listing_trans: "listing hs s t \<Longrightarrow> listing hs' t u \<Longrightarrow> listing (hs \<union> hs') s u"
  unfolding listing_def by (elim exE conjE, rule_tac x = "la @ l" in exI) auto

lemma listing_mono: "listing hs s t \<Longrightarrow> hs \<subseteq> hs' \<Longrightarrow> listing hs' s t"
  unfolding listing_def by blast

lemma listing_step: "harmless c \<Longrightarrow> (\<And>h. c = Libc (Readdir h) \<Longrightarrow> h \<in> hs) \<Longrightarrow> listing hs s (s\<lparr>evs := (c, r) # evs s\<rparr>)"
  unfolding listing_def by (rule exI [of _ "[(c, r)]"]) auto

lemma listing_readdirs: "listing hs s t \<Longrightarrow> h \<notin> hs \<Longrightarrow> readdirs h (evs t) = readdirs h (evs s)"
  unfolding listing_def by auto

lemma file_size_run:
  assumes "serves_file e F p n"
  shows "\<exists>t. file_size p e s = (Ok (Some n), t) \<and> listing {} s t"
proof -
  have a: "answer e l (Libc (Fopen p ''rb'')) = RHandle (F p)" "answer e l (Libc (Ftell (F p))) = RInt (int (tell_pos (F p) n l))"
    "F p \<noteq> 0" "n < 2 ^ 64" for l
    using assms by (simp_all add: serves_file_def)
  have n: "size_t (int n) = n" "seek_pos n 0 0 SEEK_END = n"
    using a(4) by (simp_all add: seek_pos_def)
  have l: "listing {} s (s\<lparr>evs := l @ evs s\<rparr>)" if "\<forall>ev\<in>set l. harmless (fst ev)" "\<forall>h. readdirs h l = 0" for l
    using that unfolding listing_def by blast
  obtain r r' where "file_size p e s = (Ok (Some n), s\<lparr>evs := [(Libc (Fclose (F p)), r), (Libc (Ftell (F p)), RInt (int n)),
      (Libc (Fseek (F p) 0 SEEK_END), r'), (Libc (Fopen p ''rb''), RHandle (F p))] @ evs s\<rparr>)"
    using a n by (simp add: file_size_def exec)
  then show ?thesis
    using l [of "[(Libc (Fclose (F p)), r), (Libc (Ftell (F p)), RInt (int n)),
      (Libc (Fseek (F p) 0 SEEK_END), r'), (Libc (Fopen p ''rb''), RHandle (F p))]"] by simp
qed

lemma serves_tree_sizes: "serves_tree e H F d path es \<Longrightarrow> (p, n) \<in> set (files_of path es) \<Longrightarrow> n < 2 ^ 64"
proof (induction d arbitrary: path es)
  case (Suc d)
  have "(p, n) \<in> set (files_of path es') \<Longrightarrow> set es' \<subseteq> set es \<Longrightarrow> n < 2 ^ 64" for es'
  proof (induction es')
    case (Cons x es')
    show ?case
    proof (cases x)
      case (File nm m)
      then show ?thesis
        using Suc.prems(1) Cons by (auto simp: serves_file_def)
    next
      case (Dir nm sub)
      have "\<not> dot_name nm \<Longrightarrow> serves_tree e H F d (in_dir path nm) sub"
        using Suc.prems(1) Cons.prems(2) Dir by fastforce
      then show ?thesis
        using Suc.IH Cons Dir by (auto split: if_splits)
    qed
  qed simp
  then show ?case
    using Suc.prems(2) by blast
qed simp

lemma next_dirent_run:
  assumes "reads_dir e h es"
  shows "next_dirent h e s = (Ok (if readdirs h (evs s) < length es
      then Some (case es ! readdirs h (evs s) of File nm n \<Rightarrow> (8, nm) | Dir nm sub \<Rightarrow> (DT_DIR, nm)) else None),
    s\<lparr>evs := (Libc (Readdir h), answer e (evs s) (Libc (Readdir h))) # evs s\<rparr>)"
  using assms by (auto simp: next_dirent_def exec reads_dir_def split: dirent.split)

lemma dir_loop_stop:
  assumes "reads_dir e h es" "readdirs h (evs s) = length es"
  shows "\<exists>t. dir_loop get path h rt e s = (Ok (None, rt), t) \<and> listing {h} s t"
proof -
  have "dir_loop get path h rt e s = (Ok (None, rt), s\<lparr>evs := (Libc (Readdir h), answer e (evs s) (Libc (Readdir h))) # evs s\<rparr>)"
    using assms(2) by (simp add: dir_loop_def run_bnd next_dirent_run [OF assms(1)] c_while_stop)
  moreover have "listing {h} s (s\<lparr>evs := (Libc (Readdir h), answer e (evs s) (Libc (Readdir h))) # evs s\<rparr>)"
    by (rule listing_step) simp_all
  ultimately show ?thesis
    by blast
qed

lemma dir_loop_step:
  fixes s :: "'z cstate_scheme"
  assumes rd: "reads_dir e h es" "readdirs h (evs s) < length es"
    and x: "es ! readdirs h (evs s) = x" "d = (case x of File nm n \<Rightarrow> (8, nm) | Dir nm sub \<Rightarrow> (DT_DIR, nm))"
    and entry: "\<And>u. listing {h} s u \<Longrightarrow> \<exists>v. dir_entry get path d rt e u = (Ok rt', v) \<and> listing hs u v"
    and rest: "\<And>v. listing (insert h hs) s v \<Longrightarrow> readdirs h (evs v) = Suc (readdirs h (evs s)) \<Longrightarrow>
      \<exists>t. dir_loop get path h rt' e v = (Ok (None, res), t) \<and> listing hs' v t"
    and h: "h \<notin> hs"
  shows "\<exists>t. dir_loop get path h rt e s = (Ok (None, res), t) \<and> listing (insert h (hs \<union> hs')) s t"
proof -
  let ?body = "\<lambda>(d, rt). bnd (dir_entry get path (the d) rt) (\<lambda>rt. bnd (next_dirent h) (\<lambda>d. ret (d, rt)))"
  let ?loop = "c_while (\<lambda>(d, rt). d \<noteq> None) ?body"
  define u where "u = s\<lparr>evs := (Libc (Readdir h), answer e (evs s) (Libc (Readdir h))) # evs s\<rparr>"
  have u: "next_dirent h e s = (Ok (Some d), u)"
    using rd(2) x by (simp add: next_dirent_run [OF rd(1)] u_def)
  have su: "listing {h} s u"
    unfolding u_def by (rule listing_step) simp_all
  then obtain v where v: "dir_entry get path d rt e u = (Ok rt', v)" "listing hs u v"
    using entry by blast
  have sv: "listing (insert h hs) s v"
    using listing_trans [OF su v(2)] by simp
  have "readdirs h (evs v) = Suc (readdirs h (evs s))"
    using listing_readdirs [OF v(2) h] by (simp add: u_def)
  then obtain t where t: "dir_loop get path h rt' e v = (Ok (None, res), t)" "listing hs' v t"
    using rest [OF sv] by blast
  obtain q w where q: "next_dirent h e v = (Ok q, w)"
    by (simp add: next_dirent_run [OF rd(1)])
  have "?body (Some d, rt) e u = (Ok (q, rt'), w)"
    using v(1) q by (simp add: exec)
  moreover have "?loop (q, rt') e w = (Ok (None, res), t)"
    using t(1) q by (simp add: dir_loop_def run_bnd)
  ultimately have "?loop (Some d, rt) e u = (Ok (None, res), t)"
    by (rule c_while_next [of "\<lambda>(d, rt). d \<noteq> None", rotated]) simp_all
  then have "dir_loop get path h rt e s = (Ok (None, res), t)"
    using u by (simp add: dir_loop_def run_bnd)
  then show ?thesis
    using listing_trans [OF sv t(2)] by auto
qed

lemma dir_loop_run:
  fixes s :: "'z cstate_scheme"
  assumes H: "inj H" and rd: "reads_dir e (H path) (pre @ es)"
    and get: "\<And>nm sub u. Dir nm sub \<in> set es \<Longrightarrow> \<not> dot_name nm \<Longrightarrow>
      \<forall>p\<in>set (in_dir path nm # dirs_of (in_dir path nm) sub). readdirs (H p) (evs u) = 0 \<Longrightarrow>
      \<exists>v. get_path get (in_dir path nm) e u = (Ok (put_all (files_of (in_dir path nm) sub) []), v) \<and>
        listing (H ` set (in_dir path nm # dirs_of (in_dir path nm) sub)) u v"
    and fil: "\<And>nm n. File nm n \<in> set es \<Longrightarrow> serves_file e F (in_dir path nm) n"
    and "distinct (path # dirs_of path es)" "\<forall>p\<in>set (dirs_of path es). readdirs (H p) (evs s) = 0"
    and "readdirs (H path) (evs s) = length pre" "in_order rt"
  shows "\<exists>t. dir_loop get path (H path) rt e s = (Ok (None, put_all (files_of path es) rt), t) \<and>
    listing (H ` set (path # dirs_of path es)) s t"
  using assms(2-)
proof (induction es arbitrary: pre rt s)
  case Nil
  then show ?case
    using dir_loop_stop [of e "H path" pre s] by simp
next
  case (Cons x es)
  let ?d = "case x of File nm n \<Rightarrow> (8, nm) | Dir nm sub \<Rightarrow> (DT_DIR, nm)"
  have x: "(pre @ x # es) ! readdirs (H path) (evs s) = x" "readdirs (H path) (evs s) < length (pre @ x # es)"
    using Cons.prems(6) by simp_all
  have go: ?case
    if ds: "set (dirs_of path (x # es)) = P \<union> set (dirs_of path es)" "path \<notin> P" "P \<inter> set (dirs_of path es) = {}"
      "distinct (path # dirs_of path es)"
      and entry: "\<And>u. listing {H path} s u \<Longrightarrow> \<exists>v. dir_entry get path ?d rt e u = (Ok rt', v) \<and> listing (H ` P) u v"
      and rt': "in_order rt'" "put_all (files_of path (x # es)) rt = put_all (files_of path es) rt'" for P rt'
  proof -
    have step: "\<exists>t. dir_loop get path (H path) rt' e v = (Ok (None, put_all (files_of path es) rt'), t) \<and>
        listing (H ` set (path # dirs_of path es)) v t"
      if v: "listing (insert (H path) (H ` P)) s v" "readdirs (H path) (evs v) = Suc (readdirs (H path) (evs s))" for v :: "'z cstate_scheme"
    proof (rule Cons.IH [of "pre @ [x]"])
      show "\<forall>p\<in>set (dirs_of path es). readdirs (H p) (evs v) = 0"
      proof
        fix p
        assume p: "p \<in> set (dirs_of path es)"
        then have "H p \<notin> insert (H path) (H ` P)"
          using ds(3,4) H by (auto dest: injD)
        then show "readdirs (H p) (evs v) = 0"
          using listing_readdirs [OF v(1)] Cons.prems(5) ds(1) p by auto
      qed
    qed (use Cons.prems v(2) ds(4) rt'(1) in auto)
    have "H path \<notin> H ` P"
      using ds(2) H by (auto dest: injD)
    have "\<exists>t. dir_loop get path (H path) rt e s = (Ok (None, put_all (files_of path es) rt'), t) \<and>
        listing (insert (H path) (H ` P \<union> H ` set (path # dirs_of path es))) s t"
      by (rule dir_loop_step [OF Cons.prems(1) x(2,1) refl])
        (erule entry, erule (1) step, rule \<open>H path \<notin> H ` P\<close>)
    moreover have "insert (H path) (H ` P \<union> H ` set (path # dirs_of path es)) = H ` set (path # dirs_of path (x # es))"
      unfolding list.set(2) ds(1) by blast
    ultimately show ?thesis
      by (simp only: rt'(2))
  qed
  show ?case
  proof (cases x)
    case (File nm n)
    have sf: "serves_file e F (in_dir path nm) n"
      using Cons.prems(3) File by simp
    have "\<exists>v. dir_entry get path ?d rt e u = (Ok (map_put (in_dir path nm) n rt), v) \<and> listing {} u v" for u :: "'z cstate_scheme"
      using file_size_run [OF sf, of u] by (auto simp: File dir_entry_def Let_def exec)
    then show ?thesis
      using Cons.prems by (intro go [of "{}"]) (auto simp: File map_put_in_order)
  next
    case (Dir nm sub)
    show ?thesis
    proof (cases "dot_name nm")
      case True
      then show ?thesis
        using Cons.prems by (intro go [of "{}" rt]) (auto simp: Dir dir_entry_def Let_def exec listing_refl)
    next
      case False
      let ?P = "set (in_dir path nm # dirs_of (in_dir path nm) sub)"
      have "\<exists>v. dir_entry get path ?d rt e u = (Ok (put_all (files_of (in_dir path nm) sub) rt), v) \<and> listing (H ` ?P) u v"
        if u: "listing {H path} s u" for u :: "'z cstate_scheme"
      proof -
        have "\<forall>p\<in>?P. readdirs (H p) (evs u) = 0"
        proof
          fix p
          assume p: "p \<in> ?P"
          then have "H p \<notin> {H path}"
            using Cons.prems(4) H False by (auto simp: Dir dest: injD)
          then show "readdirs (H p) (evs u) = 0"
            using listing_readdirs [OF u] Cons.prems(5) p False by (auto simp: Dir)
        qed
        then obtain v where "get_path get (in_dir path nm) e u = (Ok (put_all (files_of (in_dir path nm) sub) []), v)"
          "listing (H ` ?P) u v"
          using Cons.prems(2) [of nm sub u] False by (auto simp: Dir)
        then show ?thesis
          using False Cons.prems(7) by (simp add: Dir dir_entry_def Let_def exec put_all_put_all)
      qed
      then show ?thesis
        using Cons.prems False by (intro go [of ?P]) (auto simp: Dir put_all_in_order)
    qed
  qed
qed

lemma dir_get_run:
  fixes s :: "'z cstate_scheme"
  assumes "inj H"
  shows "serves_tree e H F d path es \<Longrightarrow> distinct (path # dirs_of path es) \<Longrightarrow>
    \<forall>p\<in>set (path # dirs_of path es). readdirs (H p) (evs s) = 0 \<Longrightarrow>
    \<exists>t. dir_get d path (H path) e s = (Ok (put_all (files_of path es) []), t) \<and>
      listing (H ` set (path # dirs_of path es)) s t"
proof (induction d arbitrary: path es s)
  case (Suc d)
  have sub: "\<exists>v. get_path (dir_get d) (in_dir path nm) e u = (Ok (put_all (files_of (in_dir path nm) sub) []), v) \<and>
      listing (H ` set (in_dir path nm # dirs_of (in_dir path nm) sub)) u v"
    if x: "Dir nm sub \<in> set es" "\<not> dot_name nm"
      and z: "\<forall>p\<in>set (in_dir path nm # dirs_of (in_dir path nm) sub). readdirs (H p) (evs u) = 0"
    for nm sub and u :: "'z cstate_scheme"
  proof -
    have sv: "serves_tree e H F d (in_dir path nm) sub"
      using Suc.prems(1) x by force
    have "distinct (in_dir path nm # dirs_of (in_dir path nm) sub)"
      using Suc.prems(2) x by (induction path es rule: dirs_of.induct) auto
    moreover define w where "w = u\<lparr>evs := (Libc (Opendir (in_dir path nm)), RHandle (H (in_dir path nm))) # evs u\<rparr>"
    moreover have "\<forall>p\<in>set (in_dir path nm # dirs_of (in_dir path nm) sub). readdirs (H p) (evs w) = 0"
      using z by (simp add: w_def)
    ultimately obtain t where t: "dir_get d (in_dir path nm) (H (in_dir path nm)) e w = (Ok (put_all (files_of (in_dir path nm) sub) []), t)"
      "listing (H ` set (in_dir path nm # dirs_of (in_dir path nm) sub)) w t"
      using Suc.IH [OF sv] by blast
    have "listing {} u w"
      unfolding w_def by (rule listing_step) simp_all
    then have "listing (H ` set (in_dir path nm # dirs_of (in_dir path nm) sub)) u t"
      using listing_trans [OF _ t(2)] by force
    moreover have "get_path (dir_get d) (in_dir path nm) e u = dir_get d (in_dir path nm) (H (in_dir path nm)) e w"
      using sv by (cases d) (auto simp: get_path_def exec w_def)
    ultimately show ?thesis
      using t(1) by simp
  qed
  have rd: "reads_dir e (H path) ([] @ es)"
    using Suc.prems(1) by simp
  have "\<exists>t. dir_loop (dir_get d) path (H path) [] e s = (Ok (None, put_all (files_of path es) []), t) \<and>
      listing (H ` set (path # dirs_of path es)) s t"
    by (rule dir_loop_run [OF assms rd sub]) (use Suc.prems in force)+
  then show ?case
    by (auto simp: exec)
qed simp

end
