(* ===== verification/Deletor_Props.thy ===== *)
theory Deletor_Props
  imports Deletor_Tree "HOL-Library.Countable"
begin

text \<open>
  The properties of the tool that destroys large files (\<open>Deletor\<close>): its units, the two ways of
  destroying a file, its options, and the program run on a tree of files; then instances.
\<close>

subsection \<open>Sizes\<close>

lemma rat_power_less: "n < 1024 ^ j \<longleftrightarrow> (of_nat n :: rat) < 1024 ^ j"
  using of_nat_less_iff [of n "1024 ^ j", where 'a = rat] by (simp only: of_nat_power of_nat_numeral)

lemma isOf_loop_run:
  assumes "i \<le> j" "j < 40" "1024 ^ j \<le> n \<or> j = 0" "n < 1024 ^ Suc j"
  shows "c_while (\<lambda>(b, i). b / 1024 \<ge> (1 :: rat) \<and> i < 40) (\<lambda>(b, i). ret (b / 1024, c_uchar (int i + 1)))
    (of_nat n / 1024 ^ i, i) e s = (Ok (of_nat n / 1024 ^ j, j), s)"
  using assms(1)
proof (induction "j - i" arbitrary: i)
  case 0
  have "(of_nat n :: rat) < 1024 ^ Suc j"
    using assms(4) by (simp only: rat_power_less)
  then have b: "\<not> (of_nat n / 1024 ^ j / 1024 :: rat) \<ge> 1"
    by (simp add: not_le divide_less_eq)
  have ij: "i = j"
    using 0 by simp
  show ?case
    unfolding ij by (rule c_while_stop) (simp only: prod.case b simp_thms)
next
  case (Suc k)
  then have ij: "i < j"
    by simp
  then have "(1024 :: nat) ^ Suc i \<le> 1024 ^ j"
    by (intro power_increasing) simp_all
  then have "\<not> n < 1024 ^ Suc i"
    using assms(3) ij by auto
  then have "(1024 :: rat) ^ Suc i \<le> of_nat n"
    by (simp only: rat_power_less not_less)
  then have g: "(of_nat n / 1024 ^ i / 1024 :: rat) \<ge> 1"
    by (simp add: le_divide_eq)
  have c: "c_uchar (int i + 1) = Suc i"
    using ij assms(2) by simp
  have b: "(of_nat n / 1024 ^ i / 1024 :: rat) = of_nat n / 1024 ^ Suc i"
    by simp
  show ?case
  proof (rule c_while_next)
    show "(\<lambda>(b, i). ret (b / 1024, c_uchar (int i + 1))) (of_nat n / 1024 ^ i :: rat, i) e s = (Ok (of_nat n / 1024 ^ Suc i, Suc i), s)"
      using c by (simp add: run_ret)
    show "c_while (\<lambda>(b, i). b / 1024 \<ge> (1 :: rat) \<and> i < 40) (\<lambda>(b, i). ret (b / 1024, c_uchar (int i + 1)))
        (of_nat n / 1024 ^ Suc i, Suc i) e s = (Ok (of_nat n / 1024 ^ j, j), s)"
      using Suc.hyps(2) ij by (intro Suc.hyps(1)) simp_all
    show "(\<lambda>(b, i). b / 1024 \<ge> (1 :: rat) \<and> i < 40) (of_nat n / 1024 ^ i, i)"
      unfolding prod.case using ij assms(2) by (intro conjI g) simp
  qed simp
qed

lemma isOf_run:
  assumes "j < 40" "1024 ^ j \<le> n \<or> j = 0" "n < 1024 ^ Suc j"
  shows "isOf (of_nat n) e s = (if j < 5 then Ok (size_units ! j, of_nat n / 1024 ^ j) else Err OutOfBounds, s)"
proof -
  have l: "length size_units = 5"
    by (simp add: size_units_def)
  have "c_while (\<lambda>(b, i). b / 1024 \<ge> (1 :: rat) \<and> i < 40) (\<lambda>(b, i). ret (b / 1024, c_uchar (int i + 1)))
      (of_nat n, 0) e s = (Ok (of_nat n / 1024 ^ j, j), s)"
    using isOf_loop_run [of 0 j n e s] assms by (simp only: power_0 div_by_1)
  then show ?thesis
    by (simp add: isOf_def run_bnd l run_ret run_fail del: One_nat_def)
qed

lemma scale_exists: "n \<noteq> 0 \<Longrightarrow> \<exists>j. 1024 ^ j \<le> n \<and> n < 1024 ^ Suc j" for n :: nat
  using ex_power_ivl1 [of 1024 n] by simp

lemma unit_index:
  fixes n :: nat
  assumes "n < 2 ^ 64" "n \<noteq> 0"
  obtains j where "1024 ^ j \<le> n" "n < 1024 ^ Suc j" "j < 7" "n < 2 ^ 50 \<longleftrightarrow> j < 5"
proof -
  obtain j where j: "1024 ^ j \<le> n" "n < 1024 ^ Suc j"
    using scale_exists [OF assms(2)] by blast
  have "(1024 :: nat) ^ j < 1024 ^ 7"
    using j(1) assms by simp
  then have "j < 7"
    by (rule power_less_imp_less_exp [rotated]) simp
  moreover have "n < 1024 ^ 5 \<longleftrightarrow> j < 5"
  proof
    assume "n < 1024 ^ 5"
    then have "(1024 :: nat) ^ j < 1024 ^ 5"
      using j(1) by simp
    then show "j < 5"
      by (rule power_less_imp_less_exp [rotated]) simp
  next
    assume "j < 5"
    then have "(1024 :: nat) ^ Suc j \<le> 1024 ^ 5"
      by (intro power_increasing) simp_all
    then show "n < 1024 ^ 5"
      using j(2) by simp
  qed
  ultimately show ?thesis
    using j that by simp
qed

lemma isOf_fits:
  assumes "n < 2 ^ 50"
  shows "\<exists>i < 5. (1024 ^ i \<le> n \<or> i = 0) \<and> n < 1024 ^ Suc i \<and>
    (\<forall>s :: 'z cstate_scheme. isOf (of_nat n) e s = (Ok (size_units ! i, of_nat n / 1024 ^ i), s))"
proof (cases "n = 0")
  case True
  have "isOf (of_nat n) e s = (Ok (size_units ! 0, of_nat n / 1024 ^ 0), s)" for s :: "'z cstate_scheme"
    using isOf_run [of 0 n e s] True by simp
  then show ?thesis
    using True by (intro exI [of _ 0]) simp
next
  case False
  have "n < 2 ^ 64"
    using assms by simp
  then obtain j where j: "1024 ^ j \<le> n" "n < 1024 ^ Suc j" "j < 7" "n < 2 ^ 50 \<longleftrightarrow> j < 5"
    using unit_index False by blast
  have "isOf (of_nat n) e s = (Ok (size_units ! j, of_nat n / 1024 ^ j), s)" for s :: "'z cstate_scheme"
    using isOf_run [of j n e s] j assms by simp
  then show ?thesis
    using j assms by blast
qed

text \<open>\<open>isOf\<close> divides a size below 1024 tera by the largest power of 1024 that leaves at
  least one, and names the unit of that power; from 2 to the 50 on it reads a name past the end
  of the array.\<close>

theorem isOf_scales:
  assumes "n < 2 ^ 64"
  shows "if n < 2 ^ 50
    then \<exists>i < 5. isOf (of_nat n) e s = (Ok (size_units ! i, of_nat n / 1024 ^ i), s) \<and>
      (1024 ^ i \<le> n \<or> i = 0) \<and> n < 1024 ^ Suc i
    else isOf (of_nat n) e s = (Err OutOfBounds, s)"
proof (cases "n < 2 ^ 50")
  case True
  then show ?thesis
    using isOf_fits [OF True, of e] by auto
next
  case False
  then have "n \<noteq> 0"
    by (metis zero_less_numeral zero_less_power)
  with assms obtain j where j: "1024 ^ j \<le> n" "n < 1024 ^ Suc j" "j < 7" "n < 2 ^ 50 \<longleftrightarrow> j < 5"
    using unit_index by blast
  then have "isOf (of_nat n) e s = (Err OutOfBounds, s)"
    using isOf_run [of j n e s] False by simp
  then show ?thesis
    using False by (simp only: if_False)
qed

subsection \<open>Shredding\<close>

definition commands :: "event list \<Rightarrow> byte list list" where
  "commands l = concat (rev (map (\<lambda>ev. case fst ev of Libc (System c) \<Rightarrow> [c] | _ \<Rightarrow> []) l))"

lemma commands_simps [simp]:
  "commands [] = []" "commands (l @ l') = commands l' @ commands l"
  "commands ((c, r) # l) = commands l @ (case c of Libc (System c) \<Rightarrow> [c] | _ \<Rightarrow> [])"
  by (simp_all add: commands_def)

lemma shred_run:
  fixes s :: "'z cstate_scheme"
  assumes "fresh s" "NUL \<notin> set p" "length p \<le> 243"
  shows "\<exists>t. shred p e s = (Ok (), t) \<and> fresh t \<and> blocks t = blocks s \<and> commands (evs t) = commands (evs s) @ [shred_command p]"
proof -
  have dead: "blocks s (nxt s) = None"
    using assms by (simp add: fresh_above)
  have n: "NUL \<notin> set (shred_command p)"
    using assms by (simp add: shred_command_def)
  have len: "length (shred_command p) < 256"
    using assms by (simp add: shred_command_def)
  have str: "get_str m (Addr b 0) = Inr (shred_command p)"
    if "m b = Some (map Byte (shred_command p) @ Byte NUL # cs)" for m b cs
    using that n by (intro get_str_block) simp
  have "(blocks s)(nxt s := None) = blocks s"
    using dead by (rule fun_upd_idem)
  then have "\<exists>t. shred p e s = (Ok (), t) \<and> blocks t = blocks s \<and> commands (evs t) = commands (evs s) @ [shred_command p]"
    using assms len by (simp add: shred_def exec local_arr_def str events_def drop_block_def)
  moreover have "keeps fresh_kept (shred p)"
    unfolding shred_def by auto
  ultimately show ?thesis
    using assms(1) by (force dest: keepsD simp: fresh_kept_def)
qed

lemma shred_faults: "243 < length p \<Longrightarrow> faults OutOfBounds (shred p) e s"
  unfolding shred_def
  by (intro faults_local_arr faults_later wp_bzero faults_here faults_mem(1))
    (auto simp: exec shred_command_def put_cells_ok put_cells_oob)

text \<open>With a shell the file is destroyed by the command \<open>shred -u\<close> on its quoted path if the path has
  at most 243 characters; a longer path is written past the array \<open>command\<close>.\<close>

theorem shred_runs_command:
  fixes s :: "'z cstate_scheme"
  assumes "fresh s" "NUL \<notin> set p"
  shows "if length p \<le> 243
    then \<exists>t. shred p e s = (Ok (), t) \<and> blocks t = blocks s \<and> commands (evs t) = commands (evs s) @ [shred_command p]
    else fst (shred p e s) = Err OutOfBounds"
  using shred_run [OF assms, of e] shred_faults [of p e s] by (auto simp: faults_def)

text \<open>
  A stream as the C library keeps it: the content of the file and the position. \<open>"wb"\<close> truncates the
  file, a write replaces what is there and fills a gap with zeros.
\<close>

type_synonym stream = "byte list \<times> nat"

definition write_at :: "stream \<Rightarrow> byte list \<Rightarrow> stream" where
  "write_at st bs =
     (take (snd st) (fst st @ replicate (snd st - length (fst st)) 0) @ bs @ drop (snd st + length bs) (fst st),
      snd st + length bs)"

fun stream_step :: "handle \<Rightarrow> event \<Rightarrow> stream \<Rightarrow> stream" where
  "stream_step f (Libc (Fopen p m), r) st = (if r_handle r = f then (if m = ''wb'' then [] else fst st, 0) else st)"
| "stream_step f (Libc (Fseek h off whence), r) st =
     (if h = f then (fst st, seek_pos (length (fst st)) (snd st) off whence) else st)"
| "stream_step f (Libc (Fwrite h bs), r) st = (if h = f then write_at st bs else st)"
| "stream_step f (Libc (Fread h n), r) st = (if h = f then (fst st, max (snd st) (min (length (fst st)) (snd st + n))) else st)"
| "stream_step f (c, r) st = st"

definition stream_of :: "handle \<Rightarrow> event list \<Rightarrow> stream" where
  "stream_of f l = foldr (stream_step f) l ([], 0)"

lemma stream_of_simps [simp]:
  "stream_of f [] = ([], 0)" "stream_of f (ev # l) = stream_step f ev (stream_of f l)"
  by (simp_all add: stream_of_def)

lemma write_at_end: "write_at (c, length c) bs = (c @ bs, length (c @ bs))"
  by (simp add: write_at_def)

text \<open>The bytes that are drawn fill the buffer.\<close>

lemma fill_rand_run:
  fixes s :: "'z cstate_scheme"
  assumes "blocks s b = Some cs" "i + n \<le> length cs"
  shows "\<exists>t bs. fill_rand n (Addr b i) e s = (Ok (), t) \<and> length bs = n \<and>
    blocks t = (blocks s)(b \<mapsto> take i cs @ map Byte bs @ drop (i + n) cs) \<and> nxt t = nxt s \<and> stream_of f (evs t) = stream_of f (evs s)"
  using assms
proof (induction n arbitrary: i cs s)
  case 0
  then show ?case
    by (auto simp: exec fun_upd_idem)
next
  case (Suc n)
  define u where "u = s\<lparr>blocks := (blocks s)(b \<mapsto> cs[i := Byte (of_nat (rand_val e (evs s)))]),
    evs := (Libc Rand, answer e (evs s) (Libc Rand)) # evs s\<rparr>"
  have c: "take i cs @ Byte (of_nat (rand_val e (evs s))) # drop (Suc i) cs = cs[i := Byte (of_nat (rand_val e (evs s)))]"
    using Suc.prems by (simp add: upd_conv_take_nth_drop)
  have run: "fill_rand (Suc n) (Addr b i) e s = fill_rand n (Addr b (Suc i)) e u"
    using Suc.prems by (simp add: exec u_def c)
  have "blocks u b = Some (cs[i := Byte (of_nat (rand_val e (evs s)))])" "Suc i + n \<le> length (cs[i := Byte (of_nat (rand_val e (evs s)))])"
    using Suc.prems by (simp_all add: u_def)
  moreover have d: "drop (Suc i + n) (cs[i := Byte (of_nat (rand_val e (evs s)))]) = drop (Suc i + n) cs"
    by simp
  ultimately obtain t bs where t: "fill_rand n (Addr b (Suc i)) e u = (Ok (), t)" "length bs = n"
    "blocks t = (blocks u)(b \<mapsto> take (Suc i) (cs[i := Byte (of_nat (rand_val e (evs s)))]) @ map Byte bs @ drop (Suc i + n) cs)"
    "nxt t = nxt u" "stream_of f (evs t) = stream_of f (evs u)"
    using Suc.IH [of u "cs[i := Byte (of_nat (rand_val e (evs s)))]" "Suc i"] unfolding d by blast
  have "stream_of f (evs u) = stream_of f (evs s)"
    by (simp add: u_def)
  moreover have "blocks t = (blocks s)(b \<mapsto> take i cs @ map Byte (of_nat (rand_val e (evs s)) # bs) @ drop (i + Suc n) cs)"
    using t(3) Suc.prems(2) by (simp add: u_def take_Suc_conv_app_nth)
  ultimately show ?case
    using run t by (intro exI [of _ t] exI [of _ "of_nat (rand_val e (evs s)) # bs"]) (simp add: u_def)
qed

lemma wrand_run:
  fixes s :: "'z cstate_scheme"
  assumes "blocks s b = Some cs" "length cs = 128"
  shows "\<exists>t bs. wrand (Addr b 0) f 128 e s = (Ok (), t) \<and> length bs = 128 \<and>
    blocks t = (blocks s)(b \<mapsto> map Byte bs) \<and> nxt t = nxt s \<and> stream_of f (evs t) = write_at (stream_of f (evs s)) bs"
proof -
  define u where "u = s\<lparr>evs := (Libc (Srand (r_int (answer e (evs s) (Libc Time)))),
    answer e ((Libc Time, answer e (evs s) (Libc Time)) # evs s) (Libc (Srand (r_int (answer e (evs s) (Libc Time)))))) #
    (Libc Time, answer e (evs s) (Libc Time)) # evs s\<rparr>"
  have "blocks u b = Some cs" "0 + 128 \<le> length cs"
    using assms by (simp_all add: u_def)
  moreover have "take 0 cs @ map Byte bs @ drop (0 + 128) cs = map Byte bs" for bs
    using assms(2) by simp
  ultimately obtain t bs where t: "fill_rand 128 (Addr b 0) e u = (Ok (), t)" "length bs = 128"
    "blocks t = (blocks u)(b \<mapsto> map Byte bs)" "nxt t = nxt u" "stream_of f (evs t) = stream_of f (evs u)"
    using fill_rand_run [of u b cs 0 128 e f] by metis
  have "get_bytes (blocks t) (Addr b 0) 128 = Inr bs"
    using t(2,3) by (simp add: get_bytes_map)
  moreover have "wrand (Addr b 0) f 128 e s = cont (fill_rand 128 (Addr b 0) e u)
      (\<lambda>_. bnd (read_bytes (Addr b 0) 128) (\<lambda>bs. bnd (ext (Libc (Fwrite f bs))) (\<lambda>_. ret ())) e)"
    by (simp add: wrand_def exec u_def)
  ultimately have "wrand (Addr b 0) f 128 e s =
      (Ok (), t\<lparr>evs := (Libc (Fwrite f bs), answer e (evs t) (Libc (Fwrite f bs))) # evs t\<rparr>)"
    by (simp add: t(1) exec)
  then show ?thesis
    using t(2-) by (auto simp: u_def)
qed

text \<open>A pass of the inner loop at the end of the file.\<close>

lemma pass_run:
  fixes s :: "'z cstate_scheme"
  assumes "\<exists>cs. blocks s b = Some cs \<and> length cs = 128" "stream_of f (evs s) = (c, length c)"
  shows "\<exists>t bss. c_while (\<lambda>c. c \<noteq> 0) (\<lambda>c. bnd (wrand (Addr b 0) f 128) (\<lambda>_. ret (c - 1))) n e s = (Ok (0 :: nat), t) \<and>
    length bss = n \<and> (\<forall>bs\<in>set bss. length bs = 128) \<and> (\<exists>cs. blocks t b = Some cs) \<and>
    (blocks t)(b := None) = (blocks s)(b := None) \<and> nxt t = nxt s \<and>
    stream_of f (evs t) = (c @ concat bss, length (c @ concat bss))"
  using assms
proof (induction n arbitrary: s c)
  case 0
  then show ?case
    by (auto simp: c_while_stop)
next
  case (Suc n)
  then obtain u bs where u: "wrand (Addr b 0) f 128 e s = (Ok (), u)" "length bs = 128"
    "blocks u = (blocks s)(b \<mapsto> map Byte bs)" "nxt u = nxt s" "stream_of f (evs u) = (c @ bs, length (c @ bs))"
    using wrand_run [of s b _ f e] by (metis write_at_end)
  then have "\<exists>cs. blocks u b = Some cs \<and> length cs = 128"
    by simp
  then obtain t bss where t: "c_while (\<lambda>c. c \<noteq> 0) (\<lambda>c. bnd (wrand (Addr b 0) f 128) (\<lambda>_. ret (c - 1))) n e u = (Ok 0, t)"
    "length bss = n" "\<forall>bs\<in>set bss. length bs = 128" "\<exists>cs. blocks t b = Some cs" "(blocks t)(b := None) = (blocks u)(b := None)"
    "nxt t = nxt u" "stream_of f (evs t) = ((c @ bs) @ concat bss, length ((c @ bs) @ concat bss))"
    using Suc.IH [of u "c @ bs"] u(5) by blast
  have "c_while (\<lambda>c. c \<noteq> 0) (\<lambda>c. bnd (wrand (Addr b 0) f 128) (\<lambda>_. ret (c - 1))) (Suc n) e s = (Ok 0, t)"
    by (rule c_while_next [where a' = n and s' = u]) (use u(1) t(1) in \<open>simp_all add: exec\<close>)
  then show ?case
    using t u by (intro exI [of _ t] exI [of _ "bs # bss"]) simp
qed

lemma length_blocks: "\<forall>bs\<in>set bss. length bs = k \<Longrightarrow> length (concat bss) = k * length bss"
  by (induction bss) simp_all

text \<open>Claim C18: \<open>doit\<close> writes \<open>count\<close> blocks of 128 random bytes (33 in the program) to a file that \<open>"wb"\<close> has just emptied,
  whatever its size was: \<open>fseek\<close> gets its last two arguments in the wrong order, so the position that is taken for the
  size of the file is 2 and the loop over the file has one turn. What the file holds is exactly these blocks. Then the
  buffer is released in a way that C++ leaves undefined: either memory is as it was or the program ends there.\<close>

theorem doit_writes_blocks:
  fixes s :: "'z cstate_scheme"
  assumes "fresh s" "alloc_total e" "f \<noteq> 0"
    and "\<And>l. answer e l (Libc (Fopen p ''wb'')) = RHandle f"
    and "\<And>l. answer e l (Libc (Ftell f)) = RInt (int (snd (stream_of f l)))"
    and "\<And>l. answer e l (Indeterminate ''delete of an array from new[]'') = RInt d"
  shows "\<exists>t bss. doit (p, n) count e s = (if d = 0 then Ok () else Err BadFree, t) \<and> (d = 0 \<longrightarrow> blocks t = blocks s) \<and>
    stream_of f (evs t) = (concat bss, 128 * count) \<and> length bss = count \<and> (\<forall>bs\<in>set bss. length bs = 128)"
proof -
  let ?inner = "\<lambda>count. c_while (\<lambda>c :: nat. c \<noteq> 0) (\<lambda>c. bnd (wrand (Addr (nxt s) 0) f 128) (\<lambda>_. ret (c - 1))) count"
  let ?body = "\<lambda>(i, count). bnd (?inner count) (\<lambda>c. ret (size_t (int i + 128), size_t (int c - 1)))"
  have dead: "blocks s (nxt s) = None"
    using assms(1) by (simp add: fresh_above)
  define l1 where "l1 = (Libc (Fopen p ''wb''), RHandle f) # evs s"
  define l2 where "l2 = (Libc (Fseek f 2 0), answer e l1 (Libc (Fseek f 2 0))) # l1"
  have tell: "answer e l2 (Libc (Ftell f)) = RInt 2"
    by (simp add: assms(5) l2_def l1_def seek_pos_def)
  define l3 where "l3 = (Libc (Ftell f), RInt 2) # l2"
  define u where "u = new_block (replicate 128 Undef) (s\<lparr>evs := l1\<rparr>)
    \<lparr>evs := (Libc (Fseek f 0 0), answer e l3 (Libc (Fseek f 0 0))) # l3\<rparr>"
  have run: "doit (p, n) count e s =
      cont (c_while (\<lambda>(i, count). i < 2) ?body (0, count) e u)
        (\<lambda>_. bnd (delete_new_array (Addr (nxt s) 0)) (\<lambda>_. bnd (ext (Libc (Fclose f))) (\<lambda>_. ret ())) e)"
    using assms(1-4) tell by (simp add: doit_def cxx_new_def Let_def exec u_def l1_def [symmetric] l2_def [symmetric] l3_def [symmetric])
  have u: "blocks u = (blocks s)(nxt s \<mapsto> replicate 128 Undef)" "stream_of f (evs u) = ([], length ([] :: byte list))"
    by (simp_all add: u_def l1_def l2_def l3_def seek_pos_def)
  have "\<exists>cs. blocks u (nxt s) = Some cs \<and> length cs = 128"
    using u(1) by simp
  from pass_run [OF this u(2), of count e] obtain t bss where t: "?inner count e u = (Ok 0, t)" "length bss = count"
    "\<forall>bs\<in>set bss. length bs = 128" "\<exists>cs. blocks t (nxt s) = Some cs" "(blocks t)(nxt s := None) = (blocks u)(nxt s := None)"
    "stream_of f (evs t) = (concat bss, length (concat bss))"
    by auto
  have "c_while (\<lambda>(i, count). i < 2) ?body (0, count) e u = (Ok (128, 2 ^ 64 - 1), t)"
    by (rule c_while_next [where a' = "(128, 2 ^ 64 - 1)" and s' = t])
      (use t(1) in \<open>simp_all add: exec c_while_stop size_t_def\<close>)
  moreover have "(blocks t)(nxt s := None) = blocks s"
    using t(5) u(1) dead by (simp add: fun_upd_idem)
  ultimately have "\<exists>v. doit (p, n) count e s = (if d = 0 then Ok () else Err BadFree, v) \<and> (d = 0 \<longrightarrow> blocks v = blocks s) \<and>
      stream_of f (evs v) = stream_of f (evs t)"
    using run t(4) by (auto simp: exec delete_new_array_def assms(6))
  then show ?thesis
    using t(2,3,6) length_blocks [OF t(3)] by auto
qed

subsection \<open>The program\<close>

fun del_opt :: "del_opts \<Rightarrow> int \<times> byte list \<Rightarrow> del_opts" where
  "del_opt st (c, a) = (if c = 115 then st\<lparr>maxSize := size_t (atoi a)\<rparr> else st\<lparr>useSystemShred := True\<rparr>)"

lemma quit_del_opt [simp]: "quit (del_opt st x) = quit st"
  by (cases x) simp

interpretation del_parser: option_parser "\<lambda>c. c > 0" quit del_option "\<lambda>c. c \<in> {115, 122}" del_opt
  by unfold_locales (auto simp: del_option_def optarg_of_def exec)

lemma del_options_run:
  fixes s :: "'z cstate_scheme"
  assumes "gives_options e ''s:hz'' os argv" "\<forall>x\<in>set os. fst x \<in> {115, 122}" "getopts ''s:hz'' (evs s) = 0"
  shows "\<exists>t. del_options e s = (Ok (foldl del_opt \<lparr>maxSize = 0, useSystemShred = False, quit = False\<rparr> os, argv), t) \<and>
    only_options ''s:hz'' s t"
  using del_parser.options_run [OF assms, of "\<lparr>maxSize = 0, useSystemShred = False, quit = False\<rparr>"] by (auto simp: del_options_def run_bnd run_ret)

text \<open>What the program can do to a file: the unit of its size is in the table and, if it is to be shredded,
  the command fits the array.\<close>

definition shreddable :: "nat \<Rightarrow> byte list \<times> nat \<Rightarrow> bool" where
  "shreddable limit file \<longleftrightarrow> snd file < 2 ^ 50 \<and> (limit < snd file \<longrightarrow> length (fst file) \<le> 243)"

lemma visit_file_run:
  fixes s :: "'z cstate_scheme"
  assumes "fresh s" "useSystemShred st" "NUL \<notin> set p" "shreddable (maxSize st) (p, n)"
  shows "\<exists>t. visit_file st (p, n) e s = (Ok (), t) \<and> fresh t \<and> blocks t = blocks s \<and>
    commands (evs t) = commands (evs s) @ (if n > maxSize st then [shred_command p] else [])"
proof -
  obtain i where i: "\<And>u :: 'z cstate_scheme. isOf (of_nat n) e u = (Ok (size_units ! i, of_nat n / 1024 ^ i), u)"
    using isOf_fits [of n e] assms(4) by (auto simp: shreddable_def)
  have f: "fresh (u\<lparr>evs := l\<rparr>) = fresh u" for u :: "'z cstate_scheme" and l
    by (simp add: fresh_def)
  have shred: "wp (shred p) (\<lambda>_ t. fresh t \<and> blocks t = blocks u \<and> commands (evs t) = commands (evs u) @ [shred_command p]) e u"
    if "fresh u" "n > maxSize st" for u :: "'z cstate_scheme"
    using shred_run [OF that(1) assms(3), of e] that(2) assms(4) by (auto simp: wp_def shreddable_def)
  have "wp (visit_file st (p, n)) (\<lambda>_ t. fresh t \<and> blocks t = blocks s \<and>
      commands (evs t) = commands (evs s) @ (if n > maxSize st then [shred_command p] else [])) e s"
    unfolding visit_file_def put_line_def fst_conv snd_conv
    apply (rule wp_bnd, rule wp_call, rule wp_bnd, rule wp_run, rule i)
    apply (rule wp_bnd, rule wp_call, rule wp_bnd, rule wp_ext, rule wp_bnd, rule wp_call, rule wp_bnd)
    apply (rule wp_if)
     apply (rule wp_bnd, rule wp_call, rule wp_bnd, rule wp_ext, rule wp_bnd)
     apply (simp only: assms(2) if_True)
     apply (rule wp_weaken, rule shred, simp add: f assms(1), assumption)
     apply (rule wp_call, rule wp_bnd, rule wp_call, rule wp_call, simp add: f)
    apply (rule wp_ret, rule wp_bnd, rule wp_call, rule wp_call, simp add: f assms(1))
    done
  then show ?thesis
    by (auto dest: wpD)
qed

lemma visit_file_faults:
  fixes s :: "'z cstate_scheme"
  assumes "useSystemShred st" "n < 2 ^ 64" "\<not> shreddable (maxSize st) (p, n)"
  shows "faults OutOfBounds (visit_file st (p, n)) e s"
proof (cases "n < 2 ^ 50")
  case True
  then have big: "n > maxSize st" "243 < length p"
    using assms(3) by (simp_all add: shreddable_def)
  obtain i where i: "\<And>u :: 'z cstate_scheme. isOf (of_nat n) e u = (Ok (size_units ! i, of_nat n / 1024 ^ i), u)"
    using isOf_fits [OF True, of e] by blast
  show ?thesis
    unfolding visit_file_def put_line_def fst_conv snd_conv
    apply (rule faults_later, rule wp_call, rule faults_later, rule wp_run, rule i)
    apply (rule faults_later, rule wp_call, rule faults_later, rule wp_ext, rule faults_later, rule wp_call, rule faults_here)
    apply (simp only: big(1) assms(1) if_True)
    apply (rule faults_later, rule wp_call, rule faults_later, rule wp_ext, rule faults_here, rule shred_faults, rule big(2))
    done
next
  case False
  have unit: "faults OutOfBounds (isOf (of_nat n)) e u" for u :: "'z cstate_scheme"
    using isOf_scales [OF assms(2), of e u] False by (simp only: if_False faults_def fst_conv)
  show ?thesis
    unfolding visit_file_def put_line_def fst_conv snd_conv
    by (rule faults_later, rule wp_call, rule faults_here, rule unit)
qed

lemma only_optionsD:
  fixes s t :: "'z cstate_scheme"
  assumes "only_options opts s t"
  shows "fresh t = fresh s" "blocks t = blocks s" "commands (evs t) = commands (evs s)" "readdirs h (evs t) = readdirs h (evs s)"
proof -
  obtain l where t: "t = s\<lparr>evs := l @ evs s\<rparr>" and l: "\<forall>ev\<in>set l. fst ev = Libc (Getopt_long opts)"
    using assms by (auto simp: only_options_def)
  have "commands l = [] \<and> readdirs h l = 0"
    using l by (induction l) (auto simp: readdirs_def)
  then show "fresh t = fresh s" "blocks t = blocks s" "commands (evs t) = commands (evs s)" "readdirs h (evs t) = readdirs h (evs s)"
    by (simp_all add: t fresh_def)
qed

lemma harmless_commands: "\<forall>ev\<in>set l. harmless (fst ev) \<Longrightarrow> commands l = []"
proof (induction l)
  case (Cons ev l)
  obtain c r where "ev = (c, r)"
    by (cases ev)
  then show ?case
    using Cons by (cases c rule: harmless.cases) auto
qed simp

lemma listingD:
  fixes s t :: "'z cstate_scheme"
  assumes "listing hs s t"
  shows "fresh t = fresh s" "blocks t = blocks s" "commands (evs t) = commands (evs s)"
  using assms harmless_commands by (auto simp: listing_def fresh_def)

lemma visit_files_run:
  fixes s :: "'z cstate_scheme"
  assumes "useSystemShred st"
  shows "fresh s \<Longrightarrow> \<forall>(p, n)\<in>set fs. NUL \<notin> set p \<and> n < 2 ^ 64 \<Longrightarrow>
    if \<forall>f\<in>set fs. shreddable (maxSize st) f
    then \<exists>t. visit_files st fs e s = (Ok (), t) \<and> fresh t \<and> blocks t = blocks s \<and>
      commands (evs t) = commands (evs s) @ map (shred_command \<circ> fst) (filter (\<lambda>f. snd f > maxSize st) fs)
    else faults OutOfBounds (visit_files st fs) e s"
proof (induction fs arbitrary: s)
  case Nil
  then show ?case
    by (simp add: exec)
next
  case (Cons f fs)
  obtain p n where f: "f = (p, n)"
    by (cases f)
  have pn: "NUL \<notin> set p" "n < 2 ^ 64"
    using Cons.prems(2) f by auto
  show ?case
  proof (cases "shreddable (maxSize st) f")
    case True
    then obtain u where u: "visit_file st (p, n) e s = (Ok (), u)" "fresh u" "blocks u = blocks s"
      "commands (evs u) = commands (evs s) @ (if n > maxSize st then [shred_command p] else [])"
      using visit_file_run [of s st p n e] Cons.prems pn assms f by auto
    then have w: "wp (visit_file st (p, n)) (\<lambda>_ t. t = u) e s"
      by (simp add: wp_def)
    show ?thesis
    proof (cases "\<forall>f\<in>set fs. shreddable (maxSize st) f")
      case all: True
      obtain t where "visit_files st fs e u = (Ok (), t)" "fresh t" "blocks t = blocks u"
        "commands (evs t) = commands (evs u) @ map (shred_command \<circ> fst) (filter (\<lambda>f. snd f > maxSize st) fs)"
        using Cons.IH [OF u(2)] Cons.prems all by auto
      then show ?thesis
        using u True all by (simp add: f exec)
    next
      case bad: False
      then have "faults OutOfBounds (visit_files st fs) e u"
        using Cons.IH [OF u(2)] Cons.prems by auto
      then have "faults OutOfBounds (visit_files st (f # fs)) e s"
        unfolding visit_files.simps f by (intro faults_later wp_weaken [OF w]) simp
      moreover have "\<not> (\<forall>f\<in>set (f # fs). shreddable (maxSize st) f)"
        using bad by simp
      ultimately show ?thesis
        by (simp only: if_False)
    qed
  next
    case False
    then have "faults OutOfBounds (visit_files st (f # fs)) e s"
      unfolding visit_files.simps f by (intro faults_here visit_file_faults [OF assms pn(2)]) (use False f in simp)
    moreover have "\<not> (\<forall>f\<in>set (f # fs). shreddable (maxSize st) f)"
      using False by simp
    ultimately show ?thesis
      by (simp only: if_False)
  qed
qed

lemma set_put_all: "distinct (map fst xs) \<Longrightarrow> set (put_all xs []) = set xs"
proof -
  assume d: "distinct (map fst xs)"
  have o: "in_order (put_all xs [])"
    by (rule put_all_in_order) simp
  have "map_of (put_all xs []) = map_of xs"
    using d by (simp add: map_of_put_all map_of_rev)
  then have "(k, v) \<in> set (put_all xs []) \<longleftrightarrow> (k, v) \<in> set xs" for k v
    using in_order_map_of [OF o, of k v] map_of_eq_Some_iff [OF d, of k v] by simp
  then show ?thesis
    by auto
qed

lemma set_put_all_subset: "set (put_all xs m) \<subseteq> set xs \<union> set m"
proof (induction xs arbitrary: m)
  case (Cons x xs)
  have "set (map_put k v m) \<subseteq> insert (k, v) (set m)" for k v
    by (induction k v m rule: map_put.induct) auto
  then show ?case
    using Cons by (cases x) fastforce
qed simp

text \<open>Claim C9: the listing of a directory ends and is the map from the paths of all files below it, at every level,
  to their sizes, in the order of the paths; memory is as it was.\<close>

theorem dir_get_lists_tree:
  fixes s :: "'z cstate_scheme"
  assumes "inj H" "serves_tree e H F d path es" "distinct (path # dirs_of path es)" "distinct (map fst (files_of path es))"
    and "\<And>h. readdirs h (evs s) = 0"
  shows "\<exists>t m. dir_get d path (H path) e s = (Ok m, t) \<and> blocks t = blocks s \<and>
    sorted_wrt (<) (map fst m) \<and> set m = set (files_of path es)"
proof -
  obtain t where "dir_get d path (H path) e s = (Ok (put_all (files_of path es) []), t)"
    "listing (H ` set (path # dirs_of path es)) s t"
    using dir_get_run [OF assms(1-3)] assms(5) by blast
  then show ?thesis
    using put_all_in_order [of "[]"] set_put_all [OF assms(4)] listingD by fastforce
qed

text \<open>Claim C8: with the option for the shell's \<open>shred\<close>, the program run on a tree of files runs one command for each
  file that is larger than the limit, in the order of the paths, and returns 0 with memory as it was, if every file is
  smaller than 2 to the 50 bytes and the path of every file above the limit has at most 243 characters; if there is a file
  for which this fails, the program ends in an access out of bounds.\<close>

theorem deletor_shreds_large_files:
  fixes s :: "'z cstate_scheme"
  assumes "fresh s" "inj H" "serves_tree e H F d path es" "distinct (path # dirs_of path es)"
    and new: "\<And>h. readdirs h (evs s) = 0" "getopts ''s:hz'' (evs s) = 0"
    and opts: "gives_options e ''s:hz'' os (as @ [path])" "\<forall>x\<in>set os. fst x \<in> {115, 122}"
    and st: "foldl del_opt \<lparr>maxSize = 0, useSystemShred = False, quit = False\<rparr> os =
      \<lparr>maxSize = limit, useSystemShred = True, quit = False\<rparr>" "limit \<noteq> 0"
    and paths: "\<And>p n. (p, n) \<in> set (files_of path es) \<Longrightarrow> NUL \<notin> set p"
    and files: "files = put_all (files_of path es) []"
  shows "if \<forall>(p, n)\<in>set files. n < 2 ^ 50 \<and> (limit < n \<longrightarrow> length p \<le> 243)
    then \<exists>t. deletor_main d e s = (Ok 0, t) \<and> blocks t = blocks s \<and>
      commands (evs t) = commands (evs s) @ map (shred_command \<circ> fst) (filter (\<lambda>f. snd f > limit) files)
    else fst (deletor_main d e s) = Err OutOfBounds"
proof -
  let ?st = "\<lparr>maxSize = limit, useSystemShred = True, quit = False\<rparr>"
  have all: "(\<forall>(p, n)\<in>set files. n < 2 ^ 50 \<and> (limit < n \<longrightarrow> length p \<le> 243)) \<longleftrightarrow> (\<forall>f\<in>set files. shreddable (maxSize ?st) f)"
    by (auto simp: shreddable_def)
  obtain u where u: "del_options e s = (Ok (?st, as @ [path]), u)" "only_options ''s:hz'' s u"
    using del_options_run [OF opts new(2)] st(1) by auto
  define v where "v = u\<lparr>evs := (Libc (Opendir path), RHandle (H path)) # evs u\<rparr>"
  have H: "answer e l (Libc (Opendir path)) = RHandle (H path)" "H path \<noteq> 0" for l
    using assms(3) by (cases d; simp)+
  have v0: "fresh v" "blocks v = blocks s" "commands (evs v) = commands (evs s)"
    using only_optionsD [OF u(2)] assms(1) by (simp_all add: v_def fresh_def)
  have "\<forall>p\<in>set (path # dirs_of path es). readdirs (H p) (evs v) = 0"
    using only_optionsD(4) [OF u(2)] new(1) by (simp add: v_def)
  then obtain w where w: "dir_get d path (H path) e v = (Ok files, w)" "listing (H ` set (path # dirs_of path es)) v w"
    using dir_get_run [OF assms(2-4)] unfolding files by blast
  define x where "x = w\<lparr>evs := (Libc (Printf ''%s'' (bytes_of ''Foreach myDir map: '')),
    answer e (evs w) (Libc (Printf ''%s'' (bytes_of ''Foreach myDir map: '')))) # evs w\<rparr>"
  have x0: "fresh x" "blocks x = blocks s" "commands (evs x) = commands (evs s)"
    using listingD [OF w(2)] v0 by (simp_all add: x_def fresh_def)
  have "set files \<subseteq> set (files_of path es)"
    using set_put_all_subset [of "files_of path es" "[]"] by (simp add: files)
  then have "\<forall>(p, n)\<in>set files. NUL \<notin> set p \<and> n < 2 ^ 64"
    using paths serves_tree_sizes [OF assms(3)] by auto
  note visit = visit_files_run [of ?st x files e, OF _ x0(1) this]
  note main = deletor_main_def run_bnd dir_scope_def catch_string_def put_line_def run_ext run_ret Let_def
    v_def [symmetric] x_def [symmetric]
  show ?thesis
  proof (cases "\<forall>f\<in>set files. shreddable (maxSize ?st) f")
    case True
    obtain y where y: "visit_files ?st files e x = (Ok (), y)" "blocks y = blocks x"
      "commands (evs y) = commands (evs x) @ map (shred_command \<circ> fst) (filter (\<lambda>f. snd f > limit) files)"
      using visit True by auto
    have "deletor_main d e s = (Ok 0, y\<lparr>evs := (Libc (Closedir (H path)), answer e (evs y) (Libc (Closedir (H path)))) # evs y\<rparr>)"
      using u(1) H w(1) y(1) st(2) by (simp add: main del: bytes_of_simps)
    then show ?thesis
      using y(2,3) x0 True unfolding all by auto
  next
    case False
    then obtain y where "visit_files ?st files e x = (Err OutOfBounds, y)"
      using visit unfolding faults_def by (metis prod.collapse del_opts.select_convs(2))
    then have "fst (deletor_main d e s) = Err OutOfBounds"
      using u(1) H w(1) st(2) by (simp add: main del: bytes_of_simps)
    then show ?thesis
      using False unfolding all by (simp only: if_False)
  qed
qed

subsection \<open>Instances\<close>

theorem isOf_scales_witness:
  "isOf 3072 (const_env RUnit) empty_state = (Ok (bytes_of ''kbytes'', 3), empty_state) \<and>
   isOf (2 ^ 50) (const_env RUnit) empty_state = (Err OutOfBounds, empty_state)"
proof -
  obtain i where i: "i < 5" "isOf (of_nat 3072) (const_env RUnit) empty_state = (Ok (size_units ! i, of_nat 3072 / 1024 ^ i), empty_state)"
    "1024 ^ i \<le> (3072 :: nat) \<or> i = 0" "3072 < (1024 :: nat) ^ Suc i"
    using isOf_scales [of 3072 "const_env RUnit" empty_state] by auto
  moreover have "i = 0 \<or> i = 1 \<or> i = 2 \<or> i = 3 \<or> i = 4"
    using i(1) by linarith
  ultimately have "i = 1"
    by (elim disjE) simp_all
  then have "isOf 3072 (const_env RUnit) empty_state = (Ok (bytes_of ''kbytes'', 3), empty_state)"
    using i(2) by (simp add: size_units_def)
  moreover have "isOf (2 ^ 50) (const_env RUnit) empty_state = (Err OutOfBounds, empty_state)"
    using isOf_scales [of "2 ^ 50" "const_env RUnit" empty_state] by simp
  ultimately show ?thesis
    by blast
qed

theorem shred_runs_command_witness:
  "(\<exists>t. shred (bytes_of ''a'') (const_env RUnit) empty_state = (Ok (), t) \<and> blocks t = Map.empty \<and>
     commands (evs t) = [bytes_of ''shred -u '' @ [34, 97, 34, 10]]) \<and>
   fst (shred (replicate 244 97) (const_env RUnit) empty_state) = Err OutOfBounds"
proof -
  have f: "fresh empty_state"
    by (simp add: fresh_def empty_state_def)
  have "NUL \<notin> set (bytes_of ''a'')" "NUL \<notin> set (replicate 244 97)"
    by simp_all
  then show ?thesis
    using shred_runs_command [OF f, of "bytes_of ''a''" "const_env RUnit"]
      shred_runs_command [OF f, of "replicate 244 97" "const_env RUnit"]
    by (simp add: shred_command_def empty_state_def)
qed

text \<open>A file whose position is that of the stream.\<close>

definition tell_env :: env where
  "tell_env = \<lparr>malloc_ok = (\<lambda>_ _. True), answer = (\<lambda>l c. case c of
     Libc (Fopen p m) \<Rightarrow> RHandle 1 | Libc (Ftell h) \<Rightarrow> RInt (int (snd (stream_of h l)))
   | Indeterminate what \<Rightarrow> RInt 0 | _ \<Rightarrow> RUnit)\<rparr>"

theorem doit_writes_blocks_witness:
  "\<exists>t bss. doit (bytes_of ''a'', 5000) 33 tell_env empty_state = (Ok (), t) \<and> blocks t = Map.empty \<and>
    stream_of 1 (evs t) = (concat bss, 4224) \<and> length bss = 33 \<and> (\<forall>bs\<in>set bss. length bs = 128)"
proof -
  have a: "fresh empty_state" "alloc_total tell_env" "(1 :: nat) \<noteq> 0"
    "answer tell_env l (Libc (Fopen (bytes_of ''a'') ''wb'')) = RHandle 1"
    "answer tell_env l (Libc (Ftell 1)) = RInt (int (snd (stream_of 1 l)))"
    "answer tell_env l (Indeterminate ''delete of an array from new[]'') = RInt 0" for l
    by (simp_all add: fresh_def empty_state_def tell_env_def alloc_total_def)
  show ?thesis
    using doit_writes_blocks [OF a(1-3) a(4-6), of 5000 33] by (simp add: empty_state_def)
qed

text \<open>A directory \<open>d\<close> with a file of 5 bytes and a directory that holds one of 9.\<close>

definition some_tree :: "dirent list" where
  "some_tree = [Dir (bytes_of ''b'') [File (bytes_of ''c'') 9], Dir (bytes_of ''.'') [], File (bytes_of ''a'') 5]"

definition tree_handle :: "byte list \<Rightarrow> handle" where
  "tree_handle p = Suc (to_nat p)"

lemma inj_tree_handle: "inj tree_handle"
  by (auto simp: inj_def tree_handle_def)

definition dir_reply :: "event list \<Rightarrow> handle \<Rightarrow> dirent list \<Rightarrow> reply" where
  "dir_reply l h es = (if readdirs h l < length es then dirent_reply (es ! readdirs h l) else RUnit)"

definition tree_env :: env where
  "tree_env = \<lparr>malloc_ok = (\<lambda>_ _. True), answer = (\<lambda>l c. case c of
     Libc (Getopt_long _) \<Rightarrow> (if getopts ''s:hz'' l < 2 then RChunks ([122, 115] ! getopts ''s:hz'' l) [bytes_of ''6''] else RChunks (-1) [[], bytes_of ''d''])
   | Libc (Opendir p) \<Rightarrow> RHandle (tree_handle p)
   | Libc (Fopen p m) \<Rightarrow> RHandle (tree_handle p)
   | Libc (Ftell h) \<Rightarrow> RInt (int (tell_pos h (if h = tree_handle (bytes_of ''d/a'') then 5 else 9) l))
   | Libc (Readdir h) \<Rightarrow> dir_reply l h (if h = tree_handle (bytes_of ''d'') then some_tree else [File (bytes_of ''c'') 9])
   | _ \<Rightarrow> RUnit)\<rparr>"

lemma tree_env_serves:
  "serves_tree tree_env tree_handle tree_handle 2 (bytes_of ''d'') some_tree"
  "gives_options tree_env ''s:hz'' [(122, bytes_of ''6''), (115, bytes_of ''6'')] ([] @ [bytes_of ''d''])"
proof -
  have h: "tree_handle p = tree_handle q \<longleftrightarrow> p = q" "tree_handle p \<noteq> 0" for p q
    using inj_tree_handle by (auto simp: inj_eq tree_handle_def)
  show "serves_tree tree_env tree_handle tree_handle 2 (bytes_of ''d'') some_tree"
    unfolding numeral_2_eq_2
    by (simp add: some_tree_def reads_dir_def serves_file_def tree_env_def h dir_reply_def dot_name_def)
  show "gives_options tree_env ''s:hz'' [(122, bytes_of ''6''), (115, bytes_of ''6'')] ([] @ [bytes_of ''d''])"
    unfolding gives_options_def
    by (auto simp: tree_env_def less_Suc_eq numeral_2_eq_2)
qed

lemma some_tree_files:
  "files_of (bytes_of ''d'') some_tree = [(bytes_of ''d/b/c'', 9), (bytes_of ''d/a'', 5)]"
  "dirs_of (bytes_of ''d'') some_tree = [bytes_of ''d/b'']"
  by (simp_all add: some_tree_def dot_name_def)

theorem dir_get_lists_tree_witness:
  "\<exists>t m. dir_get 2 (bytes_of ''d'') (tree_handle (bytes_of ''d'')) tree_env empty_state = (Ok m, t) \<and> blocks t = Map.empty \<and>
    sorted_wrt (<) (map fst m) \<and> set m = {(bytes_of ''d/a'', 5), (bytes_of ''d/b/c'', 9)}"
proof -
  have "distinct (bytes_of ''d'' # dirs_of (bytes_of ''d'') some_tree)" "distinct (map fst (files_of (bytes_of ''d'') some_tree))"
    "\<And>h. readdirs h (evs empty_state) = 0"
    unfolding some_tree_files by (simp_all add: empty_state_def)
  from dir_get_lists_tree [OF inj_tree_handle tree_env_serves(1) this] show ?thesis
    unfolding some_tree_files by (simp add: empty_state_def insert_commute)
qed

theorem deletor_shreds_large_files_witness:
  "\<exists>t. deletor_main 2 tree_env empty_state = (Ok 0, t) \<and> blocks t = Map.empty \<and>
    commands (evs t) = [shred_command (bytes_of ''d/b/c'')]"
proof -
  have d: "distinct (bytes_of ''d'' # dirs_of (bytes_of ''d'') some_tree)" "fresh empty_state"
    "\<And>h. readdirs h (evs empty_state) = 0" "getopts ''s:hz'' (evs empty_state) = 0"
    unfolding some_tree_files by (simp_all add: empty_state_def fresh_def)
  have st: "foldl del_opt \<lparr>maxSize = 0, useSystemShred = False, quit = False\<rparr> [(122, bytes_of ''6''), (115, bytes_of ''6'')] =
      \<lparr>maxSize = 6, useSystemShred = True, quit = False\<rparr>"
    by (simp add: atoi_def digits_val_def is_digit_def)
  have fs: "NUL \<notin> set p" if "(p, n) \<in> set (files_of (bytes_of ''d'') some_tree)" for p n
    using that unfolding some_tree_files by auto
  have "[(bytes_of ''d/a'', 5), (bytes_of ''d/b/c'', 9)] = put_all (files_of (bytes_of ''d'') some_tree) []"
    unfolding some_tree_files by simp
  from deletor_shreds_large_files [OF d(2) inj_tree_handle tree_env_serves(1) d(1) d(3,4) tree_env_serves(2) _ st _ fs this]
  show ?thesis
    by (simp add: empty_state_def)
qed

end
