(* ===== verification/Main_Program.thy ===== *)
theory Main_Program
  imports Getopt Lua_Serv
begin

text \<open>
  The program: \<open>src/main.cpp\<close> with \<open>src/signal_handler.cpp\<close>. It reads its options, loads the coin table,
  starts Lua and two threads, and releases the table when both have ended. What the threads do
  together, in whatever order, is the parameter \<open>threads\<close>: a program on the state of the coin table,
  given the arguments of \<open>serv_thread\<close> and of \<open>luaServer\<close>. The C strings of the options are in memory during the
  calls that get them.
\<close>

subsection \<open>Signals\<close>

definition sigpipe :: "int \<Rightarrow> ('z, unit) prog" where
  "sigpipe signum = ret ()"

definition close_program :: "int \<Rightarrow> ('z, unit) prog" where
  "close_program signum = bnd (ext (Libc (Puts ''bye!''))) (\<lambda>_. fail (Exited 0))"

definition catch_badsignals :: "('z, unit) prog" where
  "catch_badsignals =
     bnd (ext (Libc (Signal 13 ''sigpipe''))) (\<lambda>_.
     bnd (ext (Libc (Signal 2 ''close_program''))) (\<lambda>_. ret ()))"

subsection \<open>Options\<close>

text \<open>The static variables that the options set.\<close>

record settings =
  host :: "byte list"
  port :: nat
  luahost :: "byte list"
  luaport :: nat
  pathCryptocoinsINI :: "byte list"
  initLuaFile :: "byte list"

definition default_settings :: settings where
  "default_settings = \<lparr>host = bytes_of ''127.0.0.1'', port = 3245, luahost = bytes_of ''127.0.0.1'', luaport = 6596,
     pathCryptocoinsINI = bytes_of ''cryptocoins.ini'', initLuaFile = bytes_of ''./luasubmodules/init.lua''\<rparr>"

definition printoption :: "string \<Rightarrow> char \<Rightarrow> byte list \<Rightarrow> ('z, unit) prog" where
  "printoption longopt opt desc =
     bnd (ext (Libc (Printf ''--%s -%c => %s'' (bytes_of longopt @ [SPACE] @ bytes_of [opt] @ [SPACE] @ desc)))) (\<lambda>_. ret ())"

text \<open>The values shown as defaults are those that the options before have set.\<close>

definition usage :: "byte list \<Rightarrow> settings \<Rightarrow> ('z, unit) prog" where
  "usage program st =
     bnd (ext (Libc (Puts ''PROGRAM_INFO''))) (\<lambda>_.
     bnd (ext (Libc (Printf ''USAGE: %s [options]'' program))) (\<lambda>_.
     bnd (printoption ''help'' CHR ''h'' (bytes_of ''help menu'')) (\<lambda>_.
     bnd (printoption ''listen host'' CHR ''l'' (bytes_of ''Host for listening(def: '' @ host st @ bytes_of '')'')) (\<lambda>_.
     bnd (printoption ''port'' CHR ''p'' (bytes_of ''Port for listening (def: '' @ dec (port st) @ bytes_of '')'')) (\<lambda>_.
     bnd (printoption ''luahost'' CHR ''j'' (bytes_of ''Host of listeningluaserv (def: '' @ luahost st @ bytes_of '')'')) (\<lambda>_.
     bnd (printoption ''luaport'' CHR ''k'' (bytes_of ''port of listeningluaserv (def: '' @ dec (luaport st) @ bytes_of '')'')) (\<lambda>_.
     bnd (printoption ''fcryptocoins'' CHR ''c''
       (bytes_of ''path to file of cryptocoins (def: '' @ pathCryptocoinsINI st @ bytes_of '')'')) (\<lambda>_.
     printoption ''iluafile'' CHR ''i'' (bytes_of ''init file for lua part (def: '' @ initLuaFile st @ bytes_of '')'')))))))))"

definition c_port :: "byte list \<Rightarrow> nat" where
  "c_port bs = nat (atoi bs mod 2 ^ 16)"

text \<open>
  One option. The cases stand in the block of an \<open>if\<close> of the case 0, which compares the name of a long option with
  \<open>"usage"\<close>; none has that name, so the case 0 does nothing.
\<close>

definition main_option :: "byte list \<Rightarrow> int \<Rightarrow> byte list option \<Rightarrow> settings \<Rightarrow> ('z, settings) prog" where
  "main_option program c optarg st =
     (if c = 0 then ret st
      else if c = 106 then bnd (optarg_of optarg) (\<lambda>bs. ret (st\<lparr>luahost := bs\<rparr>))
      else if c = 107 then bnd (optarg_of optarg) (\<lambda>bs. ret (st\<lparr>luaport := c_port bs\<rparr>))
      else if c = 108 then bnd (optarg_of optarg) (\<lambda>bs. ret (st\<lparr>host := bs\<rparr>))
      else if c = 112 then bnd (optarg_of optarg) (\<lambda>bs. ret (st\<lparr>port := c_port bs\<rparr>))
      else if c = 99 then bnd (optarg_of optarg) (\<lambda>bs. ret (st\<lparr>pathCryptocoinsINI := bs\<rparr>))
      else if c = 105 then bnd (optarg_of optarg) (\<lambda>bs. ret (st\<lparr>initLuaFile := bs\<rparr>))
      else
        bnd (if c = 63 then bnd (ext (Libc (Fprintf_stderr ''Undefined argument''))) (\<lambda>_. ret ()) else ret ()) (\<lambda>_.
        bnd (usage program st) (\<lambda>_. fail (Exited 1))))"

definition main_options :: "byte list \<Rightarrow> ('z, settings) prog" where
  "main_options program =
     bnd (getopt_loop ''hp:h:c:i:'' (\<lambda>c. c \<noteq> -1) (\<lambda>_. False) (main_option program) default_settings) (\<lambda>(_, st). ret st)"

subsection \<open>The program\<close>

type_synonym thread_args = "byte list \<times> nat \<times> ptr \<times> handle"
type_synonym lua_thread_args = "byte list \<times> nat \<times> handle"

definition main_program :: "(thread_args \<Rightarrow> lua_thread_args \<Rightarrow> ('z, unit) cc_prog) \<Rightarrow> byte list \<Rightarrow> ('z, int) cc_prog" where
  "main_program threads program =
     bnd catch_badsignals (\<lambda>_.
     bnd (ext (Libc Time)) (\<lambda>now.
     bnd (ext (Libc (Srand (r_int now)))) (\<lambda>_.
     bnd (main_options program) (\<lambda>st.
     bnd (local_cells (cstr (pathCryptocoinsINI st)) init_cryptocoins) (\<lambda>cryptocoins.
     bnd (local_cells (cstr (initLuaFile st)) start_lua) (\<lambda>L.
     bnd (ext (Libc (Puts ''start server''))) (\<lambda>_.
     bnd (ext (Sys (Thread_start ''serv_thread''))) (\<lambda>_.
     bnd (ext (Libc (Puts ''start lua server''))) (\<lambda>_.
     bnd (ext (Sys (Thread_start ''luaServer''))) (\<lambda>_.
     bnd (threads (host st, port st, cryptocoins, L) (luahost st, luaport st, L)) (\<lambda>_.
     bnd (ext (Sys (Thread_join ''luaServer''))) (\<lambda>_.
     bnd (ext (Sys (Thread_join ''serv_thread''))) (\<lambda>_.
     bnd (clear_cryptocoins cryptocoins) (\<lambda>_.
     bnd (lua_do lua_close) (\<lambda>_.
     ret 0)))))))))))))))"

end
