(* ===== verification/Main_Props.thy ===== *)
theory Main_Props
  imports Main_Program Coins_Props C_Wp
begin

text \<open>
  The properties of the program (\<open>Main_Program\<close>): what its options set, what asking for help does, and how it ends when
  there is no table of coins.
\<close>

subsection \<open>Options\<close>

fun set_option :: "settings \<Rightarrow> int \<times> byte list \<Rightarrow> settings" where
  "set_option st (c, a) =
     (if c = 106 then st\<lparr>luahost := a\<rparr> else if c = 107 then st\<lparr>luaport := c_port a\<rparr>
      else if c = 108 then st\<lparr>host := a\<rparr> else if c = 112 then st\<lparr>port := c_port a\<rparr>
      else if c = 99 then st\<lparr>pathCryptocoinsINI := a\<rparr> else st\<lparr>initLuaFile := a\<rparr>)"

interpretation main_parser: option_parser "\<lambda>c. c \<noteq> -1" "\<lambda>_. False" "main_option program"
  "\<lambda>c. c \<in> {106, 107, 108, 112, 99, 105}" set_option for program
  by unfold_locales (auto simp: main_option_def optarg_of_def exec)

text \<open>Claim C27: the options set their static variables in the order in which they are given, over the defaults; the
  ports are taken modulo 65536.\<close>

theorem main_options_set:
  fixes s :: "'z cstate_scheme"
  assumes "gives_options e ''hp:h:c:i:'' os argv" "\<forall>x\<in>set os. fst x \<in> {106, 107, 108, 112, 99, 105}"
    and "getopts ''hp:h:c:i:'' (evs s) = 0"
  shows "\<exists>t. main_options program e s = (Ok (foldl set_option default_settings os), t) \<and> blocks t = blocks s \<and> nxt t = nxt s"
  using main_parser.options_run [OF assms, where st = default_settings and program = program]
  by (auto simp: main_options_def run_bnd run_ret only_options_def)

text \<open>A program that returns after calls of the C library only.\<close>

definition libc_only :: "env \<Rightarrow> ('z, unit) prog \<Rightarrow> bool" where
  "libc_only e m \<longleftrightarrow> (\<forall>s. \<exists>l. m e s = (Ok (), s\<lparr>evs := l @ evs s\<rparr>) \<and> (\<forall>ev\<in>set l. \<exists>lc. fst ev = Libc lc))"

lemma libc_only_call: "libc_only e (bnd (ext (Libc c)) (\<lambda>_. ret ()))"
  unfolding libc_only_def by (auto simp: exec intro!: exI [of _ "[x]" for x])

lemma libc_only_ret: "libc_only e (ret ())"
  unfolding libc_only_def by (auto simp: exec intro!: exI [of _ "[]"])

lemma libc_only_bnd:
  assumes "libc_only e m" "libc_only e m'"
  shows "libc_only e (bnd m (\<lambda>_. m'))"
  unfolding libc_only_def
proof
  fix s
  obtain l where l: "m e s = (Ok (), s\<lparr>evs := l @ evs s\<rparr>)" "\<forall>ev\<in>set l. \<exists>lc. fst ev = Libc lc"
    using assms(1) unfolding libc_only_def by blast
  obtain l' where l': "m' e (s\<lparr>evs := l @ evs s\<rparr>) = (Ok (), s\<lparr>evs := l' @ l @ evs s\<rparr>)" "\<forall>ev\<in>set l'. \<exists>lc. fst ev = Libc lc"
    using assms(2) [unfolded libc_only_def, rule_format, of "s\<lparr>evs := l @ evs s\<rparr>"] by auto
  show "\<exists>l. bnd m (\<lambda>_. m') e s = (Ok (), s\<lparr>evs := l @ evs s\<rparr>) \<and> (\<forall>ev\<in>set l. \<exists>lc. fst ev = Libc lc)"
    using l l' by (intro exI [of _ "l' @ l"]) (auto simp: run_bnd)
qed

lemma libc_only_call_bnd: "libc_only e m \<Longrightarrow> libc_only e (bnd (ext (Libc c)) (\<lambda>_. m))"
  using libc_only_bnd [OF libc_only_call [of e c], of m] by (simp add: bnd_assoc bnd_ret_left)

lemma libc_only_usage: "libc_only e (usage program st)"
  unfolding usage_def printoption_def by (intro libc_only_call libc_only_call_bnd libc_only_bnd)

text \<open>A program that is asked for help, or given an option it does not know, prints its usage and exits with
  the status 1; it has loaded no coins, started no script and no thread.\<close>

theorem main_help_exits:
  fixes s :: "'z cc_state_scheme"
  assumes "\<And>l. answer e l (Libc (Getopt_long ''hp:h:c:i:'')) = RInt c" "c \<in> {63, 104}"
  shows "\<exists>t l. main_program threads program e s = (Err (Exited 1), t) \<and> evs t = l @ evs s \<and>
    (\<forall>ev\<in>set l. \<exists>lc. fst ev = Libc lc)"
proof -
  have c: "c_char c = c"
    using assms(2) by (auto simp: c_char_def)
  let ?o = "''hp:h:c:i:''"
  have opts: "\<exists>t l. main_options program e u = (Err (Exited 1), t) \<and> evs t = l @ evs u \<and> (\<forall>ev\<in>set l. \<exists>lc. fst ev = Libc lc)"
    for u :: "'z cc_state_scheme"
  proof -
    define v where "v = u\<lparr>evs := (Libc (Getopt_long ?o), RInt c) # evs u\<rparr>"
    have v: "getopt ?o e u = (Ok (c, None, []), v)"
      using assms(1) c by (simp add: getopt_def exec v_def)
    let ?m = "bnd (if c = 63 then bnd (ext (Libc (Fprintf_stderr ''Undefined argument''))) (\<lambda>_. ret ()) else ret ())
      (\<lambda>_. usage program default_settings)"
    have "libc_only e ?m"
      by (intro libc_only_bnd libc_only_usage) (simp add: libc_only_call libc_only_ret)
    then obtain l where l: "?m e v = (Ok (), v\<lparr>evs := l @ evs v\<rparr>)" "\<forall>ev\<in>set l. \<exists>lc. fst ev = Libc lc"
      unfolding libc_only_def by blast
    have m: "main_option program c None default_settings = bnd ?m (\<lambda>_. fail (Exited 1))"
      using assms(2) by (auto simp: main_option_def bnd_assoc)
    have o: "main_option program c None default_settings e v = (Err (Exited 1), v\<lparr>evs := l @ evs v\<rparr>)"
      by (subst m, subst run_bnd, subst l(1)) (simp add: run_fail)
    have "c \<noteq> -1"
      using assms(2) by auto
    then have "main_options program e u = (Err (Exited 1), v\<lparr>evs := l @ evs v\<rparr>)"
      by (simp add: main_options_def getopt_loop_def run_bnd v o c_while_Err)
    then show ?thesis
      using l(2) by (intro exI [of _ "v\<lparr>evs := l @ evs v\<rparr>"] exI [of _ "l @ [(Libc (Getopt_long ?o), RInt c)]"]) (auto simp: v_def)
  qed
  let ?start = "bnd catch_badsignals (\<lambda>_. bnd (ext (Libc Time)) (\<lambda>now. bnd (ext (Libc (Srand (r_int now)))) (\<lambda>_. ret ())))"
  have "libc_only e ?start"
    unfolding libc_only_def catch_badsignals_def by (auto simp: exec intro!: exI [of _ "[a, b, c, d]" for a b c d])
  then obtain l where l: "?start e s = (Ok (), s\<lparr>evs := l @ evs s\<rparr>)" "\<forall>ev\<in>set l. \<exists>lc. fst ev = Libc lc"
    unfolding libc_only_def by blast
  obtain t l' where t: "main_options program e (s\<lparr>evs := l @ evs s\<rparr>) = (Err (Exited 1), t)" "evs t = l' @ l @ evs s"
    "\<forall>ev\<in>set l'. \<exists>lc. fst ev = Libc lc"
    using opts [of "s\<lparr>evs := l @ evs s\<rparr>"] by auto
  obtain k where k: "main_program threads program = bnd ?start (\<lambda>_. bnd (main_options program) k)"
    unfolding main_program_def bnd_assoc bnd_ret_left by blast
  have "main_program threads program e s = (Err (Exited 1), t)"
    by (subst k, subst run_bnd, subst l(1)) (simp add: run_bnd t(1))
  then show ?thesis
    using t(2,3) l(2) by (intro exI [of _ t] exI [of _ "l' @ l"]) auto
qed

subsection \<open>The end of the program\<close>

text \<open>Claim C30: when the file of coins cannot be loaded the program never returns, whatever the scripts and the threads
  do: at the latest the release of the table reads through \<open>NULL\<close>.\<close>

theorem main_without_coins_never_returns:
  fixes s :: "'z cc_state_scheme"
  assumes "\<And>l p. r_handle (answer e l (Ini (iniparser_load p))) = 0"
  shows "fst (main_program threads program e s) \<noteq> Ok v"
proof
  assume "fst (main_program threads program e s) = Ok v"
  then obtain t where "main_program threads program e s = (Ok v, t)"
    by (metis prod.collapse)
  then have "\<exists>(st :: settings) (u :: 'z cc_state_scheme) w x. local_cells (cstr (pathCryptocoinsINI st)) init_cryptocoins e u = (Ok w, x) \<and>
      (\<exists>(s' :: 'z cc_state_scheme) t' z. clear_cryptocoins w e s' = (Ok z, t'))"
    unfolding main_program_def run_bnd cont_eq_Ok
    by (elim exE conjE) (intro exI conjI, assumption, assumption)
  then obtain st :: settings and w x and u :: "'z cc_state_scheme" where i: "local_cells (cstr (pathCryptocoinsINI st)) init_cryptocoins e u = (Ok w, x)"
    and c: "\<exists>(s' :: 'z cc_state_scheme) t' z. clear_cryptocoins w e s' = (Ok z, t')"
    by blast
  have "w = Null"
    using i assms by (auto simp: local_cells_def init_cryptocoins_def ok_iff dest!: local_arr_Ok)
  moreover have "clear_cryptocoins Null e s' = (Err NullDeref, s')" for s' :: "'z cc_state_scheme"
  proof -
    have "get_ptr m Null = Inl NullDeref" for m
      by (simp add: get_ptr_def get_cells_def cells_of_def)
    then have "load_ptr Null e s' = (Err NullDeref, s')"
      by (rule run_load_ptr)
    then have "clear_step Null (True, 0) e s' = (Err NullDeref, s')"
      by (simp add: clear_step_def clear_cond_def coin_at_def exec)
    then show ?thesis
      unfolding clear_cryptocoins_def by (simp add: run_bnd c_while_Err [of fst "(True, 0)"])
  qed
  ultimately show False
    using c by auto
qed

subsection \<open>Instances\<close>

definition no_coins_env :: env where
  "no_coins_env = \<lparr>malloc_ok = (\<lambda>_ _. True), answer = (\<lambda>l c. case c of
     Libc (Getopt_long _) \<Rightarrow> (if getopts ''hp:h:c:i:'' l < 2 then RChunks ([112, 108] ! getopts ''hp:h:c:i:'' l)
         [[bytes_of ''70000'', bytes_of ''::1''] ! getopts ''hp:h:c:i:'' l]
       else RChunks (-1) [[]])
   | _ \<Rightarrow> RUnit)\<rparr>"

theorem main_options_set_witness:
  "\<exists>t. main_options [] no_coins_env empty_state =
    (Ok (default_settings\<lparr>port := 4464, host := bytes_of ''::1''\<rparr>), t) \<and> blocks t = Map.empty \<and> nxt t = 0"
proof -
  have g: "gives_options no_coins_env ''hp:h:c:i:'' [(112, bytes_of ''70000''), (108, bytes_of ''::1'')] []"
    unfolding gives_options_def by (auto simp: no_coins_env_def less_Suc_eq numeral_2_eq_2)
  have z: "getopts ''hp:h:c:i:'' (evs empty_state) = 0"
    by (simp add: empty_state_def)
  have "foldl set_option default_settings [(112, bytes_of ''70000''), (108, bytes_of ''::1'')] =
      default_settings\<lparr>port := 4464, host := bytes_of ''::1''\<rparr>"
    by (simp add: default_settings_def c_port_def atoi_def digits_val_def is_digit_def)
  then show ?thesis
    using main_options_set [OF g _ z, of "[]"] by (simp add: empty_state_def)
qed

theorem main_help_exits_witness:
  "\<exists>t l. main_program (\<lambda>_ _. ret ()) [] (const_env (RInt 104)) (cc_state_of [] 0) = (Err (Exited 1), t) \<and>
    evs t = l @ [] \<and> (\<forall>ev\<in>set l. \<exists>lc. fst ev = Libc lc)"
  using main_help_exits [of "const_env (RInt 104)" 104 "\<lambda>_ _. ret ()" "[]" "cc_state_of [] 0"] by simp

theorem main_without_coins_never_returns_witness:
  "fst (main_program (\<lambda>_ _. ret ()) [] (const_env (RInt (-1))) (cc_state_of [] 0)) \<noteq> Ok 0"
  by (rule main_without_coins_never_returns) simp

end
