(* ===== verification/Cxx_Encdec.thy ===== *)
theory Cxx_Encdec
  imports Cxx AES Hashes X25519
begin

text \<open>
  The C++ classes over the ciphers, digests and key pairs: \<open>src/protocolcxx/encdec.cpp\<close> with \<open>encdec.h\<close>. A
  \<open>std::string\<close> is a list of bytes, in memory with a terminator while a C function has its \<open>c_str()\<close>. A
  \<open>unique_ptr\<close> that a function returns is the pointer.
\<close>

subsection \<open>Digests\<close>

definition cxx_SHA512 :: "byte list \<Rightarrow> ('z, byte list) prog" where
  "cxx_SHA512 data =
     local_arr 129 (\<lambda>outputstring.
     bnd (local_cells (cstr data) (\<lambda>p. toSHA512 p outputstring)) (\<lambda>_.
     std_string outputstring))"

definition cxx_SHA256 :: "byte list \<Rightarrow> ('z, byte list) prog" where
  "cxx_SHA256 data =
     local_arr 65 (\<lambda>outputstring.
     bnd (local_cells (cstr data) (\<lambda>p. toSHA256 p outputstring)) (\<lambda>_.
     std_string outputstring))"

definition cxx_SHA512_chars :: "ptr \<Rightarrow> ('z, byte list) prog" where
  "cxx_SHA512_chars data = bnd (std_string data) (\<lambda>t. cxx_SHA512 t)"

definition cxx_SHA256_chars :: "ptr \<Rightarrow> ('z, byte list) prog" where
  "cxx_SHA256_chars data = bnd (std_string data) (\<lambda>t. cxx_SHA256 t)"

subsection \<open>Key pairs\<close>

text \<open>An object of the class is its one member. A constructor that throws leaves the pair unreleased.\<close>

definition cxx_x25519_keys :: "ptr \<Rightarrow> ptr \<Rightarrow> ('z, x25519_keysPair) xprog" where
  "cxx_x25519_keys priv pub = x25519_createKeyPair priv pub"

definition cxx_x25519_file :: "byte list \<Rightarrow> ('z, x25519_keysPair) xprog" where
  "cxx_x25519_file filepath =
     bnd (x25519_initKeyPairFromFile filepath) (\<lambda>mKeysPair.
     bnd (field (privKey mKeysPair)) (\<lambda>k.
     bnd (if k = 0 then ret True else bnd (field (pKeyCtx mKeysPair)) (\<lambda>c. ret (c = 0))) (\<lambda>bad.
     if bad then fail (Thrown ''Cant init x25519 keys from file: '') else ret mKeysPair)))"

definition cxx_x25519 :: "('z, x25519_keysPair) xprog" where
  "cxx_x25519 = x25519_generateKeyPair"

definition cxx_x25519_destroy :: "x25519_keysPair \<Rightarrow> ('z, unit) xprog" where
  "cxx_x25519_destroy mKeysPair = x25519_freeKeyPair mKeysPair"

definition cxx_getRawPubKey :: "x25519_keysPair \<Rightarrow> ('z, ptr) xprog" where
  "cxx_getRawPubKey mKeysPair =
     bnd (new_byte 33) (\<lambda>rawKey.
     bnd (field (privKey mKeysPair)) (\<lambda>k.
     bnd (x25519_getRawPubKey k rawKey) (\<lambda>_. ret rawKey)))"

definition cxx_getRawPrivKey :: "x25519_keysPair \<Rightarrow> ('z, ptr) xprog" where
  "cxx_getRawPrivKey mKeysPair =
     bnd (new_byte 33) (\<lambda>rawKey.
     bnd (field (privKey mKeysPair)) (\<lambda>k.
     bnd (x25519_getRawPrivKey k rawKey) (\<lambda>_. ret rawKey)))"

definition cxx_getSharedKey :: "x25519_keysPair \<Rightarrow> ptr \<Rightarrow> ('z, ptr) xprog" where
  "cxx_getSharedKey mKeysPair key =
     bnd (x25519_getSharedKey mKeysPair key) (\<lambda>(pKey, keyLine). ret pKey)"

definition cxx_saveKeyPair :: "x25519_keysPair \<Rightarrow> byte list \<Rightarrow> ('z, unit) xprog" where
  "cxx_saveKeyPair mKeysPair filepath = bnd (x25519_savePrivKey (Some filepath) mKeysPair) (\<lambda>_. ret ())"

definition cxx_saveKeyPair_chars :: "x25519_keysPair \<Rightarrow> ptr \<Rightarrow> ('z, unit) xprog" where
  "cxx_saveKeyPair_chars mKeysPair filepath = bnd (std_string filepath) (\<lambda>f. cxx_saveKeyPair mKeysPair f)"

subsection \<open>Ciphers\<close>

definition cxx_getRandBytes :: "nat \<Rightarrow> ('z, ptr) prog" where
  "cxx_getRandBytes len =
     bnd (cxx_new len) (\<lambda>pBytes.
     bnd (generate_rand_bytes len pBytes) (\<lambda>_.
     bnd (store_byte (padd pBytes len) 48) (\<lambda>_. ret pBytes)))"

text \<open>The values of \<open>encryptor_type\<close>, an \<open>enum\<close> whose objects may hold others.\<close>

abbreviation (input) CBC :: nat where "CBC \<equiv> 2"
abbreviation (input) ECB :: nat where "ECB \<equiv> 4"
abbreviation (input) ChaCha20 :: nat where "ChaCha20 \<equiv> 8"

record sync =
  mType :: nat
  mKey :: "byte list"
  mIV :: "byte list"

definition sync_new :: "byte list \<Rightarrow> byte list \<Rightarrow> nat \<Rightarrow> sync" where
  "sync_new key iv isType = \<lparr>mType = isType, mKey = key, mIV = iv\<rparr>"

definition sync_setkey :: "byte list \<Rightarrow> sync \<Rightarrow> sync" where
  "sync_setkey key o1 = o1\<lparr>mKey := key\<rparr>"

definition sync_setiv :: "byte list \<Rightarrow> sync \<Rightarrow> sync" where
  "sync_setiv iv o1 = o1\<lparr>mIV := iv\<rparr>"

text \<open>The new byte is made before the one that \<open>pTmpData\<close> holds is released.\<close>

definition setTmpData :: "ptr \<Rightarrow> nat \<Rightarrow> nat \<Rightarrow> ('z, ptr) prog" where
  "setTmpData pTmpData len adv =
     bnd (new_byte (len + adv)) (\<lambda>p. bnd (free pTmpData) (\<lambda>_. ret p))"

text \<open>One \<open>case\<close> of the \<open>switch\<close>, run if the switch jumped to it or falls through to it.\<close>

definition sync_case :: "bool \<Rightarrow> nat \<Rightarrow> nat \<Rightarrow> (ptr \<Rightarrow> ('z, int) prog) \<Rightarrow> ptr \<Rightarrow> ('z, ptr) prog" where
  "sync_case reached len adv cipher pTmpData =
     (if \<not> reached then ret pTmpData else
     bnd (setTmpData pTmpData len adv) (\<lambda>p.
     bnd (cipher p) (\<lambda>_. ret p)))"

text \<open>
  No \<open>case\<close> has a \<open>break\<close>, so every path ends in the \<open>default\<close>, which throws; what follows the \<open>switch\<close> is
  never reached.
\<close>

definition sync_encrypt :: "sync \<Rightarrow> byte list \<Rightarrow> ('z, byte list) prog" where
  "sync_encrypt o1 data =
     (let n = c_int (int (length data)); t = mType o1 in
     local_cells (cstr data) (\<lambda>ptrData.
     local_cells (cstr (mKey o1)) (\<lambda>ptrKey.
     local_cells (cstr (mIV o1)) (\<lambda>ptrIV.
     bnd (sync_case (t = CBC) (length data) 17 (AES_256_cbc_encrypt ptrData n ptrKey ptrIV) Null) (\<lambda>p.
     bnd (sync_case (t \<in> {CBC, ECB}) (length data) 17 (AES_256_ecb_encrypt ptrData n ptrKey ptrIV) p) (\<lambda>p.
     bnd (sync_case (t \<in> {CBC, ECB, ChaCha20}) (length data) 1 (chacha20_poly1305_encrypt ptrData n ptrKey ptrIV) p) (\<lambda>p.
     bnd (free p) (\<lambda>_. fail (Thrown ''Undefined encryptor_type'')))))))))"

text \<open>Decryption has the same shape; it decrypts the new byte into the data, and always with CBC.\<close>

definition sync_decrypt :: "sync \<Rightarrow> byte list \<Rightarrow> ('z, byte list) prog" where
  "sync_decrypt o1 data =
     (let n = c_int (int (length data)); t = mType o1 in
     local_cells (cstr data) (\<lambda>ptrData.
     local_cells (cstr (mKey o1)) (\<lambda>ptrKey.
     local_cells (cstr (mIV o1)) (\<lambda>ptrIV.
     let cipher = (\<lambda>p. AES_256_cbc_decrypt p n ptrKey ptrIV ptrData) in
     bnd (sync_case (t = CBC) (length data) 17 cipher Null) (\<lambda>p.
     bnd (sync_case (t \<in> {CBC, ECB}) (length data) 17 cipher p) (\<lambda>p.
     bnd (sync_case (t \<in> {CBC, ECB, ChaCha20}) (length data) 1 cipher p) (\<lambda>p.
     bnd (free p) (\<lambda>_. fail (Thrown ''Undefined encryptor_type'')))))))))"

definition sync_encrypt_chars :: "sync \<Rightarrow> ptr \<Rightarrow> ('z, byte list) prog" where
  "sync_encrypt_chars o1 data = bnd (std_string data) (\<lambda>rt. sync_encrypt o1 rt)"

definition sync_decrypt_chars :: "sync \<Rightarrow> ptr \<Rightarrow> ('z, byte list) prog" where
  "sync_decrypt_chars o1 data = bnd (std_string data) (\<lambda>rt. sync_decrypt o1 rt)"

end
