(* ===== verification/Cxx_Encdec_Props.thy ===== *)
theory Cxx_Encdec_Props
  imports Cxx_Encdec C_Wp
begin

text \<open>The properties of the C++ classes over ciphers and random bytes, each with an instance.\<close>

subsection \<open>Scopes\<close>

lemma local_cells_run:
  assumes "cs \<noteq> []"
  shows "local_cells cs body e s =
    (case body (Addr (nxt s) 0) e (new_block cs s) of (r, t) \<Rightarrow> (r, drop_block (nxt s) t))"
proof -
  have "(new_block (replicate (length cs) Undef) s)\<lparr>blocks := (blocks s)(nxt s \<mapsto> cs)\<rparr> = new_block cs s"
    by (simp add: new_block_def)
  then show ?thesis
    using assms by (simp add: local_cells_def local_arr_def exec run_write_mem)
qed

lemma cstr_not_Nil [simp]: "cstr bs \<noteq> []"
  by (simp add: cstr_def)

lemma fst_local_cells: "cs \<noteq> [] \<Longrightarrow> fst (local_cells cs body e s) = fst (body (Addr (nxt s) 0) e (new_block cs s))"
  by (simp add: local_cells_run split: prod.split)

subsection \<open>Ciphers\<close>

text \<open>A library that gives contexts and accepts the keys and vectors.\<close>

definition ciphers_start :: "env \<Rightarrow> bool" where
  "ciphers_start e \<longleftrightarrow> (\<forall>l. r_handle (answer e l (Ssl EVP_CIPHER_CTX_new)) \<noteq> 0 \<and>
     (\<forall>h c k v. r_int (answer e l (Ssl (EVP_EncryptInit_ex h c k v))) = 1 \<and>
       r_int (answer e l (Ssl (EVP_DecryptInit_ex h c k v))) = 1))"

text \<open>
  The sizes that OpenSSL documents for a text that is enciphered by one call after the initialisation: a
  block cipher gives the full blocks of the text at once and the padded last block at the end, the stream cipher
  as many bytes as the text and nothing at the end.
\<close>

definition update_size :: "cipher \<Rightarrow> nat \<Rightarrow> nat" where
  "update_size c n = (if c = EVP_chacha20_poly1305 then n else 16 * (n div 16))"

definition final_size :: "cipher \<Rightarrow> nat" where
  "final_size c = (if c = EVP_chacha20_poly1305 then 0 else 16)"

definition encrypts_in_blocks :: "env \<Rightarrow> bool" where
  "encrypts_in_blocks e \<longleftrightarrow> (\<forall>l h c k v i bs u.
     u = answer e ((Ssl (EVP_EncryptInit_ex h c k v), i) # l) (Ssl (EVP_EncryptUpdate h bs (int (length bs)))) \<longrightarrow>
     r_int u = 1 \<and> length (r_bytes u) = update_size c (length bs) \<and>
     r_int (answer e ((Ssl (EVP_EncryptUpdate h bs (int (length bs))), u) # (Ssl (EVP_EncryptInit_ex h c k v), i) # l)
       (Ssl (EVP_EncryptFinal_ex h))) = 1 \<and>
     length (r_bytes (answer e ((Ssl (EVP_EncryptUpdate h bs (int (length bs))), u) # (Ssl (EVP_EncryptInit_ex h c k v), i) # l)
       (Ssl (EVP_EncryptFinal_ex h)))) = final_size c)"

lemma ciphers_startD:
  assumes "ciphers_start e"
  shows "(r_handle (answer e l (Ssl EVP_CIPHER_CTX_new)) = 0) = False"
    "r_int (answer e l (Ssl (EVP_EncryptInit_ex h c k v))) = 1" "r_int (answer e l (Ssl (EVP_DecryptInit_ex h c k v))) = 1"
  using assms by (simp_all add: ciphers_start_def)

lemma put_one_oob: "m b = Some [x] \<Longrightarrow> 2 \<le> length cs \<Longrightarrow> put_cells m (Addr b 0) cs = Inl OutOfBounds"
  by (rule put_cells_oob) auto

text \<open>A text enciphered into one byte: what fits is what the stream cipher makes of a text of at most one byte.\<close>

lemma encrypt_into_byte:
  fixes s :: "'z cstate_scheme"
  assumes "ciphers_start e" "encrypts_in_blocks e" "get_str (blocks s) key = Inr k" "length k = 32"
    and "get_str (blocks s) iv = Inr v" "length v = 16" "get_bytes (blocks s) input (length bs) = Inr bs" "blocks s b = Some [x]"
  shows "if c = EVP_chacha20_poly1305 \<and> length bs \<le> 1
    then \<exists>t. AES_any_encrypt c input (int (length bs)) key iv (Addr b 0) e s = (Ok (int (length bs)), t) \<and> blocks t b \<noteq> None
    else fst (AES_any_encrypt c input (int (length bs)) key iv (Addr b 0) e s) = Err OutOfBounds"
proof -
  let ?h = "r_handle (answer e (evs s) (Ssl EVP_CIPHER_CTX_new))"
  define l where "l = (Ssl EVP_CIPHER_CTX_new, answer e (evs s) (Ssl EVP_CIPHER_CTX_new)) # evs s"
  define i where "i = answer e l (Ssl (EVP_EncryptInit_ex ?h c k v))"
  define l1 where "l1 = (Ssl (EVP_EncryptInit_ex ?h c k v), i) # l"
  define u where "u = answer e l1 (Ssl (EVP_EncryptUpdate ?h bs (int (length bs))))"
  define l2 where "l2 = (Ssl (EVP_EncryptUpdate ?h bs (int (length bs))), u) # l1"
  define f where "f = answer e l2 (Ssl (EVP_EncryptFinal_ex ?h))"
  have h: "?h \<noteq> 0" "r_int i = 1"
    using ciphers_startD [OF assms(1)] by (simp_all add: i_def)
  have uf: "r_int u = 1" "length (r_bytes u) = update_size c (length bs)" "r_int f = 1" "length (r_bytes f) = final_size c"
    using assms(2) unfolding encrypts_in_blocks_def u_def f_def l1_def l2_def by blast+
  have run: "AES_any_encrypt c input (int (length bs)) key iv (Addr b 0) e s =
      cont (write_bytes (Addr b 0) (r_bytes u) e (s\<lparr>evs := l2\<rparr>))
        (\<lambda>_. bnd (ext (Ssl (EVP_EncryptFinal_ex ?h))) (\<lambda>f.
          bnd (write_bytes (Addr b (length (r_bytes u))) (r_bytes f)) (\<lambda>_.
          if r_int f \<noteq> 1 then HANDLERRSSL else
          bnd (ext (Ssl (EVP_CIPHER_CTX_free ?h))) (\<lambda>_.
          ret (int (length (r_bytes u)) + int (length (r_bytes f)))))) e)"
    using assms(3-7) h uf(1)
    by (simp add: AES_any_encrypt_def AES_any_def cipher_steps_def exec l_def [symmetric] i_def [symmetric]
        l1_def [symmetric] u_def [symmetric] l2_def [symmetric] del: neq0_conv)
  consider (over) "2 \<le> length (r_bytes u)" | (block) "r_bytes u = []" "final_size c = 16" "c \<noteq> EVP_chacha20_poly1305"
    | (fits) "c = EVP_chacha20_poly1305" "length bs \<le> 1"
  proof (cases "c = EVP_chacha20_poly1305")
    case True
    then have "length (r_bytes u) = length bs"
      using uf(2) by (simp add: update_size_def)
    then show ?thesis
      using that(1,3) True by (cases "2 \<le> length bs") auto
  next
    case False
    then show ?thesis
      using uf(2) that(1,2)
      by (cases "length bs < 16") (auto simp: update_size_def final_size_def not_less div_greater_zero_iff)
  qed
  then show ?thesis
  proof cases
    case over
    then have no: "(c = EVP_chacha20_poly1305 \<and> length bs \<le> 1) = False"
      using uf(2) by (auto simp: update_size_def)
    show ?thesis
      unfolding no if_False using over assms(8) by (simp add: run write_bytes_def run_write_mem put_one_oob)
  next
    case block
    then have "2 \<le> length (r_bytes f)"
      using uf(4) by simp
    then show ?thesis
      using block assms(8) by (simp add: run write_bytes_def run_write_mem put_one_oob put_cells_ok exec f_def [symmetric])
  next
    case fits
    then have yes: "(c = EVP_chacha20_poly1305 \<and> length bs \<le> 1) = True"
      and out: "length (r_bytes u) \<le> 1" "r_bytes f = []" "length (r_bytes u) = length bs"
      using uf(2,4) by (simp_all add: update_size_def final_size_def)
    show ?thesis
      unfolding yes if_True using out assms(8) uf(3)
      by (simp add: run write_bytes_def run_write_mem put_cells_ok exec f_def [symmetric])
  qed
qed

lemma decrypt_from_byte:
  assumes "ciphers_start e" "get_str (blocks s) key = Inr k" "length k = 32" "get_str (blocks s) iv = Inr v" "length v = 16"
    and "blocks s b = Some [x]" "2 \<le> nat n"
  shows "fst (AES_any_decrypt c (Addr b 0) n key iv output e s) = Err OutOfBounds"
proof -
  have "get_bytes (blocks s) (Addr b 0) (nat n) = Inl OutOfBounds"
    using assms(6,7) by (simp add: get_bytes_def get_cells_def cells_of_def)
  then show ?thesis
    using assms(2-)
    by (simp add: AES_any_decrypt_def AES_any_def cipher_steps_def exec ciphers_startD [OF assms(1)] del: neq0_conv)
qed

text \<open>The objects of both functions: data, key and vector in memory.\<close>

lemma in_scopes:
  assumes "fresh s" "NUL \<notin> set k" "NUL \<notin> set v"
    and run: "\<And>t. get_str (blocks t) (Addr (Suc (nxt s)) 0) = Inr k \<Longrightarrow> get_str (blocks t) (Addr (Suc (Suc (nxt s))) 0) = Inr v \<Longrightarrow>
      get_bytes (blocks t) (Addr (nxt s) 0) (length data) = Inr data \<Longrightarrow>
      nxt t = Suc (Suc (Suc (nxt s))) \<Longrightarrow>
      fst (body (Addr (nxt s) 0) (Addr (Suc (nxt s)) 0) (Addr (Suc (Suc (nxt s))) 0) e t) = Err x'"
  shows "fst (local_cells (cstr data) (\<lambda>d. local_cells (cstr k) (\<lambda>q. local_cells (cstr v) (\<lambda>w. body d q w))) e s) = Err x'"
proof -
  let ?t = "new_block (cstr v) (new_block (cstr k) (new_block (cstr data) s))"
  have "get_bytes (blocks ?t) (Addr (nxt s) 0) (length data) = Inr data"
    by (simp add: get_bytes_def get_cells_def cells_of_def cstr_def)
  moreover have "get_str (blocks ?t) (Addr (Suc (nxt s)) 0) = Inr k" "get_str (blocks ?t) (Addr (Suc (Suc (nxt s))) 0) = Inr v"
    using assms(2,3) by (simp_all add: get_str_cstr)
  ultimately show ?thesis
    using run [of ?t] by (simp add: fst_local_cells)
qed

text \<open>A \<open>case\<close> that is not reached does nothing; the first one that is fails if its cipher does.\<close>

lemma sync_case_skip: "sync_case False len adv cipher p = ret p"
  by (simp add: sync_case_def)

lemma sync_case_fails:
  assumes "alloc_total e" "\<And>t. blocks t (nxt s) = Some [Byte (of_nat (len + adv))] \<Longrightarrow>
      (\<And>b. b \<noteq> nxt s \<Longrightarrow> blocks t b = blocks s b) \<Longrightarrow> fst (cipher (Addr (nxt s) 0) e t) = Err x"
  shows "fst (sync_case True len adv cipher Null e s) = Err x"
proof -
  have "setTmpData Null len adv e s = (Ok (Addr (nxt s) 0), new_block [Byte (of_nat (len + adv))] s)"
    using assms(1) by (simp add: setTmpData_def exec)
  moreover have "fst (cipher (Addr (nxt s) 0) e (new_block [Byte (of_nat (len + adv))] s)) = Err x"
    by (rule assms(2)) simp_all
  ultimately show ?thesis
    by (simp add: sync_case_def fst_bnd_Ok fst_bnd_Err)
qed

lemma get_upd_ne: "(\<And>b. b \<noteq> c \<Longrightarrow> m' b = m b) \<Longrightarrow> b \<noteq> c \<Longrightarrow> get_str m' (Addr b i) = get_str m (Addr b i) \<and>
    get_bytes m' (Addr b i) n = get_bytes m (Addr b i) n"
  by (simp add: get_str_def get_bytes_def get_cells_def cells_of_def)

lemma sync_case_fits:
  assumes "alloc_total e" "\<And>t. blocks t (nxt s) = Some [Byte (of_nat (len + adv))] \<Longrightarrow>
      (\<And>b. b \<noteq> nxt s \<Longrightarrow> blocks t b = blocks s b) \<Longrightarrow>
      \<exists>v u. cipher (Addr (nxt s) 0) e t = (Ok v, u) \<and> blocks u (nxt s) \<noteq> None"
  shows "fst (bnd (sync_case True len adv cipher Null) (\<lambda>p. bnd (free p) (\<lambda>_. fail x)) e s) = Err x"
proof -
  have "setTmpData Null len adv e s = (Ok (Addr (nxt s) 0), new_block [Byte (of_nat (len + adv))] s)"
    using assms(1) by (simp add: setTmpData_def exec)
  moreover obtain v u where "cipher (Addr (nxt s) 0) e (new_block [Byte (of_nat (len + adv))] s) = (Ok v, u)" "blocks u (nxt s) \<noteq> None"
    using assms(2) [of "new_block [Byte (of_nat (len + adv))] s"] by auto
  ultimately show ?thesis
    by (auto simp: sync_case_def exec)
qed

text \<open>Claim C28: with the output sizes that OpenSSL documents, a key of 32 bytes and a vector of 16, \<open>sync::encrypt\<close> writes past
  the one byte that \<open>new ubytes(len + adv)\<close> makes for every text with CBC or ECB, whose last block is padded, and for
  every text of two bytes or more with ChaCha20; what is left, a shorter text with ChaCha20 or an unknown type, throws.
  So it never returns a ciphertext.\<close>

theorem sync_encrypt_overflows:
  assumes "ciphers_start e" "encrypts_in_blocks e" "alloc_total e" "fresh s"
    and "length (mKey o1) = 32" "NUL \<notin> set (mKey o1)" "length (mIV o1) = 16" "NUL \<notin> set (mIV o1)" "length data < 2 ^ 31"
  shows "fst (sync_encrypt o1 data e s) =
    Err (if mType o1 = 2 \<or> mType o1 = 4 \<or> mType o1 = 8 \<and> 2 \<le> length data then OutOfBounds else Thrown ''Undefined encryptor_type'')"
proof -
  let ?p = "Addr (nxt s) 0" and ?k = "Addr (Suc (nxt s)) 0" and ?v = "Addr (Suc (Suc (nxt s))) 0"
  have n: "c_int (int (length data)) = int (length data)"
    using assms(9) by simp
  have into: "if c = EVP_chacha20_poly1305 \<and> length data \<le> 1
      then \<exists>a w. AES_any_encrypt c ?p (int (length data)) ?k ?v (Addr (nxt t) 0) e u = (Ok a, w) \<and> blocks w (nxt t) \<noteq> None
      else fst (AES_any_encrypt c ?p (int (length data)) ?k ?v (Addr (nxt t) 0) e u) = Err OutOfBounds"
    if t: "get_str (blocks t) ?k = Inr (mKey o1)" "get_str (blocks t) ?v = Inr (mIV o1)"
      "get_bytes (blocks t) ?p (length data) = Inr data" "nxt t = Suc (Suc (Suc (nxt s)))"
    and u: "blocks u (nxt t) = Some [x]" "\<forall>b. b \<noteq> nxt t \<longrightarrow> blocks u b = blocks t b" for c t u x
  proof -
    note g = get_upd_ne [of "nxt t" "blocks u" "blocks t", OF u(2) [rule_format]]
    have "get_str (blocks u) ?k = Inr (mKey o1)" "get_str (blocks u) ?v = Inr (mIV o1)"
      "get_bytes (blocks u) ?p (length data) = Inr data"
      using g t by simp_all
    from encrypt_into_byte [OF assms(1,2) this(1) assms(5) this(2) assms(7) this(3) u(1), of c] show ?thesis
      by (auto split: if_splits)
  qed
  have over: "fst (sync_case True (length data) adv (AES_any_encrypt c ?p (int (length data)) ?k ?v) Null e t) = Err OutOfBounds"
    if t: "get_str (blocks t) ?k = Inr (mKey o1)" "get_str (blocks t) ?v = Inr (mIV o1)"
      "get_bytes (blocks t) ?p (length data) = Inr data" "nxt t = Suc (Suc (Suc (nxt s)))"
    and c: "\<not> (c = EVP_chacha20_poly1305 \<and> length data \<le> 1)" for adv c t
  proof (rule sync_case_fails [OF assms(3)])
    fix u
    assume u: "blocks u (nxt t) = Some [Byte (of_nat (length data + adv))]" "\<And>b. b \<noteq> nxt t \<Longrightarrow> blocks u b = blocks t b"
    have u2: "\<forall>b. b \<noteq> nxt t \<longrightarrow> blocks u b = blocks t b"
      using u(2) by blast
    show "fst (AES_any_encrypt c ?p (int (length data)) ?k ?v (Addr (nxt t) 0) e u) = Err OutOfBounds"
      using into [OF t u(1) u2, of c] c by (simp only: if_False)
  qed
  have fits: "fst (bnd (sync_case True (length data) adv (AES_any_encrypt EVP_chacha20_poly1305 ?p (int (length data)) ?k ?v) Null)
      (\<lambda>p. bnd (free p) (\<lambda>_. fail x)) e t) = Err x"
    if t: "get_str (blocks t) ?k = Inr (mKey o1)" "get_str (blocks t) ?v = Inr (mIV o1)"
      "get_bytes (blocks t) ?p (length data) = Inr data" "nxt t = Suc (Suc (Suc (nxt s)))"
    and c: "length data \<le> 1" for adv x t
  proof (rule sync_case_fits [OF assms(3)])
    fix u
    assume u: "blocks u (nxt t) = Some [Byte (of_nat (length data + adv))]" "\<And>b. b \<noteq> nxt t \<Longrightarrow> blocks u b = blocks t b"
    have u2: "\<forall>b. b \<noteq> nxt t \<longrightarrow> blocks u b = blocks t b"
      using u(2) by blast
    show "\<exists>a w. AES_any_encrypt EVP_chacha20_poly1305 ?p (int (length data)) ?k ?v (Addr (nxt t) 0) e u = (Ok a, w) \<and>
        blocks w (nxt t) \<noteq> None"
      using into [OF t u(1) u2, of EVP_chacha20_poly1305] c by (simp only: simp_thms if_True)
  qed
  note ciphers = AES_256_cbc_encrypt_def AES_256_ecb_encrypt_def chacha20_poly1305_encrypt_def
  show ?thesis
    unfolding sync_encrypt_def Let_def n
    apply (rule in_scopes [OF assms(4,6,8)])
    subgoal premises t for t
    proof -
      have over': "fst (bnd (sync_case True (length data) adv (AES_any_encrypt c ?p (int (length data)) ?k ?v) Null) f e t) = Err OutOfBounds"
        if "\<not> (c = EVP_chacha20_poly1305 \<and> length data \<le> 1)" for adv c f
        by (rule fst_bnd_Err, rule over [OF t that])
      note fits' = fits [OF t]
      have unknown: "fst (bnd (free Null) (\<lambda>_. fail x) e t) = Err x" for x
        by (simp add: exec)
      consider "mType o1 = 2" | "mType o1 = 4" | "mType o1 = 8" "2 \<le> length data" | "mType o1 = 8" "length data \<le> 1"
        | "mType o1 \<noteq> 2" "mType o1 \<noteq> 4" "mType o1 \<noteq> 8"
        by linarith
      then show ?thesis
        by cases (simp_all add: sync_case_skip bnd_ret_left ciphers over' fits' unknown del: run_bnd)
    qed
    done
qed

text \<open>\<open>sync::decrypt\<close> passes its data and the new byte in the wrong order: for data of two bytes or more it reads
  past the byte.\<close>

theorem sync_decrypt_overreads:
  assumes "ciphers_start e" "alloc_total e" "fresh s" "mType o1 \<in> {2, 4, 8}"
    and "length (mKey o1) = 32" "NUL \<notin> set (mKey o1)" "length (mIV o1) = 16" "NUL \<notin> set (mIV o1)"
    and "2 \<le> length data" "length data < 2 ^ 31"
  shows "fst (sync_decrypt o1 data e s) = Err OutOfBounds"
proof -
  have n: "c_int (int (length data)) = int (length data)"
    using assms(10) by simp
  have deco: "fst (sync_case True (length data) adv (\<lambda>p. AES_256_cbc_decrypt p (int (length data))
        (Addr (Suc (nxt s)) 0) (Addr (Suc (Suc (nxt s))) 0) (Addr (nxt s) 0)) Null e t) = Err OutOfBounds"
    if t: "get_str (blocks t) (Addr (Suc (nxt s)) 0) = Inr (mKey o1)" "get_str (blocks t) (Addr (Suc (Suc (nxt s))) 0) = Inr (mIV o1)"
      "nxt t = Suc (Suc (Suc (nxt s)))" for adv t
  proof (rule sync_case_fails [OF assms(2)])
    fix u
    assume u: "blocks u (nxt t) = Some [Byte (of_nat (length data + adv))]" "\<And>b. b \<noteq> nxt t \<Longrightarrow> blocks u b = blocks t b"
    note g = get_upd_ne [of "nxt t" "blocks u" "blocks t", OF u(2)]
    show "fst (AES_256_cbc_decrypt (Addr (nxt t) 0) (int (length data)) (Addr (Suc (nxt s)) 0) (Addr (Suc (Suc (nxt s))) 0)
        (Addr (nxt s) 0) e u) = Err OutOfBounds"
      unfolding AES_256_cbc_decrypt_def
      by (rule decrypt_from_byte [OF assms(1) _ assms(5) _ assms(7) u(1)]) (use g t assms(9) in simp_all)
  qed
  show ?thesis
    unfolding sync_decrypt_def Let_def n
    apply (rule in_scopes [OF assms(3,6,8)])
    subgoal premises t for t
      using assms(4) by (elim insertE emptyE) (simp_all add: sync_case_skip bnd_ret_left fst_bnd_Err deco [OF t(1,2,4)])
    done
qed

text \<open>\<open>getRandBytes\<close> stores its terminator one past the bytes it allocated, for every length.\<close>

theorem getRandBytes_never_returns:
  assumes "alloc_total e" "len \<le> 2 ^ 32"
  shows "fst (cxx_getRandBytes len e s) = Err OutOfBounds"
proof (cases "len = 0")
  case True
  have "fst (generate_rand_bytes 0 (Addr (nxt s) 0) e (new_block [] s)) = Err OutOfBounds"
    by (rule generate_rand_bytes_zero [where cs = "[]"]) simp_all
  then show ?thesis
    using assms(1) True by (simp add: cxx_getRandBytes_def fst_bnd_Ok [OF cxx_new_run] fst_bnd_Err)
next
  case False
  let ?s = "new_block (replicate len Undef) s"
  obtain bs l where g: "generate_rand_bytes len (Addr (nxt s) 0) e ?s =
      (Ok (), ?s\<lparr>blocks := (blocks ?s)(nxt s \<mapsto> map Byte bs @ drop (len - 1) (replicate len Undef)), evs := l\<rparr>)"
    "length bs = len - 1"
    using generate_rand_bytes_run [of ?s "nxt s" "replicate len Undef" len e] False assms(2) by auto
  have "put_cells (blocks (?s\<lparr>blocks := (blocks ?s)(nxt s \<mapsto> map Byte bs @ drop (len - 1) (replicate len Undef)), evs := l\<rparr>))
      (Addr (nxt s) len) [Byte 48] = Inl OutOfBounds"
    using g(2) False by (intro put_cells_oob) auto
  then have "fst (bnd (store_byte (padd (Addr (nxt s) 0) len) 48) (\<lambda>_. ret (Addr (nxt s) 0)) e
      (?s\<lparr>blocks := (blocks ?s)(nxt s \<mapsto> map Byte bs @ drop (len - 1) (replicate len Undef)), evs := l\<rparr>)) = Err OutOfBounds"
    by (simp add: store_byte_def run_bnd run_write_mem)
  then show ?thesis
    unfolding cxx_getRandBytes_def
    by (subst fst_bnd_Ok [OF cxx_new_run]) (simp add: assms(1), subst fst_bnd_Ok, rule g(1))
qed

subsection \<open>Instances\<close>

text \<open>A library that accepts every key and enciphers every text to sevens, as many as documented.\<close>

fun toy_cipher :: "event list \<Rightarrow> cipher" where
  "toy_cipher ((Ssl (EVP_EncryptInit_ex h c k v), r) # l) = c"
| "toy_cipher (ev # l) = toy_cipher l"
| "toy_cipher [] = EVP_chacha20_poly1305"

definition toy_ciphers :: env where
  "toy_ciphers = \<lparr>malloc_ok = (\<lambda>_ _. True), answer = (\<lambda>l c. case c of
     Ssl EVP_CIPHER_CTX_new \<Rightarrow> RHandle 1
   | Ssl (EVP_EncryptUpdate h bs n) \<Rightarrow> ROut 1 (replicate (update_size (toy_cipher l) (length bs)) 7)
   | Ssl (EVP_EncryptFinal_ex h) \<Rightarrow> ROut 1 (replicate (final_size (toy_cipher l)) 7)
   | _ \<Rightarrow> RInt 1)\<rparr>"

lemma toy_ciphers_work: "ciphers_start toy_ciphers" "encrypts_in_blocks toy_ciphers" "alloc_total toy_ciphers"
  by (simp_all add: ciphers_start_def encrypts_in_blocks_def toy_ciphers_def alloc_total_def)

theorem sync_encrypt_overflows_witness:
  "fst (sync_encrypt (sync_new (replicate 32 1) (replicate 16 2) 2) [] toy_ciphers empty_state) = Err OutOfBounds \<and>
   fst (sync_encrypt (sync_new (replicate 32 1) (replicate 16 2) 8) [104, 105] toy_ciphers empty_state) = Err OutOfBounds \<and>
   fst (sync_encrypt (sync_new (replicate 32 1) (replicate 16 2) 8) [104] toy_ciphers empty_state) =
     Err (Thrown ''Undefined encryptor_type'')"
proof -
  have f: "fresh empty_state"
    by (simp add: empty_state_def fresh_def)
  show ?thesis
    using sync_encrypt_overflows [OF toy_ciphers_work f, of "sync_new (replicate 32 1) (replicate 16 2) 2" "[]"]
      sync_encrypt_overflows [OF toy_ciphers_work f, of "sync_new (replicate 32 1) (replicate 16 2) 8" "[104, 105]"]
      sync_encrypt_overflows [OF toy_ciphers_work f, of "sync_new (replicate 32 1) (replicate 16 2) 8" "[104]"]
    by (simp add: sync_new_def)
qed

theorem sync_decrypt_overreads_witness:
  "fst (sync_decrypt (sync_new (replicate 32 1) (replicate 16 2) 4) [104, 105] toy_ciphers empty_state) = Err OutOfBounds"
  by (rule sync_decrypt_overreads) (simp_all add: toy_ciphers_work sync_new_def)

theorem getRandBytes_never_returns_witness:
  "fst (cxx_getRandBytes 32 toy_ciphers empty_state) = Err OutOfBounds"
  by (rule getRandBytes_never_returns) (simp_all add: toy_ciphers_work)

end
