(* ===== verification/Cxx_Verify.thy ===== *)
theory Cxx_Verify
  imports Cxx Signatures
begin

text \<open>
  The C++ class over RSA and Ed25519 keys: \<open>src/protocolcxx/ed25519rsa.cpp\<close> with \<open>ed25519rsa.h\<close>. The members of an
  object are written by its constructor only, so the pair of a new object is unwritten, field by field.
\<close>

record basic_verify =
  mKeyPair :: aKeyPair
  mKeyType :: aTypes

definition freeMKey :: "aKeyPair \<Rightarrow> ('z, unit) prog" where
  "freeMKey kp =
     bnd (field (a_pkey kp)) (\<lambda>k.
     bnd (if k \<noteq> 0 then bnd (ext (Pkey (EVP_PKEY_free k))) (\<lambda>_. ret ()) else ret ()) (\<lambda>_.
     bnd (field (a_privKey kp)) (\<lambda>p.
     bnd (if p \<noteq> Null then free p else ret ()) (\<lambda>_.
     bnd (field (a_pubKey kp)) (\<lambda>q.
     if q \<noteq> Null then free q else ret ())))))"

definition cxx_generateKeys :: "basic_verify \<Rightarrow> byte list \<Rightarrow> nat \<Rightarrow> nat \<Rightarrow> ('z, basic_verify) prog" where
  "cxx_generateKeys v filepath bits primes =
     bnd (freeMKey (mKeyPair v)) (\<lambda>_.
     bnd (if filepath = [] then ret 0 else
          bnd (ext (Libc (Fopen filepath ''wb''))) (\<lambda>f.
          if r_handle f = 0 then fail (Thrown ''Can't save rsa/ed25519 key to: '') else ret (r_handle f))) (\<lambda>exitFile.
     bnd (if mKeyType v = ed25519 then generateKeysEd25519 exitFile else generateKeysRSA bits primes exitFile) (\<lambda>kp.
     bnd (if exitFile \<noteq> 0 then bnd (ext (Libc (Fclose exitFile))) (\<lambda>_. ret ()) else ret ()) (\<lambda>_.
     ret (v\<lparr>mKeyPair := kp\<rparr>)))))"

text \<open>The constructor; the classes \<open>rsa\<close> and \<open>ed25519\<close> only pass it their type.\<close>

definition cxx_basic_verify :: "aTypes \<Rightarrow> byte list \<Rightarrow> nat \<Rightarrow> nat \<Rightarrow> ('z, basic_verify) prog" where
  "cxx_basic_verify ty filepath bits primes =
     (let v = \<lparr>mKeyPair = aKeyPair_new ty, mKeyType = ty\<rparr> in
     bnd (ext (Libc (Access filepath))) (\<lambda>a.
     if r_int a = 0 then
       bnd (ed25519rsa_initPrivKey filepath ty) (\<lambda>kp.
       bnd (field (a_pkey kp)) (\<lambda>k.
       if k = 0 then fail (Thrown ''cant parse key from file: '') else ret (v\<lparr>mKeyPair := kp\<rparr>)))
     else cxx_generateKeys v filepath bits primes))"

definition cxx_rsa :: "byte list \<Rightarrow> nat \<Rightarrow> nat \<Rightarrow> ('z, basic_verify) prog" where
  "cxx_rsa filepath bits primes = cxx_basic_verify aRSA filepath bits primes"

definition cxx_ed25519 :: "byte list \<Rightarrow> ('z, basic_verify) prog" where
  "cxx_ed25519 filepath = cxx_basic_verify ed25519 filepath 0 0"

text \<open>Move assignment gives the objects after it: the one that was assigned to and the source.\<close>

definition cxx_assign :: "basic_verify \<Rightarrow> basic_verify \<Rightarrow> ('z, basic_verify \<times> basic_verify) prog" where
  "cxx_assign v b =
     bnd (freeMKey (mKeyPair v)) (\<lambda>_. ret (\<lparr>mKeyPair = mKeyPair b, mKeyType = mKeyType b\<rparr>, b))"

definition cxx_destroy :: "basic_verify \<Rightarrow> ('z, unit) prog" where
  "cxx_destroy v = freeMKey (mKeyPair v)"

text \<open>The signature to verify is not among the arguments: what is verified is the byte that \<open>initSigPtr\<close> makes.\<close>

definition cxx_verify :: "basic_verify \<Rightarrow> byte list \<Rightarrow> byte list \<Rightarrow> nat \<Rightarrow> hash option \<Rightarrow> ('z, bool) prog" where
  "cxx_verify v data pubkey keySize mdalgo =
     bnd (new_byte (keySize + 1)) (\<lambda>signature.
     local_cells (cstr data) (\<lambda>pd.
     local_cells (cstr pubkey) (\<lambda>pk.
     bnd (ed25519rsa_verifyIt signature keySize pd (length data) pk (length pubkey) mdalgo (mKeyType v)) (\<lambda>rt.
     bnd (free signature) (\<lambda>_.
     ret (rt > 0))))))"

definition cxx_sign :: "basic_verify \<Rightarrow> byte list \<Rightarrow> nat \<Rightarrow> hash option \<Rightarrow> ('z, byte list \<times> nat) prog" where
  "cxx_sign v data retSize mdalgo =
     bnd (new_byte retSize) (\<lambda>rt.
     local_cells (cstr data) (\<lambda>pd.
     bnd (field (a_pkey (mKeyPair v))) (\<lambda>k.
     bnd (ed25519rsa_signIt pd (length data) rt k mdalgo (mKeyType v)) (\<lambda>keySize.
     bnd (std_string rt) (\<lambda>sig.
     bnd (free rt) (\<lambda>_.
     ret (sig, keySize)))))))"

definition cxx_getPubKey :: "basic_verify \<Rightarrow> ('z, byte list \<times> nat) prog" where
  "cxx_getPubKey v =
     bnd (field (a_pubKey (mKeyPair v))) (\<lambda>p.
     bnd (std_string p) (\<lambda>bs.
     bnd (field (pubKeyLen (mKeyPair v))) (\<lambda>n. ret (bs, n))))"

definition cxx_getPrivKey :: "basic_verify \<Rightarrow> ('z, byte list \<times> nat) prog" where
  "cxx_getPrivKey v =
     bnd (field (a_privKey (mKeyPair v))) (\<lambda>p.
     bnd (std_string p) (\<lambda>bs.
     bnd (field (privKeyLen (mKeyPair v))) (\<lambda>n. ret (bs, n))))"

end
