(* ===== verification/Cxx_Coins.thy ===== *)
theory Cxx_Coins
  imports Cxx Json_Rpc "HOL-Library.AList"
begin

text \<open>
  The C++ class over the coin table: \<open>src/protocolcxx/cryptocurrency.cpp\<close> with \<open>cryptocurrency.h\<close>. JSON values belong to a
  library, as handles. A reference to a coin is its index in the table.
\<close>

subsection \<open>Requests\<close>

text \<open>The structure \<open>s\<close> is written only if curl gives a handle.\<close>

definition bjson_send :: "handle \<Rightarrow> byte list \<Rightarrow> byte list \<Rightarrow> byte list \<Rightarrow> ('z, jstring \<times> handle) prog" where
  "bjson_send curl userpwd url d_str =
     bnd init_string (\<lambda>s.
     bnd (ext (Web (curl_slist_append 0 ''content-type: text/plain;''))) (\<lambda>headers.
     bnd (ext (Web (curl_setopt_header curl (r_handle headers)))) (\<lambda>_.
     bnd (ext (Web (curl_setopt_url curl url))) (\<lambda>_.
     bnd (ext (Web (curl_setopt_postfieldsize curl (int (length d_str))))) (\<lambda>_.
     bnd (ext (Web (curl_setopt_postfields curl d_str))) (\<lambda>_.
     bnd (if userpwd \<noteq> [] then bnd (ext (Web (curl_setopt_userpwd curl userpwd))) (\<lambda>_. ret ()) else ret ()) (\<lambda>_.
     bnd (ext (Web (curl_setopt_use_ssl curl))) (\<lambda>_.
     bnd (ext (Web (curl_setopt_write curl))) (\<lambda>_.
     bnd (ext (Web (curl_easy_perform curl))) (\<lambda>r.
     bnd (deliver (r_chunks r) s) (\<lambda>s.
     ret (s, r_handle headers))))))))))))"

text \<open>A text that is no JSON makes \<open>json::parse\<close> throw, the reply 0.\<close>

definition bjson_req :: "byte list \<Rightarrow> byte list \<Rightarrow> handle \<Rightarrow> ('z, handle) prog" where
  "bjson_req userpwd url data =
     bnd (ext (Web curl_easy_init)) (\<lambda>curl.
     bnd (if r_handle curl = 0 then ret (None, 0) else
          bnd (ext (Web (json_dumps data))) (\<lambda>d.
          bnd (bjson_send (r_handle curl) userpwd url (r_bytes d)) (\<lambda>(s, headers).
          ret (Some s, headers)))) (\<lambda>(so, headers).
     bnd (field so) (\<lambda>s.
     bnd (read_str (sptr s)) (\<lambda>js.
     bnd (ext (Web (json_parse js))) (\<lambda>req.
     if r_handle req = 0 then fail (Thrown ''json::parse_error'') else
     bnd (ext (Web (curl_slist_free_all headers))) (\<lambda>_.
     bnd (ext (Web (curl_easy_cleanup (r_handle curl)))) (\<lambda>_.
     bnd (if sptr s \<noteq> Null then free (sptr s) else ret ()) (\<lambda>_.
     ret (r_handle req)))))))))"

subsection \<open>The table\<close>

record cxx_coins =
  mCryptocoins :: ptr
  mCount :: nat

definition cxx_coins_new :: "byte list \<Rightarrow> ('z, cxx_coins) cc_prog" where
  "cxx_coins_new initFile =
     bnd (local_cells (cstr initFile) init_new_cryptocoins) (\<lambda>(p, n).
     ret \<lparr>mCryptocoins = p, mCount = n\<rparr>)"

definition cxx_coins_destroy :: "cxx_coins \<Rightarrow> ('z, unit) cc_prog" where
  "cxx_coins_destroy c =
     bnd getCountCryptocoins (\<lambda>tmp.
     bnd (setCountCryptocoins (mCount c)) (\<lambda>_.
     bnd (clear_cryptocoins (mCryptocoins c)) (\<lambda>_.
     bnd (setCountCryptocoins tmp) (\<lambda>_. ret ()))))"

text \<open>The condition of both loops; the entry is read before the index is compared.\<close>

definition coin_cond :: "cxx_coins \<Rightarrow> nat \<Rightarrow> ('z, bool) prog" where
  "coin_cond c i =
     bnd (load_ptr (coin_at (mCryptocoins c) i rpchost)) (\<lambda>h.
     if h = Null then ret False else
     bnd (load_port (coin_at (mCryptocoins c) i rpcport)) (\<lambda>port.
     if port = 0 then ret False else ret (i < mCount c)))"

definition coin_name :: "cxx_coins \<Rightarrow> nat \<Rightarrow> ('z, byte list) prog" where
  "coin_name c i = bnd (load_ptr (coin_at (mCryptocoins c) i cryptocoin_name)) read_str"

text \<open>The index is an \<open>unsigned char\<close>. The state of the loop says whether it goes on.\<close>

definition search_step :: "cxx_coins \<Rightarrow> byte list \<Rightarrow> nat \<times> nat option option \<Rightarrow> ('z, nat \<times> nat option option) prog" where
  "search_step c n = (\<lambda>(i, _).
     bnd (coin_cond c i) (\<lambda>go.
     if \<not> go then ret (i, Some None) else
     bnd (coin_name c i) (\<lambda>nm.
     if nm = c_part n then ret (i, Some (Some i)) else ret (c_uchar (int i + 1), None))))"

definition searchByName :: "cxx_coins \<Rightarrow> byte list \<Rightarrow> ('z, nat) prog" where
  "searchByName c n =
     bnd (c_while (\<lambda>(i, r). r = None) (search_step c n) (0, None)) (\<lambda>(i, r).
     case r of Some (Some k) \<Rightarrow> ret k | _ \<Rightarrow> fail (Thrown ''Not found cryptocoin: ''))"

definition map_step :: "cxx_coins \<Rightarrow> nat \<times> bool \<times> (byte list \<times> nat) list \<Rightarrow> ('z, nat \<times> bool \<times> (byte list \<times> nat) list) prog" where
  "map_step c = (\<lambda>(i, _, rt).
     bnd (coin_cond c i) (\<lambda>go.
     if \<not> go then ret (i, False, rt) else
     bnd (coin_name c i) (\<lambda>nm.
     ret (c_uchar (int i + 1), True, AList.update nm i rt))))"

definition getMap :: "cxx_coins \<Rightarrow> ('z, (byte list \<times> nat) list) prog" where
  "getMap c = bnd (c_while (\<lambda>(i, go, rt). go) (map_step c) (0, True, [])) (\<lambda>(i, go, rt). ret rt)"

text \<open>Both formats end in \<open>%c\<close> with a zero, which \<open>sprintf\<close> writes before its own terminator.\<close>

definition coins_req :: "cxx_coins \<Rightarrow> nat \<Rightarrow> handle \<Rightarrow> ('z, handle) prog" where
  "coins_req c i data =
     bnd (load_ptr (coin_at (mCryptocoins c) i rpcuser)) (\<lambda>up.
     bnd (read_str up) (\<lambda>user.
     bnd (load_ptr (coin_at (mCryptocoins c) i rpcpassword)) (\<lambda>pp.
     bnd (read_str pp) (\<lambda>pass.
     local_arr (length user + length pass + 2) (\<lambda>userpwd.
     bnd (load_ptr (coin_at (mCryptocoins c) i rpchost)) (\<lambda>hp.
     bnd (read_str hp) (\<lambda>host.
     local_arr (length host + sizeof_http + sizeof_port + 2) (\<lambda>url.
     bnd (write_bytes userpwd (user @ [COLON] @ pass @ [0, NUL])) (\<lambda>_.
     bnd (load_port (coin_at (mCryptocoins c) i rpcport)) (\<lambda>port.
     bnd (write_bytes url (bytes_of ''http://'' @ host @ [COLON] @ dec port @ [0, NUL])) (\<lambda>_.
     bnd (std_string userpwd) (\<lambda>u.
     bnd (std_string url) (\<lambda>w.
     bjson_req u w data)))))))))))))"

definition coins_req_named :: "cxx_coins \<Rightarrow> byte list \<Rightarrow> handle \<Rightarrow> ('z, handle) prog" where
  "coins_req_named c name data = bnd (searchByName c name) (\<lambda>i. coins_req c i data)"

end
