(* ===== verification/Cxx_Net.thy ===== *)
theory Cxx_Net
  imports Cxx Lua_Net "HOL-Library.AList"
begin

text \<open>
  The class of peers of \<open>src/protocolcxx/bnet.cpp\<close>, and the templates of \<open>libbacteria/lua/luacxx.h\<close> that push C++ values
  for Lua. A call of the variadic \<open>pushval\<close> is a list of values of the types it has an overload for.
\<close>

subsection \<open>Peers\<close>

text \<open>The members of \<open>peer\<close> that its operations read or write.\<close>

record cxx_peer =
  mIn :: sockaddr_in
  mHost :: "byte list"
  mPort :: nat
  sock_tcp :: int
  sock_udp :: int

definition peer_eq :: "cxx_peer \<Rightarrow> sockaddr_in \<Rightarrow> bool" where
  "peer_eq p s \<longleftrightarrow> sin_family s = sin_family (mIn p) \<and> sin_port s = sin_port (mIn p) \<and> s_addr s = s_addr (mIn p)"

definition killConnect :: "cxx_peer \<Rightarrow> ('z, unit) prog" where
  "killConnect p =
     bnd (ext (Sys (Close (sock_tcp p)))) (\<lambda>_.
     bnd (ext (Sys (Close (sock_udp p)))) (\<lambda>_. ret ()))"

definition peer_take :: "cxx_peer \<Rightarrow> cxx_peer \<Rightarrow> ('z, cxx_peer) prog" where
  "peer_take this p =
     bnd (killConnect this) (\<lambda>_.
     bnd (ext (Sys (Inet_ntoa (s_addr (mIn p))))) (\<lambda>ip.
     ret \<lparr>mIn = mIn p, mHost = r_bytes ip, mPort = htons (sin_port (mIn p)),
       sock_tcp = sock_tcp p, sock_udp = sock_udp p\<rparr>))"

subsection \<open>Pushing values\<close>

datatype cxx_val = CChars ptr | CString "byte list" | CBool bool | CDouble int | CInt int | CVoid handle

fun push_one :: "cxx_val \<Rightarrow> ('z, unit) prog" where
  "push_one (CChars p) = lua_pushstring p"
| "push_one (CString s) = push (LStr s)"
| "push_one (CBool b) = push (LBool b)"
| "push_one (CDouble n) = push (LNum n)"
| "push_one (CInt n) = push (LNum n)"
| "push_one (CVoid h) = push (if h = 0 then LNil else LUser h)"

primrec pushval :: "cxx_val list \<Rightarrow> ('z, unit) prog" where
  "pushval [] = ret ()"
| "pushval (v # vs) = bnd (push_one v) (\<lambda>_. pushval vs)"

text \<open>Tables; the strings are passed by \<open>c_str()\<close>, so a zero ends them.\<close>

primrec tables_pushval_ints :: "(byte list \<times> int) list \<Rightarrow> ('z, unit) prog" where
  "tables_pushval_ints [] = ret ()"
| "tables_pushval_ints (el # m) =
     bnd (push (LStr (c_part (fst el)))) (\<lambda>_.
     bnd (push (LNum (snd el))) (\<lambda>_.
     bnd (lua_do (lua_settable (- 3))) (\<lambda>_. tables_pushval_ints m)))"

primrec tables_pushval_strings :: "(byte list \<times> byte list) list \<Rightarrow> ('z, unit) prog" where
  "tables_pushval_strings [] = ret ()"
| "tables_pushval_strings (el # m) =
     bnd (push (LStr (c_part (fst el)))) (\<lambda>_.
     bnd (push (LStr (c_part (snd el)))) (\<lambda>_.
     bnd (lua_do (lua_settable (- 3))) (\<lambda>_. tables_pushval_strings m)))"

primrec tables_pushval_chars :: "(byte list \<times> ptr) list \<Rightarrow> ('z, unit) prog" where
  "tables_pushval_chars [] = ret ()"
| "tables_pushval_chars (el # m) =
     bnd (push (LStr (c_part (fst el)))) (\<lambda>_.
     bnd (lua_pushstring (snd el)) (\<lambda>_.
     bnd (lua_do (lua_settable (- 3))) (\<lambda>_. tables_pushval_chars m)))"

definition tables_init :: "('z, unit) prog" where
  "tables_init = lua_do lua_newtable"

definition tables_init_sized :: "int \<Rightarrow> int \<Rightarrow> ('z, unit) prog" where
  "tables_init_sized count_arrays count_reccords = lua_do (lua_createtable count_arrays count_reccords)"

definition tables_pushval :: "int \<Rightarrow> ('z, unit) prog" where
  "tables_pushval n = push (LNum n)"

definition tables_setfield :: "byte list \<Rightarrow> int \<Rightarrow> ('z, unit) prog" where
  "tables_setfield fld s_pop = lua_do (lua_setfield s_pop (c_part fld))"

definition tables_settable :: "int \<Rightarrow> ('z, unit) prog" where
  "tables_settable s_pop = lua_do (lua_settable s_pop)"

end
