(* ===== verification/Cxx_Images.thy ===== *)
theory Cxx_Images
  imports Cxx Images "HOL-Library.AList"
begin

text \<open>
  The C++ class over images: \<open>src/protocolcxx/images.cpp\<close> with \<open>images.h\<close>. The members of a \<open>GD\<close> are made in the order of
  their declaration: the image, which nothing writes, the map of colours, and the black colour, whose initialiser
  allocates it in the image. The destructor calls \<open>gdImageClear\<close>, which the library declares and nowhere defines: it is a parameter.
\<close>

record GD =
  mImage :: "image option"
  mColors :: "(byte list \<times> int) list"
  mBlackColor :: "int option"

definition GD_initColor :: "GD \<Rightarrow> RGBa \<Rightarrow> ('z, int) prog" where
  "GD_initColor g c = bnd (field (mImage g)) (\<lambda>i. gdInitColor i c)"

definition GD_initColor_rgba :: "GD \<Rightarrow> nat \<Rightarrow> nat \<Rightarrow> nat \<Rightarrow> nat \<Rightarrow> ('z, int) prog" where
  "GD_initColor_rgba g r gr b a = GD_initColor g \<lparr>red = r, green = gr, blue = b, alpha = a\<rparr>"

definition GD_named_color :: "GD \<Rightarrow> byte list \<Rightarrow> RGBa \<Rightarrow> ('z, GD) prog" where
  "GD_named_color g name c = bnd (GD_initColor g c) (\<lambda>k. ret (g\<lparr>mColors := AList.update name k (mColors g)\<rparr>))"

text \<open>\<open>mColors[n]\<close> makes an entry of value 0 if there is none.\<close>

definition GD_getColor :: "GD \<Rightarrow> byte list \<Rightarrow> int \<times> GD" where
  "GD_getColor g n = (case map_of (mColors g) n of
     Some k \<Rightarrow> (k, g)
   | None \<Rightarrow> (0, g\<lparr>mColors := AList.update n 0 (mColors g)\<rparr>))"

definition GD_members :: "('z, GD) prog" where
  "GD_members =
     (let g = \<lparr>mImage = None, mColors = [], mBlackColor = None\<rparr> in
     bnd (GD_initColor_rgba g 0 0 0 255) (\<lambda>k. ret (g\<lparr>mBlackColor := Some k\<rparr>)))"

definition GD_file :: "byte list \<Rightarrow> nat \<Rightarrow> nat \<Rightarrow> ('z, GD) prog" where
  "GD_file filename w h =
     bnd GD_members (\<lambda>g.
     bnd (local_cells (cstr filename) (\<lambda>p. gdInitImageFromFile p w h)) (\<lambda>i.
     ret (g\<lparr>mImage := Some i\<rparr>)))"

definition GD_new :: "nat \<Rightarrow> nat \<Rightarrow> RGBa option \<Rightarrow> ('z, GD) prog" where
  "GD_new w h bgcolor =
     bnd GD_members (\<lambda>g.
     bnd (gdInitImage w h (case bgcolor of None \<Rightarrow> \<lparr>red = 255, green = 255, blue = 255, alpha = 255\<rparr> | Some c \<Rightarrow> c)) (\<lambda>i.
     ret (g\<lparr>mImage := Some i\<rparr>)))"

definition GD_destroy :: "(image \<Rightarrow> ('z, unit) prog) \<Rightarrow> GD \<Rightarrow> ('z, unit) prog" where
  "GD_destroy gdImageClear g = bnd (field (mImage g)) gdImageClear"

definition GD_getRawData :: "GD \<Rightarrow> nat \<Rightarrow> ('z, ptr \<times> int) prog" where
  "GD_getRawData g quality =
     bnd (field (mImage g)) (\<lambda>i.
     bnd (getImageData i (if quality > 100 then 100 else quality)) (\<lambda>(pRaw, sz).
     bnd (field sz) (\<lambda>n. ret (pRaw, n))))"

definition GD_saveToFile :: "GD \<Rightarrow> byte list \<Rightarrow> int \<Rightarrow> ('z, unit) prog" where
  "GD_saveToFile g filepath quality =
     bnd (field (mImage g)) (\<lambda>i.
     bnd (local_cells (cstr filepath) (\<lambda>p. writeToFile ''gdImageJpeg'' p i (c_uint quality))) (\<lambda>_. ret ()))"

text \<open>A colour 0 stands for black.\<close>

definition or_black :: "GD \<Rightarrow> int \<Rightarrow> ('z, int) prog" where
  "or_black g c = (if c = 0 then field (mBlackColor g) else ret c)"

definition GD_DrawRect :: "GD \<Rightarrow> nat \<Rightarrow> nat \<Rightarrow> nat \<Rightarrow> nat \<Rightarrow> int \<Rightarrow> ('z, unit) prog" where
  "GD_DrawRect g x y x1 y1 c =
     bnd (or_black g c) (\<lambda>k. bnd (field (mImage g)) (\<lambda>i. bnd (gdDrawRect i x y x1 y1 k) (\<lambda>_. ret ())))"

definition GD_DrawLine :: "GD \<Rightarrow> nat \<Rightarrow> nat \<Rightarrow> nat \<Rightarrow> nat \<Rightarrow> int \<Rightarrow> ('z, unit) prog" where
  "GD_DrawLine g x y x1 y1 c =
     bnd (or_black g c) (\<lambda>k. bnd (field (mImage g)) (\<lambda>i. bnd (gdDrawLine i x y x1 y1 k) (\<lambda>_. ret ())))"

definition GD_DrawPixel :: "GD \<Rightarrow> nat \<Rightarrow> nat \<Rightarrow> int \<Rightarrow> ('z, unit) prog" where
  "GD_DrawPixel g x y c =
     bnd (or_black g c) (\<lambda>k. bnd (field (mImage g)) (\<lambda>i. bnd (gdSetPixel i x y k) (\<lambda>_. ret ())))"

definition GD_DrawText :: "GD \<Rightarrow> byte list \<Rightarrow> rat \<Rightarrow> rat \<Rightarrow> int \<Rightarrow> int \<Rightarrow> byte list \<Rightarrow> int \<Rightarrow> ('z, unit) prog" where
  "GD_DrawText g str ptSize angle x y fontPath c =
     bnd (field (mImage g)) (\<lambda>i.
     bnd (ext (Gd (gdImageStringTTF (im i) c fontPath ptSize angle x y str))) (\<lambda>_. ret ()))"

definition GD_getRandStr :: "nat \<Rightarrow> ('z, byte list) prog" where
  "GD_getRandStr len =
     bnd (new_byte (len + 1)) (\<lambda>p.
     bnd (gdGetRandStr p len) (\<lambda>_.
     bnd (std_string p) (\<lambda>s.
     bnd (free p) (\<lambda>_. ret s))))"

definition GD_drawRandLines :: "GD \<Rightarrow> nat \<Rightarrow> ('z, unit) prog" where
  "GD_drawRandLines g count = bnd (field (mImage g)) (\<lambda>i. gdDrawRandomLines count i)"

definition GD_drawRandPixels :: "GD \<Rightarrow> nat \<Rightarrow> nat \<Rightarrow> ('z, unit) prog" where
  "GD_drawRandPixels g mn mx = bnd (field (mImage g)) (\<lambda>i. gdDrawRandomPixels i mn mx)"

end
