(* ===== verification/Cxx_Props.thy ===== *)
theory Cxx_Props
  imports Cxx_Encdec_Props Cxx_Verify Cxx_Coins Cxx_Net Cxx_Images Lua_Coins_Props Keys_Props
begin

text \<open>The properties of the C++ classes over keys, coins, images and Lua values, each with an instance.\<close>

subsection \<open>Keys\<close>

text \<open>A pair with the key \<open>k\<close> of OpenSSL, whose private key is in the block \<open>b\<close> and whose public key is in \<open>c\<close>.\<close>

definition owns :: "aKeyPair \<Rightarrow> handle \<Rightarrow> nat \<Rightarrow> nat \<Rightarrow> bool" where
  "owns kp k b c \<longleftrightarrow> a_pkey kp = Some k \<and> k \<noteq> 0 \<and> a_privKey kp = Some (Addr b 0) \<and> a_pubKey kp = Some (Addr c 0)"

lemma freeMKey_run:
  assumes "owns kp k b c" "blocks s b \<noteq> None" "blocks s c \<noteq> None" "b \<noteq> c"
  shows "freeMKey kp e s = (Ok (), s\<lparr>blocks := (blocks s)(b := None, c := None),
    evs := (Pkey (EVP_PKEY_free k), answer e (evs s) (Pkey (EVP_PKEY_free k))) # evs s\<rparr>)"
  using assms by (auto simp: owns_def freeMKey_def exec drop_block_def)

lemma freeMKey_dead:
  assumes "owns kp k b c" "blocks s b = None"
  shows "freeMKey kp e s =
    (Err BadFree, s\<lparr>evs := (Pkey (EVP_PKEY_free k), answer e (evs s) (Pkey (EVP_PKEY_free k))) # evs s\<rparr>)"
  using assms by (auto simp: owns_def freeMKey_def exec)

text \<open>Claim C29: move assignment releases the pair of the object, copies the pair of the source and leaves the source as it
  is: both destructors then give the source's key to \<open>EVP_PKEY_free\<close>, the first one releases its two blocks, and the
  second one frees a dead block.\<close>

theorem moved_key_freed_twice:
  assumes "owns (mKeyPair v) kv a b" "owns (mKeyPair w) kw c d" "distinct [a, b, c, d]"
    and "\<forall>x \<in> {a, b, c, d}. blocks s x \<noteq> None"
  shows "\<exists>t. bnd (cxx_assign v w) (\<lambda>(v', w'). bnd (cxx_destroy v') (\<lambda>_. cxx_destroy w')) e s = (Err BadFree, t) \<and>
    blocks t = (blocks s)(a := None, b := None, c := None, d := None) \<and>
    map fst (events t) = map fst (events s) @ map (\<lambda>k. Pkey (EVP_PKEY_free k)) [kv, kw, kw]"
proof -
  let ?free = "\<lambda>k l. (Pkey (EVP_PKEY_free k), answer e l (Pkey (EVP_PKEY_free k))) # l"
  let ?l = "?free kv (evs s)"
  let ?s = "s\<lparr>blocks := (blocks s)(a := None, b := None), evs := ?l\<rparr>"
  let ?t = "s\<lparr>blocks := (blocks s)(a := None, b := None, c := None, d := None), evs := ?free kw ?l\<rparr>"
  have 1: "freeMKey (mKeyPair v) e s = (Ok (), ?s)"
    using freeMKey_run [OF assms(1)] assms(3,4) by auto
  have 2: "freeMKey (mKeyPair w) e ?s = (Ok (), ?t)"
    using freeMKey_run [OF assms(2), of ?s] assms(3,4) by auto
  have 3: "freeMKey (mKeyPair w) e ?t = (Err BadFree, ?t\<lparr>evs := ?free kw (evs ?t)\<rparr>)"
    by (rule freeMKey_dead [OF assms(2)]) (use assms(3) in simp)
  have "bnd (cxx_assign v w) (\<lambda>(v', w'). bnd (cxx_destroy v') (\<lambda>_. cxx_destroy w')) e s = (Err BadFree, ?t\<lparr>evs := ?free kw (evs ?t)\<rparr>)"
    unfolding cxx_assign_def cxx_destroy_def run_bnd 1 cont.simps run_ret prod.case basic_verify.simps 2 3 by (rule refl)
  then show ?thesis
    by (simp add: events_def)
qed

theorem moved_key_freed_twice_witness:
  fixes s defines "s \<equiv> state_of [[Byte 0], [Byte 0], [Byte 0], [Byte 0]]"
  fixes kp defines "kp \<equiv> \<lambda>k a b. \<lparr>mKeyPair = (aKeyPair_new ed25519)\<lparr>a_pkey := Some k, a_privKey := Some (Addr a 0),
    a_pubKey := Some (Addr b 0)\<rparr>, mKeyType = ed25519\<rparr>"
  shows "\<exists>t. bnd (cxx_assign (kp 1 0 1) (kp 2 2 3)) (\<lambda>(v', w'). bnd (cxx_destroy v') (\<lambda>_. cxx_destroy w'))
      (const_env RUnit) s = (Err BadFree, t) \<and>
    blocks t = (blocks s)(0 := None, 1 := None, 2 := None, 3 := None) \<and>
    map fst (events t) = map fst (events s) @ map (\<lambda>k. Pkey (EVP_PKEY_free k)) [1, 2, 2]"
  by (rule moved_key_freed_twice) (auto simp: owns_def kp_def s_def)

text \<open>An object for a file that does not exist yet starts by releasing a pair that was never written.\<close>

theorem new_keys_read_unwritten_pair:
  assumes "r_int (answer e (evs s) (Libc (Access filepath))) \<noteq> 0"
  shows "fst (cxx_basic_verify ty filepath bits primes e s) = Err UninitRead"
  using assms by (simp add: cxx_basic_verify_def cxx_generateKeys_def freeMKey_def aKeyPair_new_def Let_def exec)

theorem new_keys_read_unwritten_pair_witness:
  "fst (cxx_basic_verify ed25519 (bytes_of ''k.pem'') 0 0 (const_env (RInt (- 1))) (state_of [])) = Err UninitRead"
  by (rule new_keys_read_unwritten_pair) simp

text \<open>\<open>verify\<close> has no signature to verify; it gives the library the one byte that it has just made, and for
  Ed25519 the library's 64 bytes end past it.\<close>

theorem cxx_verify_overreads:
  assumes "alloc_total e" "fresh s" "mKeyType v = ed25519"
    and "\<And>l. answer e l (Md EVP_MD_CTX_create) = RHandle md" "md \<noteq> 0"
    and "\<And>l. answer e l (Md (EVP_DigestVerifyInit md None h)) = RInt 1"
    and "\<And>l. r_handle (answer e l (Pkey (EVP_PKEY_new_raw_public_key NID_ED25519 pubkey))) = h"
  shows "fst (cxx_verify v data pubkey keySize alg e s) = Err OutOfBounds"
proof -
  let ?t = "new_block (cstr pubkey) (new_block (cstr data) (new_block [Byte (of_nat (Suc keySize))] s))"
  have "get_bytes (blocks ?t) (Addr (Suc (Suc (nxt s))) 0) (length pubkey) = Inr pubkey"
    by (simp add: get_bytes_def get_cells_def cells_of_def cstr_def)
  then have "fst (ed25519rsa_verifyIt (Addr (nxt s) 0) keySize (Addr (Suc (nxt s)) 0) (length data)
      (Addr (Suc (Suc (nxt s))) 0) (length pubkey) alg ed25519 e ?t) = Err OutOfBounds"
    by (rule verify_short_signature [OF _ _ _ assms(4-7), where cs = "[Byte (of_nat (Suc keySize))]"]) simp_all
  then show ?thesis
    unfolding cxx_verify_def
    by (subst fst_bnd_Ok [OF new_byte_run]) (simp_all add: assms(1,3) fst_local_cells fst_bnd_Err)
qed

theorem cxx_verify_overreads_witness:
  "fst (cxx_verify \<lparr>mKeyPair = aKeyPair_new ed25519, mKeyType = ed25519\<rparr> [1, 2] [3] 32 None toy_signer (state_of [])) =
    Err OutOfBounds"
  by (rule cxx_verify_overreads [where md = 1 and h = 2]) (simp_all add: toy_signer_def alloc_total_def)

subsection \<open>Coins\<close>

lemma coin_cond_run:
  assumes "coin_is (blocks s) (mCryptocoins c) i k" "k_port k \<noteq> 0"
  shows "coin_cond c i e s = (Ok (i < mCount c), s)"
proof -
  obtain q where "load_ptr (coin_at (mCryptocoins c) i rpchost) e s = (Ok q, s)" "q \<noteq> Null"
    using assms(1) run_str_at [of s _ _ e] unfolding coin_is_def by blast
  moreover have "load_port (coin_at (mCryptocoins c) i rpcport) e s = (Ok (k_port k), s)"
    using assms(1) by (auto simp: coin_is_def load_port_def exec)
  ultimately show ?thesis
    using assms(2) by (simp add: coin_cond_def exec)
qed

lemma coin_name_run:
  assumes "coin_is (blocks s) (mCryptocoins c) i k"
  shows "coin_name c i e s = (Ok (k_name k), s)"
proof -
  obtain q where "load_ptr (coin_at (mCryptocoins c) i cryptocoin_name) e s = (Ok q, s)" "get_str (blocks s) q = Inr (k_name k)"
    using assms run_str_at [of s _ _ e] unfolding coin_is_def by blast
  then show ?thesis
    by (simp add: coin_name_def exec)
qed

lemma coin_cond_past:
  assumes "mCryptocoins c = Addr cb 0" "blocks s cb = Some cs" "length cs = 7 * n"
  shows "coin_cond c n e s = (Err OutOfBounds, s)"
  using assms by (simp add: coin_cond_def coin_at_def load_ptr_def run_bnd run_read_mem get_ptr_def get_cells_def cells_of_def)

lemma search_from:
  assumes "mCryptocoins c = Addr cb 0" "blocks s cb = Some tab" "length tab = 7 * n" "n < 256" "mCount c = n"
    and "\<forall>i<n. coin_is (blocks s) (mCryptocoins c) i (cs ! i) \<and> k_port (cs ! i) \<noteq> 0" "k \<le> n"
  shows "c_while (\<lambda>(i, r). r = None) (search_step c nm) (k, None) e s =
    (case find (\<lambda>i. k_name (cs ! i) = c_part nm) [k..<n] of Some i \<Rightarrow> (Ok (i, Some (Some i)), s) | None \<Rightarrow> (Err OutOfBounds, s))"
  using assms(7)
proof (induction k rule: inc_induct)
  case base
  then show ?case
    using coin_cond_past [OF assms(1-3)] by (simp add: c_while_Err search_step_def run_bnd)
next
  case (step k)
  then have "coin_is (blocks s) (mCryptocoins c) k (cs ! k)" "k_port (cs ! k) \<noteq> 0"
    using assms(6) by simp_all
  then have "coin_cond c k e s = (Ok True, s)" "coin_name c k e s = (Ok (k_name (cs ! k)), s)"
    using step.hyps assms(5) by (simp_all add: coin_cond_run [of s c k "cs ! k"] coin_name_run)
  then have st: "search_step c nm (k, None) e s =
      (Ok (if k_name (cs ! k) = c_part nm then (k, Some (Some k)) else (Suc k, None)), s)"
    using step.hyps assms(4) by (simp add: search_step_def run_bnd run_ret c_uchar_def nat_add_distrib)
  have up: "[k..<n] = k # [Suc k..<n]"
    using step.hyps by (simp add: upt_conv_Cons)
  show ?case
  proof (cases "k_name (cs ! k) = c_part nm")
    case True
    have "c_while (\<lambda>(i, r). r = None) (search_step c nm) (k, None) e s = (Ok (k, Some (Some k)), s)"
      by (rule c_while_next, simp, rule st) (simp_all add: True c_while_stop)
    then show ?thesis
      by (simp add: up True)
  next
    case False
    obtain r where r: "(case find (\<lambda>i. k_name (cs ! i) = c_part nm) [Suc k..<n] of
        None \<Rightarrow> (Err OutOfBounds, s) | Some i \<Rightarrow> (Ok (i, Some (Some i)), s)) = (r, s)" "r \<noteq> Err Diverges"
      by (cases "find (\<lambda>i. k_name (cs ! i) = c_part nm) [Suc k..<n]") simp_all
    have "c_while (\<lambda>(i, r). r = None) (search_step c nm) (k, None) e s = (r, s)"
      by (rule c_while_next, simp, rule st) (use step.IH r False in simp_all)
    then show ?thesis
      using r(1) by (simp add: up False)
  qed
qed

text \<open>Claim C17: in a table of fewer than 256 coins with hosts and ports, \<open>searchByName\<close> finds the first coin of that name, where
  the lookup of the Lua interface finds the last; if there is none, it does not throw but reads the entry after the
  last, because the index is compared only after the entry was read.\<close>

theorem searchByName_finds_first:
  assumes "mCryptocoins c = Addr cb 0" "blocks s cb = Some tab" "length tab = 7 * n" "n < 256" "mCount c = n"
    and "\<forall>i<n. coin_is (blocks s) (mCryptocoins c) i (cs ! i) \<and> k_port (cs ! i) \<noteq> 0"
  shows "searchByName c nm e s =
    (case find (\<lambda>i. k_name (cs ! i) = c_part nm) [0..<n] of Some i \<Rightarrow> (Ok i, s) | None \<Rightarrow> (Err OutOfBounds, s))"
  using search_from [OF assms, of 0] by (simp add: searchByName_def run_bnd run_ret split: option.split)

text \<open>A table of two coins of the same name, and what is in it.\<close>

definition two_coins :: cc_state where
  "two_coins = cc_state_of [coin_cells 0 1 1 144 31 1 1 @ coin_cells 0 1 1 145 31 1 1, cstr [97]] 2"

definition the_coin :: "nat \<Rightarrow> coin" where
  "the_coin port = \<lparr>k_testnet = 0, k_user = [97], k_pass = [97], k_port = port, k_host = [97], k_name = [97]\<rparr>"

lemma two_coins_is:
  "coin_is (blocks two_coins) (Addr 0 0) 0 (the_coin 8080)" "coin_is (blocks two_coins) (Addr 0 0) 1 (the_coin 8081)"
  by (simp_all add: coin_is_def str_at_def two_coins_def the_coin_def coin_cells_def coin_at_def get_byte_def get_ptr_def
      get_cells_def cells_of_def get_str_cstr)

theorem searchByName_finds_first_witness:
  "searchByName \<lparr>mCryptocoins = Addr 0 0, mCount = 2\<rparr> [97] (const_env RUnit) two_coins =
    (case find (\<lambda>i. k_name ([the_coin 8080, the_coin 8081] ! i) = c_part [97]) [0..<2] of
       Some i \<Rightarrow> (Ok i, two_coins) | None \<Rightarrow> (Err OutOfBounds, two_coins))"
  by (rule searchByName_finds_first [where tab = "coin_cells 0 1 1 144 31 1 1 @ coin_cells 0 1 1 145 31 1 1" and cb = 0])
    (use two_coins_is in \<open>auto simp: less_Suc_eq numeral_2_eq_2 the_coin_def two_coins_def coin_cells_def\<close>)

text \<open>The buffer that \<open>req\<close> makes for the user's name and password is one byte short, for every coin.\<close>

theorem coins_req_overflows:
  assumes "fresh s" "coin_is (blocks s) (mCryptocoins c) i k"
  shows "fst (coins_req c i data e s) = Err OutOfBounds"
proof -
  let ?n = "length (k_user k) + length (k_pass k) + 2"
  let ?s = "new_block (replicate ?n Undef) s"
  have k: "coin_is (blocks ?s) (mCryptocoins c) i k"
    using coin_is_new [OF assms(2,1)] by simp
  obtain u p where up: "load_ptr (coin_at (mCryptocoins c) i rpcuser) e s = (Ok u, s)" "get_str (blocks s) u = Inr (k_user k)"
    "load_ptr (coin_at (mCryptocoins c) i rpcpassword) e s = (Ok p, s)" "get_str (blocks s) p = Inr (k_pass k)"
    using assms(2) run_str_at [of s _ _ e] unfolding coin_is_def by metis
  obtain h where h: "load_ptr (coin_at (mCryptocoins c) i rpchost) e ?s = (Ok h, ?s)" "get_str (blocks ?s) h = Inr (k_host k)"
    using k run_str_at [of ?s _ _ e] unfolding coin_is_def by metis
  have "write_bytes (Addr (nxt s) 0) (k_user k @ [COLON] @ k_pass k @ [0, NUL]) e t = (Err OutOfBounds, t)"
    if "blocks t (nxt s) = Some (replicate ?n Undef)" for t :: "'a cstate_scheme"
    by (rule write_too_long [of _ ?n, OF _ that]) simp_all
  then show ?thesis
    using up h by (simp add: coins_req_def run_bnd run_ret exec local_arr_def split: prod.split)
qed

theorem coins_req_overflows_witness:
  "fst (coins_req \<lparr>mCryptocoins = Addr 0 0, mCount = 2\<rparr> 1 0 (const_env RUnit) two_coins) = Err OutOfBounds"
  by (rule coins_req_overflows [where k = "the_coin 8081"]) (use two_coins_is in \<open>simp_all add: two_coins_def\<close>)

text \<open>Without a handle of curl, \<open>bjson::req\<close> parses a string that was never written.\<close>

theorem bjson_req_without_curl:
  assumes "r_handle (answer e (evs s) (Web curl_easy_init)) = 0"
  shows "fst (bjson_req userpwd url data e s) = Err UninitRead"
  using assms by (simp add: bjson_req_def exec)

theorem bjson_req_without_curl_witness:
  "fst (bjson_req [97] [98] 0 (const_env (RHandle 0)) (state_of [])) = Err UninitRead"
  by (rule bjson_req_without_curl) simp

subsection \<open>Images\<close>

text \<open>No \<open>GD\<close> object is ever made: both constructors allocate the black colour in an image that is not written yet.\<close>

theorem GD_never_constructed:
  "fst (GD_new w h bg e s) = Err UninitRead" "fst (GD_file filename w h e s) = Err UninitRead"
  by (simp_all add: GD_new_def GD_file_def GD_members_def GD_initColor_rgba_def GD_initColor_def Let_def exec)

subsection \<open>Lua values\<close>

text \<open>The Lua value of a C++ value.\<close>

definition pushes :: "mem \<Rightarrow> cxx_val \<Rightarrow> lua_val \<Rightarrow> bool" where
  "pushes m v w \<longleftrightarrow> (case v of
     CChars p \<Rightarrow> p \<noteq> Null \<and> (\<exists>bs. get_str m p = Inr bs \<and> w = LStr bs)
   | CString s \<Rightarrow> w = LStr s | CBool b \<Rightarrow> w = LBool b | CDouble n \<Rightarrow> w = LNum n | CInt n \<Rightarrow> w = LNum n
   | CVoid h \<Rightarrow> w = (if h = 0 then LNil else LUser h))"

lemma does_nothing: "does (ret ()) e bl []"
  by (simp add: does_def exec)

lemma does_push_one: "pushes bl v w \<Longrightarrow> does (push_one v) e bl [Lua (lua_push w)]"
  by (cases v) (auto simp: pushes_def does_push lua_pushstring_def loads_def exec intro!: does_load does_push)

lemma does_pushval: "list_all2 (pushes bl) vs ws \<Longrightarrow> does (pushval vs :: ('z, unit) prog) e bl (map (\<lambda>w. Lua (lua_push w)) ws)"
proof (induction rule: list_all2_induct)
  case (Cons v vs w ws)
  then have "does (bnd (push_one v) (\<lambda>_. pushval vs) :: ('z, unit) prog) e bl ([Lua (lua_push w)] @ map (\<lambda>w. Lua (lua_push w)) ws)"
    by (intro does_bnd does_push_one)
  then show ?case
    by simp
qed (simp add: does_nothing)

text \<open>\<open>pushval\<close> pushes its arguments on the Lua stack in their order, each as the Lua value of its C++ value.\<close>

theorem pushval_in_order:
  fixes s :: "'z cstate_scheme"
  assumes "list_all2 (pushes (blocks s)) vs ws"
  shows "\<exists>t. pushval vs e s = (Ok (), t) \<and> blocks t = blocks s \<and>
    map fst (events t) = map fst (events s) @ map (\<lambda>w. Lua (lua_push w)) ws"
proof -
  have "does (pushval vs :: ('z, unit) prog) e (blocks s) (map (\<lambda>w. Lua (lua_push w)) ws)"
    by (rule does_pushval [OF assms])
  then show ?thesis
    by (simp add: does_def)
qed

theorem pushval_in_order_witness:
  fixes s defines "s \<equiv> state_of [cstr [97]]"
  shows "\<exists>t. pushval [CChars (Addr 0 0), CInt 5, CVoid 0] (const_env RUnit) s = (Ok (), t) \<and> blocks t = blocks s \<and>
    map fst (events t) = map fst (events s) @ map (\<lambda>w. Lua (lua_push w)) [LStr [97], LNum 5, LNil]"
  by (rule pushval_in_order) (simp add: pushes_def s_def get_str_cstr)

end
