(* ===== verification/Spec2Isabelle.thy ===== *)
theory Spec2Isabelle
  imports Net_Props Encdec_Props Images_Props Coins_Props Lua_Props Lua_Net_Props Lua_Images_Props Lua_Gmp_Props
    Lua_Coins_Props Lua_Serv_Props Client_Props Deletor_Props Main_Props Cxx_Props
begin

text \<open>
  Bacteria-Framework: a C library (\<open>libbacteria\<close>) of message, cipher, key, image and coin
  functions with bindings for Lua scripts, a network server that hands its events to a script, a
  server that runs the text it receives as Lua code, the program that starts both, a test client, a tool
  that shreds files, and C++ classes over the library. This development translates all of them into
  programs over an explicit C memory and proves what they do; file and function names below are relative to the repository.

  \<^bold>\<open>How the parts fit together.\<close> The program (\<open>src/main.cpp\<close>) reads its options and the coin table (\<open>cryptocoins.c\<close>), starts Lua
  (\<open>lua/afirst.c\<close>), which registers the binding libraries (\<open>lua/lib*.c\<close>) and runs the scripts of a
  directory, and starts two threads: the network server (\<open>src/async_serv.cpp\<close>) and the Lua server
  (\<open>lua/luaserv.c\<close>). The bindings fetch their arguments from the stack of Lua and call the C
  library. The network server keeps the users that wrote to it, sends their list to everyone who
  writes, and calls a function of the script for each opcode a client sends. The client
  (\<open>src/client/main.cpp\<close>) reads in the echo how the server sees it, binds that address, and pings
  the users of the list.

  \<^bold>\<open>The model.\<close>
  \<^item> \<open>External\<close> names the code that is not in the repository (OpenSSL, gd, Lua, GMP, iniparser,
    curl, jansson, the system): a program issues a \<open>call\<close>, and the environment \<open>env\<close>, an arbitrary
    function of the calls made so far, answers with a \<open>reply\<close>; the record of calls and replies is part
    of the state (\<open>evs\<close>). What a property needs of a library is a hypothesis on that function.
  \<^item> \<open>C_Memory\<close>: a state \<open>cstate\<close> is a map from block numbers to lists of cells (a byte, a pointer
    or unwritten), the next block number and the record of calls. A program takes the environment
    and a state to a result, \<open>Ok\<close> a value or \<open>Err\<close> a \<open>fault\<close>, and a state. Every undefined access
    (\<open>NULL\<close>, out of bounds, freed, unwritten), \<open>exit\<close>, a failed assertion, an exception and a loop
    that does not end (\<open>Diverges\<close>) is a fault. Component states are records that extend \<open>cstate\<close>
    with the static variables of the translation unit, and the programs are polymorphic in the rest
    of the record, so the programs of one component run on the states of another.
  \<^item> \<open>C_Strings\<close>: \<open>strlen\<close>, \<open>strcpy\<close>, \<open>strstr\<close>, \<open>malloc\<close> and the like over that memory, each with its
    execution rule; the collection \<open>exec\<close> runs a program symbolically.
  \<^item> \<open>C_Frame\<close>: the interfaces \<open>step_relation\<close> and \<open>step_guard\<close>. A relation that the primitives respect
    is respected by every program made of them; it is interpreted on freshness of block numbers, on
    the blocks of the caller and on the coin counter, and extended by \<open>serv_steps\<close> (\<open>Async_Serv_Props\<close>) on the users of the
    server and on their names: what the registration of a sender respects, the server's loop respects. It gives the
    properties that hold however a function ends. \<open>C_Logs\<close> computes which calls a function issues, \<open>C_Wp\<close> walks through one run with
    the answers of the environment as variables. \<open>Erase_Loop\<close> is the contract of the loop with which the
    server and the client forget silent users, \<open>Getopt\<close> has that of the loop over the options of a program
    (\<open>option_parser\<close>), which the program and the shredding tool implement.

  \<^bold>\<open>Components\<close> (theories, then sources).
  \<^item> Messages: \<open>Net\<close> (\<open>libbacteria/net.c\<close>). \<open>split_spec\<close>, \<open>pack_spec\<close>, \<open>unpacked\<close> and \<open>join_spec\<close> are the
    list functions that \<open>split_msg\<close>, \<open>packData\<close>, \<open>unpackData\<close> and the joins are related to in
    \<open>Net_Split\<close>, \<open>Net_Pack\<close>, \<open>Net_Unpack\<close> and \<open>Net_Join\<close>; \<open>Net_Props\<close> holds the properties.
  \<^item> Coding and ciphers: \<open>Base64\<close>, \<open>Hashes\<close>, \<open>AES\<close> (\<open>encdec/verify/base64.c\<close>, \<open>encdec/hashes.c\<close> with
    \<open>macros.h\<close>, \<open>encdec/sync/AES.c\<close>), properties in \<open>Encdec_Props\<close>. The order of the OpenSSL calls on every
    path is the interface \<open>cipher_calls\<close>, interpreted on encryption and decryption.
  \<^item> Keys: \<open>X25519\<close>, \<open>Rsa_Ed25519\<close>, \<open>Signatures\<close> (\<open>encdec/async/x25519.c\<close>,
    \<open>encdec/verify/rsa_ed25519.c\<close> with its macros), properties in \<open>Keys_Props\<close>.
  \<^item> Images: \<open>Images\<close> (\<open>images/images.c\<close>); the table of named colours implements the interface
    \<open>name_registry\<close> (\<open>Images_Colors\<close>), the random functions are in \<open>Images_Random\<close>, properties in
    \<open>Images_Props\<close>.
  \<^item> Coins and RPC: \<open>CryptoCoins\<close>, \<open>Json_Rpc\<close> (\<open>cryptocoins.c\<close>, \<open>json_rpc.c\<close>), properties in
    \<open>Coins_Props\<close>.
  \<^item> Bindings: \<open>Lua_Api\<close> (the part of Lua's C interface they use), \<open>Lua_Encdec\<close> and \<open>Lua_Keys\<close>
    (\<open>lua/libencdec.c\<close>), \<open>Lua_Sign\<close> (\<open>lua/libed25519rsa.c\<close>), \<open>Lua_Net\<close> (\<open>lua/libnet.c\<close>), \<open>Lua_Images\<close>
    (\<open>lua/libimages.c\<close>), \<open>Lua_Gmp\<close> (\<open>lua/libgmp.c\<close>), \<open>Lua_Coins\<close> (\<open>lua/libcrypto.c\<close>, \<open>lua/libjson.c\<close>),
    each with its theory of properties. A structure in userdata is an entry of a map of the state,
    behind a handle.
  \<^item> Start of Lua and Lua server: \<open>Lua_Serv\<close> (\<open>lua/afirst.c\<close>, \<open>lua/utils.c\<close>, \<open>lua/luaserv.c\<close>). The tables that register the
    C functions (\<open>encdeclib_reg\<close> and the like) are those of the headers \<open>lua/lib*.h\<close>; in \<open>Lua_Serv_Props\<close> a small machine
    (\<open>lua_exec\<close>) computes from the calls which names a script then finds.
  \<^item> Network server: \<open>Async_Serv\<close> (\<open>src/async_serv.cpp\<close>, \<open>src/net\<close>); \<open>Async_Serv_Props\<close> has the turns of
    its loop as the step relation \<open>serves\<close> and the invariant \<open>users_ok\<close> of the users.
  \<^item> Test client: \<open>Client\<close> (\<open>src/client/main.cpp\<close>, \<open>src/net/utils.cpp\<close>); \<open>Client_Props\<close> composes it with
    the server: what the server wrote is what the client reads.
  \<^item> Program: \<open>Main_Program\<close> (\<open>src/main.cpp\<close>, \<open>src/signal_handler.cpp\<close>), properties in \<open>Main_Props\<close>.
  \<^item> Shredding tool: \<open>Deletor\<close> (\<open>src/assets/deletor_recursive.cpp\<close>). \<open>Deletor_Tree\<close> has trees of directories and
    the answers that serve one (\<open>serves_tree\<close>); \<open>files_of\<close> is the listing that \<open>dir_get\<close> refines. Properties in
    \<open>Deletor_Props\<close>, where \<open>stream_of\<close> computes the contents and the position of a file from the calls made on it.
    \<open>delete\<close> of an array from \<open>new[]\<close> is undefined: an indeterminate value says whether the program goes on.
  \<^item> C++ classes: \<open>Cxx\<close> (\<open>new\<close> and strings), \<open>Cxx_Encdec\<close>, \<open>Cxx_Verify\<close>, \<open>Cxx_Coins\<close>, \<open>Cxx_Images\<close>, \<open>Cxx_Net\<close>
    (\<open>src/protocolcxx\<close>, and \<open>lua/luacxx.h\<close> in the last). An object is a record of its members, \<open>None\<close> for one that is
    not written yet. Properties in \<open>Cxx_Encdec_Props\<close> and \<open>Cxx_Props\<close>.

  \<^bold>\<open>What the properties show.\<close> Refinement: \<open>split_msg_refines\<close>, \<open>user_list_received\<close>, \<open>dir_get_lists_tree\<close>. Invariants
  over runs of any length: \<open>serv_users_bounded\<close>, \<open>writefunc_accumulates\<close>. Round
  trips: ciphers, keys, signatures, messages, encoded images, the address the client binds. Server and client together:
  \<open>user_list_received\<close>, \<open>pings_go_to_senders\<close>. Whole programs:
  \<open>deletor_shreds_large_files\<close>, \<open>start_lua_registers\<close>, \<open>main_without_coins_never_returns\<close>. Error paths: which
  contexts, sockets and blocks are released on each path. Termination, with total correctness, of
  the loops of the message functions, of the directory walk and of the forgetting of users. Where the
  code runs into undefined behaviour the fault is the theorem, with the exact condition
  (\<open>packData_overflows\<close>, \<open>unpackData_use_after_free\<close>, \<open>udp_handler_overflows\<close>, \<open>request_overflows_userpwd\<close>,
  \<open>lua_rpc_never_sends\<close>, \<open>lua_packData_never_returns\<close>, \<open>moved_key_freed_twice\<close>, \<open>sync_encrypt_overflows\<close> and others).

  \<^bold>\<open>Bounds and loops.\<close> Machine integers are written out where they wrap: \<open>size_t\<close>, \<open>c_int\<close>,
  \<open>c_uint\<close>, \<open>c_uchar\<close> and \<open>byte\<close>, an 8-bit word. A loop whose end is not structural is \<open>c_while\<close> or
  \<open>c_loop\<close>, least fixed points over \<open>while_option\<close>: they need no fuel, and a loop that does not end is the
  fault \<open>Diverges\<close>. The one loop with fuel is \<open>pack_loop\<close>: \<open>packData\<close> reads an array up to its \<open>NULL\<close>
  and gets one step more than the array has cells, after which every run has ended or faulted
  (\<open>packData_no_divergence\<close>). The nested listings of the shredding tool are bounded by the size of the stack, the
  parameter \<open>depth\<close> of \<open>dir_get\<close>: a tree of that depth is listed, a deeper one is the fault \<open>StackOverflow\<close>. The limits in the statements are those of the code: 120 pieces of a
  message, eleven users, 120 seconds, buffers of 256 and 1024 bytes, 128 colours.

  \<^bold>\<open>Not modelled.\<close> What a script does while it runs, and so which of the registered C functions it calls, is up to the
  environment: \<open>luaL_dofile\<close> and \<open>lua_pcall\<close> are calls that return, and the functions that scripts call are modelled and
  proved one by one. \<open>iniparser_freedict\<close> and the other releases of library objects are calls, too, without effect on memory. The two servers are modelled one at a time; what their threads do together is the parameter
  \<open>threads\<close> of \<open>main_program\<close>. The function \<open>gdImageClear\<close> that the destructor of the class \<open>GD\<close> calls is declared and
  nowhere defined: it is a parameter of \<open>GD_destroy\<close>. Left out are
  \<open>src/opcodes.cpp\<close>, an earlier copy of \<open>src/net/opcodes.cpp\<close> that is not built, the empty files of \<open>src/net\<close>, code in
  comments (among it the peers of \<open>net.h\<close>), the generated \<open>config.h\<close>, and the Lua scripts and build files, which are
  not C.
\<close>

end
